(* ===== verification/Dates.thy ===== *)
theory Dates
  imports Prelude
begin

text \<open>
  Python's proleptic Gregorian \<open>date\<close> as the standard library computes it: a date is its
  ordinal (\<open>toordinal\<close>; 1 is 1 January of year 1), and year, month, day, weekday and ISO week
  are functions of the ordinal. The lemmas give the monotonicity of the year, the month and
  the ISO week, which the cadence rules of the exchange calendar rest on.
\<close>

section \<open>The proleptic Gregorian calendar\<close>

type_synonym date = int

definition leap :: "int \<Rightarrow> bool" where
  "leap y \<longleftrightarrow> y mod 4 = 0 \<and> (y mod 100 \<noteq> 0 \<or> y mod 400 = 0)"

definition days_before_year :: "int \<Rightarrow> int" where
  "days_before_year y = (y - 1) * 365 + (y - 1) div 4 - (y - 1) div 100 + (y - 1) div 400"

definition days_before_month :: "int \<Rightarrow> int \<Rightarrow> int" where
  "days_before_month y m =
     [0, 0, 31, 59, 90, 120, 151, 181, 212, 243, 273, 304, 334] ! nat m
     + (if 2 < m \<and> leap y then 1 else 0)"

definition ymd :: "int \<Rightarrow> int \<Rightarrow> int \<Rightarrow> date" where
  "ymd y m d = days_before_year y + days_before_month y m + d"

definition weekday :: "date \<Rightarrow> int" where
  "weekday d = (d + 6) mod 7"

definition year_of :: "date \<Rightarrow> int" where
  "year_of d =
     (let n = d - 1;
          n400 = n div 146097; r400 = n mod 146097;
          n100 = r400 div 36524; r100 = r400 mod 36524;
          n4 = r100 div 1461; r4 = r100 mod 1461;
          n1 = r4 div 365;
          y = n400 * 400 + n100 * 100 + n4 * 4 + n1 + 1
      in if n1 = 4 \<or> n100 = 4 then y - 1 else y)"

definition month_of :: "date \<Rightarrow> int" where
  "month_of d =
     (let y = year_of d; n = d - days_before_year y
      in int (length (filter (\<lambda>m. days_before_month y m < n) [1, 2, 3, 4, 5, 6, 7, 8, 9, 10, 11, 12])))"

definition day_of :: "date \<Rightarrow> int" where
  "day_of d = d - days_before_year (year_of d) - days_before_month (year_of d) (month_of d)"

subsection \<open>ISO weeks\<close>

definition iso_week1_monday :: "int \<Rightarrow> date" where
  "iso_week1_monday y =
     (let firstday = ymd y 1 1; firstweekday = weekday firstday
      in firstday - firstweekday + (if 3 < firstweekday then 7 else 0))"

definition isocalendar2 :: "date \<Rightarrow> int \<times> int" where
  "isocalendar2 d =
     (let y = year_of d; week = (d - iso_week1_monday y) div 7
      in if week < 0 then (y - 1, (d - iso_week1_monday (y - 1)) div 7 + 1)
         else if 52 \<le> week \<and> iso_week1_monday (y + 1) \<le> d then (y + 1, 1)
         else (y, week + 1))"

section \<open>Years\<close>

lemma div_pred_int:
  fixes y k :: int
  assumes "0 < k"
  shows "y div k = (y - 1) div k + (if y mod k = 0 then 1 else 0)"
proof (cases "y mod k = 0")
  case True
  then have "y - 1 = (y div k - 1) * k + (k - 1)"
    by (metis add.right_neutral div_mult_mod_eq diff_add_cancel diff_diff_eq2 left_diff_distrib
        lambda_one add_diff_eq)
  then have "(y - 1) div k = y div k - 1"
    using assms by (metis add.commute div_mult_self1 div_pos_pos_trivial diff_ge_0_iff_ge
        int_one_le_iff_zero_less less_irrefl add.right_neutral diff_less_eq less_add_one
        int_div_pos_eq mult.commute order_less_imp_le)
  with True show ?thesis by simp
next
  case False
  have "0 \<le> y mod k - 1" "y mod k - 1 < k"
    using False assms pos_mod_sign [OF assms, of y] pos_mod_bound [OF assms, of y] by linarith+
  moreover have "y - 1 = k * (y div k) + (y mod k - 1)" by simp
  ultimately have "(y - 1) div k = y div k" by (metis int_div_pos_eq)
  with False show ?thesis by simp
qed

lemma days_before_year_Suc: "days_before_year (y + 1) = days_before_year y + 365 + (if leap y then 1 else 0)"
proof -
  have m: "y mod 100 = (y mod 400) mod 100" "y mod 4 = (y mod 100) mod 4"
    by (simp_all add: mod_mod_cancel)
  obtain p4 p100 p400 where p: "(y - 1) div 4 = p4" "(y - 1) div 100 = p100" "(y - 1) div 400 = p400"
    by blast
  have d: "y div 4 = p4 + (if y mod 4 = 0 then 1 else 0)"
    "y div 100 = p100 + (if y mod 100 = 0 then 1 else 0)"
    "y div 400 = p400 + (if y mod 400 = 0 then 1 else 0)"
    using div_pred_int [of 4 y] div_pred_int [of 100 y] div_pred_int [of 400 y]
    unfolding p by (simp_all only: zero_less_numeral)
  have e: "days_before_year (y + 1) = y * 365 + y div 4 - y div 100 + y div 400"
    "days_before_year y = (y - 1) * 365 + p4 - p100 + p400"
    by (simp_all only: days_before_year_def p add_diff_cancel_right')
  consider "y mod 400 = 0" "y mod 100 = 0" "y mod 4 = 0"
    | "y mod 400 \<noteq> 0" "y mod 100 = 0" "y mod 4 = 0"
    | "y mod 400 \<noteq> 0" "y mod 100 \<noteq> 0" "y mod 4 = 0"
    | "y mod 400 \<noteq> 0" "y mod 100 \<noteq> 0" "y mod 4 \<noteq> 0"
    using m by fastforce
  then show ?thesis
    unfolding e d leap_def
    by cases (simp_all only: if_True if_False simp_thms left_diff_distrib algebra_simps)
qed

lemma days_before_year_less: "x < y \<Longrightarrow> days_before_year x + 365 \<le> days_before_year y"
proof (induction "nat (y - x)" arbitrary: y)
  case 0
  then show ?case by simp
next
  case (Suc n)
  show ?case
  proof (cases "x = y - 1")
    case True
    then show ?thesis using days_before_year_Suc [of "y - 1"] by simp
  next
    case False
    with Suc.prems have "x < y - 1" by linarith
    then have "days_before_year x + 365 \<le> days_before_year (y - 1)"
      using Suc.hyps(2) by (intro Suc.hyps(1)) auto
    then show ?thesis using days_before_year_Suc [of "y - 1"] by simp
  qed
qed

lemma leap_within_century:
  assumes "0 < k" "k < 25"
  shows "leap (100 * m + 4 * k)"
proof -
  have "(100 * m + 4 * k) mod 100 = 4 * k" using assms by simp
  moreover have "(100 * m + 4 * k) mod 4 = 0"
    using mod_mult_self2 [of 0 4 "25 * m + k"] by simp
  ultimately show ?thesis using assms by (simp add: leap_def)
qed

lemma year_of_bounds:
  "days_before_year (year_of d) < d \<and> d \<le> days_before_year (year_of d + 1)"
proof -
  define n where "n = d - 1"
  define a where "a = n div 146097"
  define r where "r = n mod 146097"
  define b where "b = r div 36524"
  define r' where "r' = r mod 36524"
  define c where "c = r' div 1461"
  define r'' where "r'' = r' mod 1461"
  define e where "e = r'' div 365"
  define z where "z = r'' mod 365"
  have r: "n = 146097 * a + r" "0 \<le> r" "r < 146097"
    by (simp_all add: a_def r_def)
  have r': "r = 36524 * b + r'" "0 \<le> r'" "r' < 36524"
    by (simp_all add: b_def r'_def)
  have r'': "r' = 1461 * c + r''" "0 \<le> r''" "r'' < 1461"
    by (simp_all add: c_def r''_def)
  have z: "r'' = 365 * e + z" "0 \<le> z" "z < 365"
    by (simp_all add: e_def z_def)
  have ranges: "0 \<le> b" "b \<le> 4" "0 \<le> c" "c \<le> 24" "0 \<le> e" "e \<le> 4"
    using r r' r'' z by linarith+
  have b4: "b = 4 \<Longrightarrow> r' = 0" and e4: "e = 4 \<Longrightarrow> z = 0"
    using r r' r'' z by linarith+
  have c24: "c = 24 \<Longrightarrow> e \<le> 3" using r' r'' z by linarith
  have y: "year_of d = (if e = 4 \<or> b = 4 then 400 * a + 100 * b + 4 * c + e
      else 400 * a + 100 * b + 4 * c + e + 1)"
    unfolding year_of_def Let_def n_def [symmetric] a_def [symmetric] r_def [symmetric]
      b_def [symmetric] r'_def [symmetric] c_def [symmetric] r''_def [symmetric] e_def [symmetric]
    by simp
  have dby: "days_before_year (400 * a + 100 * b + 4 * c + f + 1) =
      146097 * a + 36524 * b + 1461 * c + 365 * f"
    if "0 \<le> f" "f \<le> 3" "0 \<le> b" "b \<le> 3" "0 \<le> c" "c \<le> 24" for b c f
  proof -
    have "(400 * a + 100 * b + 4 * c + f) div 4 = 100 * a + 25 * b + c"
      "(400 * a + 100 * b + 4 * c + f) div 100 = 4 * a + b"
      "(400 * a + 100 * b + 4 * c + f) div 400 = a"
      using that by linarith+
    then show ?thesis by (simp add: days_before_year_def)
  qed
  have y1: "e = 4 \<or> b = 4 \<Longrightarrow> year_of d = 400 * a + 100 * b + 4 * c + e"
    using y by simp
  show ?thesis
  proof (cases "e = 4 \<or> b = 4")
    case False
    then have "days_before_year (year_of d) = 146097 * a + 36524 * b + 1461 * c + 365 * e"
      using y dby [of e b c] ranges by simp
    moreover have "days_before_year (year_of d) + 365 \<le> days_before_year (year_of d + 1)"
      by (rule days_before_year_less) simp
    ultimately show ?thesis using r r' r'' z n_def by linarith
  next
    case True
    have leap: "leap (year_of d)" and start:
      "days_before_year (year_of d) = n - 365"
    proof -
      show "days_before_year (year_of d) = n - 365"
      proof (cases "b = 4")
        case True
        then have "r' = 0" "c = 0" "e = 0" "r'' = 0" "z = 0" using b4 r'' z ranges by linarith+
        then have "year_of d = 400 * a + 100 * 3 + 4 * 24 + 3 + 1" using True y1 by linarith
        then have "days_before_year (year_of d) = 146097 * a + 36524 * 3 + 1461 * 24 + 365 * 3"
          using dby [of 3 3 24] by simp
        then show ?thesis using True \<open>r' = 0\<close> r r' by linarith
      next
        case False
        with \<open>e = 4 \<or> b = 4\<close> have "e = 4" by simp
        then have "year_of d = 400 * a + 100 * b + 4 * c + 3 + 1" using y1 by linarith
        then have "days_before_year (year_of d) = 146097 * a + 36524 * b + 1461 * c + 365 * 3"
          using dby [of 3 b c] ranges False by auto
        then show ?thesis using \<open>e = 4\<close> e4 r r' r'' z by linarith
      qed
      show "leap (year_of d)"
      proof (cases "b = 4")
        case True
        then have "c = 0" "e = 0" using b4 r'' z ranges by linarith+
        with True y have "year_of d = 400 * (a + 1)" by simp
        then show ?thesis by (simp add: leap_def)
      next
        case False
        with True have "e = 4" by simp
        with y have eq: "year_of d = 400 * a + 100 * b + 4 * (c + 1)" by simp
        moreover have "c + 1 \<le> 24" using \<open>e = 4\<close> c24 ranges by (cases "c = 24") auto
        ultimately show ?thesis using ranges leap_within_century [of "c + 1" "4 * a + b"] by simp
      qed
    qed
    then show ?thesis using n_def days_before_year_Suc [of "year_of d"] by simp
  qed
qed

lemma year_of_unique:
  assumes "days_before_year y < d" "d \<le> days_before_year (y + 1)"
  shows "year_of d = y"
proof (rule ccontr)
  assume "year_of d \<noteq> y"
  then consider "year_of d + 1 \<le> y" | "y + 1 \<le> year_of d" by linarith
  then show False
  proof cases
    case 1
    then have "days_before_year (year_of d + 1) \<le> days_before_year y"
      using days_before_year_less [of "year_of d + 1" y] by (cases "year_of d + 1 = y") auto
    with assms year_of_bounds [of d] show False by linarith
  next
    case 2
    then have "days_before_year (y + 1) \<le> days_before_year (year_of d)"
      using days_before_year_less [of "y + 1" "year_of d"] by (cases "year_of d = y + 1") auto
    with assms year_of_bounds [of d] show False by linarith
  qed
qed

lemma year_of_offset: "1 \<le> k \<Longrightarrow> k \<le> 365 \<Longrightarrow> year_of (days_before_year y + k) = y"
  by (rule year_of_unique) (use days_before_year_less [of y "y + 1"] in auto)

lemma year_of_mono: "d \<le> d' \<Longrightarrow> year_of d \<le> year_of d'"
proof (rule ccontr)
  assume le: "d \<le> d'" and "\<not> year_of d \<le> year_of d'"
  then have "year_of d' + 1 = year_of d \<or> year_of d' + 1 < year_of d" by linarith
  then have "days_before_year (year_of d' + 1) \<le> days_before_year (year_of d)"
    using days_before_year_less [of "year_of d' + 1" "year_of d"] by auto
  with le year_of_bounds [of d] year_of_bounds [of d'] show False by linarith
qed

section \<open>Weeks\<close>

lemma weekday_range: "0 \<le> weekday d \<and> weekday d < 7"
  by (simp add: weekday_def)

lemma weekday_add: "weekday (d + k) = (weekday d + k) mod 7"
  unfolding weekday_def by presburger

definition monday :: "date \<Rightarrow> date" where
  "monday d = d - weekday d"

lemma weekday_monday: "weekday (monday d) = 0"
  by (simp add: monday_def weekday_def mod_diff_right_eq)
    (metis add.commute diff_add_eq diff_self mod_0 mod_diff_right_eq)

lemma weekday_0_diff: "weekday a = 0 \<Longrightarrow> weekday b = 0 \<Longrightarrow> 7 dvd a - b"
  unfolding weekday_def by presburger

lemma monday_bounds: "monday d \<le> d \<and> d \<le> monday d + 6"
  using weekday_range [of d] by (auto simp: monday_def)

lemma monday_unique:
  assumes "weekday m = 0" "m \<le> d" "d \<le> m + 6"
  shows "monday d = m"
proof -
  have "7 dvd monday d - m"
    using assms(1) weekday_monday [of d] by (rule weekday_0_diff [rotated])
  moreover have "monday d - m < 7" "- 7 < monday d - m"
    using monday_bounds [of d] assms by linarith+
  ultimately show ?thesis by presburger
qed

lemma monday_mono: "d \<le> d' \<Longrightarrow> monday d \<le> monday d'"
proof -
  assume "d \<le> d'"
  then have "- 7 < monday d' - monday d" using monday_bounds [of d] monday_bounds [of d'] by linarith
  moreover have "7 dvd monday d' - monday d"
    by (intro weekday_0_diff weekday_monday)
  ultimately show ?thesis by presburger
qed

lemma iso_week1_monday_weekday: "weekday (iso_week1_monday y) = 0"
proof -
  have "weekday (monday (ymd y 1 1) + 7) = 0" "weekday (monday (ymd y 1 1)) = 0"
    by (simp_all add: weekday_add weekday_monday)
  then show ?thesis by (simp add: iso_week1_monday_def Let_def monday_def)
qed

lemma ymd_jan1: "ymd y 1 1 = days_before_year y + 1"
  by (simp add: ymd_def days_before_month_def)

lemma iso_week1_monday_bounds:
  "days_before_year y - 2 \<le> iso_week1_monday y \<and> iso_week1_monday y \<le> days_before_year y + 4"
  using weekday_range [of "ymd y 1 1"] by (auto simp: iso_week1_monday_def Let_def ymd_jan1)

lemma iso_week1_monday_step: "iso_week1_monday y + 364 \<le> iso_week1_monday (y + 1)"
proof -
  have "7 dvd iso_week1_monday (y + 1) - iso_week1_monday y"
    by (intro weekday_0_diff iso_week1_monday_weekday)
  moreover have "359 \<le> iso_week1_monday (y + 1) - iso_week1_monday y"
    using iso_week1_monday_bounds [of y] iso_week1_monday_bounds [of "y + 1"]
      days_before_year_less [of y "y + 1"] by linarith
  ultimately show ?thesis by presburger
qed

lemma iso_week1_monday_less: "x < y \<Longrightarrow> iso_week1_monday x < iso_week1_monday y"
  using iso_week1_monday_bounds [of x] iso_week1_monday_bounds [of y] days_before_year_less [of x y]
  by linarith

lemma monday_of_offset:
  assumes "weekday w = 0"
  shows "monday d = w + 7 * ((d - w) div 7)"
proof (rule monday_unique)
  show "weekday (w + 7 * ((d - w) div 7)) = 0"
    using assms by (simp add: weekday_add)
qed presburger+

lemma isocalendar2_spec:
  assumes "isocalendar2 d = (y, w)"
  shows "monday d = iso_week1_monday y + 7 * (w - 1)"
    and "iso_week1_monday y \<le> monday d" and "monday d < iso_week1_monday (y + 1)"
proof -
  let ?Y = "year_of d"
  note yb = year_of_bounds [of d]
  have prev: "iso_week1_monday (?Y - 1) \<le> d"
    using yb iso_week1_monday_bounds [of "?Y - 1"] days_before_year_less [of "?Y - 1" ?Y] by linarith
  have nxt: "d \<le> iso_week1_monday (?Y + 1) + 2"
    using yb iso_week1_monday_bounds [of "?Y + 1"] by linarith
  have eq: "monday d = iso_week1_monday y + 7 * (w - 1) \<and> iso_week1_monday y \<le> d \<and> d < iso_week1_monday (y + 1)"
  proof -
    consider "(d - iso_week1_monday ?Y) div 7 < 0"
      | "0 \<le> (d - iso_week1_monday ?Y) div 7" "iso_week1_monday (?Y + 1) \<le> d"
      | "0 \<le> (d - iso_week1_monday ?Y) div 7" "d < iso_week1_monday (?Y + 1)"
      by linarith
    then show ?thesis
    proof cases
      case 1
      then have "y = ?Y - 1" "w = (d - iso_week1_monday (?Y - 1)) div 7 + 1" "d < iso_week1_monday ?Y"
        using assms by (auto simp: isocalendar2_def Let_def)
      then show ?thesis
        using prev monday_of_offset [OF iso_week1_monday_weekday, of d "?Y - 1"] by simp
    next
      case 2
      then have "52 \<le> (d - iso_week1_monday ?Y) div 7"
        using iso_week1_monday_step [of ?Y] by linarith
      with 2 assms have "y = ?Y + 1" "w = 1"
        by (auto simp: isocalendar2_def Let_def)
      moreover have "(d - iso_week1_monday (?Y + 1)) div 7 = 0"
        using 2 nxt by (intro div_pos_pos_trivial) auto
      ultimately show ?thesis
        using 2 nxt monday_of_offset [OF iso_week1_monday_weekday, of d "?Y + 1"]
          iso_week1_monday_step [of "?Y + 1"] by simp
    next
      case 3
      then have "y = ?Y" "w = (d - iso_week1_monday ?Y) div 7 + 1"
        using assms by (auto simp: isocalendar2_def Let_def)
      with 3 show ?thesis
        using monday_of_offset [OF iso_week1_monday_weekday, of d ?Y] by simp
    qed
  qed
  then show "monday d = iso_week1_monday y + 7 * (w - 1)" by blast
  show "iso_week1_monday y \<le> monday d"
    using eq monday_mono [of "iso_week1_monday y" d] monday_unique [OF iso_week1_monday_weekday, of y "iso_week1_monday y"]
    by simp
  show "monday d < iso_week1_monday (y + 1)"
    using eq monday_bounds [of d] by linarith
qed

lemma isocalendar2_eq_iff: "isocalendar2 d = isocalendar2 d' \<longleftrightarrow> monday d = monday d'"
proof -
  obtain y w where d: "isocalendar2 d = (y, w)" by (cases "isocalendar2 d")
  obtain y' w' where d': "isocalendar2 d' = (y', w')" by (cases "isocalendar2 d'")
  note s = isocalendar2_spec [OF d] and s' = isocalendar2_spec [OF d']
  have "monday d = monday d' \<Longrightarrow> y = y'"
  proof (rule ccontr)
    assume m: "monday d = monday d'" and "y \<noteq> y'"
    then have "y + 1 \<le> y' \<or> y' + 1 \<le> y" by linarith
    then have "iso_week1_monday (y + 1) \<le> iso_week1_monday y' \<or>
        iso_week1_monday (y' + 1) \<le> iso_week1_monday y"
      using iso_week1_monday_less [of "y + 1" y'] iso_week1_monday_less [of "y' + 1" y]
      by (metis order_le_less order_refl)
    with m s(2,3) s'(2,3) show False by linarith
  qed
  then show ?thesis using s s' d d' by auto
qed

section \<open>Months\<close>

definition month_index :: "date \<Rightarrow> int" where
  "month_index d = 12 * year_of d + month_of d"

lemma month_of_range: "1 \<le> month_of d \<and> month_of d \<le> 12"
proof -
  let ?f = "\<lambda>m. days_before_month (year_of d) m < d - days_before_year (year_of d)"
  have "?f 1" using year_of_bounds [of d] by (simp add: days_before_month_def)
  then have "0 < length (filter ?f [1, 2, 3, 4, 5, 6, 7, 8, 9, 10, 11, 12])" by simp
  moreover have "length (filter ?f [1, 2, 3, 4, 5, 6, 7, 8, 9, 10, 11, 12]) \<le> 12"
    using length_filter_le [of ?f "[1, 2, 3, 4, 5, 6, 7, 8, 9, 10, 11, 12]"] by simp
  ultimately show ?thesis unfolding month_of_def Let_def by linarith
qed

lemma length_filter_mono: "(\<And>x. P x \<Longrightarrow> Q x) \<Longrightarrow> length (filter P xs) \<le> length (filter Q xs)"
  by (induction xs) auto

lemma month_index_mono: "d \<le> d' \<Longrightarrow> month_index d \<le> month_index d'"
proof -
  assume le: "d \<le> d'"
  show ?thesis
  proof (cases "year_of d = year_of d'")
    case True
    have "length (filter (\<lambda>m. days_before_month (year_of d') m < d - days_before_year (year_of d'))
            [1, 2, 3, 4, 5, 6, 7, 8, 9, 10, 11, 12])
        \<le> length (filter (\<lambda>m. days_before_month (year_of d') m < d' - days_before_year (year_of d'))
            [1, 2, 3, 4, 5, 6, 7, 8, 9, 10, 11, 12])"
      using le by (intro length_filter_mono) simp
    then show ?thesis using True by (simp only: month_index_def month_of_def Let_def)
  next
    case False
    then have "year_of d < year_of d'" using year_of_mono [OF le] by linarith
    then show ?thesis
      using month_of_range [of d] month_of_range [of d'] by (simp add: month_index_def)
  qed
qed

lemma month_index_eq_iff:
  "month_index d = month_index d' \<longleftrightarrow> (year_of d, month_of d) = (year_of d', month_of d')"
proof
  assume "month_index d = month_index d'"
  then have "year_of d = year_of d'" and "month_of d = month_of d'"
    using month_of_range [of d] month_of_range [of d'] unfolding month_index_def by presburger+
  then show "(year_of d, month_of d) = (year_of d', month_of d')" by simp
qed (simp add: month_index_def)

end
