(* ===== verification/Nyse.thy ===== *)
theory Nyse
  imports Dates
begin

text \<open>
  The exchange calendar of \<open>src/sim/nyse.py\<close> and the cadence helpers of
  \<open>src/sim/calendar.py\<close>. The two session searches are total functions: their termination
  is the theorem that some session lies within 15 days in each direction. The locale
  \<open>cadence\<close> states what a period key has to satisfy for the "last session of the period"
  test; the ISO week and the calendar month are its two interpretations.
\<close>

section \<open>Clock times\<close>

type_synonym time = int
type_synonym datetime = int

definition minute :: int where "minute = 60000000"
definition day_usec :: int where "day_usec = 86400000000"

definition hm :: "int \<Rightarrow> int \<Rightarrow> time" where
  "hm h m = (h * 60 + m) * minute"

definition combine :: "date \<Rightarrow> time \<Rightarrow> datetime" where
  "combine d t = d * day_usec + t"

definition date_of :: "datetime \<Rightarrow> date" where
  "date_of t = t div day_usec"

section \<open>The exchange calendar\<close>

definition AD_HOC_CLOSURES :: "date list" where
  "AD_HOC_CLOSURES =
     [ymd 2001 9 11, ymd 2001 9 12, ymd 2001 9 13, ymd 2001 9 14, ymd 2004 6 11, ymd 2007 1 2,
      ymd 2012 10 29, ymd 2012 10 30, ymd 2018 12 5, ymd 2025 1 9]"

definition easter :: "int \<Rightarrow> date" where
  "easter year =
     (let a = year mod 19;
          b = year div 100; c = year mod 100;
          d = b div 4; e = b mod 4;
          f = (b + 8) div 25;
          g = (b - f + 1) div 3;
          h = (19 * a + b - d - g + 15) mod 30;
          i = c div 4; k = c mod 4;
          correction = (32 + 2 * e + 2 * i - h - k) mod 7;
          m = (a + 11 * h + 22 * correction) div 451;
          month = (h + correction - 7 * m + 114) div 31;
          day = (h + correction - 7 * m + 114) mod 31 + 1
      in ymd year month day)"

definition nth_weekday :: "int \<Rightarrow> int \<Rightarrow> int \<Rightarrow> int \<Rightarrow> date" where
  "nth_weekday year month wd n =
     (if 0 < n
      then (let first = ymd year month 1; off = (wd - weekday first) mod 7
            in first + (off + 7 * (n - 1)))
      else (let nxt = ymd (year + (if month = 12 then 1 else 0)) (month mod 12 + 1) 1;
                last = nxt - 1;
                off = (weekday last - wd) mod 7
            in last - off))"

definition observed :: "date \<Rightarrow> bool \<Rightarrow> date option" where
  "observed d new_years =
     (if weekday d = 5 then (if new_years then None else Some (d - 1))
      else if weekday d = 6 then Some (d + 1)
      else Some d)"

definition holidays :: "int \<Rightarrow> date list" where
  "holidays year =
     List.map_filter id
       [observed (ymd year 1 1) True,
        Some (nth_weekday year 1 0 3),
        Some (nth_weekday year 2 0 3),
        Some (easter year - 2),
        Some (nth_weekday year 5 0 (- 1)),
        (if 2022 \<le> year then observed (ymd year 6 19) False else None),
        observed (ymd year 7 4) False,
        Some (nth_weekday year 9 0 1),
        Some (nth_weekday year 11 3 4),
        observed (ymd year 12 25) False]"

definition is_session :: "date \<Rightarrow> bool" where
  "is_session d \<longleftrightarrow>
     \<not> 5 \<le> weekday d \<and> d \<notin> set AD_HOC_CLOSURES \<and> d \<notin> set (holidays (year_of d))"

subsection \<open>Holidays fall on the days the rules name\<close>

lemma nth_weekday_weekday:
  assumes "0 \<le> wd" "wd < 7"
  shows "weekday (nth_weekday y m wd n) = wd"
proof -
  have up: "weekday (d + ((wd - weekday d) mod 7 + 7 * k)) = wd" for d k
  proof -
    have "(weekday d + ((wd - weekday d) mod 7 + 7 * k)) mod 7 = (weekday d + (wd - weekday d)) mod 7"
      by (simp add: mod_add_right_eq flip: add.assoc)
    then show ?thesis using assms by (simp add: weekday_add)
  qed
  have down: "weekday (d - (weekday d - wd) mod 7) = wd" for d
  proof -
    have "(weekday d - (weekday d - wd) mod 7) mod 7 = (weekday d - (weekday d - wd)) mod 7"
      by (rule mod_diff_right_eq)
    then show ?thesis using assms weekday_add [of d "- ((weekday d - wd) mod 7)"] by simp
  qed
  show ?thesis unfolding nth_weekday_def Let_def by (cases "0 < n") (simp_all only: up down if_True if_False)
qed

lemma ymd_march_april: "ymd y 4 k = ymd y 3 (31 + k)"
  by (simp add: ymd_def days_before_month_def)

lemma div_mod_31: "31 * q \<le> n \<Longrightarrow> n < 31 * q + 31 \<Longrightarrow> n div 31 = q \<and> n mod 31 = n - 31 * (q::int)"
proof -
  assume "31 * q \<le> n" "n < 31 * q + 31"
  then have "n div 31 = q" by (intro int_div_pos_eq [where r = "n - 31 * q"]) auto
  moreover have "31 * (n div 31) + n mod 31 = n" by (rule mult_div_mod_eq)
  ultimately show ?thesis by simp
qed

lemma ymd_31:
  assumes "93 \<le> n" "n < 155"
  shows "ymd y (n div 31) (n mod 31 + 1) = ymd y 3 (n - 92)"
proof (cases "n < 124")
  case True
  then show ?thesis using assms div_mod_31 [of 3 n] by simp
next
  case False
  then show ?thesis using assms div_mod_31 [of 4 n] ymd_march_april [of y "n - 123"] by simp
qed

text \<open>The computed Easter date as an offset from 1 March, and the bounds that make the
  month and the day of the formula a real date in March or April.\<close>

lemma easter_offset:
  fixes y
  defines "a \<equiv> y mod 19" and "b \<equiv> y div 100" and "c \<equiv> y mod 100"
  defines "h \<equiv> (19 * a + b - b div 4 - (b - (b + 8) div 25 + 1) div 3 + 15) mod 30"
  defines "l \<equiv> (32 + 2 * (b mod 4) + 2 * (c div 4) - h - c mod 4) mod 7"
  defines "m \<equiv> (a + 11 * h + 22 * l) div 451"
  shows "easter y = ymd y 3 (h + l - 7 * m + 22)" and "0 \<le> h + l - 7 * m" and "h + l - 7 * m \<le> 34"
proof -
  have "0 \<le> a" "a < 19" "0 \<le> h" "h < 30" "0 \<le> l" "l < 7"
    unfolding a_def h_def l_def by (rule pos_mod_sign pos_mod_bound, simp)+
  then have r: "0 \<le> a" "a \<le> 18" "0 \<le> h" "h \<le> 29" "0 \<le> l" "l \<le> 6" by linarith+
  have m: "m = (if 451 \<le> a + 11 * h + 22 * l then 1 else 0)"
  proof (cases "451 \<le> a + 11 * h + 22 * l")
    case True
    have "a + 11 * h + 22 * l < 902" using r by linarith
    with True have "m = 1" unfolding m_def by (intro int_div_pos_eq [where r = "a + 11 * h + 22 * l - 451"]) auto
    with True show ?thesis by simp
  next
    case False
    then have "m = 0" unfolding m_def using r by (intro div_pos_pos_trivial) auto
    with False show ?thesis by simp
  qed
  show nn: "0 \<le> h + l - 7 * m" and up: "h + l - 7 * m \<le> 34"
    using r m by (auto split: if_splits)
  let ?n = "h + l - 7 * m + 114"
  have e: "easter y = ymd y (?n div 31) (?n mod 31 + 1)"
    unfolding easter_def Let_def a_def b_def c_def h_def l_def m_def by (rule refl)
  also have "\<dots> = ymd y 3 (?n - 92)"
    by (rule ymd_31) (use nn up in linarith)+
  also have "?n - 92 = h + l - 7 * m + 22" by simp
  finally show "easter y = ymd y 3 (h + l - 7 * m + 22)" .
qed

lemma div_mod_century:
  fixes y :: int
  assumes "b = y div 100" "c = y mod 100"
  shows "y div 4 = 25 * b + c div 4" and "y div 400 = b div 4" and "y = 100 * b + c"
proof -
  show y: "y = 100 * b + c" unfolding assms by (rule mult_div_mod_eq [symmetric])
  have "(c + 4 * (25 * b)) div 4 = 25 * b + c div 4"
    by (rule div_mult_self2) simp
  moreover have "c + 4 * (25 * b) = y" using y by linarith
  ultimately show "y div 4 = 25 * b + c div 4" by (simp only:)
  show "y div 400 = b div 4"
    using assms zdiv_zmult2_eq [of 4 y 100] by simp
qed

lemma easter_congruence:
  fixes x :: int
  assumes "x = (100 * b + c) * 365 + (25 * b + i) - b + d - 306 + (h + l - 7 * m + 22)"
    and "32 + 2 * r + 2 * i - h - k = 7 * q + l" and "b = 4 * d + r" and "c = 4 * i + k"
  shows "x + 6 = 6 + 7 * (20871 * d + 5218 * r + 209 * i + 52 * k - q - m - 36)"
  using assms by simp

lemma easter_sunday: "weekday (easter y) = 6"
proof -
  define b c where "b = y div 100" and "c = y mod 100"
  define h where "h = (19 * (y mod 19) + b - b div 4 - (b - (b + 8) div 25 + 1) div 3 + 15) mod 30"
  define l where "l = (32 + 2 * (b mod 4) + 2 * (c div 4) - h - c mod 4) mod 7"
  define m where "m = (y mod 19 + 11 * h + 22 * l) div 451"
  have e: "easter y = ymd y 3 (h + l - 7 * m + 22)"
    unfolding m_def l_def h_def c_def b_def by (rule easter_offset(1))
  have "ymd y 3 k = days_before_year (y + 1) - 306 + k" for k
    using days_before_year_Suc [of y] by (simp add: ymd_def days_before_month_def)
  then have "easter y = days_before_year (y + 1) - 306 + (h + l - 7 * m + 22)"
    by (simp only: e)
  then have "easter y = y * 365 + y div 4 - y div 100 + y div 400 - 306 + (h + l - 7 * m + 22)"
    by (simp only: days_before_year_def add_diff_cancel_right')
  then have o: "easter y = (100 * b + c) * 365 + (25 * b + c div 4) - b + b div 4 - 306
      + (h + l - 7 * m + 22)"
    using div_mod_century [OF b_def c_def] b_def by metis
  obtain q where q: "32 + 2 * (b mod 4) + 2 * (c div 4) - h - c mod 4 = 7 * q + l"
    unfolding l_def by (metis mult_div_mod_eq)
  have bc: "b = 4 * (b div 4) + b mod 4" "c = 4 * (c div 4) + c mod 4" by simp_all
  define d i k r where "d = b div 4" and "i = c div 4" and "k = c mod 4" and "r = b mod 4"
  have *: "easter y + 6 = 6 + 7 * (20871 * d + 5218 * r + 209 * i + 52 * k - q - m - 36)"
    by (rule easter_congruence [OF o [folded d_def i_def] q [folded r_def i_def k_def]
          bc(1) [folded d_def r_def] bc(2) [folded i_def k_def]])
  show ?thesis unfolding weekday_def * by (simp only: mod_mult_self2) simp
qed

lemma good_friday: "weekday (easter y - 2) = 4"
  using easter_sunday [of y] weekday_add [of "easter y" "- 2"] by simp

lemma observed_weekday:
  "observed d ny = Some x \<Longrightarrow> weekday x < 5 \<and> (x = d \<or> weekday x = 4 \<or> weekday x = 0)"
  using weekday_range [of d] weekday_add [of d 1] weekday_add [of d "- 1"]
  by (auto simp: observed_def split: if_splits)

text \<open>Only the four fixed-date holidays can close a Tuesday or a Wednesday.\<close>

lemma set_map_filter_id: "x \<in> set (List.map_filter id xs) \<longleftrightarrow> Some x \<in> set xs"
  by (induction xs) (auto simp: map_filter_simps split: option.splits)

lemma holidays_cases:
  assumes "x \<in> set (holidays y)"
  obtains (ruled) "weekday x = 0 \<or> weekday x = 3 \<or> weekday x = 4"
  | (fixed) d ny where "d \<in> {ymd y 1 1, ymd y 6 19, ymd y 7 4, ymd y 12 25}" "observed d ny = Some x"
proof -
  have "Some x \<in> set
       [observed (ymd y 1 1) True, Some (nth_weekday y 1 0 3), Some (nth_weekday y 2 0 3),
        Some (easter y - 2), Some (nth_weekday y 5 0 (- 1)),
        (if 2022 \<le> y then observed (ymd y 6 19) False else None),
        observed (ymd y 7 4) False, Some (nth_weekday y 9 0 1), Some (nth_weekday y 11 3 4),
        observed (ymd y 12 25) False]"
    using assms unfolding holidays_def set_map_filter_id .
  then consider "x \<in> {nth_weekday y 1 0 3, nth_weekday y 2 0 3, nth_weekday y 5 0 (- 1),
      nth_weekday y 9 0 1, nth_weekday y 11 3 4, easter y - 2}"
    | "Some x \<in> {observed (ymd y 1 1) True, observed (ymd y 6 19) False,
        observed (ymd y 7 4) False, observed (ymd y 12 25) False}"
    by (auto split: if_splits)
  then show thesis
  proof cases
    case 1
    then have "weekday x \<in> {0, 3, 4}"
      using nth_weekday_weekday [of 0] nth_weekday_weekday [of 3] good_friday by auto
    then show thesis by (intro ruled) auto
  next
    case 2
    then show thesis by (elim insertE) (metis fixed insertCI, metis fixed insertCI, metis fixed insertCI, metis fixed insertCI empty_iff, blast)
  qed
qed

lemma holidays_weekday:
  assumes "x \<in> set (holidays y)"
  shows "weekday x < 5"
    and "weekday x = 1 \<or> weekday x = 2 \<Longrightarrow> x \<in> {ymd y 1 1, ymd y 6 19, ymd y 7 4, ymd y 12 25}"
  using assms by (cases rule: holidays_cases; use observed_weekday in fastforce)+

lemmas fixed_offsets = ymd_def days_before_month_def

lemma fixed_holiday_years:
  assumes "x \<in> {ymd y 1 1, ymd y 6 19, ymd y 7 4, ymd y 12 25}"
  shows "year_of x = y" and "year_of (x + 1) = y"
proof -
  obtain k where "x = days_before_year y + k" "1 \<le> k" "k \<le> 364"
    using assms by (auto simp: fixed_offsets split: if_splits)
  then show "year_of x = y" and "year_of (x + 1) = y"
    using year_of_offset [of k y] year_of_offset [of "k + 1" y] by (simp_all add: add.assoc)
qed

lemma fixed_holidays_apart:
  assumes "x \<in> {ymd y 1 1, ymd y 6 19, ymd y 7 4, ymd y 12 25}"
  shows "x + 1 \<notin> {ymd y 1 1, ymd y 6 19, ymd y 7 4, ymd y 12 25}"
  using assms by (auto simp: fixed_offsets)

lemma ad_hoc_numerals:
  "AD_HOC_CLOSURES = [730739, 730740, 730741, 730742, 731743, 732678, 734805, 734806, 737033, 739260]"
  by code_simp

lemma ad_hoc_neighbours: "is_session 732679" "is_session 734807" "is_session 737032"
  by code_simp+

lemma tue_wed_session:
  assumes "weekday x = 1" and "x \<noteq> 730739"
  shows "is_session x \<or> is_session (x + 1)"
proof (rule ccontr)
  assume n: "\<not> (is_session x \<or> is_session (x + 1))"
  have w: "weekday (x + 1) = 2" using assms(1) by (simp add: weekday_add)
  have "x \<notin> set AD_HOC_CLOSURES \<and> x + 1 \<notin> set AD_HOC_CLOSURES \<or> x \<in> {732678, 734806, 737032}"
    using assms unfolding ad_hoc_numerals weekday_def by auto
  with n ad_hoc_neighbours have a: "x \<notin> set AD_HOC_CLOSURES" "x + 1 \<notin> set AD_HOC_CLOSURES" by auto
  then have h: "x \<in> set (holidays (year_of x))" "x + 1 \<in> set (holidays (year_of (x + 1)))"
    using n assms(1) w by (auto simp: is_session_def)
  then have "x \<in> {ymd (year_of x) 1 1, ymd (year_of x) 6 19, ymd (year_of x) 7 4, ymd (year_of x) 12 25}"
    using assms(1) holidays_weekday(2) by blast
  moreover have "year_of (x + 1) = year_of x"
    using fixed_holiday_years(2) calculation by blast
  moreover have "x + 1 \<in> {ymd (year_of (x + 1)) 1 1, ymd (year_of (x + 1)) 6 19,
      ymd (year_of (x + 1)) 7 4, ymd (year_of (x + 1)) 12 25}"
    using h(2) w holidays_weekday(2) by blast
  ultimately show False using fixed_holidays_apart by metis
qed

text \<open>From any date a session follows within fifteen days.\<close>

lemma session_within: "\<exists>k. 0 \<le> k \<and> k \<le> 14 \<and> is_session (d + k)"
proof -
  define t where "t = d + (1 - weekday d) mod 7"
  have t: "weekday t = 1" "d \<le> t" "t \<le> d + 6"
    unfolding t_def by (simp_all add: weekday_add mod_add_right_eq)
  have "\<exists>x. t \<le> x \<and> x \<le> t + 8 \<and> is_session x"
  proof (cases "t = 730739")
    case False
    then have "is_session t \<or> is_session (t + 1)" by (rule tue_wed_session [OF t(1)])
    then show ?thesis
      by (elim disjE) (intro exI [of _ t], simp, intro exI [of _ "t + 1"], simp)
  next
    case True
    have "is_session 730746" by code_simp
    with True show ?thesis by (intro exI [of _ 730746]) simp
  qed
  then obtain x where "t \<le> x" "x \<le> t + 8" "is_session x" by blast
  then show ?thesis using t by (intro exI [of _ "x - d"]) auto
qed

lemma session_before: "\<exists>k. 0 \<le> k \<and> k \<le> 14 \<and> is_session (d - k)"
proof -
  obtain k where k: "0 \<le> k" "k \<le> 14" "is_session (d - 14 + k)"
    using session_within [of "d - 14"] by blast
  then have "d - 14 + k = d - (14 - k)" by simp
  with k show ?thesis by (intro exI [of _ "14 - k"]) auto
qed

section \<open>Stepping between sessions\<close>

definition gap_up :: "date \<Rightarrow> nat" where
  "gap_up d = (LEAST k. is_session (d + int k))"

definition gap_down :: "date \<Rightarrow> nat" where
  "gap_down d = (LEAST k. is_session (d - int k))"

lemma gap_up_step: "\<not> is_session d \<Longrightarrow> gap_up (d + 1) < gap_up d"
proof -
  assume n: "\<not> is_session d"
  obtain k where "0 \<le> k" "is_session (d + k)" using session_within [of d] by blast
  then have "is_session (d + int (nat k))" by simp
  then have g: "is_session (d + int (gap_up d))" unfolding gap_up_def by (rule LeastI)
  with n have p: "0 < gap_up d" by (cases "gap_up d = 0") auto
  with g have "is_session (d + 1 + int (gap_up d - 1))"
    by (simp add: of_nat_diff)
  then have "gap_up (d + 1) \<le> gap_up d - 1" unfolding gap_up_def by (rule Least_le)
  with p show ?thesis by linarith
qed

lemma gap_down_step: "\<not> is_session d \<Longrightarrow> gap_down (d - 1) < gap_down d"
proof -
  assume n: "\<not> is_session d"
  obtain k where "0 \<le> k" "is_session (d - k)" using session_before [of d] by blast
  then have "is_session (d - int (nat k))" by simp
  then have g: "is_session (d - int (gap_down d))" unfolding gap_down_def by (rule LeastI)
  with n have p: "0 < gap_down d" by (cases "gap_down d = 0") auto
  with g have "is_session (d - 1 - int (gap_down d - 1))"
    by (simp add: of_nat_diff algebra_simps)
  then have "gap_down (d - 1) \<le> gap_down d - 1" unfolding gap_down_def by (rule Least_le)
  with p show ?thesis by linarith
qed

function session_from :: "date \<Rightarrow> date" where
  "session_from d = (if is_session d then d else session_from (d + 1))"
  by pat_completeness auto
termination
  by (relation "measure gap_up") (auto simp: gap_up_step)

function session_upto :: "date \<Rightarrow> date" where
  "session_upto d = (if is_session d then d else session_upto (d - 1))"
  by pat_completeness auto
termination
  by (relation "measure gap_down") (auto simp: gap_down_step)

declare session_from.simps [simp del] session_upto.simps [simp del]

definition next_session :: "date \<Rightarrow> date" where
  "next_session d = session_from (d + 1)"

definition previous_session :: "date \<Rightarrow> date" where
  "previous_session d = session_upto (d - 1)"

definition early_closes :: "int \<Rightarrow> date list" where
  "early_closes year =
     filter is_session [nth_weekday year 11 3 4 + 1, ymd year 7 3, ymd year 12 24]"

definition session_close_time :: "date \<Rightarrow> time" where
  "session_close_time d = (if d \<in> set (early_closes (year_of d)) then hm 13 0 else hm 16 0)"

definition is_last_session_of_week :: "date \<Rightarrow> bool" where
  "is_last_session_of_week d \<longleftrightarrow> isocalendar2 (next_session d) \<noteq> isocalendar2 d"

definition is_last_session_of_month :: "date \<Rightarrow> bool" where
  "is_last_session_of_month d \<longleftrightarrow>
     (let n = next_session d in (year_of n, month_of n) \<noteq> (year_of d, month_of d))"

text \<open>Counting the sessions in \<open>(cursor, until]\<close>, the loop shared by the fill paths
  and the locate check.\<close>

function count_sessions :: "date \<Rightarrow> date \<Rightarrow> int \<Rightarrow> int" where
  "count_sessions cursor until elapsed =
     (if cursor < until
      then count_sessions (cursor + 1) until (if is_session (cursor + 1) then elapsed + 1 else elapsed)
      else elapsed)"
  by pat_completeness auto
termination
  by (relation "measure (\<lambda>(c, u, e). nat (u - c))") auto

declare count_sessions.simps [simp del]

section \<open>Calendar questions answered from the stored price dates\<close>

definition next_trading_day :: "date list \<Rightarrow> date \<Rightarrow> date option" where
  "next_trading_day dates d =
     (case filter (\<lambda>x. d < x) dates of [] \<Rightarrow> None | x # xs \<Rightarrow> Some (fold min xs x))"

definition trading_days_between :: "date list \<Rightarrow> date \<Rightarrow> date \<Rightarrow> int" where
  "trading_days_between dates a b =
     int (length (remdups (filter (\<lambda>x. a < x \<and> x \<le> b) dates)))"

definition is_week_signal :: "date list \<Rightarrow> date \<Rightarrow> bool" where
  "is_week_signal dates d =
     (case next_trading_day dates d of
        None \<Rightarrow> is_last_session_of_week d
      | Some nxt \<Rightarrow> isocalendar2 d \<noteq> isocalendar2 nxt)"

definition is_month_signal :: "date list \<Rightarrow> date \<Rightarrow> bool" where
  "is_month_signal dates d =
     (case next_trading_day dates d of
        None \<Rightarrow> is_last_session_of_month d
      | Some nxt \<Rightarrow> (year_of d, month_of d) \<noteq> (year_of nxt, month_of nxt))"

section \<open>Correctness\<close>

lemma session_from_spec:
  "is_session (session_from d) \<and> d \<le> session_from d \<and> (\<forall>x. d \<le> x \<and> x < session_from d \<longrightarrow> \<not> is_session x)"
proof (induction d rule: session_from.induct)
  case (1 d)
  show ?case
  proof (cases "is_session d")
    case False
    with 1 show ?thesis
      by (subst (1 2 3) session_from.simps) (auto, metis add1_zle_eq order_le_less)
  qed (auto simp: session_from.simps)
qed

lemma session_upto_spec:
  "is_session (session_upto d) \<and> session_upto d \<le> d \<and> (\<forall>x. session_upto d < x \<and> x \<le> d \<longrightarrow> \<not> is_session x)"
proof (induction d rule: session_upto.induct)
  case (1 d)
  show ?case
  proof (cases "is_session d")
    case False
    with 1 show ?thesis
      by (subst (1 2 3) session_upto.simps) (auto, metis order_le_less zle_diff1_eq)
  qed (auto simp: session_upto.simps)
qed

lemma next_session_spec:
  "is_session (next_session d)" "d < next_session d"
  "d < x \<Longrightarrow> x < next_session d \<Longrightarrow> \<not> is_session x"
  using session_from_spec [of "d + 1"] by (auto simp: next_session_def)

lemma next_session_bound: "next_session d \<le> d + 15"
proof -
  obtain k where k: "0 \<le> k" "k \<le> 14" "is_session (d + 1 + k)" using session_within [of "d + 1"] by blast
  then have "\<not> d + 1 + k < next_session d" using next_session_spec(3) [of d "d + 1 + k"] by auto
  with k show ?thesis by linarith
qed

lemma previous_session_spec:
  "is_session (previous_session d)" "previous_session d < d"
  "previous_session d < x \<Longrightarrow> x < d \<Longrightarrow> \<not> is_session x"
  using session_upto_spec [of "d - 1"] by (auto simp: previous_session_def)

lemma previous_next_session: "is_session d \<Longrightarrow> previous_session (next_session d) = d"
  using previous_session_spec [of "next_session d"] next_session_spec [of d]
  by (metis linorder_neqE)

text \<open>
  A cadence groups dates into periods by a key that never decreases with the date. Asking
  whether the next session has another key then decides whether any session is left in the
  period. Weeks and months are the two cadences of the league.
\<close>

locale cadence =
  fixes key :: "date \<Rightarrow> int"
  assumes key_mono: "d \<le> d' \<Longrightarrow> key d \<le> key d'"
begin

lemma last_of_period:
  "key (next_session d) \<noteq> key d \<longleftrightarrow> (\<forall>x. d < x \<and> key x = key d \<longrightarrow> \<not> is_session x)"
proof
  assume ne: "key (next_session d) \<noteq> key d"
  have "key d \<le> key (next_session d)"
    by (intro key_mono) (simp add: next_session_spec(2) order_less_imp_le)
  with ne have lt: "key d < key (next_session d)" by linarith
  show "\<forall>x. d < x \<and> key x = key d \<longrightarrow> \<not> is_session x"
  proof (intro allI impI)
    fix x assume x: "d < x \<and> key x = key d"
    have "x < next_session d"
      using key_mono [of "next_session d" x] lt x by linarith
    then show "\<not> is_session x" using x next_session_spec(3) by blast
  qed
qed (use next_session_spec in blast)

end

interpretation week: cadence monday
  by unfold_locales (rule monday_mono)

interpretation month: cadence month_index
  by unfold_locales (rule month_index_mono)

lemma is_last_session_of_week_iff:
  "is_last_session_of_week d \<longleftrightarrow> (\<forall>x. d < x \<and> monday x = monday d \<longrightarrow> \<not> is_session x)"
  using week.last_of_period [of d] by (simp add: is_last_session_of_week_def isocalendar2_eq_iff)

lemma is_last_session_of_month_iff:
  "is_last_session_of_month d \<longleftrightarrow>
     (\<forall>x. d < x \<and> (year_of x, month_of x) = (year_of d, month_of d) \<longrightarrow> \<not> is_session x)"
  using month.last_of_period [of d]
  by (simp only: is_last_session_of_month_def Let_def month_index_eq_iff not_not)

lemma count_sessions_eq:
  "count_sessions c u e = e + int (card {x. c < x \<and> x \<le> u \<and> is_session x})"
proof (induction c u e rule: count_sessions.induct)
  case (1 c u e)
  show ?case
  proof (cases "c < u")
    case True
    have fin: "finite {x. c + 1 < x \<and> x \<le> u \<and> is_session x}"
      by (rule finite_subset [of _ "{c + 1..u}"]) auto
    have "{x. c < x \<and> x \<le> u \<and> is_session x} =
        (if is_session (c + 1) then insert (c + 1) {x. c + 1 < x \<and> x \<le> u \<and> is_session x}
         else {x. c + 1 < x \<and> x \<le> u \<and> is_session x})"
      using True by (auto; metis add1_zle_eq order_le_less)
    with 1 [OF True] True fin show ?thesis
      by (subst count_sessions.simps) (simp split: if_splits)
  next
    case False
    then have e: "{x. c < x \<and> x \<le> u \<and> is_session x} = {}" by auto
    show ?thesis unfolding e using False by (subst count_sessions.simps) simp
  qed
qed


subsection \<open>Agreement of the two cadence sources\<close>

lemma fold_min_Min: "fold min xs (x :: int) = Min (set (x # xs))"
  by (rule Min.set_eq_fold [symmetric])

lemma next_trading_day_None: "next_trading_day dates d = None \<longleftrightarrow> \<not> (\<exists>x\<in>set dates. d < x)"
proof -
  have "next_trading_day dates d = None \<longleftrightarrow> filter (\<lambda>x. d < x) dates = []"
    by (simp add: next_trading_day_def split: list.splits)
  then show ?thesis by (auto simp: filter_empty_conv)
qed

lemma next_trading_day_Some:
  assumes "next_trading_day dates d = Some n"
  shows "n \<in> set dates" "d < n" "\<And>x. x \<in> set dates \<Longrightarrow> d < x \<Longrightarrow> n \<le> x"
proof -
  obtain y ys where f: "filter (\<lambda>x. d < x) dates = y # ys" and n: "n = Min (set (y # ys))"
    using assms by (auto simp: next_trading_day_def fold_min_Min split: list.splits)
  have s: "set (y # ys) = {x \<in> set dates. d < x}" unfolding f [symmetric] by auto
  have "n \<in> set (y # ys)" unfolding n by (rule Min_in) simp_all
  then show "n \<in> set dates" "d < n" unfolding s by auto
  show "n \<le> x" if "x \<in> set dates" "d < x" for x
    unfolding n by (rule Min_le) (use that s in auto)
qed

lemma next_trading_day_next_session:
  assumes "\<And>x. x \<in> set dates \<Longrightarrow> is_session x" and "next_session d \<in> set dates"
  shows "next_trading_day dates d = Some (next_session d)"
proof (cases "next_trading_day dates d")
  case None
  then show ?thesis using assms(2) next_session_spec(2) [of d] by (auto simp: next_trading_day_None)
next
  case (Some n)
  have "n \<le> next_session d"
    using next_trading_day_Some(3) [OF Some] assms(2) next_session_spec(2) by blast
  moreover have "\<not> n < next_session d"
    using next_session_spec(3) [of d n] next_trading_day_Some(1,2) [OF Some] assms(1) by blast
  ultimately show ?thesis using Some by simp
qed

section \<open>Properties\<close>

text \<open>C35. The session search returns the first exchange session strictly after the date, and
  it always finds one within 15 days: the loop of \<open>next_session\<close> terminates from every date.\<close>

theorem next_session_first:
  "is_session (next_session d) \<and> d < next_session d \<and> next_session d \<le> d + 15 \<and>
   (\<forall>x. d < x \<and> x < next_session d \<longrightarrow> \<not> is_session x)"
  using next_session_spec [of d] next_session_bound [of d] by blast

theorem next_session_first_witness:
  "next_session (ymd 2001 9 10) = ymd 2001 9 17 \<and> is_session (ymd 2001 9 17) \<and>
   \<not> is_session (ymd 2001 9 12)"
proof -
  have n: "next_session (ymd 2001 9 10) = ymd 2001 9 17" by code_simp
  have c: "ymd 2001 9 10 < ymd 2001 9 12 \<and> ymd 2001 9 12 < ymd 2001 9 17" by code_simp
  show ?thesis using next_session_first [of "ymd 2001 9 10"] c unfolding n by blast
qed

text \<open>The exchange is closed on Good Friday of every year: the computed Easter is a Sunday
  between 22 March and 25 April, so its Good Friday is a Friday of the same year, and the
  calendar has no session on it.\<close>

theorem good_friday_closed:
  "weekday (easter y) = 6 \<and> ymd y 3 22 \<le> easter y \<and> easter y \<le> ymd y 4 25 \<and>
   weekday (easter y - 2) = 4 \<and> year_of (easter y - 2) = y \<and> \<not> is_session (easter y - 2)"
proof -
  obtain k where k: "easter y = ymd y 3 (k + 22)" "0 \<le> k" "k \<le> 34"
    using easter_offset [of y] by blast
  then have r: "ymd y 3 22 \<le> easter y" "easter y \<le> ymd y 4 25"
    by (simp_all add: ymd_def days_before_month_def)
  have y: "year_of (easter y - 2) = y"
  proof (rule year_of_unique)
    have "days_before_year y + 79 \<le> ymd y 3 22" "ymd y 4 25 \<le> days_before_year y + 116"
      by (simp_all add: ymd_def days_before_month_def)
    with r show "days_before_year y < easter y - 2" "easter y - 2 \<le> days_before_year (y + 1)"
      using days_before_year_less [of y "y + 1"] by linarith+
  qed
  have "easter y - 2 \<in> set (holidays (year_of (easter y - 2)))"
    unfolding y holidays_def set_map_filter_id by simp
  then show ?thesis using r y easter_sunday good_friday by (simp add: is_session_def)
qed

text \<open>The weekly rule fires exactly on a date after which no session remains in its ISO
  week, the monthly rule exactly on a date after which none remains in its calendar month.\<close>

theorem last_session_of_period:
  "(is_last_session_of_week d \<longleftrightarrow> (\<nexists>x. d < x \<and> isocalendar2 x = isocalendar2 d \<and> is_session x)) \<and>
   (is_last_session_of_month d \<longleftrightarrow>
     (\<nexists>x. d < x \<and> (year_of x, month_of x) = (year_of d, month_of d) \<and> is_session x))"
  unfolding is_last_session_of_week_iff is_last_session_of_month_iff isocalendar2_eq_iff by blast

text \<open>The price table and the rule calendar give the same cadence: when the stored dates are
  sessions, and the table either ends at the date or holds the next session, the weekly and
  the monthly signal read from the table are those of the exchange calendar.\<close>

theorem signal_agrees_with_calendar:
  assumes "\<forall>x\<in>set dates. is_session x"
    and "next_trading_day dates d = None \<or> next_session d \<in> set dates"
  shows "is_week_signal dates d = is_last_session_of_week d \<and>
         is_month_signal dates d = is_last_session_of_month d"
proof (cases "next_trading_day dates d")
  case None
  then show ?thesis by (simp add: is_week_signal_def is_month_signal_def)
next
  case (Some n)
  then have "next_trading_day dates d = Some (next_session d)"
    using assms next_trading_day_next_session by auto
  then show ?thesis
    by (auto simp: is_week_signal_def is_month_signal_def is_last_session_of_week_def
        is_last_session_of_month_def Let_def)
qed

theorem signal_agrees_witness:
  "is_week_signal [ymd 2026 10 29, ymd 2026 10 30] (ymd 2026 10 30) \<and>
   is_month_signal [ymd 2026 10 29, ymd 2026 10 30] (ymd 2026 10 30)"
proof -
  let ?ds = "[ymd 2026 10 29, ymd 2026 10 30]"
  have s: "\<forall>x\<in>set ?ds. is_session x" by code_simp
  have n: "next_trading_day ?ds (ymd 2026 10 30) = None" by code_simp
  have l: "is_last_session_of_week (ymd 2026 10 30)" "is_last_session_of_month (ymd 2026 10 30)"
    by code_simp+
  show ?thesis using signal_agrees_with_calendar [OF s disjI1 [OF n]] l by (simp only:)
qed

end
