(* ===== verification/OrderTypes.thy ===== *)
theory OrderTypes
  imports Nyse
begin

text \<open>
  The order vocabulary, the lifecycle and the receipt windows of
  \<open>src/sim/order_types.py\<close>. The conversion between UTC and New York wall time is the
  time-zone database's, a parameter of type \<open>tz\<close>; the windows themselves are compared on
  the wall clock, as Python compares two datetimes with one tzinfo.
\<close>

section \<open>Vocabulary\<close>

datatype OrderType = NEXT_OPEN | MOO | MOC | MARKET | LIMIT | LIMIT_ON_OPEN

datatype Side = BUY | SELL | SHORT | COVER

datatype TimeInForce = DAY

datatype OrderState = RECEIVED | QUEUED | FILLED | CANCELLED | EXPIRED | REJECTED | REFUSED

text \<open>\<open>OrderType(value)\<close> and \<open>OrderState(value)\<close> on a string raise a ValueError when no
  member has that value.\<close>

definition order_type_value :: "OrderType \<Rightarrow> string" where
  "order_type_value t = (case t of
     NEXT_OPEN \<Rightarrow> ''next_open'' | MOO \<Rightarrow> ''moo'' | MOC \<Rightarrow> ''moc'' | MARKET \<Rightarrow> ''market''
   | LIMIT \<Rightarrow> ''limit'' | LIMIT_ON_OPEN \<Rightarrow> ''limit_on_open'')"

definition parse_order_type :: "string \<Rightarrow> OrderType outcome" where
  "parse_order_type v =
     (case find (\<lambda>t. order_type_value t = v) [NEXT_OPEN, MOO, MOC, MARKET, LIMIT, LIMIT_ON_OPEN] of
        None \<Rightarrow> Inl (ValueError ''OrderType'') | Some t \<Rightarrow> Inr t)"

definition side_value :: "Side \<Rightarrow> string" where
  "side_value s = (case s of BUY \<Rightarrow> ''buy'' | SELL \<Rightarrow> ''sell'' | SHORT \<Rightarrow> ''short'' | COVER \<Rightarrow> ''cover'')"

definition order_state_value :: "OrderState \<Rightarrow> string" where
  "order_state_value s = (case s of
     RECEIVED \<Rightarrow> ''received'' | QUEUED \<Rightarrow> ''queued'' | FILLED \<Rightarrow> ''filled''
   | CANCELLED \<Rightarrow> ''cancelled'' | EXPIRED \<Rightarrow> ''expired'' | REJECTED \<Rightarrow> ''rejected''
   | REFUSED \<Rightarrow> ''refused'')"

section \<open>Lifecycle\<close>

definition STATE_TRANSITIONS :: "OrderState \<Rightarrow> OrderState list" where
  "STATE_TRANSITIONS s = (case s of
     RECEIVED \<Rightarrow> [QUEUED, REFUSED]
   | QUEUED \<Rightarrow> [FILLED, CANCELLED, EXPIRED, REJECTED]
   | FILLED \<Rightarrow> [] | CANCELLED \<Rightarrow> [] | EXPIRED \<Rightarrow> [] | REJECTED \<Rightarrow> [] | REFUSED \<Rightarrow> [])"

definition can_transition :: "OrderState \<Rightarrow> OrderState \<Rightarrow> bool" where
  "can_transition current target \<longleftrightarrow> target \<in> set (STATE_TRANSITIONS current)"

definition coarse_status :: "OrderState \<Rightarrow> string outcome" where
  "coarse_status state =
     (if state \<in> {RECEIVED, QUEUED} then Inr ''pending''
      else if state = FILLED then Inr ''filled''
      else if state = CANCELLED then Inr ''cancelled''
      else if state = EXPIRED then Inr ''expired''
      else if state = REJECTED then Inr ''rejected''
      else Inl (ValueError ''refused orders have no sim_orders row or coarse status''))"

inductive lifecycle :: "OrderState \<Rightarrow> bool" where
  received: "lifecycle RECEIVED"
| step: "lifecycle s \<Longrightarrow> can_transition s t \<Longrightarrow> lifecycle t"

fun lifecycle_run :: "OrderState \<Rightarrow> OrderState list \<Rightarrow> bool" where
  "lifecycle_run s [] = True"
| "lifecycle_run s (t # ts) = (can_transition s t \<and> lifecycle_run t ts)"

section \<open>Receipt windows\<close>

text \<open>
  A timestamp of the source is naive or aware. An aware one is its UTC instant and the UTC
  offset of its own time zone. The
  New York wall clock comes from the system time-zone database, so the two conversions
  are parameters.
\<close>

datatype stamp = Naive datetime | Aware datetime int

record tz =
  utc_to_ny :: "datetime \<Rightarrow> datetime"
  ny_to_utc :: "datetime \<Rightarrow> datetime"

definition MOO_CUTOFF :: time where "MOO_CUTOFF = hm 9 28"
definition MOC_CUTOFF :: time where "MOC_CUTOFF = hm 15 50"
definition MARKET_OPEN :: time where "MARKET_OPEN = hm 9 30"
definition MARKET_CLOSE :: time where "MARKET_CLOSE = hm 16 0"

definition session_close :: "date \<Rightarrow> datetime" where
  "session_close session_date = combine session_date (session_close_time session_date)"

definition moc_cutoff :: "date \<Rightarrow> datetime" where
  "moc_cutoff session_date = session_close session_date - 10 * minute"

definition moo_cutoff :: "date \<Rightarrow> datetime" where
  "moo_cutoff session_date = combine session_date MOO_CUTOFF"

definition cutoff_at :: "'e tz_scheme \<Rightarrow> OrderType \<Rightarrow> date \<Rightarrow> datetime option" where
  "cutoff_at z order_type session_date =
     (let cutoff = (if order_type \<in> {MOO, LIMIT_ON_OPEN} then Some (moo_cutoff session_date) else None);
          cutoff' = (if order_type = MOC then Some (moc_cutoff session_date) else cutoff)
      in map_option (ny_to_utc z) cutoff')"

text \<open>The window on the New York wall clock. Both sides of each comparison carry the same
  time zone, so Python compares the wall clocks.\<close>

definition window_allows :: "OrderType \<Rightarrow> date \<Rightarrow> datetime \<Rightarrow> bool" where
  "window_allows order_type session_date received_et =
     (let previous = previous_session session_date;
          prior_close = combine previous (session_close_time previous)
      in if order_type = NEXT_OPEN
         then (let signal_close = session_close session_date;
                   next_open = combine (next_session session_date) MARKET_OPEN
               in signal_close \<le> received_et \<and> received_et < next_open)
         else if order_type \<in> {MOO, LIMIT_ON_OPEN}
         then prior_close \<le> received_et \<and> received_et \<le> moo_cutoff session_date
         else if order_type = MOC
         then prior_close \<le> received_et \<and> received_et \<le> moc_cutoff session_date
         else if order_type = MARKET
         then combine session_date MARKET_OPEN \<le> received_et \<and> received_et < session_close session_date
         else prior_close \<le> received_et \<and> received_et < session_close session_date)"

definition received_at_allowed :: "'e tz_scheme \<Rightarrow> OrderType \<Rightarrow> date \<Rightarrow> stamp \<Rightarrow> bool" where
  "received_at_allowed z order_type session_date received_at =
     (case received_at of
        Naive _ \<Rightarrow> False
      | Aware t _ \<Rightarrow> (if \<not> is_session session_date then False
                    else window_allows order_type session_date (utc_to_ny z t)))"

definition validate_received_at :: "'e tz_scheme \<Rightarrow> OrderType \<Rightarrow> date \<Rightarrow> stamp \<Rightarrow> datetime outcome" where
  "validate_received_at z order_type session_date received_at =
     (case received_at of
        Naive _ \<Rightarrow> Inl OrderTimingError
      | Aware t _ \<Rightarrow> (if \<not> received_at_allowed z order_type session_date received_at
                    then Inl OrderTimingError else Inr t))"

section \<open>Lifecycle laws\<close>

lemmas lifecycle_defs = can_transition_def STATE_TRANSITIONS_def

lemma lifecycle_run_length: "lifecycle_run RECEIVED ts \<Longrightarrow> length ts \<le> 2"
proof (cases ts)
  case (Cons t us)
  assume r: "lifecycle_run RECEIVED ts"
  then have "t = QUEUED \<or> t = REFUSED" using Cons by (auto simp: lifecycle_defs)
  moreover have "lifecycle_run t us" using r Cons by simp
  ultimately have "us = [] \<or> (\<exists>v. us = [v])"
  proof (cases us)
    case (Cons v vs)
    with \<open>lifecycle_run t us\<close> \<open>t = QUEUED \<or> t = REFUSED\<close>
    have "v \<in> {FILLED, CANCELLED, EXPIRED, REJECTED}" "lifecycle_run v vs"
      by (auto simp: lifecycle_defs)
    then have "vs = []" by (cases vs) (auto simp: lifecycle_defs)
    with Cons show ?thesis by simp
  qed simp
  with Cons show ?thesis by auto
qed simp

lemma terminal_absorbing:
  "can_transition s t \<Longrightarrow> s \<in> {RECEIVED, QUEUED}"
  by (cases s) (auto simp: lifecycle_defs)

lemma coarse_status_leaves_pending:
  assumes "can_transition s t" "t \<noteq> REFUSED"
  shows "coarse_status s = Inr ''pending'' \<and> (\<exists>c. coarse_status t = Inr c \<and> (c = ''pending'' \<longleftrightarrow> t = QUEUED))"
  using assms by (cases s; cases t) (auto simp: lifecycle_defs coarse_status_def)

section \<open>Window laws\<close>

lemma close_time_cases: "session_close_time d = hm 13 0 \<or> session_close_time d = hm 16 0"
  by (simp add: session_close_time_def)

lemmas clock_defs = hm_def minute_def day_usec_def combine_def MARKET_OPEN_def MOO_CUTOFF_def
  MOC_CUTOFF_def MARKET_CLOSE_def

lemma session_close_bounds:
  "combine d MARKET_OPEN < session_close d" "session_close d < combine (d + 1) 0"
  using close_time_cases [of d] by (auto simp: session_close_def clock_defs)

lemma open_mono: "d \<le> d' \<Longrightarrow> combine d MARKET_OPEN \<le> combine d' MARKET_OPEN"
  by (simp add: combine_def day_usec_def)

lemma close_before_open: "d < d' \<Longrightarrow> session_close d < combine d' MARKET_OPEN"
  using session_close_bounds(2) [of d] by (auto simp: clock_defs)

lemma next_session_le: "d < d' \<Longrightarrow> is_session d' \<Longrightarrow> next_session d \<le> d'"
  using next_session_spec(3) [of d d'] by (meson linorder_not_le)

text \<open>The trading day of a session: from its open up to the next session's open. Market
  orders arrive before the close, next-open orders after it.\<close>

lemma market_or_next_open_iff:
  "window_allows MARKET d t \<or> window_allows NEXT_OPEN d t \<longleftrightarrow>
     combine d MARKET_OPEN \<le> t \<and> t < combine (next_session d) MARKET_OPEN"
  using session_close_bounds(1) [of d] close_before_open [OF next_session_spec(2), of d]
  by (auto simp: window_allows_def Let_def)

lemma market_next_open_exclusive: "\<not> (window_allows MARKET d t \<and> window_allows NEXT_OPEN d t)"
  by (auto simp: window_allows_def Let_def)

lemma floor_slot:
  fixes k :: int
  assumes "0 < k"
  shows "(t - m) div k * k + m \<le> t" "t < ((t - m) div k + 1) * k + m"
proof -
  have "(t - m) div k * k + (t - m) mod k = t - m" by (rule div_mult_mod_eq)
  moreover have "0 \<le> (t - m) mod k" "(t - m) mod k < k" using assms by simp_all
  moreover have "((t - m) div k + 1) * k = (t - m) div k * k + k" by (simp add: distrib_right)
  ultimately show "(t - m) div k * k + m \<le> t" "t < ((t - m) div k + 1) * k + m"
    by linarith+
qed

lemma day_usec_pos: "0 < day_usec" by (simp add: day_usec_def)

lemma trading_day_exists:
  "\<exists>d. is_session d \<and> combine d MARKET_OPEN \<le> t \<and> t < combine (next_session d) MARKET_OPEN"
proof -
  define n where "n = (t - MARKET_OPEN) div day_usec"
  have n: "combine n MARKET_OPEN \<le> t" "t < combine (n + 1) MARKET_OPEN"
    unfolding n_def combine_def by (rule floor_slot [OF day_usec_pos])+
  let ?d = "session_upto n"
  have d: "is_session ?d" "?d \<le> n" "\<And>x. ?d < x \<Longrightarrow> x \<le> n \<Longrightarrow> \<not> is_session x"
    using session_upto_spec [of n] by auto
  have "n < next_session ?d"
    using d(3) [of "next_session ?d"] next_session_spec(1,2) [of ?d] by (meson linorder_not_le)
  then have "combine (n + 1) MARKET_OPEN \<le> combine (next_session ?d) MARKET_OPEN"
    by (intro open_mono) simp
  moreover have "combine ?d MARKET_OPEN \<le> combine n MARKET_OPEN" using d(2) by (rule open_mono)
  ultimately show ?thesis using n d(1) by (intro exI [of _ ?d]) auto
qed

lemma trading_day_unique:
  assumes "is_session d" "combine d MARKET_OPEN \<le> t" "t < combine (next_session d) MARKET_OPEN"
    and "is_session d'" "combine d' MARKET_OPEN \<le> t" "t < combine (next_session d') MARKET_OPEN"
  shows "d = d'"
proof (rule ccontr)
  assume "d \<noteq> d'"
  then consider "d < d'" | "d' < d" by linarith
  then show False
  proof cases
    case 1
    then show False using open_mono [OF next_session_le [OF 1 assms(4)]] assms by linarith
  next
    case 2
    then show False using open_mono [OF next_session_le [OF 2 assms(1)]] assms by linarith
  qed
qed


text \<open>The instant at which an order of each type can execute at the latest.\<close>

definition execution_deadline :: "OrderType \<Rightarrow> date \<Rightarrow> datetime" where
  "execution_deadline order_type session_date =
     (if order_type = NEXT_OPEN then combine (next_session session_date) MARKET_OPEN
      else if order_type \<in> {MOO, LIMIT_ON_OPEN} then combine session_date MARKET_OPEN
      else session_close session_date)"

lemma moo_before_open: "moo_cutoff d + 2 * minute = combine d MARKET_OPEN"
  by (simp add: moo_cutoff_def clock_defs)

lemma prior_close_before_open: "session_close (previous_session d) < combine d MARKET_OPEN"
  by (rule close_before_open) (rule previous_session_spec)

lemma minute_pos: "0 < minute" by (simp add: minute_def)

lemma window_allows_bounds:
  assumes "window_allows ot d t"
  shows "session_close (previous_session d) \<le> t" and "t < execution_deadline ot d"
proof -
  have b: "session_close (previous_session d) < session_close d" "combine d MARKET_OPEN < session_close d"
    using prior_close_before_open [of d] session_close_bounds(1) [of d] by linarith+
  show "session_close (previous_session d) \<le> t"
    using assms b prior_close_before_open [of d]
    by (auto simp: window_allows_def Let_def session_close_def split: if_splits)
  show "t < execution_deadline ot d"
    using assms b moo_before_open [of d] minute_pos
    by (cases ot) (auto simp: window_allows_def Let_def execution_deadline_def moc_cutoff_def)
qed

section \<open>Properties\<close>

text \<open>The order lifecycle is finite and its terminal states absorb: a run from the received
  state takes at most two transitions, and a state whose sim_orders status is no longer pending
  (or which has none) admits no further transition.\<close>

theorem order_lifecycle_bounded:
  assumes "lifecycle_run RECEIVED ts"
  shows "length ts \<le> 2 \<and>
         (\<forall>s u. coarse_status s \<noteq> Inr ''pending'' \<longrightarrow> \<not> can_transition s u)"
  using lifecycle_run_length [OF assms] terminal_absorbing by (auto simp: coarse_status_def)

theorem order_lifecycle_witness:
  "lifecycle_run RECEIVED [QUEUED, FILLED] \<and> length [QUEUED, FILLED] \<le> 2 \<and> \<not> can_transition FILLED CANCELLED"
proof -
  have r: "lifecycle_run RECEIVED [QUEUED, FILLED]" by code_simp
  have c: "coarse_status FILLED \<noteq> Inr ''pending''" by code_simp
  show ?thesis using order_lifecycle_bounded [OF r] r c by blast
qed

text \<open>The receipt windows of market and next-open orders tile the clock: every instant is
  accepted for exactly one session and exactly one of the two order types, whatever the
  time-zone conversion.\<close>

theorem receipt_windows_tile:
  "\<exists>!p. snd p \<in> {MARKET, NEXT_OPEN} \<and> received_at_allowed z (snd p) (fst p) (Aware t off)"
proof -
  let ?t = "utc_to_ny z t"
  let ?A = "\<lambda>p. snd p \<in> {MARKET, NEXT_OPEN} \<and> received_at_allowed z (snd p) (fst p) (Aware t off)"
  have A: "?A p \<longleftrightarrow> snd p \<in> {MARKET, NEXT_OPEN} \<and> is_session (fst p) \<and> window_allows (snd p) (fst p) ?t" for p
    by (auto simp: received_at_allowed_def)
  obtain d where d: "is_session d" "combine d MARKET_OPEN \<le> ?t" "?t < combine (next_session d) MARKET_OPEN"
    using trading_day_exists by blast
  then obtain k where k: "k \<in> {MARKET, NEXT_OPEN}" "window_allows k d ?t"
    using market_or_next_open_iff [of d ?t] by blast
  show ?thesis
  proof (rule ex1I [of _ "(d, k)"])
    show "?A (d, k)" using A [of "(d, k)"] d k by simp
    fix p assume "?A p"
    then have p: "snd p \<in> {MARKET, NEXT_OPEN}" "is_session (fst p)" "window_allows (snd p) (fst p) ?t"
      using A by blast+
    then have "combine (fst p) MARKET_OPEN \<le> ?t \<and> ?t < combine (next_session (fst p)) MARKET_OPEN"
      using market_or_next_open_iff [of "fst p" ?t] by auto
    then have fp: "fst p = d" using trading_day_unique p(2) d by blast
    then have "snd p = k" using p k market_next_open_exclusive [of d ?t] by auto
    with fp show "p = (d, k)" by (cases p) simp
  qed
qed

text \<open>An accepted receipt stamp is the order's own UTC stamp, and it lies between the previous
  session's close and the latest instant at which the order can execute, strictly before it:
  no accepted order can be decided after its own fill.\<close>

theorem accepted_receipt_precedes_execution:
  assumes "validate_received_at z ot d stamp = Inr t"
  shows "(\<exists>off. stamp = Aware t off) \<and> is_session d \<and>
         session_close (previous_session d) \<le> utc_to_ny z t \<and> utc_to_ny z t < execution_deadline ot d"
proof -
  obtain off where s: "stamp = Aware t off" "is_session d" "window_allows ot d (utc_to_ny z t)"
    using assms by (auto simp: validate_received_at_def received_at_allowed_def
        split: stamp.splits if_splits)
  then show ?thesis using window_allows_bounds by blast
qed

theorem accepted_receipt_witness:
  "let z = \<lparr>utc_to_ny = \<lambda>t. t - 240 * minute, ny_to_utc = \<lambda>t. t + 240 * minute\<rparr>;
       t = combine (ymd 2026 10 6) (hm 13 0)
   in validate_received_at z MOO (ymd 2026 10 6) (Aware t 0) = Inr t \<and>
      utc_to_ny z t < execution_deadline MOO (ymd 2026 10 6)"
proof -
  let ?z = "\<lparr>utc_to_ny = \<lambda>t. t - 240 * minute, ny_to_utc = \<lambda>t. t + 240 * minute\<rparr> :: tz"
  let ?t = "combine (ymd 2026 10 6) (hm 13 0)"
  have v: "validate_received_at ?z MOO (ymd 2026 10 6) (Aware ?t 0) = Inr ?t" by code_simp
  show ?thesis
    unfolding Let_def using accepted_receipt_precedes_execution [OF v] v by blast
qed

end
