(* ===== verification/Float64.thy ===== *)
theory Float64
  imports Prelude "HOL-Library.Log_Nat"
begin

text \<open>
  Python's \<open>float\<close>: IEEE 754 binary64 with round-to-nearest, ties to even. A finite value
  is the rational it denotes (the two zeros are one value, which no modelled comparison
  distinguishes), and every operation is the exact rational result followed by \<open>rnd\<close>,
  which overflows to an infinity and underflows gradually. Division by zero raises, as
  Python does, and \<open>py_sum\<close> is the compensated \<open>sum\<close> of Python 3.12. The lemmas give
  monotonicity, the error bounds, and the closure of the representable values.
\<close>

section \<open>Values\<close>

datatype float64 = Fin rat | PInf | NInf | NaN

section \<open>Rounding to the nearest binary64 value, ties to even\<close>

definition rne :: "rat \<Rightarrow> int" where
  "rne x = (let f = \<lfloor>x\<rfloor>; r = x - of_int f
            in if r < 1 / 2 then f else if r > 1 / 2 then f + 1
               else if even f then f else f + 1)"

definition ilog2 :: "rat \<Rightarrow> int" where
  "ilog2 x = (let (n, d) = quotient_of \<bar>x\<bar>; k = bitlen n - bitlen d
              in if 2 powi k \<le> \<bar>x\<bar> then k else k - 1)"

definition ulp_exp :: "rat \<Rightarrow> int" where
  "ulp_exp x = max (ilog2 x - 52) (-1074)"

definition rr :: "rat \<Rightarrow> rat" where
  "rr x = (if x = 0 then 0 else of_int (rne (x / 2 powi ulp_exp x)) * 2 powi ulp_exp x)"

definition rnd :: "rat \<Rightarrow> float64" where
  "rnd x = (let v = rr x
            in if v \<noteq> 0 \<and> 1024 \<le> ilog2 v then (if 0 < v then PInf else NInf) else Fin v)"

subsection \<open>Rounding to an integer\<close>

lemma rne_bounds: "of_int (rne x) - 1 / 2 \<le> x \<and> x \<le> of_int (rne x) + 1 / 2"
  unfolding rne_def Let_def by (auto; linarith)

lemma rne_of_int [simp]: "rne (of_int n) = n"
  by (simp add: rne_def)

lemma rne_mono: "x \<le> y \<Longrightarrow> rne x \<le> rne y"
proof -
  assume le: "x \<le> y"
  then have fl: "\<lfloor>x\<rfloor> \<le> \<lfloor>y\<rfloor>" by (rule floor_mono)
  show ?thesis
  proof (cases "\<lfloor>x\<rfloor> = \<lfloor>y\<rfloor>")
    case True
    with le show ?thesis by (auto simp: rne_def Let_def)
  next
    case False
    with fl have "\<lfloor>x\<rfloor> + 1 \<le> \<lfloor>y\<rfloor>" by linarith
    then show ?thesis by (auto simp: rne_def Let_def)
  qed
qed

lemma rne_uminus: "rne (- x) = - rne x"
proof (cases "x = of_int \<lfloor>x\<rfloor>")
  case True
  then show ?thesis by (metis of_int_minus rne_of_int)
next
  case False
  then have "\<lfloor>- x\<rfloor> = - \<lfloor>x\<rfloor> - 1" by linarith
  then show ?thesis by (auto simp: rne_def Let_def)
qed

subsection \<open>The binary exponent\<close>

lemma powi_mono: "a \<le> b \<Longrightarrow> (2::rat) powi a \<le> 2 powi b"
  by (simp add: power_int_increasing)

lemma powi_less_iff: "(2::rat) powi a < 2 powi b \<longleftrightarrow> a < b"
  by (metis linorder_not_le power_int_strict_increasing powi_mono one_less_numeral_iff semiring_norm(76))

lemma powi_le_iff: "(2::rat) powi a \<le> 2 powi b \<longleftrightarrow> a \<le> b"
  by (meson linorder_not_le powi_less_iff)

lemma bitlen_powi:
  assumes "0 < n"
  shows "(2::rat) powi (bitlen n - 1) \<le> of_int n" and "of_int n < (2::rat) powi bitlen n"
proof -
  have b: "1 \<le> bitlen n"
    using assms by (metis bitlen_eq_zero_iff bitlen_nonneg int_one_le_iff_zero_less less_le linorder_not_le)
  have "(2::int) ^ nat (bitlen n - 1) \<le> n" and "n < 2 ^ nat (bitlen n)"
    using bitlen_bounds [OF assms] by auto
  then have "(2::rat) ^ nat (bitlen n - 1) \<le> of_int n" and "of_int n < (2::rat) ^ nat (bitlen n)"
    by (metis of_int_le_iff of_int_numeral of_int_power, metis of_int_less_iff of_int_numeral of_int_power)
  with b show "(2::rat) powi (bitlen n - 1) \<le> of_int n" and "of_int n < (2::rat) powi bitlen n"
    by (simp_all add: power_int_def)
qed

lemma ilog2_bounds:
  assumes "x \<noteq> 0"
  shows "2 powi ilog2 x \<le> \<bar>x\<bar> \<and> \<bar>x\<bar> < 2 powi (ilog2 x + 1)"
proof -
  obtain n d where q: "quotient_of \<bar>x\<bar> = (n, d)" by (cases "quotient_of \<bar>x\<bar>")
  have d: "0 < d" using quotient_of_denom_pos [OF q] .
  have x: "\<bar>x\<bar> = of_int n / of_int d" using quotient_of_div [OF q] .
  have "0 < \<bar>x\<bar>" using assms by simp
  then have n: "0 < n" using d x by (simp add: zero_less_divide_iff)
  note bn = bitlen_powi [OF n] and bd = bitlen_powi [OF d]
  have dpos: "(0::rat) < of_int d" using d by simp
  let ?k = "bitlen n - bitlen d"
  have up: "\<bar>x\<bar> < 2 powi (?k + 1)"
  proof -
    have "(2::rat) powi bitlen n = 2 powi (?k + 1) * 2 powi (bitlen d - 1)"
      by (simp flip: power_int_add)
    also have "\<dots> \<le> 2 powi (?k + 1) * of_int d"
      using bd by (intro mult_left_mono) auto
    finally have "of_int n < 2 powi (?k + 1) * (of_int d :: rat)" using bn by linarith
    with x dpos show ?thesis by (simp add: pos_divide_less_eq)
  qed
  have lo: "2 powi (?k - 1) \<le> \<bar>x\<bar>"
  proof -
    have "2 powi (?k - 1) * (of_int d :: rat) \<le> 2 powi (?k - 1) * 2 powi bitlen d"
      using bd by (intro mult_left_mono) auto
    also have "\<dots> = (2::rat) powi (bitlen n - 1)"
      by (simp flip: power_int_add)
    finally have "2 powi (?k - 1) * (of_int d :: rat) \<le> of_int n" using bn by linarith
    with x dpos show ?thesis by (simp add: pos_le_divide_eq)
  qed
  from up lo show ?thesis by (auto simp: ilog2_def q Let_def)
qed

lemma ilog2_unique: "2 powi k \<le> \<bar>x\<bar> \<Longrightarrow> \<bar>x\<bar> < 2 powi (k + 1) \<Longrightarrow> ilog2 x = k"
proof -
  assume k: "2 powi k \<le> \<bar>x\<bar>" "\<bar>x\<bar> < 2 powi (k + 1)"
  have "x \<noteq> 0" using k(1) by (metis abs_zero linorder_not_le zero_less_numeral zero_less_power_int)
  note b = ilog2_bounds [OF this]
  have "k < ilog2 x + 1" "ilog2 x < k + 1"
    using k b by (metis order_le_less_trans powi_less_iff)+
  then show ?thesis by linarith
qed

lemma ilog2_uminus [simp]: "ilog2 (- x) = ilog2 x"
  by (simp add: ilog2_def)

lemma ilog2_ge_iff: "x \<noteq> 0 \<Longrightarrow> k \<le> ilog2 x \<longleftrightarrow> 2 powi k \<le> \<bar>x\<bar>"
  by (metis ilog2_bounds linorder_not_le order_le_less_trans order_trans powi_le_iff powi_less_iff zle_add1_eq_le)

lemma ilog2_less_iff: "x \<noteq> 0 \<Longrightarrow> ilog2 x < k \<longleftrightarrow> \<bar>x\<bar> < 2 powi k"
  by (meson ilog2_ge_iff linorder_not_le)

lemma ulp_exp_uminus [simp]: "ulp_exp (- x) = ulp_exp x"
  by (simp add: ulp_exp_def)

subsection \<open>Rounding with an unbounded exponent range\<close>

lemma rr_zero [simp]: "rr 0 = 0"
  by (simp add: rr_def)

lemma rr_uminus [simp]: "rr (- x) = - rr x"
  by (simp add: rr_def rne_uminus)

lemma powi_split: "(2::rat) powi a = 2 powi (a - b) * 2 powi b"
  by (simp flip: power_int_add)

lemma powi_is_int:
  assumes "0 \<le> k"
  shows "(2::rat) powi k = of_int (2 ^ nat k)"
  using assms by (simp add: power_int_def)

text \<open>A multiple of \<open>2 powi k\<close> by an integer of at most 53 bits is a fixed point of
  rounding when \<open>k\<close> is in the exponent range.\<close>

lemma rr_fixed_scaled:
  assumes "v = of_int n * 2 powi k" and "ulp_exp v \<le> k"
  shows "rr v = v"
proof (cases "v = 0")
  case False
  let ?j = "ulp_exp v"
  have "v = of_int (n * 2 ^ nat (k - ?j)) * 2 powi ?j"
    using assms powi_split [of k ?j] powi_is_int [of "k - ?j"] by (simp add: algebra_simps)
  then have "v / 2 powi ?j = of_int (n * 2 ^ nat (k - ?j))"
    by (simp add: field_simps)
  then have "rne (v / 2 powi ?j) = n * 2 ^ nat (k - ?j)"
    by (metis rne_of_int)
  with False \<open>v = of_int (n * 2 ^ nat (k - ?j)) * 2 powi ?j\<close> show ?thesis
    by (simp add: rr_def)
qed simp

lemma rr_fixed:
  assumes "v = of_int n * 2 powi k" and "\<bar>n\<bar> \<le> 2 ^ 53" and "- 1074 \<le> k"
  shows "rr v = v"
proof (cases "\<bar>n\<bar> = 2 ^ 53")
  case True
  then have "\<bar>v\<bar> = 2 powi (k + 53)"
    using assms(1) by (simp add: abs_mult power_int_add flip: of_int_abs)
  then have "ilog2 v = k + 53"
    by (intro ilog2_unique) (auto simp: powi_le_iff powi_less_iff)
  moreover have "v = of_int (sgn n) * 2 powi (k + 53)"
  proof -
    have "n = sgn n * 2 ^ 53" using True by (metis sgn_mult_abs)
    then have "(of_int n :: rat) = of_int (sgn n) * 2 ^ 53"
      by (metis of_int_mult of_int_numeral of_int_power)
    then show ?thesis by (simp add: assms(1) power_int_add)
  qed
  ultimately show ?thesis
    using assms(3) by (intro rr_fixed_scaled [of v "sgn n" "k + 53"]) (auto simp: ulp_exp_def)
next
  case False
  show ?thesis
  proof (cases "v = 0")
    case nz: False
    have "\<bar>of_int n\<bar> < (2::rat) ^ 53"
      using False assms(2) by (metis of_int_abs of_int_less_iff of_int_numeral of_int_power order_le_less)
    then have "\<bar>v\<bar> < 2 ^ 53 * 2 powi k"
      using assms(1) by (simp add: abs_mult)
    also have "\<dots> = (2::rat) powi (k + 53)" by (simp add: power_int_add)
    finally have "ilog2 v < k + 53" using nz by (simp add: ilog2_less_iff)
    then show ?thesis
      using assms by (intro rr_fixed_scaled [of v n k]) (auto simp: ulp_exp_def)
  qed simp
qed

lemma rr_powi: "- 1074 \<le> k \<Longrightarrow> rr (2 powi k) = 2 powi k"
  using rr_fixed [of "2 powi k" 1 k] by simp

lemma ulp_exp_mono: "x \<noteq> 0 \<Longrightarrow> \<bar>x\<bar> \<le> \<bar>y\<bar> \<Longrightarrow> ulp_exp x \<le> ulp_exp y"
proof -
  assume x: "x \<noteq> 0" and le: "\<bar>x\<bar> \<le> \<bar>y\<bar>"
  then have "y \<noteq> 0" by auto
  with x le have "ilog2 x \<le> ilog2 y"
    by (meson ilog2_bounds ilog2_ge_iff order_trans)
  then show ?thesis by (auto simp: ulp_exp_def)
qed

lemma rr_same_ulp:
  assumes "x \<noteq> 0" "y \<noteq> 0" "x \<le> y" "ulp_exp x = ulp_exp y"
  shows "rr x \<le> rr y"
proof -
  have "x / 2 powi ulp_exp y \<le> y / 2 powi ulp_exp y"
    using assms(3) by (intro divide_right_mono) auto
  then have "rne (x / 2 powi ulp_exp y) \<le> rne (y / 2 powi ulp_exp y)" by (rule rne_mono)
  then have "(of_int (rne (x / 2 powi ulp_exp y)) :: rat) \<le> of_int (rne (y / 2 powi ulp_exp y))"
    by simp
  then show ?thesis using assms by (simp add: rr_def mult_right_mono)
qed

lemma rr_le_powi:
  assumes "0 < x" "x \<le> 2 powi k" "ulp_exp x \<le> k"
  shows "rr x \<le> 2 powi k"
proof -
  let ?j = "ulp_exp x"
  have q: "(2::rat) powi k / 2 powi ?j = of_int (2 ^ nat (k - ?j))"
    using assms(3) powi_is_int [of "k - ?j"] by (simp add: power_int_diff)
  have "x / 2 powi ?j \<le> 2 powi k / 2 powi ?j"
    using assms(2) by (intro divide_right_mono) auto
  then have "rne (x / 2 powi ?j) \<le> 2 ^ nat (k - ?j)"
    by (metis q rne_mono rne_of_int)
  then have "of_int (rne (x / 2 powi ?j)) \<le> (2::rat) powi k / 2 powi ?j"
    by (metis q of_int_le_iff)
  then have "of_int (rne (x / 2 powi ?j)) * 2 powi ?j \<le> ((2::rat) powi k / 2 powi ?j) * 2 powi ?j"
    by (intro mult_right_mono) auto
  then show ?thesis using assms(1) by (simp add: rr_def)
qed

lemma rr_ge_powi:
  assumes "2 powi k \<le> y" "ulp_exp y \<le> k"
  shows "2 powi k \<le> rr y"
proof -
  let ?j = "ulp_exp y"
  have "0 < y" using assms(1) by (metis linorder_not_le order_le_less_trans zero_less_numeral zero_less_power_int)
  have q: "(2::rat) powi k / 2 powi ?j = of_int (2 ^ nat (k - ?j))"
    using assms(2) powi_is_int [of "k - ?j"] by (simp add: power_int_diff)
  have "2 powi k / 2 powi ?j \<le> y / 2 powi ?j"
    using assms(1) by (intro divide_right_mono) auto
  then have "2 ^ nat (k - ?j) \<le> rne (y / 2 powi ?j)"
    by (metis q rne_mono rne_of_int)
  then have "(2::rat) powi k / 2 powi ?j \<le> of_int (rne (y / 2 powi ?j))"
    by (metis q of_int_le_iff)
  then have "((2::rat) powi k / 2 powi ?j) * 2 powi ?j \<le> of_int (rne (y / 2 powi ?j)) * 2 powi ?j"
    by (intro mult_right_mono) auto
  then show ?thesis using \<open>0 < y\<close> by (simp add: rr_def)
qed

lemma rr_nonneg: "0 \<le> x \<Longrightarrow> 0 \<le> rr x"
proof -
  assume "0 \<le> x"
  then have "0 \<le> rne (x / 2 powi ulp_exp x)"
    by (metis of_int_0 rne_mono rne_of_int zero_le_divide_iff zero_le_numeral zero_le_power_int)
  then show ?thesis by (simp add: rr_def)
qed

lemma rr_nonpos: "x \<le> 0 \<Longrightarrow> rr x \<le> 0"
  using rr_nonneg [of "- x"] by simp

lemma rr_mono_pos:
  assumes "0 < x" "x \<le> y"
  shows "rr x \<le> rr y"
proof (cases "ulp_exp x = ulp_exp y")
  case True
  with assms show ?thesis by (intro rr_same_ulp) auto
next
  case False
  have y: "0 < y" using assms by linarith
  have "ulp_exp x < ulp_exp y"
    using False ulp_exp_mono [of x y] assms by auto
  then have e: "ilog2 y - 52 = ulp_exp y" "ulp_exp x \<le> ilog2 y" "ilog2 x < ilog2 y"
    by (auto simp: ulp_exp_def)
  have "x < 2 powi ilog2 y"
    using e(3) assms ilog2_less_iff [of x "ilog2 y"] by auto
  then have "rr x \<le> 2 powi ilog2 y"
    using assms e by (intro rr_le_powi) auto
  also have "\<dots> \<le> rr y"
    using e y ilog2_bounds [of y] by (intro rr_ge_powi) auto
  finally show ?thesis .
qed

lemma rr_mono: "x \<le> y \<Longrightarrow> rr x \<le> rr y"
proof -
  assume le: "x \<le> y"
  consider "0 < x" | "x \<le> 0" "0 \<le> y" | "y < 0" by linarith
  then show ?thesis
  proof cases
    case 1
    with le show ?thesis by (intro rr_mono_pos)
  next
    case 2
    then show ?thesis using rr_nonneg [of y] rr_nonpos [of x] by linarith
  next
    case 3
    with le have "rr (- y) \<le> rr (- x)" by (intro rr_mono_pos) auto
    then show ?thesis by simp
  qed
qed

subsection \<open>Error bounds\<close>

lemma rr_error: "x \<noteq> 0 \<Longrightarrow> \<bar>rr x - x\<bar> \<le> 2 powi ulp_exp x / 2"
proof -
  assume x: "x \<noteq> 0"
  let ?u = "(2::rat) powi ulp_exp x"
  have u: "0 < ?u" by simp
  have "\<bar>of_int (rne (x / ?u)) - x / ?u\<bar> \<le> 1 / 2"
    using rne_bounds [of "x / ?u"] unfolding abs_le_iff by linarith
  then have "\<bar>of_int (rne (x / ?u)) - x / ?u\<bar> * ?u \<le> 1 / 2 * ?u"
    using u by (intro mult_right_mono) auto
  moreover have "\<bar>of_int (rne (x / ?u)) - x / ?u\<bar> * ?u = \<bar>rr x - x\<bar>"
    using x u by (simp add: rr_def abs_mult_pos left_diff_distrib)
  ultimately show ?thesis by simp
qed

lemma rr_rel_error:
  assumes "2 powi (- 1022) \<le> \<bar>x\<bar>"
  shows "\<bar>rr x - x\<bar> \<le> \<bar>x\<bar> / 2 ^ 53"
proof -
  have x: "x \<noteq> 0" using assms by auto
  then have "- 1022 \<le> ilog2 x" using assms by (simp add: ilog2_ge_iff)
  then have "ulp_exp x = ilog2 x - 52" by (simp add: ulp_exp_def)
  then have "(2::rat) powi ulp_exp x / 2 = 2 powi ilog2 x / 2 ^ 53"
    by (simp add: power_int_diff)
  also have "\<dots> \<le> \<bar>x\<bar> / 2 ^ 53"
    using ilog2_bounds [OF x] by (intro divide_right_mono) auto
  finally show ?thesis using rr_error [OF x] by linarith
qed

subsection \<open>Representable values\<close>

definition rep :: "rat \<Rightarrow> bool" where
  "rep v \<longleftrightarrow> rr v = v"

lemma rep_iff: "rep v \<Longrightarrow> rr v = v"
  by (simp add: rep_def)

lemma rne_abs_le: "\<bar>x\<bar> \<le> of_int n \<Longrightarrow> \<bar>rne x\<bar> \<le> n"
proof -
  assume "\<bar>x\<bar> \<le> of_int n"
  then have "x \<le> of_int n" and "- of_int n \<le> x" by linarith+
  then have "rne x \<le> rne (of_int n)" and "rne (- of_int n) \<le> rne x"
    using rne_mono by blast+
  then show ?thesis by (simp add: rne_uminus abs_le_iff)
qed

lemma rep_rr [simp]: "rep (rr x)"
proof (cases "x = 0")
  case False
  let ?u = "(2::rat) powi ulp_exp x"
  have "\<bar>x\<bar> < 2 powi (ilog2 x + 1)" using False ilog2_bounds by blast
  also have "\<dots> \<le> 2 powi (53 + ulp_exp x)"
    by (intro powi_mono) (auto simp: ulp_exp_def)
  finally have "\<bar>x\<bar> / ?u \<le> of_int (2 ^ 53)"
    by (simp add: power_int_add pos_divide_le_eq)
  then have "\<bar>rne (x / ?u)\<bar> \<le> 2 ^ 53"
    by (intro rne_abs_le) (simp add: abs_divide)
  then show ?thesis
    unfolding rep_def by (intro rr_fixed [of "rr x" "rne (x / ?u)" "ulp_exp x"])
      (use False in \<open>auto simp: rr_def ulp_exp_def\<close>)
qed (simp add: rep_def)

lemma rep_0 [simp]: "rep 0" by (simp add: rep_def)

lemma rep_uminus [simp]: "rep (- v) \<longleftrightarrow> rep v"
  by (simp add: rep_def)

lemma rep_abs [simp]: "rep \<bar>v\<bar> \<longleftrightarrow> rep v"
  by (cases "0 \<le> v") (simp_all add: abs_if)

lemma rep_of_int: "\<bar>n\<bar> \<le> 2 ^ 53 \<Longrightarrow> rep (of_int n)"
  unfolding rep_def using rr_fixed [of "of_int n" n 0] by simp

lemma rr_le_rep: "rep v \<Longrightarrow> x \<le> v \<Longrightarrow> rr x \<le> v"
  by (metis rep_def rr_mono)

lemma rep_le_rr: "rep v \<Longrightarrow> v \<le> x \<Longrightarrow> v \<le> rr x"
  by (metis rep_def rr_mono)

section \<open>Python floats\<close>

text \<open>A value of the datatype is a binary64 value when it is not finite or when its
  rational is representable and below the overflow threshold.\<close>

definition is64 :: "float64 \<Rightarrow> bool" where
  "is64 x = (case x of Fin v \<Rightarrow> rep v \<and> \<bar>v\<bar> < 2 powi 1024 | _ \<Rightarrow> True)"

definition isfinite :: "float64 \<Rightarrow> bool" where
  "isfinite x = (case x of Fin v \<Rightarrow> True | _ \<Rightarrow> False)"

definition flt :: "float64 \<Rightarrow> float64 \<Rightarrow> bool" where
  "flt x y = (case (x, y) of
     (Fin a, Fin b) \<Rightarrow> a < b
   | (NaN, _) \<Rightarrow> False | (_, NaN) \<Rightarrow> False
   | (NInf, NInf) \<Rightarrow> False | (NInf, _) \<Rightarrow> True
   | (PInf, _) \<Rightarrow> False | (Fin a, PInf) \<Rightarrow> True | (Fin a, NInf) \<Rightarrow> False)"

definition fle :: "float64 \<Rightarrow> float64 \<Rightarrow> bool" where
  "fle x y = (case (x, y) of
     (Fin a, Fin b) \<Rightarrow> a \<le> b
   | (NaN, _) \<Rightarrow> False | (_, NaN) \<Rightarrow> False
   | (NInf, _) \<Rightarrow> True | (_, PInf) \<Rightarrow> True
   | (PInf, _) \<Rightarrow> False | (Fin a, NInf) \<Rightarrow> False)"

definition feq :: "float64 \<Rightarrow> float64 \<Rightarrow> bool" where
  "feq x y \<longleftrightarrow> x \<noteq> NaN \<and> x = y"

definition fneg :: "float64 \<Rightarrow> float64" where
  "fneg x = (case x of Fin a \<Rightarrow> Fin (- a) | PInf \<Rightarrow> NInf | NInf \<Rightarrow> PInf | NaN \<Rightarrow> NaN)"

definition fabs :: "float64 \<Rightarrow> float64" where
  "fabs x = (case x of Fin a \<Rightarrow> Fin \<bar>a\<bar> | NaN \<Rightarrow> NaN | _ \<Rightarrow> PInf)"

definition fadd :: "float64 \<Rightarrow> float64 \<Rightarrow> float64" where
  "fadd x y = (case (x, y) of
     (Fin a, Fin b) \<Rightarrow> rnd (a + b)
   | (NaN, _) \<Rightarrow> NaN | (_, NaN) \<Rightarrow> NaN
   | (PInf, NInf) \<Rightarrow> NaN | (NInf, PInf) \<Rightarrow> NaN
   | (PInf, _) \<Rightarrow> PInf | (_, PInf) \<Rightarrow> PInf | (NInf, _) \<Rightarrow> NInf | (_, NInf) \<Rightarrow> NInf)"

definition fsub :: "float64 \<Rightarrow> float64 \<Rightarrow> float64" where
  "fsub x y = fadd x (fneg y)"

definition finf :: "bool \<Rightarrow> float64" where
  "finf positive = (if positive then PInf else NInf)"

definition fmul :: "float64 \<Rightarrow> float64 \<Rightarrow> float64" where
  "fmul x y = (case (x, y) of
     (Fin a, Fin b) \<Rightarrow> rnd (a * b)
   | (NaN, _) \<Rightarrow> NaN | (_, NaN) \<Rightarrow> NaN
   | (Fin a, i) \<Rightarrow> (if a = 0 then NaN else finf ((0 < a) = (i = PInf)))
   | (i, Fin b) \<Rightarrow> (if b = 0 then NaN else finf ((0 < b) = (i = PInf)))
   | (i, j) \<Rightarrow> finf (i = j))"

text \<open>IEEE division for a nonzero divisor; Python's \<open>/\<close> raises on a zero divisor.\<close>

definition fquot :: "float64 \<Rightarrow> float64 \<Rightarrow> float64" where
  "fquot x y = (case (x, y) of
     (Fin a, Fin b) \<Rightarrow> rnd (a / b)
   | (NaN, _) \<Rightarrow> NaN | (_, NaN) \<Rightarrow> NaN
   | (Fin a, _) \<Rightarrow> Fin 0
   | (i, Fin b) \<Rightarrow> finf ((0 < b) = (i = PInf))
   | (i, j) \<Rightarrow> NaN)"

definition fdiv :: "float64 \<Rightarrow> float64 \<Rightarrow> float64 outcome" where
  "fdiv x y = (if y = Fin 0 then Inl ZeroDivisionError else Inr (fquot x y))"

text \<open>\<open>max(a, b)\<close> and \<open>min(a, b)\<close> keep the first argument unless the second is
  strictly beyond it, which fixes what they do with a NaN.\<close>

definition fmax :: "float64 \<Rightarrow> float64 \<Rightarrow> float64" where
  "fmax a b = (if flt a b then b else a)"

definition fmin :: "float64 \<Rightarrow> float64 \<Rightarrow> float64" where
  "fmin a b = (if flt b a then b else a)"

text \<open>A decimal literal and an \<open>int\<close> operand denote the nearest binary64 value.\<close>

definition lit :: "rat \<Rightarrow> float64" where
  "lit q = rnd q"

definition of_pyint :: "int \<Rightarrow> float64 outcome" where
  "of_pyint n = (case rnd (of_int n) of Fin v \<Rightarrow> Inr (Fin v) | _ \<Rightarrow> Inl OverflowError)"

section \<open>Laws\<close>

named_theorems float_simps "case analysis of the float operations on finite values"

lemma rnd_cases:
  "(rnd x = Fin (rr x) \<and> \<bar>rr x\<bar> < 2 powi 1024) \<or>
   (rnd x = PInf \<and> 2 powi 1024 \<le> rr x) \<or> (rnd x = NInf \<and> rr x \<le> - (2 powi 1024))"
proof (cases "rr x = 0")
  case True
  then show ?thesis by (simp add: rnd_def)
next
  case False
  then show ?thesis
    using ilog2_ge_iff [OF False, of 1024]
    by (auto simp: rnd_def Let_def abs_if not_le split: if_splits)
qed

lemma rnd_eq_Fin: "rnd x = Fin v \<longleftrightarrow> v = rr x \<and> \<bar>rr x\<bar> < 2 powi 1024"
  using rnd_cases [of x] by (auto simp: abs_if split: if_splits)

lemma rnd_not_NaN [simp]: "rnd x \<noteq> NaN"
  using rnd_cases [of x] by auto

lemma is64_rnd [simp]: "is64 (rnd x)"
  using rnd_cases [of x] by (auto simp: is64_def)

lemma rnd_is64: "is64 (Fin v) \<Longrightarrow> rnd v = Fin v"
  by (simp add: is64_def rnd_eq_Fin rep_def)

lemma rnd_zero [simp]: "rnd 0 = Fin 0"
  by (simp add: rnd_def)

lemma fle_rnd_mono: "x \<le> y \<Longrightarrow> fle (rnd x) (rnd y)"
proof -
  assume "x \<le> y"
  then have "rr x \<le> rr y" by (rule rr_mono)
  then show ?thesis
    using rnd_cases [of x] rnd_cases [of y]
    by (auto simp: fle_def)
qed

lemma fle_Fin [simp, float_simps]: "fle (Fin a) (Fin b) \<longleftrightarrow> a \<le> b"
  by (simp add: fle_def)

lemma flt_Fin [simp, float_simps]: "flt (Fin a) (Fin b) \<longleftrightarrow> a < b"
  by (simp add: flt_def)

lemma isfinite_Fin [simp, float_simps]: "isfinite (Fin a)"
  by (simp add: isfinite_def)

lemma isfiniteE: "isfinite x \<Longrightarrow> (\<And>v. x = Fin v \<Longrightarrow> P) \<Longrightarrow> P"
  by (cases x) (auto simp: isfinite_def)

lemma fneg_Fin [simp, float_simps]: "fneg (Fin a) = Fin (- a)"
  by (simp add: fneg_def)

lemma fabs_Fin [simp, float_simps]: "fabs (Fin a) = Fin \<bar>a\<bar>"
  by (simp add: fabs_def)

lemma fadd_Fin [simp, float_simps]: "fadd (Fin a) (Fin b) = rnd (a + b)"
  by (simp add: fadd_def)

lemma fsub_Fin [simp, float_simps]: "fsub (Fin a) (Fin b) = rnd (a - b)"
  by (simp add: fsub_def)

lemma fmul_Fin [simp, float_simps]: "fmul (Fin a) (Fin b) = rnd (a * b)"
  by (simp add: fmul_def)

lemma fquot_Fin [simp, float_simps]: "fquot (Fin a) (Fin b) = rnd (a / b)"
  by (simp add: fquot_def)

lemma flt_imp_fle: "flt x y \<Longrightarrow> fle x y"
  by (cases x; cases y) (auto simp: flt_def fle_def)

lemma fle_trans: "fle x y \<Longrightarrow> fle y z \<Longrightarrow> fle x z"
  by (cases x; cases y; cases z) (auto simp: fle_def)

lemma flt_fle_trans: "flt x y \<Longrightarrow> fle y z \<Longrightarrow> flt x z"
  by (cases x; cases y; cases z) (auto simp: fle_def flt_def)

lemma fle_flt_trans: "fle x y \<Longrightarrow> flt y z \<Longrightarrow> flt x z"
  by (cases x; cases y; cases z) (auto simp: fle_def flt_def)

lemma fle_refl: "x \<noteq> NaN \<Longrightarrow> fle x x"
  by (cases x) (auto simp: fle_def)

lemma flt_irrefl [simp]: "\<not> flt x x"
  by (cases x) (auto simp: flt_def)

lemma not_flt: "x \<noteq> NaN \<Longrightarrow> y \<noteq> NaN \<Longrightarrow> \<not> flt x y \<longleftrightarrow> fle y x"
  by (cases x; cases y) (auto simp: flt_def fle_def)

lemma not_fle: "x \<noteq> NaN \<Longrightarrow> y \<noteq> NaN \<Longrightarrow> \<not> fle x y \<longleftrightarrow> flt y x"
  by (cases x; cases y) (auto simp: flt_def fle_def)

lemma fle_not_NaN: "fle x y \<Longrightarrow> x \<noteq> NaN \<and> y \<noteq> NaN"
  by (cases x; cases y) (auto simp: fle_def)

lemma flt_not_NaN: "flt x y \<Longrightarrow> x \<noteq> NaN \<and> y \<noteq> NaN"
  by (cases x; cases y) (auto simp: flt_def)

lemma is64_simps [simp]: "is64 PInf" "is64 NInf" "is64 NaN" "is64 (Fin 0)"
  by (simp_all add: is64_def)

lemma is64_Fin: "is64 (Fin v) \<longleftrightarrow> rep v \<and> \<bar>v\<bar> < 2 powi 1024"
  by (simp add: is64_def)

lemma is64_fneg [simp]: "is64 (fneg x) = is64 x"
  by (cases x) (auto simp: is64_def fneg_def)

lemma is64_fabs [simp]: "is64 (fabs x) = is64 x"
  by (cases x) (auto simp: is64_def fabs_def)

lemma is64_fadd [simp]: "is64 (fadd x y)"
  by (cases x; cases y) (auto simp: fadd_def)

lemma is64_fsub [simp]: "is64 (fsub x y)"
  by (simp add: fsub_def)

lemma is64_fmul [simp]: "is64 (fmul x y)"
  by (cases x; cases y) (auto simp: fmul_def finf_def)

lemma is64_fquot [simp]: "is64 (fquot x y)"
  by (cases x; cases y) (auto simp: fquot_def finf_def)

lemma is64_lit [simp]: "is64 (lit q)"
  by (simp add: lit_def)

lemma fmax_ge: "b \<noteq> NaN \<Longrightarrow> a \<noteq> NaN \<Longrightarrow> fle a (fmax a b) \<and> fle b (fmax a b)"
  by (auto simp: fmax_def not_flt fle_refl flt_imp_fle)

lemma fmin_le: "b \<noteq> NaN \<Longrightarrow> a \<noteq> NaN \<Longrightarrow> fle (fmin a b) a \<and> fle (fmin a b) b"
  by (auto simp: fmin_def not_flt fle_refl flt_imp_fle)

lemma fmin_choice: "fmin a b = a \<or> fmin a b = b"
  by (simp add: fmin_def)

lemma fmax_choice: "fmax a b = a \<or> fmax a b = b"
  by (simp add: fmax_def)

text \<open>Monotonicity of the rounded operations, the form in which the money lemmas use it.\<close>

lemma fmul_ge_self:
  assumes "is64 (Fin a)" "0 \<le> a" "1 \<le> b"
  shows "fle (Fin a) (fmul (Fin a) (Fin b))"
proof -
  have "a * 1 \<le> a * b" using assms by (intro mult_left_mono) auto
  then have "fle (rnd a) (rnd (a * b))" by (intro fle_rnd_mono) simp
  then show ?thesis using assms by (simp add: rnd_is64)
qed

lemma fmul_le_self:
  assumes "is64 (Fin a)" "0 \<le> a" "b \<le> 1"
  shows "fle (fmul (Fin a) (Fin b)) (Fin a)"
proof -
  have "a * b \<le> a * 1" using assms by (intro mult_left_mono) auto
  then have "fle (rnd (a * b)) (rnd a)" by (intro fle_rnd_mono) simp
  then show ?thesis using assms by (simp add: rnd_is64)
qed

section \<open>Summation\<close>

text \<open>
  Python 3.12 and later add a list of floats with Neumaier's compensated summation: the
  running total and a correction term, which is added once at the end when it is finite.
  The first addend is added to the integer start value exactly, so it is the first total.
\<close>

fun py_sum_loop :: "float64 \<Rightarrow> float64 \<Rightarrow> float64 list \<Rightarrow> float64" where
  "py_sum_loop t c [] = (if c \<noteq> Fin 0 \<and> isfinite c then fadd t c else t)"
| "py_sum_loop t c (x # xs) =
     (let t' = fadd t x;
          c' = (if fle (fabs x) (fabs t) then fadd c (fadd (fsub t t') x)
                else fadd c (fadd (fsub x t') t))
      in py_sum_loop t' c' xs)"

text \<open>\<open>sum\<close> of an empty sequence is the integer 0, which every use here converts.\<close>

definition py_sum :: "float64 list \<Rightarrow> float64" where
  "py_sum xs = (case xs of [] \<Rightarrow> Fin 0 | x # xs' \<Rightarrow> py_sum_loop x (Fin 0) xs')"

text \<open>\<open>math.isclose\<close>.\<close>

definition isclose :: "float64 \<Rightarrow> float64 \<Rightarrow> float64 \<Rightarrow> float64 \<Rightarrow> bool" where
  "isclose a b rel_tol abs_tol =
     (if feq a b then True
      else if a = PInf \<or> a = NInf \<or> b = PInf \<or> b = NInf then False
      else (let diff = fabs (fsub b a)
            in fle diff (fabs (fmul rel_tol b)) \<or> fle diff (fabs (fmul rel_tol a))
               \<or> fle diff abs_tol))"


section \<open>Non-negative values below a power of two\<close>

text \<open>The size argument of the no-overflow lemmas: \<open>le_pow2 x k\<close> says that \<open>x\<close> is finite and lies
  between 0 and \<open>2 ^ k\<close>. The rounded operations keep such bounds.\<close>

definition le_pow2 :: "float64 \<Rightarrow> nat \<Rightarrow> bool" where
  "le_pow2 x k \<longleftrightarrow> (\<exists>a. x = Fin a \<and> 0 \<le> a \<and> a \<le> 2 ^ k)"

named_theorems le_pow2_intros "bounds of the rounded operations"

lemma rep_power2 [simp]: "rep (2 ^ k)"
proof -
  have "rr (of_int 1 * 2 powi int k) = of_int 1 * 2 powi int k"
    by (rule rr_fixed [where n = 1 and k = "int k"]) simp_all
  then show ?thesis by (simp add: rep_def power_int_def)
qed

lemma le_pow2_rnd: "0 \<le> a \<Longrightarrow> a \<le> 2 ^ k \<Longrightarrow> k < 1024 \<Longrightarrow> le_pow2 (rnd a) k"
proof -
  assume a: "0 \<le> a" "a \<le> 2 ^ k" and k: "k < 1024"
  have r: "0 \<le> rr a" "rr a \<le> 2 ^ k" using a rr_nonneg rr_le_rep [OF rep_power2] by auto
  have "(2::rat) ^ k < 2 ^ 1024" using k by (intro power_strict_increasing) auto
  then have "\<bar>rr a\<bar> < 2 powi 1024" using r by (simp add: power_int_def)
  then have "rnd a = Fin (rr a)" by (simp add: rnd_eq_Fin)
  then show ?thesis using r by (auto simp: le_pow2_def)
qed

lemma le_pow2_mono: "le_pow2 x j \<Longrightarrow> j \<le> k \<Longrightarrow> le_pow2 x k"
  unfolding le_pow2_def using power_increasing [of j k "2 :: rat"] by (fastforce intro: order_trans)

lemma le_pow2_fadd [le_pow2_intros]:
  assumes "le_pow2 x j" "le_pow2 y j" "j < 1023"
  shows "le_pow2 (fadd x y) (Suc j)"
proof -
  obtain a b where ab: "x = Fin a" "0 \<le> a" "a \<le> 2 ^ j" "y = Fin b" "0 \<le> b" "b \<le> 2 ^ j"
    using assms by (auto simp: le_pow2_def)
  then show ?thesis using assms(3) le_pow2_rnd [of "a + b" "Suc j"] by simp
qed

lemma le_pow2_fmul [le_pow2_intros]:
  assumes "le_pow2 x j" "le_pow2 y k" "j + k < 1024"
  shows "le_pow2 (fmul x y) (j + k)"
proof -
  obtain a b where ab: "x = Fin a" "0 \<le> a" "a \<le> 2 ^ j" "y = Fin b" "0 \<le> b" "b \<le> 2 ^ k"
    using assms by (auto simp: le_pow2_def)
  have "a * b \<le> 2 ^ (j + k)" unfolding power_add using ab by (intro mult_mono) auto
  then show ?thesis using ab assms(3) le_pow2_rnd [of "a * b" "j + k"] by simp
qed

lemma le_pow2_fmin1: "le_pow2 x j \<Longrightarrow> le_pow2 y k \<Longrightarrow> le_pow2 (fmin x y) j"
  by (auto simp: le_pow2_def fmin_def)

lemma le_pow2_fmin2: "le_pow2 x j \<Longrightarrow> le_pow2 y k \<Longrightarrow> le_pow2 (fmin x y) k"
  by (auto simp: le_pow2_def fmin_def)

lemma le_pow2_fmax: "le_pow2 x j \<Longrightarrow> le_pow2 y j \<Longrightarrow> le_pow2 (fmax x y) j"
  by (auto simp: le_pow2_def fmax_def)

lemma le_pow2_lit: "0 \<le> q \<Longrightarrow> q \<le> 2 ^ k \<Longrightarrow> k < 1024 \<Longrightarrow> le_pow2 (lit q) k"
  unfolding lit_def by (rule le_pow2_rnd)

lemma le_pow2_finite: "le_pow2 x k \<Longrightarrow> isfinite x \<and> fle (Fin 0) x"
  by (auto simp: le_pow2_def)

lemma le_pow2_zero [simp]: "le_pow2 (Fin 0) k"
  by (simp add: le_pow2_def)


text \<open>Small integers are exact.\<close>

lemma rnd_of_int: "\<bar>n\<bar> \<le> 2 ^ 53 \<Longrightarrow> rnd (of_int n) = Fin (of_int n)"
proof -
  assume n: "\<bar>n\<bar> \<le> 2 ^ 53"
  have "(of_int \<bar>n\<bar> :: rat) \<le> of_int (2 ^ 53)" using n by (rule of_int_le_iff [THEN iffD2])
  then have "\<bar>of_int n :: rat\<bar> < 2 powi 1024" by simp
  then show ?thesis using rep_of_int [OF n] by (simp add: rnd_eq_Fin rep_def)
qed

lemma rnd_numeral [simp]: "(numeral k :: int) \<le> 2 ^ 53 \<Longrightarrow> rnd (numeral k) = Fin (numeral k)"
  using rnd_of_int [of "numeral k"] by simp

lemma is64_numeral: "(numeral k :: int) \<le> 2 ^ 53 \<Longrightarrow> is64 (Fin (numeral k))"
  by (metis is64_rnd rnd_numeral)

lemma rnd_one [simp]: "rnd 1 = Fin 1"
  using rnd_of_int [of 1] by simp


section \<open>Bounded roundings\<close>

lemma rnd_between:
  assumes "0 \<le> x" "x \<le> h" "is64 (Fin h)"
  shows "\<exists>v. rnd x = Fin v \<and> 0 \<le> v \<and> v \<le> h"
proof -
  have h: "rep h" "\<bar>h\<bar> < 2 powi 1024" using assms(3) by (auto simp: is64_Fin)
  have v: "0 \<le> rr x" "rr x \<le> h" using assms rr_nonneg rr_le_rep h(1) by auto
  then have "\<bar>rr x\<bar> < 2 powi 1024" using h(2) by linarith
  then have "rnd x = Fin (rr x)" by (simp only: rnd_eq_Fin simp_thms)
  then show ?thesis using v by blast
qed

lemma rnd_uminus: "rnd (- x) = fneg (rnd x)"
  by (auto simp: rnd_def Let_def fneg_def)

lemma rnd_upto: "0 \<le> a \<Longrightarrow> a \<le> 2 ^ k \<Longrightarrow> k < 1024 \<Longrightarrow> rnd a = Fin (rr a) \<and> 0 \<le> rr a \<and> rr a \<le> 2 ^ k"
  using le_pow2_rnd [of a k] by (auto simp: le_pow2_def rnd_eq_Fin)

lemma powi_100: "(2::rat) powi - 100 = 1 / 2 ^ 100" "(2::rat) powi 100 = 2 ^ 100"
  by (simp_all add: power_int_def power_divide)

lemma fmul_finite: "fmul (fmul (Fin q) (Fin p)) (Fin m) = Fin n \<Longrightarrow> n = rr (rr (q * p) * m)"
  using rnd_not_NaN [of "q * p"] by (cases "rnd (q * p)") (auto simp: rnd_eq_Fin fmul_def finf_def split: if_splits)

lemma fmin_finite:
  assumes "0 \<le> r"
  shows "\<exists>c. fmin (Fin r) (fabs x) = Fin c \<and> 0 \<le> c \<and> c \<le> r \<and> (c = r \<or> fabs x = Fin c)"
  using assms by (cases x) (auto simp: fmin_def fabs_def flt_def)

section \<open>Rounding laws of a clamped purchase\<close>

text \<open>What the cash clamp needs of the arithmetic: monotone rounding that keeps powers of two and has
  a relative error of at most half a unit in the last place on normal numbers.\<close>

locale nearest_rounding =
  fixes R :: "rat \<Rightarrow> rat"
  assumes R_mono: "x \<le> y \<Longrightarrow> R x \<le> R y"
    and R_powi: "- 1022 \<le> k \<Longrightarrow> R (2 powi k) = 2 powi k"
    and R_rel: "2 powi - 1022 \<le> x \<Longrightarrow> \<bar>R x - x\<bar> \<le> x / 2 ^ 53"
begin

lemma above:
  assumes "2 powi k < R x" "- 1022 \<le> k"
  shows "2 powi k < x"
  using R_mono [of x "2 powi k"] R_powi [of k] assms by fastforce

lemma relative:
  assumes "2 powi k < x" "- 1022 \<le> k"
  shows "R x \<le> x * (1 + 1 / 2 ^ 53) \<and> x * (1 - 1 / 2 ^ 53) \<le> R x"
proof -
  have "2 powi - 1022 \<le> x" using powi_mono [OF assms(2)] assms(1) by (meson less_imp_le order.trans)
  from R_rel [OF this] have "R x - x \<le> x / 2 ^ 53" "x - R x \<le> x / 2 ^ 53" by linarith+
  then show ?thesis by (simp add: distrib_left right_diff_distrib)
qed

lemmas upper = relative [THEN conjunct1] and lower = relative [THEN conjunct2]

lemma above_mult:
  assumes "2 powi k < a * b" "0 \<le> b" "b \<le> 2 powi j"
  shows "2 powi (k - j) < (a::rat)"
proof (rule ccontr)
  assume "\<not> ?thesis"
  then have "a \<le> 2 powi (k - j)" by simp
  then have "a * b \<le> 2 powi (k - j) * b" using assms(2) by (rule mult_right_mono)
  also have "\<dots> \<le> 2 powi (k - j) * 2 powi j" using assms(3) by (intro mult_left_mono) auto
  also have "\<dots> = 2 powi k" by (simp flip: power_int_add)
  finally show False using assms(1) by simp
qed

lemma price_normal:
  assumes "2 powi - 500 \<le> p" "1 \<le> m"
  shows "2 powi - 501 < p * (m::rat)"
proof -
  have p0: "0 < p" using assms(1) by (rule less_le_trans [rotated]) simp
  have "2 powi - 501 < (2 powi - 500 :: rat)" by (simp add: powi_less_iff)
  also have "\<dots> \<le> p * 1" using assms by simp
  also have "\<dots> \<le> p * m" using assms(2) p0 by (intro mult_left_mono) auto
  finally show ?thesis .
qed

lemma clamp_factor: "0 \<le> c \<Longrightarrow> c \<le> 1 - 9 / 10 ^ 13 \<Longrightarrow> c * (1 + 1 / 2 ^ 53) ^ 4 * (1 / (1 - 1 / 2 ^ 53)) \<le> (1::rat)"
proof -
  assume c: "0 \<le> c" "c \<le> 1 - 9 / 10 ^ 13"
  have "c * (1 + 1 / 2 ^ 53) ^ 4 \<le> (1 - 9 / 10 ^ 13) * (1 + 1 / 2 ^ 53) ^ 4" using c by (intro mult_right_mono) auto
  also have "\<dots> \<le> 1 - 1 / 2 ^ 53" by (simp add: power_def)
  finally show ?thesis by (simp add: field_simps)
qed

text \<open>The clamped size \<open>(A / (p m)) c\<close> costs no more than \<open>A\<close>, and is no larger than a size that
  costs more than \<open>A\<close>.\<close>

lemma clamp_affordable:
  fixes A p m c :: rat
  defines "s \<equiv> R (R (A / R (p * m)) * c)"
  assumes p: "2 powi - 500 \<le> p" "p \<le> 2 powi 500" and m: "1 \<le> m" "m \<le> 2 powi 100"
    and c: "0 \<le> c" "c \<le> 1 - 9 / 10 ^ 13"
    and n: "1 \<le> R (R (s * p) * m)"
  shows "R (R (s * p) * m) \<le> A" "2 powi - 601 < s"
    "A / R (p * m) * c * (1 + 1 / 2 ^ 53) ^ 2 \<ge> s"
proof -
  let ?k = "1 + 1 / 2 ^ 53 :: rat" and ?d = "R (p * m)" and ?t = "R (A / R (p * m))" and ?y = "R (s * p)"
  have p0: "0 < p" using p(1) by (rule less_le_trans [rotated]) simp
  have m0: "0 < m" using m by simp
  have n1: "2 powi - 1 < R (?y * m)" using n by (simp add: power_int_minus)
  have ym: "2 powi - 1 < ?y * m" by (rule above [OF n1]) simp
  have y: "2 powi - 101 < ?y" using above_mult [OF ym _ m(2)] m0 by simp
  have sp: "2 powi - 101 < s * p" by (rule above [OF y]) simp
  have s: "2 powi - 601 < s" using above_mult [OF sp _ p(2)] p0 by simp
  then show "2 powi - 601 < s" .
  have tc: "2 powi - 601 < ?t * c" by (rule above) (use s in \<open>simp_all add: s_def\<close>)
  have t: "2 powi - 601 < ?t" using above_mult [OF tc c(1), of 0] c(2) by simp
  have q: "2 powi - 601 < A / ?d" by (rule above [OF t]) simp
  have pm: "2 powi - 501 < p * m" by (rule price_normal [OF p(1) m(1)])
  have pm0: "0 < p * m" using p0 m0 by simp
  have d: "p * m * (1 - 1 / 2 ^ 53) \<le> ?d" by (rule lower [OF pm]) simp
  have d0: "0 < ?d" by (rule less_le_trans [OF _ d]) (use pm0 in simp)
  have A0: "0 < A"
  proof -
    have "0 < A / ?d" using q by (rule less_trans [rotated]) simp
    then show ?thesis using d0 by (simp add: zero_less_divide_iff)
  qed
  have s1: "s \<le> ?t * c * ?k" unfolding s_def by (rule upper [OF tc]) simp
  have t1: "?t \<le> A / ?d * ?k" by (rule upper [OF q]) simp
  have s2: "s \<le> A / ?d * c * ?k ^ 2"
  proof -
    have "?t * c * ?k \<le> A / ?d * ?k * c * ?k" using t1 c(1) by (intro mult_right_mono) auto
    then show ?thesis using s1 by (simp add: power2_eq_square mult_ac)
  qed
  then show "A / ?d * c * ?k ^ 2 \<ge> s" .
  have "R (?y * m) \<le> ?y * m * ?k" by (rule upper [OF ym]) simp
  also have "\<dots> \<le> (s * p * ?k) * m * ?k"
    using upper [OF sp] m0 by (intro mult_right_mono) auto
  also have "\<dots> = s * (p * m * ?k ^ 2)" by (simp add: power2_eq_square mult_ac)
  also have "\<dots> \<le> (A / ?d * c * ?k ^ 2) * (p * m * ?k ^ 2)"
    using s2 pm0 by (intro mult_right_mono) auto
  also have "\<dots> = A * (c * ?k ^ 4) * (p * m / ?d)" by (simp add: field_simps flip: power_add)
  also have "\<dots> \<le> A * (c * ?k ^ 4) * (1 / (1 - 1 / 2 ^ 53))"
    using d d0 A0 c(1) by (intro mult_left_mono) (auto simp: field_simps)
  also have "\<dots> \<le> A * 1" using clamp_factor [OF c] A0 by (metis mult.assoc mult_left_mono less_imp_le)
  finally show "R (?y * m) \<le> A" by simp
qed

lemma clamp_shrinks:
  fixes A p m c q :: rat
  defines "s \<equiv> R (R (A / R (p * m)) * c)"
  assumes p: "2 powi - 500 \<le> p" "p \<le> 2 powi 500" and m: "1 \<le> m" "m \<le> 2 powi 100"
    and c: "0 \<le> c" "c \<le> 1 - 9 / 10 ^ 13"
    and n: "1 \<le> R (R (s * p) * m)" and q: "A < R (R (q * p) * m)" "0 \<le> q"
  shows "s \<le> q"
proof -
  let ?k = "1 + 1 / 2 ^ 53 :: rat" and ?d = "R (p * m)"
  note cl = clamp_affordable [OF p m c n [unfolded s_def], folded s_def]
  have p0: "0 < p" using p(1) by (rule less_le_trans [rotated]) simp
  have m0: "0 < m" using m by simp
  have pm0: "0 < p * m" using p0 m0 by simp
  have d: "p * m * (1 - 1 / 2 ^ 53) \<le> ?d" by (rule lower [OF price_normal [OF p(1) m(1)]]) simp
  have d0: "0 < ?d" by (rule less_le_trans [OF _ d]) (use pm0 in simp)
  have n1: "2 powi - 1 < R (R (q * p) * m)" using n cl(1) q by (simp add: power_int_minus)
  have ym: "2 powi - 1 < R (q * p) * m" by (rule above [OF n1]) simp
  have y: "2 powi - 101 < R (q * p)" using above_mult [OF ym _ m(2)] m0 by simp
  have qp: "2 powi - 101 < q * p" by (rule above [OF y]) simp
  have "A \<le> R (q * p) * m * ?k" using q(1) upper [OF ym] by simp
  also have "\<dots> \<le> (q * p * ?k) * m * ?k" using upper [OF qp] m0 by (intro mult_right_mono) auto
  finally have A: "A \<le> q * (p * m) * ?k ^ 2" by (simp add: power2_eq_square mult_ac)
  have "s \<le> A / ?d * c * ?k ^ 2" by (rule cl(3))
  also have "\<dots> = A * (c * ?k ^ 2 / ?d)" by simp
  also have "\<dots> \<le> q * (p * m) * ?k ^ 2 * (c * ?k ^ 2 / ?d)" using A c(1) d0 by (intro mult_right_mono) auto
  also have "\<dots> = q * (c * ?k ^ 4) * (p * m / ?d)" by (simp add: field_simps flip: power_add)
  also have "\<dots> \<le> q * (c * ?k ^ 4) * (1 / (1 - 1 / 2 ^ 53))"
    using d d0 q(2) c(1) by (intro mult_left_mono) (auto simp: field_simps)
  also have "\<dots> \<le> q * 1" using clamp_factor [OF c] q(2) by (metis mult.assoc mult_left_mono)
  finally show ?thesis by simp
qed

end

interpretation ieee: nearest_rounding rr
proof
  show "x \<le> y \<Longrightarrow> rr x \<le> rr y" for x y by (rule rr_mono)
  show "- 1022 \<le> k \<Longrightarrow> rr (2 powi k) = 2 powi k" for k by (rule rr_powi) simp
  show "\<bar>rr x - x\<bar> \<le> x / 2 ^ 53" if "2 powi - 1022 \<le> x" for x
  proof -
    have "0 \<le> x" using that by (rule order.trans [rotated]) (rule less_imp_le, rule zero_less_power_int, rule zero_less_numeral)
    then have "\<bar>x\<bar> = x" by (rule abs_of_nonneg)
    then show ?thesis using rr_rel_error [of x] that by metis
  qed
qed


section \<open>Integer evaluation of the rounding\<close>

text \<open>The code equation of \<open>rr\<close>: one integer division instead of rational arithmetic.\<close>

definition rdiv :: "int \<Rightarrow> int \<Rightarrow> int" where
  "rdiv n d = (let q = n div d; r = n mod d
               in if 2 * r < d then q else if d < 2 * r then q + 1 else if even q then q else q + 1)"

lemma rne_rdiv:
  assumes "0 < d"
  shows "rne (of_int n / of_int d) = rdiv n d"
proof -
  have f: "\<lfloor>of_int n / of_int d :: rat\<rfloor> = n div d" by (rule floor_divide_of_int_eq)
  have "(of_int n :: rat) = of_int (n div d * d + n mod d)" by (simp only: div_mult_mod_eq)
  then have "(of_int n :: rat) = of_int (n div d) * of_int d + of_int (n mod d)"
    by (simp only: of_int_add of_int_mult)
  then have r: "of_int n / of_int d - of_int (n div d) = (of_int (n mod d) / of_int d :: rat)"
    using assms by (simp add: add_divide_distrib)
  have a: "of_int (n mod d) / of_int d < (1 / 2 :: rat) \<longleftrightarrow> 2 * (n mod d) < d"
    "(1 / 2 :: rat) < of_int (n mod d) / of_int d \<longleftrightarrow> d < 2 * (n mod d)"
  proof -
    have i: "(of_int (2 * (n mod d)) :: rat) < of_int d \<longleftrightarrow> 2 * (n mod d) < d"
      "(of_int d :: rat) < of_int (2 * (n mod d)) \<longleftrightarrow> d < 2 * (n mod d)" by (rule of_int_less_iff)+
    have p: "0 < (of_int d :: rat)" using assms by simp
    show "of_int (n mod d) / of_int d < (1 / 2 :: rat) \<longleftrightarrow> 2 * (n mod d) < d"
      using p unfolding i(1) [symmetric] by (simp add: divide_less_eq mult.commute)
    show "(1 / 2 :: rat) < of_int (n mod d) / of_int d \<longleftrightarrow> d < 2 * (n mod d)"
      using p unfolding i(2) [symmetric] by (simp add: less_divide_eq mult.commute)
  qed
  show ?thesis unfolding rne_def rdiv_def Let_def f r a by (rule refl)
qed

definition scaled :: "int \<Rightarrow> int \<Rightarrow> int \<Rightarrow> int \<times> int" where
  "scaled n d e = (if e < 0 then (n * 2 ^ nat (- e), d) else (n, d * 2 ^ nat e))"

lemma rr_code [code]:
  "rr x = (let (n, d) = quotient_of x; e = ulp_exp x; (a, b) = scaled n d e; m = rdiv a b
           in if n = 0 then 0 else if e < 0 then Fract m (2 ^ nat (- e)) else of_int (m * 2 ^ nat e))"
proof -
  obtain n d where nd: "quotient_of x = (n, d)" by fastforce
  have x: "x = of_int n / of_int d" and d: "0 < d"
    using quotient_of_div [OF nd] quotient_of_denom_pos [OF nd] .
  define e where "e = ulp_exp x"
  obtain a b where ab: "scaled n d e = (a, b)" by fastforce
  have b: "0 < b" using ab d by (auto simp: scaled_def split: if_splits)
  have q: "x / 2 powi e = of_int a / of_int b"
    using ab d by (auto simp: x scaled_def power_int_def field_simps split: if_splits)
  have "rr x = (if x = 0 then 0 else of_int (rdiv a b) * 2 powi e)"
    unfolding rr_def e_def [symmetric] q rne_rdiv [OF b] by (rule refl)
  moreover have "x = 0 \<longleftrightarrow> n = 0" using x d by simp
  moreover have "of_int m * 2 powi e = (if e < 0 then Fract m (2 ^ nat (- e)) else of_int (m * 2 ^ nat e))" for m
    by (auto simp: power_int_def Fract_of_int_quotient field_simps)
  ultimately show ?thesis unfolding nd e_def [symmetric] Let_def split_beta ab fst_conv snd_conv by simp
qed

lemma ilog2_quotient:
  assumes "quotient_of v = (n, d)" "bitlen \<bar>n\<bar> - bitlen d < 1024"
  shows "ilog2 v < 1024"
proof -
  have "quotient_of \<bar>v\<bar> = (\<bar>n\<bar>, d)" using assms(1) by (simp add: rat_abs_code)
  then show ?thesis using assms(2) by (simp add: ilog2_def Let_def)
qed

lemma rnd_code [code]:
  "rnd x = (let v = rr x; (n, d) = quotient_of v
            in if bitlen \<bar>n\<bar> - bitlen d < 1024 then Fin v
               else if v \<noteq> 0 \<and> 1024 \<le> ilog2 v then (if 0 < v then PInf else NInf) else Fin v)"
proof -
  obtain n d where nd: "quotient_of (rr x) = (n, d)" by fastforce
  then show ?thesis using ilog2_quotient [OF nd] by (auto simp: rnd_def Let_def)
qed

end
