(* ===== verification/MoneyInputs.thy ===== *)
theory MoneyInputs
  imports Float64
begin

text \<open>
  The numeric boundary of \<open>src/sim/money_inputs.py\<close>: which Python values are accepted as
  money or quantity, and the refusal reason of a retained order.
\<close>

section \<open>Python values at the boundary\<close>

text \<open>The values a caller can pass where the source takes an untyped argument. \<open>numbers.Real\<close>
  holds of \<open>bool\<close>, \<open>int\<close> and \<open>float\<close>.\<close>

datatype pyval = PNone | PBool bool | PInt int | PFloat float64 | PStr string

definition is_real :: "pyval \<Rightarrow> bool" where
  "is_real v = (case v of PBool _ \<Rightarrow> True | PInt _ \<Rightarrow> True | PFloat _ \<Rightarrow> True | _ \<Rightarrow> False)"

definition is_bool :: "pyval \<Rightarrow> bool" where
  "is_bool v = (case v of PBool _ \<Rightarrow> True | _ \<Rightarrow> False)"

text \<open>\<open>float(value)\<close> on a real number; an \<open>int\<close> beyond the range overflows.\<close>

definition py_float :: "pyval \<Rightarrow> float64 outcome" where
  "py_float v = (case v of
     PBool b \<Rightarrow> Inr (Fin (if b then 1 else 0))
   | PInt n \<Rightarrow> of_pyint n
   | PFloat x \<Rightarrow> Inr x
   | _ \<Rightarrow> Inl (TypeError ''float''))"

definition finite_number :: "pyval \<Rightarrow> string \<Rightarrow> bool \<Rightarrow> bool \<Rightarrow> float64 outcome" where
  "finite_number value name positive nonnegative =
     (if is_bool value \<or> \<not> is_real value
      then Inl (ValueError (name @ '' must be a finite number''))
      else case py_float value of
        Inl _ \<Rightarrow> Inl (ValueError (name @ '' must be finite''))
      | Inr number \<Rightarrow>
          if \<not> isfinite number then Inl (ValueError (name @ '' must be finite''))
          else if positive \<and> fle number (Fin 0) then Inl (ValueError (name @ '' must be positive''))
          else if nonnegative \<and> flt number (Fin 0) then Inl (ValueError (name @ '' must be non-negative''))
          else Inr number)"

text \<open>The message of a ValueError, which \<open>order_refusal\<close> quotes.\<close>

definition exc_text :: "exc \<Rightarrow> string" where
  "exc_text e = (case e of ValueError m \<Rightarrow> m | _ \<Rightarrow> [])"

fun first_price_error :: "(string \<times> pyval) list \<Rightarrow> exc option" where
  "first_price_error [] = None"
| "first_price_error ((name, value) # prices) =
     (if value = PNone then first_price_error prices
      else case finite_number value name True False of
             Inl e \<Rightarrow> Some e
           | Inr _ \<Rightarrow> first_price_error prices)"

definition order_refusal ::
    "string \<Rightarrow> pyval \<Rightarrow> string list \<Rightarrow> (string \<times> pyval) list \<Rightarrow> string option" where
  "order_refusal side qty sides prices =
     (if side \<notin> set sides then Some ''invalid_order: side''
      else case finite_number qty ''quantity'' True False of
             Inl e \<Rightarrow> Some (''invalid_order: '' @ exc_text e)
           | Inr _ \<Rightarrow> map_option (\<lambda>e. ''invalid_order: '' @ exc_text e) (first_price_error prices))"

definition default_sides :: "string list" where
  "default_sides = [''buy'', ''sell'', ''short'', ''cover'']"

section \<open>Lemmas\<close>

lemma of_pyint_Inr: "of_pyint n = Inr x \<Longrightarrow> isfinite x \<and> is64 x"
  using is64_rnd [of "of_int n"] by (cases "rnd (of_int n)") (auto simp: of_pyint_def)

lemma finite_number_Inr:
  assumes "finite_number v name p nn = Inr x"
  obtains a where "x = Fin a" "p \<longrightarrow> 0 < a" "nn \<longrightarrow> 0 \<le> a" "py_float v = Inr x"
  using assms
  by (cases x) (auto simp: finite_number_def isfinite_def not_le not_less split: if_splits sum.splits)

lemma finite_number_float_iff:
  "finite_number (PFloat x) name p nn = Inr y \<longleftrightarrow> (\<exists>a. x = Fin a \<and> y = Fin a \<and> (p \<longrightarrow> 0 < a) \<and> (nn \<longrightarrow> 0 \<le> a))"
  by (cases x) (auto simp: finite_number_def is_bool_def is_real_def py_float_def isfinite_def)

lemma finite_number_is64:
  assumes "finite_number v name p nn = Inr x" "\<And>y. v = PFloat y \<Longrightarrow> is64 y"
  shows "is64 x"
  using assms of_pyint_Inr
  by (cases v) (auto simp: finite_number_def py_float_def is_bool_def is_real_def split: if_splits sum.splits)

lemma first_price_error_None:
  "first_price_error prices = None \<longleftrightarrow>
     (\<forall>(name, v)\<in>set prices. v \<noteq> PNone \<longrightarrow> (\<exists>a. py_float v = Inr (Fin a) \<and> 0 < a \<and> \<not> is_bool v))"
proof (induction prices rule: first_price_error.induct)
  case (2 name v prices)
  have "v \<noteq> PNone \<Longrightarrow> (\<exists>x. finite_number v name True False = Inr x) \<longleftrightarrow>
      (\<exists>a. py_float v = Inr (Fin a) \<and> 0 < a \<and> \<not> is_bool v)"
    by (cases v; auto simp: finite_number_def py_float_def is_real_def is_bool_def isfinite_def not_le
        split: if_splits sum.splits float64.splits)
  with 2 show ?case by (cases "v = PNone"; cases "finite_number v name True False") auto
qed simp

end
