(* ===== verification/Bars.thy ===== *)
theory Bars
  imports OrderTypes MoneyInputs "HOL-Library.List_Lexorder" "HOL-Library.Char_ord"
begin

text \<open>
  Price bars: the scalar admission rule of \<open>src/engine/lib/data_quality.py\<close>
  (\<open>price_bar_reasons\<close>, \<open>trusted_bar\<close> and its SQL counterpart) and the point-in-time
  readers of \<open>src/sim/bar_sources.py\<close>. A table is its column set and its rows, and each
  SELECT is the list function its clauses denote. DuckDB's \<open>MEDIAN\<close> and \<open>SUM\<close>, the platform's
  \<open>math.pow\<close> and the time zone form the parameter \<open>env\<close>.
\<close>

record env = tz +
  sql_median :: "float64 list \<Rightarrow> float64"
  sql_sum :: "float64 list \<Rightarrow> float64"
  math_pow :: "float64 \<Rightarrow> float64 \<Rightarrow> float64 outcome"

section \<open>Admission of one bar\<close>

text \<open>A numeric cell of a row.\<close>

datatype cell = Null | BigInt int | Double float64

definition cell_float :: "cell \<Rightarrow> float64 option" where
  "cell_float c = (case c of
     Null \<Rightarrow> None
   | BigInt n \<Rightarrow> (case of_pyint n of Inr x \<Rightarrow> Some x | Inl _ \<Rightarrow> None)
   | Double x \<Rightarrow> Some x)"

definition ohlc_fault :: "string \<Rightarrow> cell \<Rightarrow> string + float64" where
  "ohlc_fault field c =
     (if c = Null then Inl (field @ ''_null'')
      else case cell_float c of
        None \<Rightarrow> Inl (field @ ''_nonfinite'')
      | Some number \<Rightarrow>
          if \<not> isfinite number then Inl (field @ ''_nonfinite'')
          else if fle number (Fin 0) then Inl (field @ ''_nonpositive'')
          else Inr number)"

text \<open>\<open>int(volume)\<close> truncates towards zero and raises on a NULL, a NaN or an infinity.\<close>

definition truncate_rat :: "rat \<Rightarrow> int" where
  "truncate_rat v = (if 0 \<le> v then \<lfloor>v\<rfloor> else \<lceil>v\<rceil>)"

definition volume_faults :: "cell \<Rightarrow> string list" where
  "volume_faults c = (case c of
     Null \<Rightarrow> [''volume_unrepresentable'']
   | BigInt n \<Rightarrow> (if n < 0 then [''volume_negative'']
                  else if 2 ^ 63 - 1 < n then [''volume_unrepresentable''] else [])
   | Double x \<Rightarrow> (case x of
        Fin v \<Rightarrow> (let n = truncate_rat v in
                  if n < 0 then [''volume_negative'']
                  else if 2 ^ 63 - 1 < n \<or> of_int n \<noteq> v then [''volume_unrepresentable''] else [])
      | _ \<Rightarrow> [''volume_unrepresentable'']))"

record bar =
  b_open :: cell
  b_high :: cell
  b_low :: cell
  b_close :: cell
  b_volume :: cell

definition sum_left :: "'a + 'b \<Rightarrow> 'a list" where
  "sum_left x = (case x of Inl a \<Rightarrow> [a] | Inr _ \<Rightarrow> [])"

definition geometry_faults :: "float64 \<Rightarrow> float64 \<Rightarrow> float64 \<Rightarrow> float64 \<Rightarrow> string list" where
  "geometry_faults op h l c =
     (if flt h (fmax (fmax op c) l) then [''high_geometry''] else []) @
     (if flt (fmin (fmin op c) h) l then [''low_geometry''] else [])"

definition price_bar_reasons :: "bar \<Rightarrow> bool \<Rightarrow> string list" where
  "price_bar_reasons b check_volume =
     (let op = ohlc_fault ''open'' (b_open b); h = ohlc_fault ''high'' (b_high b);
          l = ohlc_fault ''low'' (b_low b); c = ohlc_fault ''close'' (b_close b)
      in sum_left op @ sum_left h @ sum_left l @ sum_left c @
         (case (op, h, l, c) of
            (Inr ov, Inr hv, Inr lv, Inr cv) \<Rightarrow> geometry_faults ov hv lv cv
          | _ \<Rightarrow> []) @
         (if check_volume then volume_faults (b_volume b) else []))"

definition cell_positive :: "cell \<Rightarrow> bool" where
  "cell_positive c = (case c of Null \<Rightarrow> False | BigInt n \<Rightarrow> 0 < n | Double x \<Rightarrow> flt (Fin 0) x)"

text \<open>The source passes the five values of a fetched row, or None when there is no row.\<close>

definition trusted_bar :: "bar option \<Rightarrow> bool" where
  "trusted_bar values = (case values of
     None \<Rightarrow> False
   | Some b \<Rightarrow> price_bar_reasons b True = [] \<and> cell_positive (b_volume b))"

text \<open>The SQL predicate: a NULL operand makes it not true, and DuckDB compares a DOUBLE with the
  BIGINT bound after widening the bound to a DOUBLE.\<close>

definition sql_price :: "cell \<Rightarrow> float64 option" where
  "sql_price c = (case cell_float c of
     Some x \<Rightarrow> (if isfinite x \<and> flt (Fin 0) x then Some x else None) | None \<Rightarrow> None)"

definition sql_volume_ok :: "cell \<Rightarrow> bool" where
  "sql_volume_ok c = (case c of
     Null \<Rightarrow> False
   | BigInt n \<Rightarrow> 0 \<le> n \<and> n \<le> 2 ^ 63 - 1
   | Double x \<Rightarrow> (case x of Fin v \<Rightarrow> 0 \<le> v \<and> v = of_int (truncate_rat v) \<and> fle x (rnd (2 ^ 63 - 1))
                 | _ \<Rightarrow> False))"

definition price_bar_sql :: "bar \<Rightarrow> bool" where
  "price_bar_sql b =
     (case (sql_price (b_open b), sql_price (b_high b), sql_price (b_low b), sql_price (b_close b)) of
        (Some op, Some h, Some l, Some c) \<Rightarrow>
          sql_volume_ok (b_volume b) \<and> fle op h \<and> fle c h \<and> fle l h \<and> fle l op \<and> fle l c
      | _ \<Rightarrow> False)"

definition trusted_bar_sql :: "bar \<Rightarrow> bool" where
  "trusted_bar_sql b \<longleftrightarrow> price_bar_sql b \<and> cell_positive (b_volume b)"

section \<open>Tables and bars\<close>

record daily_row =
  dr_ticker :: string
  dr_date :: date
  dr_bar :: bar
  dr_vwap :: cell
  dr_first_fetched_at :: "datetime option"
  dr_fetched_at :: "datetime option"
  dr_source_sha256 :: string

record daily_table =
  d_columns :: "string list"
  d_rows :: "daily_row list"

record minute_row =
  mr_ticker :: string
  mr_ts :: datetime
  mr_bar :: bar
  mr_vwap :: cell
  mr_interval :: "string option"
  mr_fetched_at :: "datetime option"
  mr_as_of :: "date option"

record minute_table =
  m_columns :: "string list"
  m_rows :: "minute_row list"

record market_db =
  prices :: daily_table
  free_daily_bars :: daily_table
  intraday_prices :: minute_table
  massive_minute_bars :: minute_table

datatype bar_reference = DailyRef string string date | MinuteRef string string datetime

record DailyBar =
  db_ticker :: string
  db_session_date :: date
  db_open :: float64
  db_high :: float64
  db_low :: float64
  db_close :: float64
  db_volume :: float64
  db_vwap :: "float64 option"
  db_source :: string
  db_bar_ref :: bar_reference

record MinuteBar =
  mb_ticker :: string
  mb_ts :: datetime
  mb_open :: float64
  mb_high :: float64
  mb_low :: float64
  mb_close :: float64
  mb_volume :: float64
  mb_vwap :: "float64 option"
  mb_source :: string
  mb_bar_ref :: bar_reference

definition naive_utc :: "stamp \<Rightarrow> datetime" where
  "naive_utc v = (case v of Naive t \<Rightarrow> t | Aware t _ \<Rightarrow> t)"

text \<open>\<open>value.date()\<close> is the date on the value's own clock.\<close>

definition stamp_date :: "stamp \<Rightarrow> date" where
  "stamp_date v = (case v of Naive t \<Rightarrow> date_of t | Aware t off \<Rightarrow> date_of (t + off))"

definition session_bounds :: "'e tz_scheme \<Rightarrow> date \<Rightarrow> datetime \<times> datetime" where
  "session_bounds z session_date =
     (ny_to_utc z (combine session_date MARKET_OPEN), ny_to_utc z (session_close session_date))"

section \<open>Daily readers\<close>

text \<open>The table of a daily source, with the names of its price columns.\<close>

definition daily_source :: "market_db \<Rightarrow> string \<Rightarrow> (daily_table \<times> string list) outcome" where
  "daily_source db source =
     (if source = ''prices'' then Inr (prices db, [''open'', ''high'', ''low'', ''close'', ''volume''])
      else if source = ''massive_daily''
      then Inr (free_daily_bars db, [''o'', ''h'', ''l'', ''c'', ''volume''])
      else Inl (ValueError ''unknown daily bar source''))"

text \<open>The availability clause: the first of the two stamp columns the table has, not NULL and not
  after the cutoff.\<close>

definition stamp_admits :: "string list \<Rightarrow> stamp option \<Rightarrow> daily_row \<Rightarrow> bool" where
  "stamp_admits columns available_at row = (case available_at of
     None \<Rightarrow> True
   | Some a \<Rightarrow>
       let limit = (\<lambda>s. case s of None \<Rightarrow> False | Some t \<Rightarrow> t \<le> naive_utc a)
       in if ''first_fetched_at'' \<in> set columns then limit (dr_first_fetched_at row)
          else if ''fetched_at'' \<in> set columns then limit (dr_fetched_at row)
          else True)"

text \<open>\<open>ORDER BY fetched_at DESC, source_sha256 DESC\<close>, NULLs last.\<close>

definition newer :: "daily_row \<Rightarrow> daily_row \<Rightarrow> bool" where
  "newer r s = (case (dr_fetched_at r, dr_fetched_at s) of
     (Some a, Some b) \<Rightarrow> b < a \<or> (a = b \<and> dr_source_sha256 s < dr_source_sha256 r)
   | (Some _, None) \<Rightarrow> True
   | (None, Some _) \<Rightarrow> False
   | (None, None) \<Rightarrow> dr_source_sha256 s < dr_source_sha256 r)"

definition first_by :: "('a \<Rightarrow> 'a \<Rightarrow> bool) \<Rightarrow> 'a list \<Rightarrow> 'a option" where
  "first_by before rows = (case rows of [] \<Rightarrow> None
     | r # rs \<Rightarrow> Some (fold (\<lambda>s best. if before s best then s else best) rs r))"

definition canonical :: "string \<Rightarrow> daily_row list \<Rightarrow> daily_row list" where
  "canonical source rows =
     (if source = ''massive_daily''
      then List.map_filter (\<lambda>d. first_by newer (filter (\<lambda>r. dr_date r = d) rows)) (remdups (map dr_date rows))
      else rows)"

definition bar_floats :: "bar \<Rightarrow> (float64 \<times> float64 \<times> float64 \<times> float64 \<times> float64) option" where
  "bar_floats b =
     (case (cell_float (b_open b), cell_float (b_high b), cell_float (b_low b), cell_float (b_close b),
            cell_float (b_volume b)) of
        (Some op, Some h, Some l, Some c, Some v) \<Rightarrow> Some (op, h, l, c, v)
      | _ \<Rightarrow> None)"

text \<open>The five values of a row, read as floats, when none is NULL and the bar is trusted.\<close>

definition admitted :: "bar \<Rightarrow> (float64 \<times> float64 \<times> float64 \<times> float64 \<times> float64) option" where
  "admitted b = (case bar_floats b of
     None \<Rightarrow> None
   | Some (op, h, l, c, v) \<Rightarrow>
       if trusted_bar (Some \<lparr>b_open = Double op, b_high = Double h, b_low = Double l,
                             b_close = Double c, b_volume = Double v\<rparr>)
       then Some (op, h, l, c, v) else None)"

definition daily_bar :: "market_db \<Rightarrow> string \<Rightarrow> date \<Rightarrow> string \<Rightarrow> stamp option \<Rightarrow> DailyBar option outcome" where
  "daily_bar db ticker session_date source available_at =
     bindE (daily_source db source) (\<lambda>(table, names).
     if \<not> set ([''ticker'', ''date''] @ names) \<subseteq> set (d_columns table) then Inr None
     else
       (let rows = filter (\<lambda>r. dr_ticker r = ticker \<and> dr_date r = session_date \<and>
                               stamp_admits (d_columns table) available_at r) (d_rows table);
            row = (if source = ''massive_daily'' then first_by newer rows else first_by (\<lambda>_ _. False) rows)
        in case row of
             None \<Rightarrow> Inr None
           | Some r \<Rightarrow>
               (case admitted (dr_bar r) of
                  None \<Rightarrow> Inr None
                | Some (op, h, l, c, v) \<Rightarrow>
                    Inr (Some \<lparr>db_ticker = ticker, db_session_date = session_date, db_open = op,
                      db_high = h, db_low = l, db_close = c, db_volume = v,
                      db_vwap = (if source = ''massive_daily'' \<and> ''vwap'' \<in> set (d_columns table)
                                 then cell_float (dr_vwap r) else None),
                      db_source = source, db_bar_ref = DailyRef source ticker session_date\<rparr>))))"

definition latest_close_observation ::
    "market_db \<Rightarrow> string \<Rightarrow> date \<Rightarrow> string \<Rightarrow> stamp option \<Rightarrow> bool \<Rightarrow> (date \<times> float64) option outcome" where
  "latest_close_observation db ticker on_or_before source available_at strictly_before =
     bindE (daily_source db source) (\<lambda>(table, names).
     if d_columns table = [] \<or> \<not> set names \<subseteq> set (d_columns table) then Inr None
     else
       (let rows = filter (\<lambda>r. dr_ticker r = ticker \<and>
                      (if strictly_before then dr_date r < on_or_before else dr_date r \<le> on_or_before) \<and>
                      stamp_admits (d_columns table) available_at r) (d_rows table);
            trusted = filter (\<lambda>r. trusted_bar_sql (dr_bar r)) (canonical source rows)
        in case first_by (\<lambda>r s. dr_date s < dr_date r) trusted of
             None \<Rightarrow> Inr None
           | Some r \<Rightarrow> Inr (map_option (\<lambda>c. (dr_date r, c)) (cell_float (b_close (dr_bar r))))))"

definition latest_close ::
    "market_db \<Rightarrow> string \<Rightarrow> date \<Rightarrow> string \<Rightarrow> stamp option \<Rightarrow> bool \<Rightarrow> float64 option outcome" where
  "latest_close db ticker on_or_before source available_at strictly_before =
     bindE (latest_close_observation db ticker on_or_before source available_at strictly_before)
       (\<lambda>observation. Inr (map_option snd observation))"

text \<open>\<open>MEDIAN(close*volume)\<close> over the last \<open>bars\<close> rows before a date; a NULL product is ignored and
  no product gives NULL.\<close>

definition dollar_volume :: "daily_row \<Rightarrow> float64 option" where
  "dollar_volume r = (case (cell_float (b_close (dr_bar r)), cell_float (b_volume (dr_bar r))) of
     (Some c, Some v) \<Rightarrow> Some (fmul c v) | _ \<Rightarrow> None)"

definition sql_median_of :: "'e env_scheme \<Rightarrow> daily_row list \<Rightarrow> nat \<Rightarrow> float64 option" where
  "sql_median_of e rows bars =
     (let products = List.map_filter dollar_volume (take bars (rev (sort_key dr_date rows)))
      in if products = [] then None else Some (sql_median e products))"

definition median_dollar_volume ::
    "'e env_scheme \<Rightarrow> market_db \<Rightarrow> string \<Rightarrow> date \<Rightarrow> string \<Rightarrow> nat \<Rightarrow> stamp option \<Rightarrow> float64 option outcome" where
  "median_dollar_volume e db ticker as_of source bars available_at =
     bindE (daily_source db source) (\<lambda>(table, names).
     if d_columns table = [] then Inr None
     else Inr (sql_median_of e (canonical source
            (filter (\<lambda>r. dr_ticker r = ticker \<and> dr_date r < as_of \<and>
                         stamp_admits (d_columns table) available_at r) (d_rows table))) bars))"

section \<open>Minute readers\<close>

definition minute_source :: "market_db \<Rightarrow> string \<Rightarrow> (minute_table \<times> string list \<times> string option) outcome" where
  "minute_source db source =
     (if source = ''intraday_prices''
      then Inr (intraday_prices db, [''ts'', ''open'', ''high'', ''low'', ''close'', ''volume''], None)
      else if source = ''massive_minute''
      then Inr (massive_minute_bars db, [''ts_utc'', ''o'', ''h'', ''l'', ''c'', ''v''], Some ''vw'')
      else Inl (ValueError ''unknown minute bar source''))"

definition minute_admits :: "string \<Rightarrow> string list \<Rightarrow> stamp option \<Rightarrow> minute_row \<Rightarrow> bool" where
  "minute_admits source columns available_at row \<longleftrightarrow>
     (source = ''intraday_prices'' \<and> ''interval'' \<in> set columns \<longrightarrow> mr_interval row = Some ''1m'') \<and>
     (case available_at of
        None \<Rightarrow> True
      | Some a \<Rightarrow>
          if ''fetched_at'' \<in> set columns
          then (case mr_fetched_at row of None \<Rightarrow> False | Some t \<Rightarrow> t \<le> naive_utc a)
          else if ''as_of'' \<in> set columns
          then (case mr_as_of row of None \<Rightarrow> False | Some d \<Rightarrow> d \<le> stamp_date a)
          else True)"

definition minute_bar_of :: "string \<Rightarrow> string \<Rightarrow> bool \<Rightarrow> minute_row \<Rightarrow> MinuteBar option" where
  "minute_bar_of ticker source has_vwap r = (case admitted (mr_bar r) of
     None \<Rightarrow> None
   | Some (op, h, l, c, v) \<Rightarrow>
       Some \<lparr>mb_ticker = ticker, mb_ts = mr_ts r, mb_open = op, mb_high = h, mb_low = l,
             mb_close = c, mb_volume = v, mb_vwap = (if has_vwap then cell_float (mr_vwap r) else None),
             mb_source = source, mb_bar_ref = MinuteRef source ticker (mr_ts r)\<rparr>)"

definition minute_bars ::
    "'e tz_scheme \<Rightarrow> market_db \<Rightarrow> string \<Rightarrow> date \<Rightarrow> string \<Rightarrow> stamp option \<Rightarrow> MinuteBar list outcome" where
  "minute_bars z db ticker session_date source available_at =
     bindE (minute_source db source) (\<lambda>(table, names, vwap_col).
     if \<not> set (''ticker'' # names) \<subseteq> set (m_columns table) then Inr []
     else
       (let (opened, closed) = session_bounds z session_date;
            rows = filter (\<lambda>r. mr_ticker r = ticker \<and> opened \<le> mr_ts r \<and> mr_ts r < closed \<and>
                               minute_admits source (m_columns table) available_at r) (m_rows table);
            has_vwap = (case vwap_col of None \<Rightarrow> False | Some c \<Rightarrow> c \<in> set (m_columns table))
        in Inr (List.map_filter (minute_bar_of ticker source has_vwap) (sort_key mr_ts rows))))"

definition minute_session_complete ::
    "'e tz_scheme \<Rightarrow> market_db \<Rightarrow> string \<Rightarrow> date \<Rightarrow> string \<Rightarrow> stamp option \<Rightarrow> bool outcome" where
  "minute_session_complete z db ticker session_date source available_at =
     bindE (minute_bars z db ticker session_date source available_at) (\<lambda>bars.
     Inr (bars \<noteq> [] \<and> snd (session_bounds z session_date) - minute \<le> mb_ts (last bars)))"


section \<open>Laws of the admission rule\<close>

lemma cell_float_Null [simp]: "cell_float Null = None"
  by (simp add: cell_float_def)

lemma ohlc_fault_Inr:
  "ohlc_fault f c = Inr x \<longleftrightarrow> cell_float c = Some x \<and> isfinite x \<and> flt (Fin 0) x"
proof (cases "cell_float c")
  case (Some y)
  then show ?thesis
    by (cases y; cases c) (auto simp: ohlc_fault_def isfinite_def)
qed (auto simp: ohlc_fault_def)

lemma sql_price_ohlc: "sql_price c = Some x \<longleftrightarrow> ohlc_fault f c = Inr x"
  by (auto simp: sql_price_def ohlc_fault_Inr split: option.splits if_splits)

lemma sum_left_Nil: "sum_left x = [] \<longleftrightarrow> (\<exists>y. x = Inr y)"
  by (cases x) (auto simp: sum_left_def)

lemma price_bar_reasons_Nil:
  "price_bar_reasons b cv = [] \<longleftrightarrow>
     (\<exists>op h l c. ohlc_fault ''open'' (b_open b) = Inr op \<and> ohlc_fault ''high'' (b_high b) = Inr h \<and>
        ohlc_fault ''low'' (b_low b) = Inr l \<and> ohlc_fault ''close'' (b_close b) = Inr c \<and>
        geometry_faults op h l c = []) \<and> (cv \<longrightarrow> volume_faults (b_volume b) = [])"
  by (auto simp: price_bar_reasons_def Let_def sum_left_Nil)

lemma geometry_ok:
  assumes "isfinite op" "isfinite h" "isfinite l" "isfinite c"
  shows "geometry_faults op h l c = [] \<longleftrightarrow> fle op h \<and> fle c h \<and> fle l h \<and> fle l op \<and> fle l c"
  using assms
  by (elim isfiniteE) (auto simp: geometry_faults_def fmax_def fmin_def)

lemma volume_ok_iff:
  "volume_faults c = [] \<and> cell_positive c \<longleftrightarrow>
     (\<exists>n. 0 < n \<and> n \<le> 2 ^ 63 - 1 \<and> (c = BigInt n \<or> c = Double (Fin (of_int n))))"
proof (cases c)
  case (Double x)
  show ?thesis
  proof (cases x)
    case (Fin v)
    have t: "truncate_rat (of_int n) = n" for n by (simp add: truncate_rat_def)
    have "volume_faults c = [] \<and> cell_positive c \<longleftrightarrow>
        of_int (truncate_rat v) = v \<and> 0 < v \<and> truncate_rat v \<le> 2 ^ 63 - 1"
      using Double Fin by (auto simp: volume_faults_def cell_positive_def Let_def truncate_rat_def)
    also have "\<dots> \<longleftrightarrow> (\<exists>n. v = of_int n \<and> 0 < n \<and> n \<le> 2 ^ 63 - 1)"
      using t by (metis of_int_0_less_iff)
    finally show ?thesis using Double Fin by auto
  qed (auto simp: Double volume_faults_def)
qed (auto simp: volume_faults_def cell_positive_def)

text \<open>The trusted bars, as a predicate on their values.\<close>

definition bar_ok :: "float64 \<Rightarrow> float64 \<Rightarrow> float64 \<Rightarrow> float64 \<Rightarrow> bool" where
  "bar_ok op h l c \<longleftrightarrow> isfinite op \<and> isfinite h \<and> isfinite l \<and> isfinite c \<and> flt (Fin 0) l \<and>
     fle l op \<and> fle op h \<and> fle l c \<and> fle c h"

lemma bar_ok_positive: "bar_ok op h l c \<Longrightarrow> flt (Fin 0) op \<and> flt (Fin 0) h \<and> flt (Fin 0) c \<and> fle l h"
  unfolding bar_ok_def by (elim conjE isfiniteE) auto

lemma trusted_bar_iff:
  "trusted_bar (Some b) \<longleftrightarrow>
     (\<exists>op h l c n. cell_float (b_open b) = Some op \<and> cell_float (b_high b) = Some h \<and>
        cell_float (b_low b) = Some l \<and> cell_float (b_close b) = Some c \<and> bar_ok op h l c \<and>
        0 < n \<and> n \<le> 2 ^ 63 - 1 \<and> (b_volume b = BigInt n \<or> b_volume b = Double (Fin (of_int n))))"
proof -
  have geo: "isfinite op \<and> flt (Fin 0) op \<and> isfinite h \<and> flt (Fin 0) h \<and> isfinite l \<and> flt (Fin 0) l \<and>
      isfinite c \<and> flt (Fin 0) c \<and> geometry_faults op h l c = [] \<longleftrightarrow> bar_ok op h l c" for op h l c
    using geometry_ok [of op h l c] bar_ok_positive [of op h l c] by (auto simp: bar_ok_def)
  have "trusted_bar (Some b) \<longleftrightarrow>
     (\<exists>op h l c. cell_float (b_open b) = Some op \<and> cell_float (b_high b) = Some h \<and>
        cell_float (b_low b) = Some l \<and> cell_float (b_close b) = Some c \<and> bar_ok op h l c) \<and>
     volume_faults (b_volume b) = [] \<and> cell_positive (b_volume b)"
    unfolding trusted_bar_def price_bar_reasons_Nil ohlc_fault_Inr geo [symmetric] by auto
  then show ?thesis unfolding volume_ok_iff by blast
qed

lemma admitted_Some:
  assumes "admitted b = Some (op, h, l, c, v)"
  shows "bar_ok op h l c" and "isfinite v" and "flt (Fin 0) v"
    and "cell_float (b_open b) = Some op" and "cell_float (b_close b) = Some c"
  using assms
  by (auto simp: admitted_def bar_floats_def trusted_bar_iff cell_float_def split: option.splits if_splits)


section \<open>Point-in-time reading\<close>

text \<open>What the store held at an instant: the rows the fetcher had not yet recorded are taken out. A row is
  recorded at its first fetch stamp, or its fetch stamp where the table has no first-fetch column; a minute
  table without a fetch stamp dates its rows by \<open>as_of\<close>.\<close>

definition recorded_after :: "string list \<Rightarrow> stamp \<Rightarrow> daily_row \<Rightarrow> bool" where
  "recorded_after columns a r \<longleftrightarrow>
     (\<exists>t. (if ''first_fetched_at'' \<in> set columns then dr_first_fetched_at r
           else if ''fetched_at'' \<in> set columns then dr_fetched_at r else None) = Some t \<and> naive_utc a < t)"

definition minute_recorded_after :: "string list \<Rightarrow> stamp \<Rightarrow> minute_row \<Rightarrow> bool" where
  "minute_recorded_after columns a r \<longleftrightarrow>
     (if ''fetched_at'' \<in> set columns then \<exists>t. mr_fetched_at r = Some t \<and> naive_utc a < t
      else ''as_of'' \<in> set columns \<and> (\<exists>d. mr_as_of r = Some d \<and> stamp_date a < d))"

definition known_daily :: "stamp \<Rightarrow> daily_table \<Rightarrow> daily_table" where
  "known_daily a t = t\<lparr>d_rows := filter (\<lambda>r. \<not> recorded_after (d_columns t) a r) (d_rows t)\<rparr>"

definition known_minute :: "stamp \<Rightarrow> minute_table \<Rightarrow> minute_table" where
  "known_minute a t = t\<lparr>m_rows := filter (\<lambda>r. \<not> minute_recorded_after (m_columns t) a r) (m_rows t)\<rparr>"

definition as_known :: "stamp \<Rightarrow> market_db \<Rightarrow> market_db" where
  "as_known a db = db
     \<lparr>prices := known_daily a (prices db), free_daily_bars := known_daily a (free_daily_bars db),
      intraday_prices := known_minute a (intraday_prices db),
      massive_minute_bars := known_minute a (massive_minute_bars db)\<rparr>"

lemma daily_source_as_known:
  "daily_source (as_known a db) source = bindE (daily_source db source) (\<lambda>(t, names). Inr (known_daily a t, names))"
  by (simp add: daily_source_def as_known_def)

lemma minute_source_as_known:
  "minute_source (as_known a db) source = bindE (minute_source db source) (\<lambda>(t, names, w). Inr (known_minute a t, names, w))"
  by (simp add: minute_source_def as_known_def)

lemma admitted_is_known:
  "stamp_admits columns (Some a) r \<Longrightarrow> \<not> recorded_after columns a r"
  "minute_admits s columns (Some a) m \<Longrightarrow> \<not> minute_recorded_after columns a m"
  by (auto simp: stamp_admits_def recorded_after_def minute_admits_def minute_recorded_after_def Let_def
      split: option.splits if_splits)

lemma filter_stamp:
  "filter (\<lambda>r. A r \<and> B r \<and> stamp_admits c (Some a) r) (filter (\<lambda>r. \<not> recorded_after c a r) xs) =
   filter (\<lambda>r. A r \<and> B r \<and> stamp_admits c (Some a) r) xs"
  "filter (\<lambda>r. A r \<and> B r \<and> C r \<and> stamp_admits c (Some a) r) (filter (\<lambda>r. \<not> recorded_after c a r) xs) =
   filter (\<lambda>r. A r \<and> B r \<and> C r \<and> stamp_admits c (Some a) r) xs"
  "filter (\<lambda>r. P r \<and> Q r \<and> R r \<and> minute_admits s c (Some a) r) (filter (\<lambda>r. \<not> minute_recorded_after c a r) ys) =
   filter (\<lambda>r. P r \<and> Q r \<and> R r \<and> minute_admits s c (Some a) r) ys"
  by (auto simp: admitted_is_known intro: filter_cong)

lemmas known_tables = known_daily_def known_minute_def filter_stamp

lemma daily_bar_as_known: "daily_bar (as_known a db) t d s (Some a) = daily_bar db t d s (Some a)"
  unfolding daily_bar_def daily_source_as_known
  by (cases "daily_source db s") (auto simp: Let_def known_tables simp del: filter_filter cong: option.case_cong)

lemma latest_close_as_known:
  "latest_close_observation (as_known a db) t d s (Some a) b = latest_close_observation db t d s (Some a) b"
  unfolding latest_close_observation_def daily_source_as_known
  by (cases b; cases "daily_source db s") (auto simp: Let_def known_tables simp del: filter_filter cong: option.case_cong)

lemma median_as_known:
  "median_dollar_volume e (as_known a db) t d s n (Some a) = median_dollar_volume e db t d s n (Some a)"
  unfolding median_dollar_volume_def daily_source_as_known
  by (cases "daily_source db s") (auto simp: Let_def known_tables simp del: filter_filter)

lemma minute_bars_as_known: "minute_bars z (as_known a db) t d s (Some a) = minute_bars z db t d s (Some a)"
  unfolding minute_bars_def minute_source_as_known
  by (cases "minute_source db s") (auto simp: Let_def known_tables simp del: filter_filter split: prod.splits cong: option.case_cong)

lemma minute_session_complete_as_known:
  "minute_session_complete z (as_known a db) t d s (Some a) = minute_session_complete z db t d s (Some a)"
  by (simp add: minute_session_complete_def minute_bars_as_known)

lemmas as_known_simps = daily_bar_as_known latest_close_as_known median_as_known minute_bars_as_known
  minute_session_complete_as_known

section \<open>What the readers return\<close>

lemma daily_bar_Some:
  assumes "daily_bar db t d s a = Inr (Some b)"
  shows "bar_ok (db_open b) (db_high b) (db_low b) (db_close b)"
    and "db_session_date b = d" and "db_bar_ref b = DailyRef s t d"
  using assms
  by (auto simp: daily_bar_def Let_def bindE_eq_Inr split: if_splits option.splits dest: admitted_Some(1))

lemma minute_bar_of_Some:
  "minute_bar_of t s w r = Some b \<Longrightarrow> mb_ts b = mr_ts r \<and> bar_ok (mb_open b) (mb_high b) (mb_low b) (mb_close b)"
  by (auto simp: minute_bar_of_def split: option.splits dest: admitted_Some(1))

lemma sorted_map_filter:
  assumes "\<And>x y. f x = Some y \<Longrightarrow> k y = j x" "sorted (map j xs)"
  shows "sorted (map k (List.map_filter f xs))"
  using assms(2)
proof (induction xs)
  case (Cons x xs)
  have "\<forall>y\<in>set (List.map_filter f xs). j x \<le> k y"
    using Cons.prems assms(1) by (auto simp: map_filter_def)
  with Cons show ?case
    by (cases "f x") (auto simp: map_filter_simps assms(1))
qed (simp add: map_filter_simps)

lemma minute_bars_spec:
  assumes "minute_bars z db t d s a = Inr bars"
  shows "sorted (map mb_ts bars)"
    and "b \<in> set bars \<Longrightarrow> fst (session_bounds z d) \<le> mb_ts b \<and> mb_ts b < snd (session_bounds z d) \<and>
           bar_ok (mb_open b) (mb_high b) (mb_low b) (mb_close b)"
proof -
  obtain t' names w where src: "minute_source db s = Inr (t', names, w)"
    and bars: "bars = [] \<or> (\<exists>v. bars = List.map_filter (minute_bar_of t s v) (sort_key mr_ts
      (filter (\<lambda>r. mr_ticker r = t \<and> fst (session_bounds z d) \<le> mr_ts r \<and> mr_ts r < snd (session_bounds z d) \<and>
         minute_admits s (m_columns t') a r) (m_rows t'))))"
    using assms by (auto simp: minute_bars_def Let_def bindE_eq_Inr split: if_splits prod.splits)
  show "sorted (map mb_ts bars)"
    using bars by (auto intro!: sorted_map_filter [of _ mb_ts mr_ts] dest: minute_bar_of_Some)
  show "fst (session_bounds z d) \<le> mb_ts b \<and> mb_ts b < snd (session_bounds z d) \<and>
        bar_ok (mb_open b) (mb_high b) (mb_low b) (mb_close b)" if b: "b \<in> set bars"
  proof -
    obtain r v where "minute_bar_of t s v r = Some b"
      "fst (session_bounds z d) \<le> mr_ts r" "mr_ts r < snd (session_bounds z d)"
      using b bars by (auto simp: map_filter_def)
    then show ?thesis using minute_bar_of_Some by fastforce
  qed
qed

section \<open>Properties\<close>

text \<open>C38. The admission rule and its SQL counterpart accept the same bars: on every row whose volume
  is a BIGINT, or a DOUBLE below \<open>2 ^ 63\<close>, the money path's Python check and the WHERE clause
  used for marks agree.\<close>

theorem trusted_bar_matches_sql:
  assumes "\<forall>v. b_volume b = Double (Fin v) \<longrightarrow> v < 2 ^ 63"
  shows "trusted_bar (Some b) \<longleftrightarrow> trusted_bar_sql b"
proof -
  have vol: "sql_volume_ok (b_volume b) \<and> cell_positive (b_volume b) \<longleftrightarrow>
      volume_faults (b_volume b) = [] \<and> cell_positive (b_volume b)"
  proof (cases "b_volume b")
    case (Double x)
    show ?thesis
    proof (cases x)
      case (Fin v)
      then have v: "v < 2 ^ 63" using assms Double by simp
      have top: "rnd (2 ^ 63 - 1) = Fin (2 ^ 63)" by code_simp
      have "of_int n < (2 ^ 63 :: rat) \<Longrightarrow> n \<le> 2 ^ 63 - 1" for n
        using of_int_less_iff [of n "2 ^ 63", where 'a = rat] by simp
      then show ?thesis using Double Fin v top
        by (auto simp: sql_volume_ok_def volume_faults_def cell_positive_def Let_def truncate_rat_def)
    qed (auto simp: Double sql_volume_ok_def volume_faults_def)
  qed (auto simp: sql_volume_ok_def volume_faults_def cell_positive_def)
  have "trusted_bar_sql b \<longleftrightarrow>
     (\<exists>op h l c. cell_float (b_open b) = Some op \<and> cell_float (b_high b) = Some h \<and>
        cell_float (b_low b) = Some l \<and> cell_float (b_close b) = Some c \<and> bar_ok op h l c) \<and>
     sql_volume_ok (b_volume b) \<and> cell_positive (b_volume b)"
    unfolding trusted_bar_sql_def price_bar_sql_def
    by (auto simp: sql_price_def bar_ok_def split: option.splits if_splits
        intro: flt_fle_trans fle_trans)
  then show ?thesis unfolding vol volume_ok_iff trusted_bar_iff by blast
qed


theorem trusted_bar_matches_sql_witness:
  "let b = \<lparr>b_open = Double (Fin 10), b_high = Double (Fin 11), b_low = Double (Fin 9),
            b_close = Double (Fin 10), b_volume = BigInt 1000\<rparr>
   in trusted_bar (Some b) \<and> trusted_bar_sql b"
proof -
  let ?b = "\<lparr>b_open = Double (Fin 10), b_high = Double (Fin 11), b_low = Double (Fin 9),
            b_close = Double (Fin 10), b_volume = BigInt 1000\<rparr> :: bar"
  have t: "trusted_bar (Some ?b)" by code_simp
  have "trusted_bar (Some ?b) \<longleftrightarrow> trusted_bar_sql ?b" by (rule trusted_bar_matches_sql) simp
  then show ?thesis using t unfolding Let_def by blast
qed

end
