(* ===== verification/Costs.thy ===== *)
theory Costs
  imports MoneyInputs Dates
begin

text \<open>
  Cost assumptions: the market-friction profiles of \<open>src/sim/execution.py\<close> and the dollar fee
  schedules of \<open>src/sim/costs\<close>, computed in binary64 exactly as the code does, down to the
  half-up rounding to cents through the shortest decimal of the total. The platform's
  \<open>math.pow\<close> is a parameter.
\<close>

section \<open>Execution profiles\<close>

record ExecutionProfile =
  exec_id :: string
  description :: string
  spread_rule :: string
  spread_multiplier :: float64
  fixed_adverse_bps :: float64
  impact_coefficient_bps :: float64
  impact_exponent :: float64
  impact_reference_participation :: float64
  commission_per_share :: float64
  commission_minimum :: float64
  commission_max_fraction :: "float64 option"
  sell_fee_bps :: float64
  max_participation :: float64
  fractional_shares :: bool

definition BASELINE :: ExecutionProfile where
  "BASELINE = \<lparr>exec_id = ''baseline_v1'',
     description = ''Compatibility profile: liquidity-tier half-spread plus 5 bp adverse movement per side; no separately verified broker fees.'',
     spread_rule = ''mdv_tiers_v1'', spread_multiplier = Fin 1, fixed_adverse_bps = Fin 5,
     impact_coefficient_bps = Fin 0, impact_exponent = lit (1 / 2),
     impact_reference_participation = lit (1 / 100), commission_per_share = Fin 0,
     commission_minimum = Fin 0, commission_max_fraction = None, sell_fee_bps = Fin 0,
     max_participation = lit (1 / 100), fractional_shares = True\<rparr>"

definition COST_2X :: ExecutionProfile where
  "COST_2X = BASELINE\<lparr>exec_id := ''cost_2x_v1'',
     description := ''Sensitivity profile: exactly twice baseline market friction; no separately verified broker fees.'',
     spread_multiplier := Fin 2, fixed_adverse_bps := Fin 10\<rparr>"

definition PARTICIPATION_STRESS :: ExecutionProfile where
  "PARTICIPATION_STRESS = BASELINE\<lparr>exec_id := ''participation_stress_v1'',
     description := ''Baseline friction plus square-root participation impact, reaching 10 bp at 1% of trailing median daily dollar volume.'',
     impact_coefficient_bps := Fin 10\<rparr>"

definition EXECUTION_PROFILES :: "ExecutionProfile list" where
  "EXECUTION_PROFILES = [BASELINE, COST_2X, PARTICIPATION_STRESS]"

text \<open>A profile argument is a profile, a profile id, or None.\<close>

datatype 'p profile_ref = Profile 'p | ProfileId string | NoProfile

definition resolve_execution_profile :: "ExecutionProfile profile_ref \<Rightarrow> ExecutionProfile outcome" where
  "resolve_execution_profile profile = (case profile of
     Profile p \<Rightarrow> Inr p
   | ref \<Rightarrow>
       (let profile_id = (case ref of ProfileId s \<Rightarrow> (if s = [] then exec_id BASELINE else s) | _ \<Rightarrow> exec_id BASELINE)
        in case find (\<lambda>p. exec_id p = profile_id) EXECUTION_PROFILES of
             Some p \<Rightarrow> Inr p | None \<Rightarrow> Inl (ValueError ''unknown execution profile'')))"

definition half_spread_bps :: "float64 option \<Rightarrow> float64" where
  "half_spread_bps median_dollar_volume = (case median_dollar_volume of
     None \<Rightarrow> Fin 25
   | Some m \<Rightarrow> if flt m (Fin 5000000) then Fin 25
               else if flt m (Fin 20000000) then Fin 15
               else if flt m (Fin 50000000) then Fin 10
               else Fin 5)"

record cost_parts =
  half_spread :: float64
  fixed_adverse :: float64
  impact_part :: float64
  market_bps :: float64
  fee_bps :: float64
  total_bps :: float64
  participation :: float64
  commission_dollars :: float64

definition cost_components ::
    "(float64 \<Rightarrow> float64 \<Rightarrow> float64 outcome) \<Rightarrow> ExecutionProfile profile_ref \<Rightarrow> string \<Rightarrow> float64 \<Rightarrow> float64
     \<Rightarrow> float64 option \<Rightarrow> cost_parts outcome" where
  "cost_components math_pow profile side qty open_px median_dollar_volume =
     bindE (resolve_execution_profile profile) (\<lambda>p.
     let notional = fabs (fmul qty open_px);
         participation = (case median_dollar_volume of
            Some m \<Rightarrow> if flt (Fin 0) m then fquot notional m else Fin 0 | None \<Rightarrow> Fin 0);
         spread = fmul (half_spread_bps median_dollar_volume) (spread_multiplier p)
     in bindE (if impact_coefficient_bps p \<noteq> Fin 0 \<and> flt (Fin 0) participation
               then bindE (fdiv participation (impact_reference_participation p)) (\<lambda>x.
                    bindE (math_pow x (impact_exponent p)) (\<lambda>y.
                    Inr (fmul (impact_coefficient_bps p) y)))
               else Inr (Fin 0)) (\<lambda>impact.
     let commission0 = fmax (fmul (commission_per_share p) (fabs qty)) (commission_minimum p);
         commission = (case commission_max_fraction p of
            Some f \<Rightarrow> fmin commission0 (fmul notional f) | None \<Rightarrow> commission0);
         fee0 = (if flt (Fin 0) notional then fmul (fquot commission notional) (Fin 10000) else Fin 0)
     in bindE (if side = ''sell'' then Inr (fadd fee0 (sell_fee_bps p))
               else if side \<noteq> ''buy'' then Inl (ValueError ''bad side'')
               else Inr fee0) (\<lambda>fee.
     let market = fadd (fadd spread (fixed_adverse_bps p)) impact
     in Inr \<lparr>half_spread = spread, fixed_adverse = fixed_adverse_bps p, impact_part = impact,
             market_bps = market, fee_bps = fee, total_bps = fadd market fee,
             participation = participation, commission_dollars = commission\<rparr>)))"

section \<open>Rates and fee breakdowns\<close>

text \<open>A rate is kept as the decimal of its source literal and read as a float by \<open>rate\<close>.\<close>

record RateRow =
  component :: string
  rate_value :: rat
  effective_from :: date
  effective_to :: "date option"

definition applies :: "RateRow \<Rightarrow> date \<Rightarrow> bool" where
  "applies row session_date \<longleftrightarrow> effective_from row \<le> session_date \<and>
     (case effective_to row of None \<Rightarrow> True | Some d \<Rightarrow> session_date \<le> d)"

record FeeBreakdown =
  profile_id :: string
  commission :: float64
  exchange_fee :: float64
  clearing_fee :: float64
  pass_through :: float64
  cat_fee :: float64
  sec_fee :: float64
  finra_taf :: float64
  occ_fee :: float64
  orf_fee :: float64
  total_usd :: float64

definition zero_fees :: "string \<Rightarrow> FeeBreakdown" where
  "zero_fees pid = \<lparr>profile_id = pid, commission = Fin 0, exchange_fee = Fin 0, clearing_fee = Fin 0,
     pass_through = Fin 0, cat_fee = Fin 0, sec_fee = Fin 0, finra_taf = Fin 0, occ_fee = Fin 0,
     orf_fee = Fin 0, total_usd = Fin 0\<rparr>"

definition row_from :: "string \<Rightarrow> rat \<Rightarrow> date \<Rightarrow> date option \<Rightarrow> RateRow" where
  "row_from c r a b = \<lparr>component = c, rate_value = r, effective_from = a, effective_to = b\<rparr>"

definition MIN_DATE :: date where "MIN_DATE = ymd 1 1 1"
definition PAUSE_START :: date where "PAUSE_START = ymd 2026 10 1"
definition PAUSE_END :: date where "PAUSE_END = ymd 2026 12 31"

definition RATES :: "RateRow list" where
  "RATES =
    [row_from ''stock_commission_per_share'' (35 / 10000) MIN_DATE None,
     row_from ''stock_commission_minimum'' (35 / 100) MIN_DATE None,
     row_from ''fractional_commission_minimum'' (1 / 100) MIN_DATE None,
     row_from ''stock_commission_value_cap'' (1 / 100) MIN_DATE None,
     row_from ''opening_auction_per_share'' (15 / 10000) MIN_DATE None,
     row_from ''closing_auction_per_share'' (16 / 10000) MIN_DATE None,
     row_from ''remove_liquidity_per_share'' (30 / 10000) MIN_DATE None,
     row_from ''add_liquidity_per_share'' 0 MIN_DATE None,
     row_from ''stock_clearing_per_share'' (20 / 100000) MIN_DATE None,
     row_from ''nyse_pass_through_fraction'' (175 / 1000000) MIN_DATE None,
     row_from ''finra_pass_through_fraction'' (565 / 1000000) MIN_DATE None,
     row_from ''stock_cat_per_share'' (3 / 1000000) MIN_DATE None,
     row_from ''sec_fraction'' 0 MIN_DATE (Some (ymd 2026 4 3)),
     row_from ''sec_fraction'' (206 / 10000000) (ymd 2026 4 4) None,
     row_from ''stock_taf_per_share'' (195 / 1000000) MIN_DATE (Some (ymd 2026 9 30)),
     row_from ''stock_taf_per_share'' 0 PAUSE_START (Some PAUSE_END),
     row_from ''stock_taf_per_share'' (195 / 1000000) (ymd 2027 1 1) None,
     row_from ''stock_taf_cap'' (979 / 100) MIN_DATE None,
     row_from ''borrow_annual_fraction'' (25 / 10000) MIN_DATE None,
     row_from ''margin_benchmark_fraction'' (433 / 10000) MIN_DATE (Some (ymd 2026 10 1)),
     row_from ''margin_benchmark_fraction'' (388 / 10000) (ymd 2026 10 2) None,
     row_from ''margin_markup_fraction'' (150 / 10000) MIN_DATE None,
     row_from ''option_commission_high'' (65 / 100) MIN_DATE None,
     row_from ''option_commission_mid'' (50 / 100) MIN_DATE None,
     row_from ''option_commission_low'' (25 / 100) MIN_DATE None,
     row_from ''option_commission_minimum'' 1 MIN_DATE None,
     row_from ''option_occ_per_contract'' (25 / 1000) MIN_DATE None,
     row_from ''option_orf_per_contract'' (20 / 1000) (ymd 2026 7 1) None,
     row_from ''option_exchange_per_contract'' (30 / 100) MIN_DATE None,
     row_from ''option_cat_per_contract'' (3 / 10000) MIN_DATE None,
     row_from ''option_taf_per_contract'' (329 / 100000) MIN_DATE (Some (ymd 2026 9 30)),
     row_from ''option_taf_per_contract'' 0 PAUSE_START (Some PAUSE_END),
     row_from ''option_taf_per_contract'' (329 / 100000) (ymd 2027 1 1) None]"

definition rate :: "string \<Rightarrow> date \<Rightarrow> float64 outcome" where
  "rate name session_date =
     (case filter (\<lambda>row. component row = name \<and> applies row session_date) RATES of
        [row] \<Rightarrow> Inr (lit (rate_value row))
      | _ \<Rightarrow> Inl (ValueError ''no unique rate''))"


section \<open>Rounding to cents\<close>

text \<open>\<open>str(x)\<close> of a float is its shortest decimal: the fewest significant digits that read
  back as \<open>x\<close>, and among those the closest to \<open>x\<close>, ties to an even last digit. Seventeen
  digits always suffice, so the search does not go further.\<close>

function dec_digits :: "int \<Rightarrow> int" where
  "dec_digits n = (if n < 10 then 1 else 1 + dec_digits (n div 10))"
  by auto
termination
  by (relation "measure nat") (auto simp: nat_less_eq_zless intro: int_div_less_self)

declare dec_digits.simps [simp del]

definition dec_exp :: "rat \<Rightarrow> int" where
  "dec_exp x = (let (n, d) = quotient_of x;
                    k = dec_digits n - dec_digits d
                in if 10 powi k \<le> x then k else k - 1)"

definition repr_candidate :: "rat \<Rightarrow> int \<Rightarrow> rat option" where
  "repr_candidate x digits =
     (let step = 10 powi (dec_exp x - digits + 1);
          near = of_int (rne (x / step)) * step;
          low = of_int \<lfloor>x / step\<rfloor> * step;
          high = of_int \<lceil>x / step\<rceil> * step
      in find (\<lambda>c. rnd c = Fin x) [near, low, high])"

fun repr_search :: "rat \<Rightarrow> int list \<Rightarrow> rat" where
  "repr_search x [] = x"
| "repr_search x (n # ns) = (case repr_candidate x n of Some c \<Rightarrow> c | None \<Rightarrow> repr_search x ns)"

definition repr_value :: "rat \<Rightarrow> rat" where
  "repr_value x = (if x = 0 then 0
     else if 0 < x then repr_search x [1..17] else - repr_search (- x) [1..17])"

text \<open>\<open>Decimal.quantize(Decimal("0.01"), ROUND_HALF_UP)\<close>: the coefficient must fit the
  context's 28 digits. An infinity cannot be quantized; a NaN stays one.\<close>

definition quantize_cents :: "rat \<Rightarrow> int outcome" where
  "quantize_cents v =
     (let c = \<lfloor>\<bar>v\<bar> * 100 + 1 / 2\<rfloor>
      in if 10 ^ 28 \<le> c then Inl InvalidOperation else Inr (if v < 0 then - c else c))"

definition round_usd :: "float64 \<Rightarrow> float64 outcome" where
  "round_usd value = (case value of
     Fin v \<Rightarrow> bindE (quantize_cents (repr_value v)) (\<lambda>c. Inr (rnd (of_int c / 100)))
   | NaN \<Rightarrow> Inr NaN
   | _ \<Rightarrow> Inl InvalidOperation)"

section \<open>Stock and option charges\<close>

text \<open>An instrument argument is a kind string, a dict, or an object; a fill field is one value
  or a sequence with one value per leg.\<close>

datatype instrument_arg =
    KindName string
  | KindDict "string option" "float64 option"
  | KindObject string float64

datatype 'a field_arg = One 'a | Many "'a list"

definition kind_of :: "instrument_arg \<Rightarrow> string outcome" where
  "kind_of i = (case i of
     KindName k \<Rightarrow> Inr k
   | KindDict k _ \<Rightarrow> (case k of Some s \<Rightarrow> Inr s | None \<Rightarrow> Inl (KeyError ''kind''))
   | KindObject k _ \<Rightarrow> Inr k)"

definition multiplier_of :: "instrument_arg \<Rightarrow> float64" where
  "multiplier_of i = (case i of
     KindName k \<Rightarrow> (if k = ''option'' then Fin 100 else Fin 1)
   | KindDict _ m \<Rightarrow> (case m of Some x \<Rightarrow> x | None \<Rightarrow> Fin 1)
   | KindObject _ m \<Rightarrow> m)"

definition sequence_of :: "'a field_arg \<Rightarrow> nat \<Rightarrow> 'a list outcome" where
  "sequence_of value count = (case value of
     Many xs \<Rightarrow> (if length xs \<noteq> count
                  then Inl (ValueError ''option leg fields must have the same length'') else Inr xs)
   | One x \<Rightarrow> Inr (replicate count x))"

definition instruments_of :: "instrument_arg field_arg \<Rightarrow> instrument_arg list" where
  "instruments_of i = (case i of Many xs \<Rightarrow> xs | One x \<Rightarrow> [x])"

definition is_integer :: "float64 \<Rightarrow> bool" where
  "is_integer x = (case x of Fin v \<Rightarrow> snd (quotient_of v) = 1 | _ \<Rightarrow> False)"

definition exchange_component :: "string \<Rightarrow> string option" where
  "exchange_component fill_kind = map_of
     [(''moo'', ''opening_auction_per_share''), (''open_auction'', ''opening_auction_per_share''),
      (''next_open'', ''opening_auction_per_share''), (''limit_on_open'', ''opening_auction_per_share''),
      (''moc'', ''closing_auction_per_share''), (''close_auction'', ''closing_auction_per_share''),
      (''market'', ''remove_liquidity_per_share''), (''intraday_bar'', ''remove_liquidity_per_share''),
      (''limit'', ''add_liquidity_per_share''), (''limit_touch'', ''add_liquidity_per_share'')] fill_kind"

definition positive_finite :: "float64 \<Rightarrow> bool" where
  "positive_finite x \<longleftrightarrow> isfinite x \<and> flt (Fin 0) x"

definition stock_commission :: "float64 \<Rightarrow> float64 \<Rightarrow> date \<Rightarrow> float64 outcome" where
  "stock_commission shares value session_date =
     bindE (rate ''stock_commission_minimum'' session_date) (\<lambda>minimum.
     bindE (rate ''stock_commission_per_share'' session_date) (\<lambda>per_share.
     bindE (rate ''stock_commission_value_cap'' session_date) (\<lambda>cap.
     let base = fmin (fmax minimum (fmul per_share shares)) (fmul cap value)
     in if \<not> is_integer shares
        then bindE (rate ''fractional_commission_minimum'' session_date) (\<lambda>m. Inr (fmax m base))
        else Inr base)))"

definition stock_charge ::
    "string \<Rightarrow> float64 \<Rightarrow> float64 \<Rightarrow> string \<Rightarrow> date \<Rightarrow> instrument_arg \<Rightarrow> FeeBreakdown outcome" where
  "stock_charge side qty price fill_kind session_date instrument =
     (let shares = fabs qty;
          value = fmul (fmul shares price) (multiplier_of instrument)
      in if \<not> (positive_finite shares \<and> positive_finite value)
         then Inl (ValueError ''qty and price must be positive and finite'')
         else bindE (stock_commission shares value session_date) (\<lambda>commission.
      case exchange_component fill_kind of
        None \<Rightarrow> Inl (ValueError ''unknown stock fill kind'')
      | Some comp_name \<Rightarrow>
      bindE (rate comp_name session_date) (\<lambda>exchange_rate.
      bindE (rate ''stock_clearing_per_share'' session_date) (\<lambda>clearing_rate.
      bindE (rate ''nyse_pass_through_fraction'' session_date) (\<lambda>nyse.
      bindE (rate ''finra_pass_through_fraction'' session_date) (\<lambda>finra.
      bindE (rate ''stock_cat_per_share'' session_date) (\<lambda>cat_rate.
      let exchange = fmul exchange_rate shares;
          clearing = fmul clearing_rate shares;
          pass = fmul commission (fadd nyse finra);
          cat = fmul cat_rate shares;
          sale = side \<in> {''sell'', ''short''}
      in bindE (if sale then bindE (rate ''sec_fraction'' session_date) (\<lambda>r. Inr (fmul value r))
                else Inr (Fin 0)) (\<lambda>sec.
         bindE (if sale then bindE (rate ''stock_taf_per_share'' session_date) (\<lambda>r.
                             bindE (rate ''stock_taf_cap'' session_date) (\<lambda>c.
                             Inr (fmin (fmul shares r) c)))
                else Inr (Fin 0)) (\<lambda>taf.
         let total = fadd (fadd (fadd (fadd (fadd (fadd commission exchange) clearing) pass) cat) sec) taf
         in bindE (round_usd total) (\<lambda>usd.
            Inr \<lparr>profile_id = ''ibkr_pro_tiered_v1'', commission = commission, exchange_fee = exchange,
                 clearing_fee = clearing, pass_through = pass, cat_fee = cat, sec_fee = sec,
                 finra_taf = taf, occ_fee = Fin 0, orf_fee = Fin 0, total_usd = usd\<rparr>))))))))))"

text \<open>The accumulators of the option loop: commission, SEC fee, TAF and contracts.\<close>

type_synonym option_acc = "float64 \<times> float64 \<times> float64 \<times> float64"

definition option_tier :: "float64 \<Rightarrow> string" where
  "option_tier premium =
     (if fle (lit (10 / 100)) premium then ''option_commission_high''
      else if fle (lit (5 / 100)) premium then ''option_commission_mid''
      else ''option_commission_low'')"

definition option_leg ::
    "date \<Rightarrow> option_acc \<Rightarrow> string \<times> float64 \<times> float64 \<times> instrument_arg \<Rightarrow> option_acc outcome" where
  "option_leg session_date acc leg =
     (let (commission, sec, taf, contracts) = acc; (leg_side, leg_qty, premium, leg_instrument) = leg;
          leg_contracts = fabs leg_qty
      in if \<not> (positive_finite leg_contracts \<and> positive_finite premium)
         then Inl (ValueError ''option qty and premium must be positive and finite'')
         else bindE (kind_of leg_instrument) (\<lambda>k.
      if k \<noteq> ''option'' then Inl (ValueError ''a combo cannot mix instrument kinds'') else
      bindE (rate (option_tier premium) session_date) (\<lambda>tier_rate.
      let contracts' = fadd contracts leg_contracts;
          commission' = fadd commission (fmul tier_rate leg_contracts)
      in if leg_side \<in> {''sell'', ''short''}
         then bindE (rate ''sec_fraction'' session_date) (\<lambda>sec_rate.
              bindE (rate ''option_taf_per_contract'' session_date) (\<lambda>taf_rate.
              let value = fmul (fmul leg_contracts premium) (multiplier_of leg_instrument)
              in Inr (commission', fadd sec (fmul value sec_rate),
                      fadd taf (fmul leg_contracts taf_rate), contracts')))
         else Inr (commission', sec, taf, contracts'))))"

definition option_charge ::
    "string field_arg \<Rightarrow> float64 field_arg \<Rightarrow> float64 field_arg \<Rightarrow> date \<Rightarrow> instrument_arg field_arg
     \<Rightarrow> FeeBreakdown outcome" where
  "option_charge side qty price session_date instrument =
     (let instruments = instruments_of instrument; n = length instruments in
      bindE (sequence_of side n) (\<lambda>sides.
      bindE (sequence_of qty n) (\<lambda>quantities.
      bindE (sequence_of price n) (\<lambda>prices.
      bindE (foldE (option_leg session_date) (Fin 0, Fin 0, Fin 0, Fin 0)
                (zip sides (zip quantities (zip prices instruments)))) (\<lambda>(comm, sec, taf0, contracts).
      bindE (rate ''option_commission_minimum'' session_date) (\<lambda>minimum.
      bindE (rate ''option_exchange_per_contract'' session_date) (\<lambda>exchange_rate.
      bindE (rate ''option_occ_per_contract'' session_date) (\<lambda>occ_rate.
      bindE (rate ''option_orf_per_contract'' session_date) (\<lambda>orf_rate.
      bindE (rate ''option_cat_per_contract'' session_date) (\<lambda>cat_rate.
      bindE (rate ''stock_taf_cap'' session_date) (\<lambda>cap.
      let commission = fmax comm minimum;
          exchange = fmul contracts exchange_rate;
          occ = fmul contracts occ_rate;
          orf = fmul contracts orf_rate;
          cat = fmul contracts cat_rate;
          taf = fmin taf0 cap;
          total = fadd (fadd (fadd (fadd (fadd (fadd commission exchange) cat) sec) taf) occ) orf
      in bindE (round_usd total) (\<lambda>usd.
         Inr \<lparr>profile_id = ''ibkr_pro_tiered_v1'', commission = commission, exchange_fee = exchange,
              clearing_fee = Fin 0, pass_through = Fin 0, cat_fee = cat, sec_fee = sec,
              finra_taf = taf, occ_fee = occ, orf_fee = orf, total_usd = usd\<rparr>))))))))))))"

text \<open>\<open>float(x)\<close> of a sequence raises a TypeError, and \<open>str(side)\<close> of a sequence is a bracketed
  text, which is neither a sell nor a short.\<close>

definition scalar :: "float64 field_arg \<Rightarrow> float64 outcome" where
  "scalar v = (case v of One x \<Rightarrow> Inr x | Many _ \<Rightarrow> Inl (TypeError ''float''))"

definition side_text :: "string field_arg \<Rightarrow> string" where
  "side_text v = (case v of One s \<Rightarrow> s | Many xs \<Rightarrow> ''['' @ concat xs @ '']'')"

definition ibkr_charge ::
    "string field_arg \<Rightarrow> float64 field_arg \<Rightarrow> float64 field_arg \<Rightarrow> string \<Rightarrow> instrument_arg field_arg \<Rightarrow> date
     \<Rightarrow> FeeBreakdown outcome" where
  "ibkr_charge side qty price fill_kind instrument session_date =
     (let instruments = instruments_of instrument in
      bindE (mapE kind_of instruments) (\<lambda>kinds.
      if set kinds \<subseteq> {''stock'', ''etf''} \<and> length instruments = 1
      then bindE (scalar qty) (\<lambda>q. bindE (scalar price) (\<lambda>p.
           stock_charge (side_text side) q p fill_kind session_date (hd instruments)))
      else if set kinds = {''option''}
      then option_charge side qty price session_date (Many instruments)
      else Inl (ValueError ''unsupported instrument kinds'')))"

definition ibkr_borrow_fee :: "float64 \<Rightarrow> int \<Rightarrow> date \<Rightarrow> float64 outcome" where
  "ibkr_borrow_fee short_market_value days session_date =
     (if \<not> isfinite short_market_value \<or> flt short_market_value (Fin 0) \<or> days < 0
      then Inl (ValueError ''short market value and days must be non-negative'')
      else bindE (rate ''borrow_annual_fraction'' session_date) (\<lambda>r.
           bindE (of_pyint days) (\<lambda>n.
           fdiv (fmul (fmul short_market_value r) n) (Fin 360))))"

definition ibkr_margin_interest :: "float64 \<Rightarrow> int \<Rightarrow> date \<Rightarrow> float64 outcome" where
  "ibkr_margin_interest debit days session_date =
     (if \<not> isfinite debit \<or> flt debit (Fin 0) \<or> days < 0
      then Inl (ValueError ''debit and days must be non-negative'')
      else bindE (rate ''margin_benchmark_fraction'' session_date) (\<lambda>b.
           bindE (rate ''margin_markup_fraction'' session_date) (\<lambda>m.
           bindE (of_pyint days) (\<lambda>n.
           fdiv (fmul (fmul debit (fadd b m)) n) (Fin 360)))))"

section \<open>The registry\<close>

datatype CostProfile = BASELINE_V1 | IBKR_PRO_TIERED_V1

definition cost_profile_id :: "CostProfile \<Rightarrow> string" where
  "cost_profile_id p = (case p of BASELINE_V1 \<Rightarrow> ''baseline_v1'' | IBKR_PRO_TIERED_V1 \<Rightarrow> ''ibkr_pro_tiered_v1'')"

definition baseline_charge :: FeeBreakdown where
  "baseline_charge = zero_fees ''baseline_v1''"

definition resolve_cost_profile :: "CostProfile profile_ref \<Rightarrow> CostProfile outcome" where
  "resolve_cost_profile profile = (case profile of
     Profile p \<Rightarrow> Inr p
   | ref \<Rightarrow>
       (let pid = (case ref of ProfileId s \<Rightarrow> (if s = [] then ''baseline_v1'' else s) | _ \<Rightarrow> ''baseline_v1'')
        in case find (\<lambda>p. cost_profile_id p = pid) [BASELINE_V1, IBKR_PRO_TIERED_V1] of
             Some p \<Rightarrow> Inr p | None \<Rightarrow> Inl (ValueError ''unknown cost profile'')))"

definition charge ::
    "CostProfile profile_ref \<Rightarrow> string field_arg \<Rightarrow> float64 field_arg \<Rightarrow> float64 field_arg \<Rightarrow> string
     \<Rightarrow> instrument_arg field_arg \<Rightarrow> date \<Rightarrow> FeeBreakdown outcome" where
  "charge profile side qty price fill_kind instrument session_date =
     bindE (resolve_cost_profile profile) (\<lambda>p. case p of
       BASELINE_V1 \<Rightarrow> Inr baseline_charge
     | IBKR_PRO_TIERED_V1 \<Rightarrow> ibkr_charge side qty price fill_kind instrument session_date)"

definition borrow_fee :: "float64 \<Rightarrow> int \<Rightarrow> date \<Rightarrow> CostProfile profile_ref \<Rightarrow> float64 outcome" where
  "borrow_fee short_market_value days session_date profile =
     bindE (resolve_cost_profile profile) (\<lambda>p. case p of
       BASELINE_V1 \<Rightarrow> Inr (Fin 0)
     | IBKR_PRO_TIERED_V1 \<Rightarrow> ibkr_borrow_fee short_market_value days session_date)"

definition margin_interest :: "float64 \<Rightarrow> int \<Rightarrow> date \<Rightarrow> CostProfile profile_ref \<Rightarrow> float64 outcome" where
  "margin_interest debit days session_date profile =
     bindE (resolve_cost_profile profile) (\<lambda>p. case p of
       BASELINE_V1 \<Rightarrow> Inr (Fin 0)
     | IBKR_PRO_TIERED_V1 \<Rightarrow> ibkr_margin_interest debit days session_date)"


section \<open>Laws of the rate table\<close>

lemma rate_dates:
  "MIN_DATE = 1" "PAUSE_START = 739890" "PAUSE_END = 739981"
  "ymd 2026 4 3 = 739709"
  "ymd 2026 4 4 = 739710"
  "ymd 2026 9 30 = 739889"
  "ymd 2027 1 1 = 739982"
  "ymd 2026 10 1 = 739890"
  "ymd 2026 10 2 = 739891"
  "ymd 2026 7 1 = 739798"
  "ymd 2026 12 31 = 739981"
  by code_simp+

text \<open>The rows of one component, computed once.\<close>

definition rate_rows :: "string \<Rightarrow> RateRow list" where
  "rate_rows name = filter (\<lambda>row. component row = name) RATES"

lemma rate_by_rows:
  "rate name d = (case filter (\<lambda>row. applies row d) (rate_rows name) of
     [row] \<Rightarrow> Inr (lit (rate_value row)) | _ \<Rightarrow> Inl (ValueError ''no unique rate''))"
  by (simp add: rate_def rate_rows_def conj_commute)

lemma rate_single:
  assumes "rate_rows name = [row_from name q MIN_DATE None]" "1 \<le> d"
  shows "rate name d = Inr (lit q)"
  using assms by (simp add: rate_by_rows row_from_def applies_def rate_dates)

text \<open>Every stock component has exactly one rate on every date Python can represent.\<close>

lemma stock_rates:
  assumes "1 \<le> d"
  shows "rate ''stock_commission_per_share'' d = Inr (lit (35 / 10000))"
    "rate ''stock_commission_minimum'' d = Inr (lit (35 / 100))"
    "rate ''fractional_commission_minimum'' d = Inr (lit (1 / 100))"
    "rate ''stock_commission_value_cap'' d = Inr (lit (1 / 100))"
    "rate ''opening_auction_per_share'' d = Inr (lit (15 / 10000))"
    "rate ''closing_auction_per_share'' d = Inr (lit (16 / 10000))"
    "rate ''remove_liquidity_per_share'' d = Inr (lit (30 / 10000))"
    "rate ''add_liquidity_per_share'' d = Inr (lit 0)"
    "rate ''stock_clearing_per_share'' d = Inr (lit (20 / 100000))"
    "rate ''nyse_pass_through_fraction'' d = Inr (lit (175 / 1000000))"
    "rate ''finra_pass_through_fraction'' d = Inr (lit (565 / 1000000))"
    "rate ''stock_cat_per_share'' d = Inr (lit (3 / 1000000))"
    "rate ''stock_taf_cap'' d = Inr (lit (979 / 100))"
    "rate ''borrow_annual_fraction'' d = Inr (lit (25 / 10000))"
    "rate ''margin_markup_fraction'' d = Inr (lit (150 / 10000))"
  by (rule rate_single [OF _ assms], code_simp)+

lemma dated_rates:
  assumes "1 \<le> d"
  shows "rate ''sec_fraction'' d = Inr (lit (if d < ymd 2026 4 4 then 0 else 206 / 10000000))"
    "rate ''stock_taf_per_share'' d =
       Inr (lit (if PAUSE_START \<le> d \<and> d \<le> PAUSE_END then 0 else 195 / 1000000))"
    "rate ''margin_benchmark_fraction'' d =
       Inr (lit (if d < ymd 2026 10 2 then 433 / 10000 else 388 / 10000))"
proof -
  have r: "rate_rows ''sec_fraction'' =
       [row_from ''sec_fraction'' 0 MIN_DATE (Some (ymd 2026 4 3)), row_from ''sec_fraction'' (206 / 10000000) (ymd 2026 4 4) None]"
    "rate_rows ''stock_taf_per_share'' =
       [row_from ''stock_taf_per_share'' (195 / 1000000) MIN_DATE (Some (ymd 2026 9 30)),
        row_from ''stock_taf_per_share'' 0 PAUSE_START (Some PAUSE_END),
        row_from ''stock_taf_per_share'' (195 / 1000000) (ymd 2027 1 1) None]"
    "rate_rows ''margin_benchmark_fraction'' =
       [row_from ''margin_benchmark_fraction'' (433 / 10000) MIN_DATE (Some (ymd 2026 10 1)),
        row_from ''margin_benchmark_fraction'' (388 / 10000) (ymd 2026 10 2) None]"
    by code_simp+
  show "rate ''sec_fraction'' d = Inr (lit (if d < ymd 2026 4 4 then 0 else 206 / 10000000))"
    "rate ''stock_taf_per_share'' d =
       Inr (lit (if PAUSE_START \<le> d \<and> d \<le> PAUSE_END then 0 else 195 / 1000000))"
    "rate ''margin_benchmark_fraction'' d =
       Inr (lit (if d < ymd 2026 10 2 then 433 / 10000 else 388 / 10000))"
    unfolding rate_by_rows r row_from_def applies_def rate_dates using assms by auto
qed

lemma no_orf_rate_before_july_2026:
  "d < ymd 2026 7 1 \<Longrightarrow> rate ''option_orf_per_contract'' d = Inl (ValueError ''no unique rate'')"
proof -
  have r: "rate_rows ''option_orf_per_contract'' =
      [row_from ''option_orf_per_contract'' (20 / 1000) (ymd 2026 7 1) None]" by code_simp
  show "d < ymd 2026 7 1 \<Longrightarrow> rate ''option_orf_per_contract'' d = Inl (ValueError ''no unique rate'')"
    unfolding rate_by_rows r row_from_def applies_def by simp
qed

lemma RATES_bounded: "row \<in> set RATES \<Longrightarrow> 0 \<le> rate_value row \<and> rate_value row \<le> 2 ^ 4"
  by (auto simp: RATES_def row_from_def)

lemma rate_le_pow2: "rate name d = Inr r \<Longrightarrow> le_pow2 r 4"
proof -
  assume "rate name d = Inr r"
  then obtain row where row: "filter (\<lambda>row. component row = name \<and> applies row d) RATES = [row]"
    "r = lit (rate_value row)"
    by (auto simp: rate_def split: list.splits)
  then have "row \<in> set (filter (\<lambda>row. component row = name \<and> applies row d) RATES)" by (simp only: list.set_intros)
  then show ?thesis using RATES_bounded [of row] row(2) by (auto intro: le_pow2_lit)
qed


section \<open>Laws of the cent rounding\<close>

lemma repr_search_rnd: "is64 (Fin x) \<Longrightarrow> rnd (repr_search x ns) = Fin x"
  by (induction ns)
    (auto simp: rnd_is64 repr_candidate_def Let_def dest: find_SomeD split: option.splits if_splits)

lemma repr_value_rnd:
  assumes "is64 (Fin v)"
  shows "rnd (repr_value v) = Fin v"
proof -
  consider "v = 0" | "0 < v" | "v < 0" by linarith
  then show ?thesis
  proof cases
    case 3
    have "is64 (Fin (- v))" using assms by (simp add: is64_Fin)
    then have "rnd (repr_search (- v) [1..17]) = Fin (- v)" by (rule repr_search_rnd)
    then show ?thesis using 3 unfolding repr_value_def rnd_eq_Fin by auto
  qed (use assms repr_search_rnd in \<open>simp_all add: repr_value_def\<close>)
qed

lemma repr_value_rr: "is64 (Fin v) \<Longrightarrow> rr (repr_value v) = v"
  using repr_value_rnd by (simp add: rnd_eq_Fin)

lemma repr_value_bounds:
  assumes "is64 (Fin v)" "0 \<le> v" "v \<le> 2 ^ k"
  shows "0 \<le> repr_value v" and "repr_value v \<le> 2 ^ Suc k"
proof -
  show "0 \<le> repr_value v"
  proof (rule ccontr)
    assume "\<not> 0 \<le> repr_value v"
    then have "v \<le> 0" using rr_nonpos [of "repr_value v"] repr_value_rr [OF assms(1)] by simp
    with assms(2) have "v = 0" by simp
    with \<open>\<not> 0 \<le> repr_value v\<close> show False by (simp add: repr_value_def)
  qed
  show "repr_value v \<le> 2 ^ Suc k"
  proof (rule ccontr)
    assume "\<not> repr_value v \<le> 2 ^ Suc k"
    then have "2 ^ Suc k \<le> v"
      using rep_le_rr [OF rep_power2, of "Suc k" "repr_value v"] repr_value_rr [OF assms(1)] by simp
    moreover have "(2::rat) ^ k < 2 ^ Suc k" by simp
    ultimately show False using assms(3) by linarith
  qed
qed

lemma floor_half_up: "\<bar>of_int \<lfloor>a + 1 / 2\<rfloor> - a\<bar> \<le> (1 / 2 :: rat)"
  by linarith

lemma quantize_cents_Inr:
  assumes "quantize_cents v = Inr c"
  shows "\<bar>of_int c / 100 - v\<bar> \<le> 1 / 200" and "0 \<le> v \<Longrightarrow> 0 \<le> c"
proof -
  have c: "c = (if v < 0 then - \<lfloor>\<bar>v\<bar> * 100 + 1 / 2\<rfloor> else \<lfloor>\<bar>v\<bar> * 100 + 1 / 2\<rfloor>)"
    using assms by (auto simp: quantize_cents_def Let_def split: if_splits)
  show "\<bar>of_int c / 100 - v\<bar> \<le> 1 / 200"
    using floor_half_up [of "\<bar>v\<bar> * 100"] unfolding c by (auto simp: abs_if split: if_splits)
  show "0 \<le> v \<Longrightarrow> 0 \<le> c" unfolding c by simp
qed

lemma quantize_cents_total:
  assumes "0 \<le> v" "v \<le> 2 ^ 80"
  shows "\<exists>c. quantize_cents v = Inr c \<and> 0 \<le> c \<and> of_int c \<le> (2::rat) ^ 87"
proof -
  define c where "c = \<lfloor>\<bar>v\<bar> * 100 + 1 / 2\<rfloor>"
  have le: "of_int c \<le> v * 100 + 1 / 2" "0 \<le> c" using assms(1) by (simp_all add: c_def)
  have "(of_int c :: rat) < of_int (10 ^ 28)" using le assms(2) by simp
  then have "c < 10 ^ 28" by (rule of_int_less_iff [THEN iffD1])
  then have "quantize_cents v = Inr c"
    using assms(1) unfolding quantize_cents_def c_def [symmetric] Let_def by simp
  moreover have "of_int c \<le> (2::rat) ^ 87" using le assms(2) by simp
  ultimately show ?thesis using le(2) by blast
qed

lemma round_usd_total:
  assumes "le_pow2 x 79" "is64 x"
  shows "\<exists>w. round_usd x = Inr w \<and> le_pow2 w 87"
proof -
  obtain v where v: "x = Fin v" "0 \<le> v" "v \<le> 2 ^ 79" using assms(1) by (auto simp: le_pow2_def)
  have r: "0 \<le> repr_value v" "repr_value v \<le> 2 ^ 80"
    using repr_value_bounds [of v 79] v assms(2) by simp_all
  obtain c where c: "quantize_cents (repr_value v) = Inr c" "0 \<le> c" "of_int c \<le> (2::rat) ^ 87"
    using quantize_cents_total [OF r] by blast
  have "le_pow2 (rnd (of_int c / 100)) 87" using c by (intro le_pow2_rnd) auto
  then show ?thesis using v c by (simp add: round_usd_def)
qed


section \<open>Laws of the stock charge\<close>

lemma exchange_rate_total:
  assumes "1 \<le> d" "exchange_component k = Some n"
  shows "\<exists>r. rate n d = Inr r"
  using assms stock_rates [OF assms(1)]
  by (auto simp: exchange_component_def split: if_splits)

text \<open>The commission is capped at 1% of the value, except for the one-cent minimum of a
  fractional order.\<close>

lemma stock_commission_total:
  assumes "1 \<le> d" "le_pow2 shares 40" "le_pow2 value 60"
  shows "\<exists>c. stock_commission shares value d = Inr c \<and> le_pow2 c 64 \<and> is64 c \<and>
    (fle c (fmul (lit (1 / 100)) value) \<or> (\<not> is_integer shares \<and> c = lit (1 / 100)))"
proof -
  let ?b = "fmin (fmax (lit (35 / 100)) (fmul (lit (35 / 10000)) shares)) (fmul (lit (1 / 100)) value)"
  have l: "le_pow2 (lit (35 / 100)) 4" "le_pow2 (lit (35 / 10000)) 4" "le_pow2 (lit (1 / 100)) 4"
    by (auto intro!: le_pow2_lit)
  have m: "le_pow2 (fmul (lit (35 / 10000)) shares) 44" "le_pow2 (fmul (lit (1 / 100)) value) 64"
    using le_pow2_fmul [OF l(2) assms(2)] le_pow2_fmul [OF l(3) assms(3)] by simp_all
  have x: "le_pow2 (fmax (lit (35 / 100)) (fmul (lit (35 / 10000)) shares)) 44"
    using le_pow2_mono [OF l(1)] m(1) by (intro le_pow2_fmax) auto
  have b: "le_pow2 ?b 64" "is64 ?b" using le_pow2_fmin2 [OF x m(2)] by (auto simp: fmin_def fmax_def)
  have nn: "\<And>y k. le_pow2 y k \<Longrightarrow> y \<noteq> NaN" by (auto simp: le_pow2_def)
  have cap: "fle ?b (fmul (lit (1 / 100)) value)"
    using fmin_le [OF nn [OF m(2)] nn [OF x]] by blast
  have f: "le_pow2 (fmax (lit (1 / 100)) ?b) 64" "is64 (fmax (lit (1 / 100)) ?b)"
    using le_pow2_mono [OF l(3)] b by (auto intro!: le_pow2_fmax simp: fmax_def)
  show ?thesis
    using b f cap stock_rates [OF assms(1)]
    by (auto simp: stock_commission_def Let_def fmax_def)
qed


lemma le_pow2_fadd_le: "le_pow2 x j \<Longrightarrow> le_pow2 y k \<Longrightarrow> j \<le> n \<Longrightarrow> k \<le> n \<Longrightarrow> n < 1023 \<Longrightarrow> le_pow2 (fadd x y) (Suc n)"
  by (blast intro: le_pow2_fadd le_pow2_mono)

lemma stock_charge_shape:
  assumes "1 \<le> d" "le_pow2 (fabs qty) 40" "positive_finite (fabs qty)"
    and val: "value = fmul (fmul (fabs qty) price) (multiplier_of i)" "le_pow2 value 60" "positive_finite value"
    and kind: "exchange_component fill_kind = Some n"
  shows "\<exists>f. stock_charge side qty price fill_kind d i = Inr f \<and>
     stock_commission (fabs qty) value d = Inr (commission f) \<and>
     (\<forall>x\<in>{commission f, exchange_fee f, clearing_fee f, pass_through f, cat_fee f, sec_fee f, finra_taf f}.
        le_pow2 x 69) \<and>
     total_usd f \<in> {w. round_usd (fadd (fadd (fadd (fadd (fadd (fadd (commission f) (exchange_fee f))
        (clearing_fee f)) (pass_through f)) (cat_fee f)) (sec_fee f)) (finra_taf f)) = Inr w \<and> le_pow2 w 87}"
proof -
  let ?s = "fabs qty"
  obtain c where c: "stock_commission ?s value d = Inr c" "le_pow2 c 64"
    using stock_commission_total [OF assms(1,2) val(2)] by blast
  obtain re where re: "rate n d = Inr re" using exchange_rate_total [OF assms(1) kind] by blast
  note r = stock_rates [OF assms(1)] dated_rates(1,2) [OF assms(1)]
  define sale where "sale \<longleftrightarrow> side \<in> {''sell'', ''short''}"
  obtain rs where rs: "rate ''sec_fraction'' d = Inr rs" using r by blast
  obtain rt where rt: "rate ''stock_taf_per_share'' d = Inr rt" using r by blast
  let ?ex = "fmul re ?s" and ?cl = "fmul (lit (20 / 100000)) ?s"
    and ?pa = "fmul c (fadd (lit (175 / 1000000)) (lit (565 / 1000000)))"
    and ?ca = "fmul (lit (3 / 1000000)) ?s"
    and ?se = "if sale then fmul value rs else Fin 0"
    and ?ta = "if sale then fmin (fmul ?s rt) (lit (979 / 100)) else Fin 0"
  have q: "le_pow2 (lit (20 / 100000)) 4" "le_pow2 (lit (3 / 1000000)) 4" "le_pow2 (lit (979 / 100)) 4"
    "le_pow2 (lit (175 / 1000000)) 4" "le_pow2 (lit (565 / 1000000)) 4"
    by (auto intro!: le_pow2_lit)
  have "le_pow2 ?ex 44" using le_pow2_fmul [OF rate_le_pow2 [OF re] assms(2)] by simp
  then have ex: "le_pow2 ?ex 69" by (rule le_pow2_mono) simp
  have "le_pow2 ?cl 44" using le_pow2_fmul [OF q(1) assms(2)] by simp
  then have cl: "le_pow2 ?cl 69" by (rule le_pow2_mono) simp
  have pa: "le_pow2 ?pa 69" using le_pow2_fmul [OF c(2) le_pow2_fadd [OF q(4,5)]] by simp
  have "le_pow2 ?ca 44" using le_pow2_fmul [OF q(2) assms(2)] by simp
  then have ca: "le_pow2 ?ca 69" by (rule le_pow2_mono) simp
  have "le_pow2 (fmul value rs) 64" using le_pow2_fmul [OF val(2) rate_le_pow2 [OF rs]] by simp
  then have se: "le_pow2 ?se 69" by (auto intro: le_pow2_mono)
  have "le_pow2 (fmul ?s rt) 44" using le_pow2_fmul [OF assms(2) rate_le_pow2 [OF rt]] by simp
  then have "le_pow2 (fmin (fmul ?s rt) (lit (979 / 100))) 4" using q(3) by (rule le_pow2_fmin2)
  then have ta: "le_pow2 ?ta 69" by (auto intro: le_pow2_mono)
  have c': "le_pow2 c 69" using c(2) by (rule le_pow2_mono) simp
  let ?t = "fadd (fadd (fadd (fadd (fadd (fadd c ?ex) ?cl) ?pa) ?ca) ?se) ?ta"
  note step = le_pow2_fadd_le [OF _ _ order_refl]
  have "le_pow2 ?t 75"
    using step [OF step [OF step [OF step [OF step [OF step [OF c' ex] cl] pa] ca] se] ta] by simp
  then have "le_pow2 ?t 79" by (rule le_pow2_mono) simp
  then obtain w where w: "round_usd ?t = Inr w" "le_pow2 w 87" using round_usd_total [OF _ is64_fadd] by blast
  have "stock_charge side qty price fill_kind d i =
      Inr \<lparr>profile_id = ''ibkr_pro_tiered_v1'', commission = c, exchange_fee = ?ex,
           clearing_fee = ?cl, pass_through = ?pa, cat_fee = ?ca, sec_fee = ?se,
           finra_taf = ?ta, occ_fee = Fin 0, orf_fee = Fin 0, total_usd = w\<rparr>"
    unfolding stock_charge_def Let_def val(1) [symmetric] sale_def [symmetric]
    using assms(3) val(3) c(1) re r(9-13) rs rt kind w(1) by (cases sale) simp_all
  then show ?thesis using c(1) c' ex cl pa ca se ta w by auto
qed

section \<open>Properties\<close>

text \<open>C36. Rounding a fee to cents: the result is the float nearest to a whole number of cents that
  lies within half a cent of the shortest decimal of the value, which reads back as the value;
  a non-negative fee below \<open>2 ^ 79\<close> never fails and never turns negative.\<close>

theorem round_usd_half_cent:
  assumes "is64 (Fin v)" "0 \<le> v" "v \<le> 2 ^ 79"
  shows "\<exists>c. round_usd (Fin v) = Inr (rnd (of_int c / 100)) \<and> 0 \<le> c \<and>
    \<bar>of_int c / 100 - repr_value v\<bar> \<le> 1 / 200 \<and> rnd (repr_value v) = Fin v"
proof -
  have r: "0 \<le> repr_value v" "repr_value v \<le> 2 ^ 80"
    using repr_value_bounds [OF assms] by simp_all
  obtain c where c: "quantize_cents (repr_value v) = Inr c" using quantize_cents_total [OF r] by blast
  show ?thesis
    using quantize_cents_Inr [OF c] r(1) repr_value_rnd [OF assms(1)] c
    by (intro exI [of _ c]) (simp add: round_usd_def)
qed

theorem round_usd_half_cent_witness:
  "\<exists>c. round_usd (Fin (1 / 8)) = Inr (rnd (of_int c / 100)) \<and> \<bar>of_int c / 100 - repr_value (1 / 8)\<bar> \<le> 1 / 200"
proof -
  have "is64 (Fin (1 / 8))" by code_simp
  moreover have "0 \<le> (1 / 8 :: rat)" "(1 / 8 :: rat) \<le> 2 ^ 79" by simp_all
  ultimately show ?thesis using round_usd_half_cent [of "1 / 8"] by blast
qed

text \<open>C37. A stock charge never fails on a positive finite order of bounded size with a known fill
  kind, on any date: every component is finite and non-negative, the total charged is
  non-negative, and the commission is at most 1% of the traded value, except for the one-cent
  minimum of a fractional order.\<close>

theorem stock_charge_total:
  assumes "1 \<le> d" "le_pow2 (fabs qty) 40" "positive_finite (fabs qty)"
    and "le_pow2 (fmul (fmul (fabs qty) price) (multiplier_of i)) 60"
    and "positive_finite (fmul (fmul (fabs qty) price) (multiplier_of i))"
    and "exchange_component fill_kind \<noteq> None"
  shows "\<exists>f. stock_charge side qty price fill_kind d i = Inr f \<and> fle (Fin 0) (total_usd f) \<and>
    (\<forall>x\<in>{commission f, exchange_fee f, clearing_fee f, pass_through f, cat_fee f, sec_fee f, finra_taf f}.
       isfinite x \<and> fle (Fin 0) x) \<and>
    (fle (commission f) (fmul (lit (1 / 100)) (fmul (fmul (fabs qty) price) (multiplier_of i))) \<or>
     \<not> is_integer (fabs qty) \<and> commission f = lit (1 / 100))"
proof -
  let ?v = "fmul (fmul (fabs qty) price) (multiplier_of i)"
  obtain n where n: "exchange_component fill_kind = Some n" using assms(6) by blast
  obtain f where f: "stock_charge side qty price fill_kind d i = Inr f"
    "stock_commission (fabs qty) ?v d = Inr (commission f)" "le_pow2 (total_usd f) 87"
    "\<forall>x\<in>{commission f, exchange_fee f, clearing_fee f, pass_through f, cat_fee f, sec_fee f, finra_taf f}. le_pow2 x 69"
    using stock_charge_shape [OF assms(1-3) refl assms(4,5) n, of side] by blast
  have "fle (commission f) (fmul (lit (1 / 100)) ?v) \<or> \<not> is_integer (fabs qty) \<and> commission f = lit (1 / 100)"
    using stock_commission_total [OF assms(1,2,4)] f(2) by auto
  then show ?thesis using f le_pow2_finite by blast
qed

theorem stock_charge_total_witness:
  "\<exists>f. stock_charge ''sell'' (Fin 100) (Fin 50) ''moo'' (ymd 2026 10 6) (KindName ''stock'') = Inr f \<and>
     fle (Fin 0) (total_usd f)"
proof -
  have d: "1 \<le> ymd 2026 10 6" by code_simp
  have q: "le_pow2 (fabs (Fin 100)) 40" "positive_finite (fabs (Fin 100))"
    by (simp_all add: le_pow2_def positive_finite_def)
  have e: "fmul (fmul (fabs (Fin 100)) (Fin 50)) (multiplier_of (KindName ''stock'')) = Fin 5000" by code_simp
  have v: "le_pow2 (fmul (fmul (fabs (Fin 100)) (Fin 50)) (multiplier_of (KindName ''stock''))) 60"
    "positive_finite (fmul (fmul (fabs (Fin 100)) (Fin 50)) (multiplier_of (KindName ''stock'')))"
    unfolding e by (simp_all add: le_pow2_def positive_finite_def)
  have k: "exchange_component ''moo'' \<noteq> None" by code_simp
  show ?thesis using stock_charge_total [OF d q v k, of "''sell''"] by blast
qed


text \<open>The sensitivity profile is what its description says, exactly, in floating point: whatever
  the order, its market friction is twice that of the baseline profile, which is one of 10,
  15, 20 and 30 basis points, and the fee part is the same.\<close>

theorem cost_2x_doubles_friction:
  assumes "cost_components pw (ProfileId ''baseline_v1'') side qty px mdv = Inr b"
  shows "\<exists>c. cost_components pw (ProfileId ''cost_2x_v1'') side qty px mdv = Inr c \<and>
    market_bps c = fmul (Fin 2) (market_bps b) \<and> fee_bps c = fee_bps b \<and>
    market_bps b \<in> {Fin 10, Fin 15, Fin 20, Fin 30}"
proof -
  have p: "resolve_execution_profile (ProfileId ''baseline_v1'') = Inr BASELINE"
    "resolve_execution_profile (ProfileId ''cost_2x_v1'') = Inr COST_2X" by code_simp+
  have h: "half_spread_bps mdv \<in> {Fin 5, Fin 10, Fin 15, Fin 25}"
    by (auto simp: half_spread_bps_def split: option.splits)
  have m: "fadd (fadd (fmul h (Fin 1)) (Fin 5)) (Fin 0) \<in> {Fin 10, Fin 15, Fin 20, Fin 30} \<and>
     fadd (fadd (fmul h (Fin 2)) (Fin 10)) (Fin 0) = fmul (Fin 2) (fadd (fadd (fmul h (Fin 1)) (Fin 5)) (Fin 0))"
    if "h \<in> {Fin 5, Fin 10, Fin 15, Fin 25}" for h
    using that by (elim insertE emptyE) simp_all
  show ?thesis
    using assms m [OF h]
    by (auto simp: cost_components_def p BASELINE_def COST_2X_def Let_def bindE_eq_Inr split: if_splits)
qed

theorem cost_2x_witness:
  "\<exists>b c. cost_components (\<lambda>x y. Inr x) (ProfileId ''baseline_v1'') ''buy'' (Fin 100) (Fin 50) None = Inr b \<and>
     cost_components (\<lambda>x y. Inr x) (ProfileId ''cost_2x_v1'') ''buy'' (Fin 100) (Fin 50) None = Inr c \<and>
     market_bps c = fmul (Fin 2) (market_bps b)"
proof -
  obtain b where b: "cost_components (\<lambda>x y. Inr x) (ProfileId ''baseline_v1'') ''buy'' (Fin 100) (Fin 50) None = Inr b"
    by (auto simp: cost_components_def resolve_execution_profile_def EXECUTION_PROFILES_def BASELINE_def
        Let_def bindE_eq_Inr)
  show ?thesis using cost_2x_doubles_friction [OF b] b by blast
qed

text \<open>No option fill can be charged for a session before 1 July 2026, when the first options
  regulatory fee rate takes effect: the charge raises whatever the legs are.\<close>

theorem option_charge_needs_orf_rate:
  assumes "d < ymd 2026 7 1"
  shows "\<exists>e. option_charge side qty price d instrument = Inl e"
proof (rule ccontr)
  assume "\<nexists>e. option_charge side qty price d instrument = Inl e"
  then obtain f where "option_charge side qty price d instrument = Inr f"
    by (cases "option_charge side qty price d instrument") auto
  then have "\<exists>r. rate ''option_orf_per_contract'' d = Inr r"
    by (auto simp: option_charge_def Let_def bindE_eq_Inr)
  then show False using no_orf_rate_before_july_2026 [OF assms] by simp
qed

theorem option_charge_needs_orf_rate_witness:
  "\<exists>e. option_charge (One ''buy'') (One (Fin 1)) (One (Fin 2)) (ymd 2026 6 30) (One (KindName ''option'')) = Inl e"
proof -
  have "ymd 2026 6 30 < ymd 2026 7 1" by code_simp
  then show ?thesis by (rule option_charge_needs_orf_rate)
qed

end
