(* ===== verification/Fills.thy ===== *)
theory Fills
  imports Bars Costs
begin

text \<open>
  The fill model of \<open>src/sim/fills.py\<close>: the legacy next-open fill with its look-ahead guard, and
  the account engine's next-open, auction, intraday market and intraday limit fills.
\<close>

section \<open>Results\<close>

text \<open>The reason of a rejected fill. The illiquidity reason formats four numbers, which are kept
  unformatted.\<close>

datatype reason = Because string | Illiquid float64 float64 float64 string

record FillResult =
  fr_status :: string
  fr_reject_reason :: "reason option"
  fr_open_px :: "float64 option"
  fr_fill_px :: "float64 option"
  fr_slippage_bps :: "float64 option"
  fr_cost_bps :: "float64 option"
  fr_median_dollar_vol :: "float64 option"
  fr_participation :: "float64 option"
  fr_impact_bps :: "float64 option"
  fr_fee_bps :: "float64 option"
  fr_execution_profile :: "string option"
  fr_fill_kind :: "string option"
  fr_price_source :: "string option"
  fr_bar_ref :: "bar_reference option"
  fr_fill_ts :: "datetime option"
  fr_reference_px :: "float64 option"

definition fill_status :: "string \<Rightarrow> reason option \<Rightarrow> FillResult" where
  "fill_status s r = \<lparr>fr_status = s, fr_reject_reason = r, fr_open_px = None, fr_fill_px = None, fr_slippage_bps = None,
     fr_cost_bps = None, fr_median_dollar_vol = None, fr_participation = None, fr_impact_bps = None,
     fr_fee_bps = None, fr_execution_profile = None, fr_fill_kind = None, fr_price_source = None,
     fr_bar_ref = None, fr_fill_ts = None, fr_reference_px = None\<rparr>"

definition MEDVOL_BARS :: nat where "MEDVOL_BARS = 60"
definition PENDING_MAX_DAYS :: int where "PENDING_MAX_DAYS = 3"

section \<open>The legacy next-open fill\<close>

definition median_dollar_vol_of :: "'e env_scheme \<Rightarrow> market_db \<Rightarrow> string \<Rightarrow> date \<Rightarrow> nat \<Rightarrow> float64 option" where
  "median_dollar_vol_of e db ticker as_of bars =
     sql_median_of e (filter (\<lambda>r. dr_ticker r = ticker \<and> dr_date r < as_of) (d_rows (prices db))) bars"

definition slippage_bps_for ::
    "'e env_scheme \<Rightarrow> float64 option \<Rightarrow> ExecutionProfile profile_ref \<Rightarrow> string \<Rightarrow> float64 \<Rightarrow> float64 \<Rightarrow> float64 outcome" where
  "slippage_bps_for e mdv profile side qty open_px =
     bindE (cost_components (math_pow e) profile side qty open_px mdv) (\<lambda>c. Inr (total_bps c))"

text \<open>The daily dates of the store, which the elapsed-session count reads.\<close>

definition price_dates :: "market_db \<Rightarrow> date list" where
  "price_dates db = map dr_date (d_rows (prices db))"

definition price_row :: "market_db \<Rightarrow> string \<Rightarrow> date \<Rightarrow> bar option" where
  "price_row db ticker d =
     map_option dr_bar (find (\<lambda>r. dr_ticker r = ticker \<and> dr_date r = d) (d_rows (prices db)))"

definition over_capacity :: "float64 option \<Rightarrow> float64 \<Rightarrow> float64 \<Rightarrow> bool" where
  "over_capacity mdv part cap = (case mdv of
     None \<Rightarrow> False | Some m \<Rightarrow> fle m (Fin 0) \<or> flt cap part)"

definition fill_arithmetic_refused :: "string \<Rightarrow> float64 \<Rightarrow> float64 \<Rightarrow> bool" where
  "fill_arithmetic_refused side qty fill_px \<longleftrightarrow>
     order_refusal side (PFloat qty) default_sides [(''fill_price'', PFloat fill_px)] \<noteq> None \<or>
     \<not> isfinite (fmul qty fill_px)"

definition attempt_fill ::
    "'e env_scheme \<Rightarrow> market_db \<Rightarrow> string \<Rightarrow> string \<Rightarrow> float64 \<Rightarrow> date \<Rightarrow> date \<Rightarrow> ExecutionProfile profile_ref
     \<Rightarrow> FillResult outcome" where
  "attempt_fill e db ticker side qty signal_date fill_date profile =
     (if fill_date \<le> signal_date then Inl (ValueError ''look-ahead violation'') else
      case order_refusal side (PFloat qty) [''buy'', ''sell''] [] of
        Some refusal \<Rightarrow> Inr (fill_status ''rejected'' (Some (Because refusal)))
      | None \<Rightarrow>
      let bar = price_row db ticker fill_date in
      if \<not> trusted_bar bar
      then (if PENDING_MAX_DAYS \<le> trading_days_between (price_dates db) signal_date fill_date
            then Inr (fill_status ''rejected'' (Some (Because ''no_bar'')))
            else Inr (fill_status ''pending'' (Some (Because ''untrusted_bar''))))
      else
      (let open_price = the (cell_float (b_open (the bar)));
           mdv = median_dollar_vol_of e db ticker fill_date MEDVOL_BARS in
      bindE (resolve_execution_profile profile) (\<lambda>selected.
      bindE (cost_components (math_pow e) (Profile selected) side qty open_price mdv) (\<lambda>components.
      if over_capacity mdv (participation components) (max_participation selected)
      then Inr ((fill_status ''rejected''
                  (Some (Illiquid (fmul qty open_price) (max_participation selected) (the mdv) (exec_id selected))))
                \<lparr>fr_open_px := Some open_price, fr_median_dollar_vol := mdv\<rparr>)
      else
      (let slip = total_bps components;
           ratio = fquot slip (Fin 10000);
           price = (if side = ''buy'' then fmul open_price (fadd (Fin 1) ratio)
                    else fmul open_price (fsub (Fin 1) ratio))
       in if fill_arithmetic_refused side qty price
          then Inr (fill_status ''rejected'' (Some (Because ''invalid_order: fill arithmetic'')))
          else Inr ((fill_status ''filled'' None)
                 \<lparr>fr_open_px := Some open_price, fr_fill_px := Some price,
                  fr_slippage_bps := Some (market_bps components), fr_cost_bps := Some slip,
                  fr_median_dollar_vol := mdv, fr_participation := Some (participation components),
                  fr_impact_bps := Some (impact_part components), fr_fee_bps := Some (fee_bps components),
                  fr_execution_profile := Some (exec_id selected)\<rparr>))))))"

section \<open>Pricing one account-engine fill\<close>

definition v2_direction :: "string \<Rightarrow> rat" where
  "v2_direction side = (if side \<in> {''buy'', ''cover''} then 1 else -1)"

text \<open>How the fill path prices: its half-spread, whether the profile's fixed adverse movement and its
  participation impact apply, and a penalty.\<close>

record pricing =
  p_spread_bps :: float64
  p_adverse :: bool
  p_impact :: bool
  p_penalty_bps :: float64

definition v2_slippage ::
    "'e env_scheme \<Rightarrow> ExecutionProfile \<Rightarrow> pricing \<Rightarrow> float64 \<Rightarrow> (float64 \<times> float64) outcome" where
  "v2_slippage e selected pr part =
     bindE (if p_impact pr \<and> impact_coefficient_bps selected \<noteq> Fin 0 \<and> flt (Fin 0) part
            then bindE (fdiv part (impact_reference_participation selected)) (\<lambda>x.
                 bindE (math_pow e x (impact_exponent selected)) (\<lambda>y.
                 Inr (fmul (impact_coefficient_bps selected) y)))
            else Inr (Fin 0)) (\<lambda>impact.
     Inr (impact, fadd (fadd (fadd (fmul (p_spread_bps pr) (spread_multiplier selected))
                                   (if p_adverse pr then fixed_adverse_bps selected else Fin 0))
                             impact) (p_penalty_bps pr)))"

definition v2_result ::
    "'e env_scheme \<Rightarrow> string \<Rightarrow> float64 \<Rightarrow> float64 \<Rightarrow> float64 option \<Rightarrow> pricing \<Rightarrow> string \<Rightarrow> string
     \<Rightarrow> bar_reference \<Rightarrow> datetime \<Rightarrow> ExecutionProfile profile_ref \<Rightarrow> FillResult outcome" where
  "v2_result e side qty reference mdv pr kind source ref ts profile =
     (case order_refusal side (PFloat qty) default_sides [(''reference_price'', PFloat reference)] of
        Some refusal \<Rightarrow> Inr (fill_status ''rejected'' (Some (Because refusal)))
      | None \<Rightarrow>
      bindE (resolve_execution_profile profile) (\<lambda>selected.
      let part = (case mdv of None \<Rightarrow> Fin 0
                  | Some m \<Rightarrow> if fle m (Fin 0) then Fin 0 else fquot (fmul qty reference) m) in
      if over_capacity mdv part (max_participation selected)
      then Inr ((fill_status ''rejected''
              (Some (Illiquid (fmul qty reference) (max_participation selected) (the mdv) (exec_id selected))))
              \<lparr>fr_open_px := Some reference, fr_median_dollar_vol := mdv,
               fr_participation := (if flt (Fin 0) (the mdv) then Some part else None),
               fr_execution_profile := Some (exec_id selected), fr_fill_kind := Some kind,
               fr_price_source := Some source, fr_bar_ref := Some ref, fr_fill_ts := Some ts,
               fr_reference_px := Some reference\<rparr>)
      else if side \<notin> set default_sides then Inl (ValueError ''bad side'')
      else
      bindE (v2_slippage e selected pr part) (\<lambda>(impact, slip).
      let price = fmul reference (fadd (Fin 1) (fquot (fmul (Fin (v2_direction side)) slip) (Fin 10000)))
      in if fill_arithmetic_refused side qty price
         then Inr (fill_status ''rejected'' (Some (Because ''invalid_order: fill arithmetic'')))
         else Inr ((fill_status ''filled'' None)
                \<lparr>fr_open_px := Some reference, fr_fill_px := Some price, fr_slippage_bps := Some slip,
                 fr_cost_bps := Some slip, fr_median_dollar_vol := mdv, fr_participation := Some part,
                 fr_impact_bps := Some impact, fr_fee_bps := Some (Fin 0),
                 fr_execution_profile := Some (exec_id selected), fr_fill_kind := Some kind,
                 fr_price_source := Some source, fr_bar_ref := Some ref, fr_fill_ts := Some ts,
                 fr_reference_px := Some reference\<rparr>))))"

section \<open>Account-engine fill paths\<close>

definition attempt_next_open_fill ::
    "'e env_scheme \<Rightarrow> market_db \<Rightarrow> string \<Rightarrow> string \<Rightarrow> float64 \<Rightarrow> date \<Rightarrow> date \<Rightarrow> ExecutionProfile profile_ref
     \<Rightarrow> string \<Rightarrow> stamp option \<Rightarrow> float64 \<Rightarrow> FillResult outcome" where
  "attempt_next_open_fill e db ticker side qty signal_date fill_date profile source available_at penalty =
     (case order_refusal side (PFloat qty) default_sides [] of
        Some refusal \<Rightarrow> Inr (fill_status ''rejected'' (Some (Because refusal)))
      | None \<Rightarrow>
      if fill_date \<le> signal_date then Inl (ValueError ''look-ahead violation'') else
      bindE (daily_bar db ticker fill_date source available_at) (\<lambda>bar. case bar of
        None \<Rightarrow>
          (if PENDING_MAX_DAYS \<le> count_sessions signal_date fill_date 0
           then Inr (fill_status ''rejected'' (Some (Because ''no_bar'')))
           else Inr ((fill_status ''pending'' (Some (Because ''untrusted_bar'')))\<lparr>fr_price_source := Some source\<rparr>))
      | Some b \<Rightarrow>
          bindE (median_dollar_volume e db ticker fill_date source MEDVOL_BARS available_at) (\<lambda>mdv.
          v2_result e side qty (db_open b) mdv
            \<lparr>p_spread_bps = half_spread_bps mdv, p_adverse = True, p_impact = True, p_penalty_bps = penalty\<rparr>
            ''next_open'' source (db_bar_ref b) (ny_to_utc e (combine fill_date (hm 9 30))) profile)))"

definition attempt_auction_fill ::
    "'e env_scheme \<Rightarrow> market_db \<Rightarrow> string \<Rightarrow> string \<Rightarrow> float64 \<Rightarrow> date \<Rightarrow> stamp \<Rightarrow> string \<Rightarrow> ExecutionProfile profile_ref
     \<Rightarrow> string \<Rightarrow> stamp option \<Rightarrow> float64 \<Rightarrow> FillResult outcome" where
  "attempt_auction_fill e db ticker side qty session_date received_at order_type profile source available_at penalty =
     bindE (parse_order_type order_type) (\<lambda>kind.
     case order_refusal side (PFloat qty) default_sides [] of
       Some refusal \<Rightarrow> Inr (fill_status ''rejected'' (Some (Because refusal)))
     | None \<Rightarrow>
     if kind \<notin> {MOO, MOC} then Inl (ValueError ''auction order_type must be moo or moc'')
     else if (case received_at of Naive _ \<Rightarrow> True | Aware _ _ \<Rightarrow> False)
     then Inl (ValueError ''received_at must include its timezone'')
     else if \<not> received_at_allowed e kind session_date received_at
     then Inr (fill_status ''rejected'' (Some (Because ''cutoff'')))
     else
     bindE (daily_bar db ticker session_date source available_at) (\<lambda>bar. case bar of
       None \<Rightarrow> Inr ((fill_status ''pending'' (Some (Because ''untrusted_bar'')))\<lparr>fr_price_source := Some source\<rparr>)
     | Some b \<Rightarrow>
         let opening = (kind = MOO); reference = (if opening then db_open b else db_close b) in
         bindE (median_dollar_volume e db ticker session_date source MEDVOL_BARS available_at) (\<lambda>mdv.
         let (opened, _) = session_bounds e session_date;
             ts = (if opening then opened else ny_to_utc e (session_close session_date)) in
         v2_result e side qty reference mdv
           \<lparr>p_spread_bps = fquot (half_spread_bps mdv) (Fin 2), p_adverse = False, p_impact = True,
            p_penalty_bps = penalty\<rparr>
           (if opening then ''open_auction'' else ''close_auction'') source (db_bar_ref b) ts profile)))"

definition eligible_minutes ::
    "'e env_scheme \<Rightarrow> market_db \<Rightarrow> string \<Rightarrow> date \<Rightarrow> stamp \<Rightarrow> string \<Rightarrow> stamp option \<Rightarrow> MinuteBar list outcome" where
  "eligible_minutes e db ticker session_date received_at source available_at =
     (let earliest = naive_utc received_at + minute in
      bindE (minute_bars e db ticker session_date source available_at) (\<lambda>bars.
      Inr (filter (\<lambda>b. earliest \<le> mb_ts b) bars)))"

definition missing_intraday_result ::
    "date \<Rightarrow> stamp option \<Rightarrow> string \<Rightarrow> string \<Rightarrow> string \<Rightarrow> FillResult" where
  "missing_intraday_result session_date available_at source terminal_status terminal_reason =
     (case available_at of
        None \<Rightarrow> (fill_status ''pending'' None)\<lparr>fr_price_source := Some source\<rparr>
      | Some a \<Rightarrow>
          if count_sessions session_date (date_of (naive_utc a)) 0 < PENDING_MAX_DAYS
          then (fill_status ''pending'' None)\<lparr>fr_price_source := Some source\<rparr>
          else (fill_status terminal_status (Some (Because terminal_reason)))\<lparr>fr_price_source := Some source\<rparr>)"

definition attempt_intraday_market_fill ::
    "'e env_scheme \<Rightarrow> market_db \<Rightarrow> string \<Rightarrow> string \<Rightarrow> float64 \<Rightarrow> date \<Rightarrow> stamp \<Rightarrow> ExecutionProfile profile_ref
     \<Rightarrow> string \<Rightarrow> string \<Rightarrow> stamp option \<Rightarrow> FillResult outcome" where
  "attempt_intraday_market_fill e db ticker side qty session_date received_at profile source daily available_at =
     (case order_refusal side (PFloat qty) default_sides [] of
        Some refusal \<Rightarrow> Inr (fill_status ''rejected'' (Some (Because refusal)))
      | None \<Rightarrow>
      if (case received_at of Naive _ \<Rightarrow> True | Aware _ _ \<Rightarrow> False)
      then Inl (ValueError ''received_at must include its timezone'')
      else if \<not> received_at_allowed e MARKET session_date received_at
      then Inr (fill_status ''rejected'' (Some (Because ''market_closed'')))
      else
      bindE (eligible_minutes e db ticker session_date received_at source available_at) (\<lambda>bars. case bars of
        [] \<Rightarrow>
          bindE (minute_session_complete e db ticker session_date source available_at) (\<lambda>complete.
          if complete
          then Inr ((fill_status ''rejected'' (Some (Because ''no_bar'')))\<lparr>fr_price_source := Some source\<rparr>)
          else Inr (missing_intraday_result session_date available_at source ''rejected'' ''no_bar''))
      | b # _ \<Rightarrow>
          let average = fquot (fadd (fadd (fadd (mb_open b) (mb_high b)) (mb_low b)) (mb_close b)) (Fin 4);
              reference = (case mb_vwap b of
                 Some v \<Rightarrow> if isfinite v \<and> flt (Fin 0) v then v else average
               | None \<Rightarrow> average) in
          bindE (median_dollar_volume e db ticker session_date daily MEDVOL_BARS available_at) (\<lambda>mdv.
          v2_result e side qty reference mdv
            \<lparr>p_spread_bps = half_spread_bps mdv, p_adverse = True, p_impact = True, p_penalty_bps = Fin 0\<rparr>
            ''intraday_bar'' source (mb_bar_ref b) (mb_ts b + minute) profile)))"

definition tick_size :: "float64 \<Rightarrow> float64 outcome" where
  "tick_size price =
     bindE (finite_number (PFloat price) ''limit price'' True False) (\<lambda>_.
     Inr (if fle (Fin 1) price then lit (1 / 100) else lit (1 / 10000)))"

text \<open>The first eligible bar that trades one tick through the limit.\<close>

definition touched_bar :: "string \<Rightarrow> float64 \<Rightarrow> float64 \<Rightarrow> MinuteBar list \<Rightarrow> MinuteBar option outcome" where
  "touched_bar side limit tick bars =
     (if side \<in> {''buy'', ''cover''} then Inr (find (\<lambda>b. fle (mb_low b) (fsub limit tick)) bars)
      else if side \<in> {''sell'', ''short''} then Inr (find (\<lambda>b. fle (fadd limit tick) (mb_high b)) bars)
      else Inl (ValueError ''bad side''))"

definition attempt_intraday_limit_fill ::
    "'e env_scheme \<Rightarrow> market_db \<Rightarrow> string \<Rightarrow> string \<Rightarrow> float64 \<Rightarrow> date \<Rightarrow> stamp \<Rightarrow> float64 \<Rightarrow> ExecutionProfile profile_ref
     \<Rightarrow> string \<Rightarrow> string \<Rightarrow> stamp option \<Rightarrow> FillResult outcome" where
  "attempt_intraday_limit_fill e db ticker side qty session_date received_at limit_px profile source daily available_at =
     (case order_refusal side (PFloat qty) default_sides [(''limit_price'', PFloat limit_px)] of
        Some refusal \<Rightarrow> Inr (fill_status ''rejected'' (Some (Because refusal)))
      | None \<Rightarrow>
      if (case received_at of Naive _ \<Rightarrow> True | Aware _ _ \<Rightarrow> False)
      then Inl (ValueError ''received_at must include its timezone'')
      else if \<not> received_at_allowed e LIMIT session_date received_at
      then Inr (fill_status ''rejected'' (Some (Because ''market_closed'')))
      else
      bindE (eligible_minutes e db ticker session_date received_at source available_at) (\<lambda>bars.
      if bars = []
      then bindE (minute_session_complete e db ticker session_date source available_at) (\<lambda>complete.
           if complete
           then Inr ((fill_status ''expired'' (Some (Because ''day_limit_not_touched'')))
                      \<lparr>fr_price_source := Some source\<rparr>)
           else Inr (missing_intraday_result session_date available_at source ''rejected'' ''no_bar''))
      else
      bindE (tick_size limit_px) (\<lambda>tick.
      bindE (touched_bar side limit_px tick bars) (\<lambda>touched. case touched of
        None \<Rightarrow>
          bindE (minute_session_complete e db ticker session_date source available_at) (\<lambda>complete.
          if \<not> complete
          then Inr (missing_intraday_result session_date available_at source ''rejected'' ''no_bar'')
          else Inr ((fill_status ''expired'' (Some (Because ''day_limit_not_touched'')))
                     \<lparr>fr_price_source := Some source\<rparr>))
      | Some b \<Rightarrow>
          bindE (median_dollar_volume e db ticker session_date daily MEDVOL_BARS available_at) (\<lambda>mdv.
          v2_result e side qty limit_px mdv
            \<lparr>p_spread_bps = Fin 0, p_adverse = False, p_impact = False, p_penalty_bps = Fin 0\<rparr>
            ''limit_touch'' source (mb_bar_ref b) (mb_ts b + minute) profile)))))"


section \<open>Non-negative friction\<close>

lemma nonneg_fadd: "fle (Fin 0) x \<Longrightarrow> fle (Fin 0) y \<Longrightarrow> fle (Fin 0) (fadd x y)"
  using fle_rnd_mono [of 0] by (cases x; cases y) (auto simp: fle_def fadd_def)

lemma nonneg_fquot: "fle (Fin 0) x \<Longrightarrow> 0 < b \<Longrightarrow> fle (Fin 0) (fquot x (Fin b))"
  using fle_rnd_mono [of 0] by (cases x) (auto simp: fle_def fquot_def finf_def)

lemma nonneg_fmul_pos: "fle (Fin 0) x \<Longrightarrow> 0 < b \<Longrightarrow> fle (Fin 0) (fmul (Fin b) x)"
  using fle_rnd_mono [of 0] by (cases x) (auto simp: fle_def fmul_def finf_def)

lemma one_le_fadd: "fle (Fin 0) x \<Longrightarrow> fle (Fin 1) (fadd (Fin 1) x)"
  using fle_rnd_mono [of 1] by (cases x) (auto simp: fle_def fadd_def)

lemma fsub_le_one: "fle (Fin 0) x \<Longrightarrow> fle (fsub (Fin 1) x) (Fin 1)"
  using fle_rnd_mono [of _ 1] by (cases x) (auto simp: fle_def fsub_def fadd_def fneg_def)

lemma fmul_up:
  assumes "is64 (Fin a)" "0 < a" "fle (Fin 1) y"
  shows "fle (Fin a) (fmul (Fin a) y)"
  using assms fmul_ge_self [of a] by (cases y) (auto simp: fle_def fmul_def finf_def)

lemma fmul_down:
  assumes "is64 (Fin a)" "0 < a" "fle y (Fin 1)"
  shows "fle (fmul (Fin a) y) (Fin a)"
  using assms fmul_le_self [of a] by (cases y) (auto simp: fle_def fmul_def finf_def)

text \<open>What the model relies on of the platform's \<open>math.pow\<close>: a power of a non-negative base is
  non-negative (or the call raises).\<close>

definition pow_nonneg :: "(float64 \<Rightarrow> float64 \<Rightarrow> float64 outcome) \<Rightarrow> bool" where
  "pow_nonneg pw \<longleftrightarrow> (\<forall>x y r. fle (Fin 0) x \<and> pw x y = Inr r \<longrightarrow> fle (Fin 0) r)"

lemma half_spread_cases: "half_spread_bps m \<in> {Fin 5, Fin 10, Fin 15, Fin 25}"
  by (auto simp: half_spread_bps_def split: option.splits)

lemma registry_profile:
  assumes "resolve_execution_profile p = Inr sel" "\<And>q. p \<noteq> Profile q"
  shows "sel \<in> {BASELINE, COST_2X, PARTICIPATION_STRESS}"
proof -
  obtain pid where "find (\<lambda>q. exec_id q = pid) EXECUTION_PROFILES = Some sel"
    using assms by (cases p) (auto simp: resolve_execution_profile_def Let_def split: option.splits)
  then have "sel \<in> set EXECUTION_PROFILES" using find_SomeD by fast
  then show ?thesis unfolding EXECUTION_PROFILES_def by simp
qed

text \<open>The three registry profiles, by the fields the pricing reads.\<close>

lemma registry_fields:
  assumes "sel \<in> {BASELINE, COST_2X, PARTICIPATION_STRESS}"
  shows "\<exists>m f c. spread_multiplier sel = Fin m \<and> m \<in> {1, 2} \<and> fixed_adverse_bps sel = Fin f \<and> f \<in> {5, 10} \<and>
    impact_coefficient_bps sel = Fin c \<and> c \<in> {0, 10}"
    and "commission_per_share sel = Fin 0" "commission_minimum sel = Fin 0"
    "commission_max_fraction sel = None" "sell_fee_bps sel = Fin 0"
  using assms by (auto simp: BASELINE_def COST_2X_def PARTICIPATION_STRESS_def)

lemma impact_reference_pos:
  assumes "sel \<in> {BASELINE, COST_2X, PARTICIPATION_STRESS}"
  shows "\<exists>r. impact_reference_participation sel = Fin r \<and> 0 < r"
proof -
  have "rep (1 / 128)" unfolding rep_def by (rule rr_fixed [where n = 1 and k = "- 7"]) simp_all
  then have "1 / 128 \<le> rr (1 / 100)" by (rule rep_le_rr) simp
  moreover obtain r where "lit (1 / 100) = Fin r"
    using le_pow2_lit [of "1 / 100" 0] by (auto simp: le_pow2_def)
  ultimately have "\<exists>r. lit (1 / 100) = Fin r \<and> 0 < r" by (auto simp: lit_def rnd_eq_Fin)
  then show ?thesis using assms by (auto simp: BASELINE_def COST_2X_def PARTICIPATION_STRESS_def)
qed


lemma impact_nonneg:
  assumes "pow_nonneg pw" "sel \<in> {BASELINE, COST_2X, PARTICIPATION_STRESS}"
    and "(if c \<and> impact_coefficient_bps sel \<noteq> Fin 0 \<and> flt (Fin 0) part
          then bindE (fdiv part (impact_reference_participation sel)) (\<lambda>x.
               bindE (pw x (impact_exponent sel)) (\<lambda>y. Inr (fmul (impact_coefficient_bps sel) y)))
          else Inr (Fin 0)) = Inr impact"
  shows "fle (Fin 0) impact"
proof (cases "c \<and> impact_coefficient_bps sel \<noteq> Fin 0 \<and> flt (Fin 0) part")
  case True
  obtain r where r: "impact_reference_participation sel = Fin r" "0 < r"
    using impact_reference_pos [OF assms(2)] by blast
  obtain k where k: "impact_coefficient_bps sel = Fin k" "0 < k"
    using registry_fields(1) [OF assms(2)] True by auto
  obtain y where y: "pw (fquot part (Fin r)) (impact_exponent sel) = Inr y" "impact = fmul (Fin k) y"
    using assms(3) True r k by (auto simp: fdiv_def bindE_eq_Inr)
  have "fle (Fin 0) y" using assms(1) True y(1) nonneg_fquot [OF flt_imp_fle] r(2) unfolding pow_nonneg_def by blast
  then show ?thesis using y(2) k nonneg_fmul_pos by simp
qed (use assms(3) in auto)

lemma spread_nonneg:
  assumes "sel \<in> {BASELINE, COST_2X, PARTICIPATION_STRESS}"
  shows "\<exists>v. fadd (fmul (half_spread_bps mdv) (spread_multiplier sel)) (fixed_adverse_bps sel) = Fin v \<and> 10 \<le> v"
  using registry_fields(1) [OF assms] half_spread_cases [of mdv] by (elim exE conjE insertE emptyE) simp_all

lemma cost_components_nonneg:
  assumes "pow_nonneg pw" "sel \<in> {BASELINE, COST_2X, PARTICIPATION_STRESS}" "0 < q"
    and "cost_components pw (Profile sel) side (Fin q) px mdv = Inr c"
  shows "fle (Fin 0) (total_bps c)" and "fee_bps c = Fin 0"
proof -
  note f = registry_fields [OF assms(2)]
  let ?n = "fabs (fmul (Fin q) px)"
  define part where "part = (case mdv of None \<Rightarrow> Fin 0 | Some m \<Rightarrow> if flt (Fin 0) m then fquot ?n m else Fin 0)"
  let ?fee = "if flt (Fin 0) ?n then fmul (fquot (Fin 0) ?n) (Fin 10000) else Fin 0"
  obtain impact where i: "(if True \<and> impact_coefficient_bps sel \<noteq> Fin 0 \<and> flt (Fin 0) part
          then bindE (fdiv part (impact_reference_participation sel)) (\<lambda>x.
               bindE (pw x (impact_exponent sel)) (\<lambda>y. Inr (fmul (impact_coefficient_bps sel) y)))
          else Inr (Fin 0)) = Inr impact"
    and c: "market_bps c = fadd (fadd (fmul (half_spread_bps mdv) (spread_multiplier sel)) (fixed_adverse_bps sel)) impact"
    and fee: "fee_bps c = (if side = ''sell'' then fadd ?fee (Fin 0) else ?fee)"
    and t: "total_bps c = fadd (market_bps c) (fee_bps c)"
  proof -
    have com: "fmax (fmul (Fin 0) (fabs (Fin q))) (Fin 0) = Fin 0" by (simp add: fmax_def)
    obtain impact fee where "(if True \<and> impact_coefficient_bps sel \<noteq> Fin 0 \<and> flt (Fin 0) part
          then bindE (fdiv part (impact_reference_participation sel)) (\<lambda>x.
               bindE (pw x (impact_exponent sel)) (\<lambda>y. Inr (fmul (impact_coefficient_bps sel) y)))
          else Inr (Fin 0)) = Inr impact"
      "(if side = ''sell'' then Inr (fadd ?fee (Fin 0)) else if side \<noteq> ''buy'' then Inl (ValueError ''bad side'') else Inr ?fee) = Inr fee"
      "c = \<lparr>half_spread = fmul (half_spread_bps mdv) (spread_multiplier sel), fixed_adverse = fixed_adverse_bps sel,
        impact_part = impact, market_bps = fadd (fadd (fmul (half_spread_bps mdv) (spread_multiplier sel)) (fixed_adverse_bps sel)) impact,
        fee_bps = fee, total_bps = fadd (fadd (fadd (fmul (half_spread_bps mdv) (spread_multiplier sel)) (fixed_adverse_bps sel)) impact) fee,
        participation = part, commission_dollars = Fin 0\<rparr>"
      using assms(4)
      unfolding cost_components_def resolve_execution_profile_def profile_ref.case Let_def part_def [symmetric]
        bindE_simps f(2-5) com option.case bindE_eq_Inr by auto
    then show thesis by (intro that [of impact]) (auto split: if_splits)
  qed
  note impact = impact_nonneg [OF assms(1,2) i]
  have z: "flt (Fin 0) n \<Longrightarrow> fmul (fquot (Fin 0) n) (Fin 10000) = Fin 0" for n
    by (cases n) (auto simp: flt_def fquot_def)
  show fee0: "fee_bps c = Fin 0" using fee z by (auto split: if_splits)
  obtain v where v: "fadd (fmul (half_spread_bps mdv) (spread_multiplier sel)) (fixed_adverse_bps sel) = Fin v" "10 \<le> v"
    using spread_nonneg [OF assms(2)] by blast
  then have "fle (Fin 0) (market_bps c)" unfolding c v(1) using impact by (intro nonneg_fadd) auto
  then show "fle (Fin 0) (total_bps c)" unfolding t fee0 by (intro nonneg_fadd) auto
qed

text \<open>What a filled legacy order satisfies.\<close>

lemma finite_number_PFloat:
  "(\<exists>y. finite_number (PFloat x) n True nn = Inr y) \<longleftrightarrow> (\<exists>v. x = Fin v \<and> 0 < v)"
  by (cases x) (auto simp: finite_number_def py_float_def is_bool_def is_real_def isfinite_def)

lemma order_refusal_None:
  assumes "order_refusal side (PFloat x) sides ps = None"
  shows "\<exists>v. x = Fin v \<and> 0 < v" and "side \<in> set sides"
  using assms finite_number_PFloat [of x "''quantity''" False]
  by (auto simp: order_refusal_def split: if_splits sum.splits)

lemma fill_arithmetic_ok:
  assumes "\<not> fill_arithmetic_refused side qty px"
  shows "\<exists>v. px = Fin v \<and> 0 < v"
  using assms finite_number_PFloat [of px "''fill_price''" False]
  by (auto simp: fill_arithmetic_refused_def order_refusal_def split: if_splits sum.splits)

lemma attempt_fill_filled:
  assumes "attempt_fill e db ticker side qty sd fd profile = Inr r" "fr_status r = ''filled''"
  obtains b op sel c where "sd < fd" "side \<in> {''buy'', ''sell''}" "price_row db ticker fd = Some b"
    "trusted_bar (Some b)" "cell_float (b_open b) = Some op" "resolve_execution_profile profile = Inr sel"
    "cost_components (math_pow e) (Profile sel) side qty op (fr_median_dollar_vol r) = Inr c"
    "fr_median_dollar_vol r = median_dollar_vol_of e db ticker fd MEDVOL_BARS"
    "\<not> over_capacity (fr_median_dollar_vol r) (participation c) (max_participation sel)"
    "fr_open_px r = Some op" "fr_participation r = Some (participation c)"
    "fr_fill_px r = Some (fmul op (if side = ''buy'' then fadd (Fin 1) (fquot (total_bps c) (Fin 10000))
       else fsub (Fin 1) (fquot (total_bps c) (Fin 10000))))"
    "\<exists>v. qty = Fin v \<and> 0 < v"
proof -
  have g: "\<not> fd \<le> sd" "order_refusal side (PFloat qty) [''buy'', ''sell''] [] = None"
    "trusted_bar (price_row db ticker fd)"
    using assms by (auto simp: attempt_fill_def Let_def fill_status_def split: if_splits option.splits)
  obtain b where b: "price_row db ticker fd = Some b" "trusted_bar (Some b)"
    using g(3) by (cases "price_row db ticker fd") (auto simp: trusted_bar_def)
  obtain op where op: "cell_float (b_open b) = Some op" using b(2) trusted_bar_iff by blast
  let ?m = "median_dollar_vol_of e db ticker fd MEDVOL_BARS"
  obtain sel c where sc: "resolve_execution_profile profile = Inr sel"
    "cost_components (math_pow e) (Profile sel) side qty op ?m = Inr c"
    using assms g b op by (auto simp: attempt_fill_def Let_def bindE_eq_Inr)
  have cap: "\<not> over_capacity ?m (participation c) (max_participation sel)"
    using assms g b op sc by (auto simp: attempt_fill_def Let_def fill_status_def split: if_splits)
  have r: "fr_median_dollar_vol r = ?m \<and> fr_open_px r = Some op \<and> fr_participation r = Some (participation c) \<and>
     fr_fill_px r = Some (fmul op (if side = ''buy'' then fadd (Fin 1) (fquot (total_bps c) (Fin 10000))
       else fsub (Fin 1) (fquot (total_bps c) (Fin 10000))))"
    using assms g b op sc cap by (auto simp: attempt_fill_def Let_def fill_status_def split: if_splits)
  show thesis
    using that [of b op sel c] g b op sc cap r order_refusal_None [OF g(2)] by auto
qed


section \<open>Account-engine fills\<close>

lemma v2_result_filled:
  assumes "v2_result e side qty ref mdv pr kind source bref ts profile = Inr r" "fr_status r = ''filled''"
  obtains sel part impact slip where "resolve_execution_profile profile = Inr sel"
    "\<not> over_capacity mdv part (max_participation sel)" "v2_slippage e sel pr part = Inr (impact, slip)"
    "fr_fill_px r = Some (fmul ref (fadd (Fin 1) (fquot (fmul (Fin (v2_direction side)) slip) (Fin 10000))))"
    "fr_fill_ts r = Some ts" "fr_reference_px r = Some ref" "fr_bar_ref r = Some bref" "fr_fill_kind r = Some kind"
    "fr_participation r = Some part" "side \<in> set default_sides" "\<exists>v. ref = Fin v \<and> 0 < v" "\<exists>v. qty = Fin v \<and> 0 < v"
proof -
  have g: "order_refusal side (PFloat qty) default_sides [(''reference_price'', PFloat ref)] = None"
    using assms by (auto simp: v2_result_def fill_status_def split: option.splits)
  have q: "side \<in> set default_sides" "\<exists>v. qty = Fin v \<and> 0 < v" using order_refusal_None [OF g] by auto
  have rf: "\<exists>v. ref = Fin v \<and> 0 < v"
    using g finite_number_PFloat [of ref "''reference_price''" False]
    by (auto simp: order_refusal_def split: if_splits sum.splits)
  define part where "part = (case mdv of None \<Rightarrow> Fin 0
                  | Some m \<Rightarrow> if fle m (Fin 0) then Fin 0 else fquot (fmul qty ref) m)"
  obtain sel where sel: "resolve_execution_profile profile = Inr sel"
    using assms g by (auto simp: v2_result_def bindE_eq_Inr)
  have cap: "\<not> over_capacity mdv part (max_participation sel)"
    using assms g sel unfolding v2_result_def Let_def part_def [symmetric]
    by (auto simp: fill_status_def split: if_splits)
  obtain impact slip where sl: "v2_slippage e sel pr part = Inr (impact, slip)"
    using assms g sel cap q unfolding v2_result_def Let_def part_def [symmetric]
    by (auto simp: bindE_eq_Inr)
  show thesis
    using that [of sel part impact slip] assms g sel cap sl q rf
    unfolding v2_result_def Let_def part_def [symmetric] by (auto simp: fill_status_def split: if_splits)
qed

lemma fmul_one: "is64 x \<Longrightarrow> fmul x (Fin 1) = x"
  by (cases x) (auto simp: rnd_is64 fmul_def finf_def)

text \<open>A limit fill has no friction, so its price is the limit itself.\<close>

lemma v2_limit_price:
  assumes "v2_slippage e sel \<lparr>p_spread_bps = Fin 0, p_adverse = False, p_impact = False, p_penalty_bps = Fin 0\<rparr> part = Inr (impact, slip)"
    and "sel \<in> {BASELINE, COST_2X, PARTICIPATION_STRESS}" "is64 ref"
  shows "fmul ref (fadd (Fin 1) (fquot (fmul (Fin (v2_direction side)) slip) (Fin 10000))) = ref"
proof -
  obtain m where "spread_multiplier sel = Fin m" using registry_fields(1) [OF assms(2)] by blast
  then have "slip = Fin 0" using assms(1) by (auto simp: v2_slippage_def)
  then show ?thesis using fmul_one [OF assms(3)] by simp
qed

lemma eligible_minutes_spec:
  assumes "eligible_minutes e db t d rcv s a = Inr bars" "b \<in> set bars"
  shows "naive_utc rcv + minute \<le> mb_ts b" "fst (session_bounds e d) \<le> mb_ts b" "mb_ts b < snd (session_bounds e d)"
    "bar_ok (mb_open b) (mb_high b) (mb_low b) (mb_close b)" "\<exists>all. minute_bars e db t d s a = Inr all \<and> b \<in> set all"
  using assms minute_bars_spec(2) [of e db t d s a] by (auto simp: eligible_minutes_def Let_def bindE_eq_Inr)

lemma limit_fill_filled:
  assumes "attempt_intraday_limit_fill e db ticker side qty d rcv lpx profile source daily a = Inr r"
    and "fr_status r = ''filled''"
  obtains bars b tick mdv where "received_at_allowed e LIMIT d rcv"
    "eligible_minutes e db ticker d rcv source a = Inr bars" "b \<in> set bars" "tick_size lpx = Inr tick"
    "touched_bar side lpx tick bars = Inr (Some b)"
    "v2_result e side qty lpx mdv \<lparr>p_spread_bps = Fin 0, p_adverse = False, p_impact = False, p_penalty_bps = Fin 0\<rparr>
       ''limit_touch'' source (mb_bar_ref b) (mb_ts b + minute) profile = Inr r"
proof -
  note d = attempt_intraday_limit_fill_def fill_status_def missing_intraday_result_def
  have g: "order_refusal side (PFloat qty) default_sides [(''limit_price'', PFloat lpx)] = None"
    "received_at_allowed e LIMIT d rcv"
    using assms by (auto simp: d split: option.splits if_splits)
  have nv: "\<not> (case rcv of Naive _ \<Rightarrow> True | Aware _ _ \<Rightarrow> False)"
    using g(2) by (auto simp: received_at_allowed_def split: stamp.splits)
  obtain bars where bars: "eligible_minutes e db ticker d rcv source a = Inr bars"
    using assms(1) g nv by (auto simp: d bindE_eq_Inr)
  have ne: "bars \<noteq> []"
    using assms g nv bars by (auto simp: d bindE_eq_Inr split: if_splits option.splits)
  obtain tick tb where t: "tick_size lpx = Inr tick" "touched_bar side lpx tick bars = Inr tb"
    using assms(1) g nv bars ne by (auto simp: d bindE_eq_Inr)
  have "tb \<noteq> None"
    using assms g nv bars ne t by (auto simp: d bindE_eq_Inr split: if_splits option.splits)
  then obtain b where b: "tb = Some b" by blast
  have "b \<in> set bars" using t(2) b by (auto simp: touched_bar_def split: if_splits dest: find_SomeD)
  moreover obtain mdv where "v2_result e side qty lpx mdv \<lparr>p_spread_bps = Fin 0, p_adverse = False, p_impact = False, p_penalty_bps = Fin 0\<rparr>
       ''limit_touch'' source (mb_bar_ref b) (mb_ts b + minute) profile = Inr r"
    using assms(1) g nv bars ne t b unfolding d by (auto simp: bindE_eq_Inr)
  ultimately show thesis using that g bars t b by blast
qed

lemma market_fill_filled:
  assumes "attempt_intraday_market_fill e db ticker side qty d rcv profile source daily a = Inr r"
    and "fr_status r = ''filled''"
  obtains bars b mdv ref pr where "received_at_allowed e MARKET d rcv"
    "eligible_minutes e db ticker d rcv source a = Inr (b # bars)"
    "v2_result e side qty ref mdv pr ''intraday_bar'' source (mb_bar_ref b) (mb_ts b + minute) profile = Inr r"
proof -
  note d = attempt_intraday_market_fill_def fill_status_def missing_intraday_result_def
  have g: "order_refusal side (PFloat qty) default_sides [] = None" "received_at_allowed e MARKET d rcv"
    using assms by (auto simp: d split: option.splits if_splits)
  have nv: "\<not> (case rcv of Naive _ \<Rightarrow> True | Aware _ _ \<Rightarrow> False)"
    using g(2) by (auto simp: received_at_allowed_def split: stamp.splits)
  obtain bars where bars: "eligible_minutes e db ticker d rcv source a = Inr bars"
    using assms(1) g nv by (auto simp: d bindE_eq_Inr)
  have "bars \<noteq> []"
    using assms g nv bars by (auto simp: d bindE_eq_Inr split: if_splits option.splits)
  then obtain b bs where b: "bars = b # bs" by (cases bars) auto
  show thesis
    using assms(1) g nv bars b that unfolding d Let_def by (auto simp: bindE_eq_Inr)
qed


section \<open>Properties\<close>

text \<open>A small store for the witnesses: one daily bar and two minute bars of one name, a wall clock
  four hours behind UTC.\<close>

definition example_bar :: bar where
  "example_bar = \<lparr>b_open = Double (Fin 10), b_high = Double (Fin 11), b_low = Double (Fin 9),
     b_close = Double (Fin 10), b_volume = BigInt 1000\<rparr>"

definition example_db :: market_db where
  "example_db =
     \<lparr>prices = \<lparr>d_columns = [''ticker'', ''date'', ''open'', ''high'', ''low'', ''close'', ''volume''],
        d_rows = [\<lparr>dr_ticker = ''SPY'', dr_date = ymd 2026 10 6, dr_bar = example_bar, dr_vwap = Null,
                   dr_first_fetched_at = None, dr_fetched_at = None, dr_source_sha256 = []\<rparr>]\<rparr>,
      free_daily_bars = \<lparr>d_columns = [], d_rows = []\<rparr>,
      intraday_prices = \<lparr>m_columns = [''ticker'', ''ts'', ''open'', ''high'', ''low'', ''close'', ''volume''],
        m_rows = [\<lparr>mr_ticker = ''SPY'', mr_ts = combine (ymd 2026 10 6) (hm 14 5), mr_bar = example_bar,
                   mr_vwap = Null, mr_interval = None, mr_fetched_at = None, mr_as_of = None\<rparr>]\<rparr>,
      massive_minute_bars = \<lparr>m_columns = [], m_rows = []\<rparr>\<rparr>"

definition example_env :: env where
  "example_env = \<lparr>utc_to_ny = \<lambda>t. t - 240 * minute, ny_to_utc = \<lambda>t. t + 240 * minute,
     sql_median = hd, sql_sum = py_sum, math_pow = \<lambda>x y. Inr x\<rparr>"

lemma example_pow: "pow_nonneg (math_pow example_env)"
  by (simp add: pow_nonneg_def example_env_def)

text \<open>C18. The legacy fill is honest. A filled order has its fill date after its signal date, is priced
  from a trusted bar of the fill date, and under every registered profile a buy pays at least
  the open and a sale receives at most the open, in floating point; its participation does not
  exceed the profile's cap.\<close>

theorem legacy_fill_honest:
  assumes "attempt_fill e db ticker side qty sd fd profile = Inr r" "fr_status r = ''filled''"
    and "\<forall>p. profile \<noteq> Profile p" "pow_nonneg (math_pow e)"
    and "\<forall>b x. price_row db ticker fd = Some b \<and> b_open b = Double x \<longrightarrow> is64 x"
  shows "sd < fd \<and>
    (\<exists>b op px. price_row db ticker fd = Some b \<and> trusted_bar (Some b) \<and> cell_float (b_open b) = Some op \<and>
       fr_fill_px r = Some px \<and> (side = ''buy'' \<and> fle op px \<or> side = ''sell'' \<and> fle px op)) \<and>
    (\<exists>part sel. fr_participation r = Some part \<and> resolve_execution_profile profile = Inr sel \<and>
       \<not> over_capacity (fr_median_dollar_vol r) part (max_participation sel))"
proof -
  from attempt_fill_filled [OF assms(1,2)] obtain b op sel c where f: "sd < fd" "side \<in> {''buy'', ''sell''}"
    "price_row db ticker fd = Some b" "trusted_bar (Some b)" "cell_float (b_open b) = Some op"
    "resolve_execution_profile profile = Inr sel"
    "cost_components (math_pow e) (Profile sel) side qty op (fr_median_dollar_vol r) = Inr c"
    "\<not> over_capacity (fr_median_dollar_vol r) (participation c) (max_participation sel)"
    "fr_participation r = Some (participation c)"
    "fr_fill_px r = Some (fmul op (if side = ''buy'' then fadd (Fin 1) (fquot (total_bps c) (Fin 10000))
       else fsub (Fin 1) (fquot (total_bps c) (Fin 10000))))" "\<exists>v. qty = Fin v \<and> 0 < v"
    by metis
  obtain q where q: "qty = Fin q" "0 < q" using f(11) by blast
  have sel: "sel \<in> {BASELINE, COST_2X, PARTICIPATION_STRESS}" using registry_profile f(6) assms(3) by blast
  have ratio: "fle (Fin 0) (fquot (total_bps c) (Fin 10000))"
    using cost_components_nonneg(1) [OF assms(4) sel q(2)] f(7) q(1) by (intro nonneg_fquot) auto
  have open_price: "is64 op" "\<exists>v. op = Fin v \<and> 0 < v"
  proof -
    have "bar_ok op h l cl \<Longrightarrow> \<exists>v. op = Fin v \<and> 0 < v" for h l cl
      using bar_ok_positive [of op h l cl] by (auto simp: bar_ok_def elim!: isfiniteE)
    then show "\<exists>v. op = Fin v \<and> 0 < v" using f(4,5) unfolding trusted_bar_iff by auto
    show "is64 op" using f(3,5) assms(5) of_pyint_Inr
      by (cases "b_open b") (auto simp: cell_float_def split: sum.splits)
  qed
  then obtain v where v: "op = Fin v" "0 < v" by blast
  have "side = ''buy'' \<and> fle op (the (fr_fill_px r)) \<or> side = ''sell'' \<and> fle (the (fr_fill_px r)) op"
    using f(2,10) fmul_up [OF _ v(2) one_le_fadd [OF ratio]] fmul_down [OF _ v(2) fsub_le_one [OF ratio]]
      open_price(1) v(1) by auto
  then show ?thesis using f by auto
qed

theorem legacy_fill_honest_witness:
  "\<exists>r px. attempt_fill example_env example_db ''SPY'' ''buy'' (Fin 5) (ymd 2026 10 5) (ymd 2026 10 6) NoProfile = Inr r \<and>
     fr_fill_px r = Some px \<and> fle (Fin 10) px"
proof -
  let ?f = "attempt_fill example_env example_db ''SPY'' ''buy'' (Fin 5) (ymd 2026 10 5) (ymd 2026 10 6) NoProfile"
  have "case ?f of Inr r \<Rightarrow> fr_status r = ''filled'' | Inl _ \<Rightarrow> False" by code_simp
  then obtain r where r: "?f = Inr r" "fr_status r = ''filled''" by (cases ?f) auto
  have p: "price_row example_db ''SPY'' (ymd 2026 10 6) = Some example_bar" by code_simp
  have w: "\<forall>b x. price_row example_db ''SPY'' (ymd 2026 10 6) = Some b \<and> b_open b = Double x \<longrightarrow> is64 x"
    unfolding p using rnd_numeral [of "num.Bit0 (num.Bit1 (num.Bit0 num.One))"] is64_rnd [of 10]
    by (auto simp: example_bar_def)
  have "cell_float (b_open example_bar) = Some (Fin 10)" by (simp add: example_bar_def cell_float_def)
  then show ?thesis
    using legacy_fill_honest [OF r _ example_pow w] r(1) p by auto
qed


text \<open>C19. A day limit order fills at exactly its limit price, never better and never worse, and only
  after a minute bar of the session that starts at least one minute after receipt has traded a
  full tick through the limit; the fill is stamped at the end of that bar.\<close>

theorem limit_fill_exact:
  assumes "attempt_intraday_limit_fill e db ticker side qty d rcv lpx profile source daily a = Inr r"
    and "fr_status r = ''filled''" "\<forall>p. profile \<noteq> Profile p" "is64 lpx"
  shows "fr_fill_px r = Some lpx \<and>
    (\<exists>bars b tick. minute_bars e db ticker d source a = Inr bars \<and> b \<in> set bars \<and> tick_size lpx = Inr tick \<and>
       (side \<in> {''buy'', ''cover''} \<and> fle (mb_low b) (fsub lpx tick) \<or>
        side \<in> {''sell'', ''short''} \<and> fle (fadd lpx tick) (mb_high b)) \<and>
       naive_utc rcv + minute \<le> mb_ts b \<and> fr_fill_ts r = Some (mb_ts b + minute))"
proof -
  from limit_fill_filled [OF assms(1,2)] obtain bars b tick mdv where f:
    "eligible_minutes e db ticker d rcv source a = Inr bars" "b \<in> set bars" "tick_size lpx = Inr tick"
    "touched_bar side lpx tick bars = Inr (Some b)"
    "v2_result e side qty lpx mdv \<lparr>p_spread_bps = Fin 0, p_adverse = False, p_impact = False, p_penalty_bps = Fin 0\<rparr>
       ''limit_touch'' source (mb_bar_ref b) (mb_ts b + minute) profile = Inr r"
    by metis
  from v2_result_filled [OF f(5) assms(2)] obtain sel part impact slip where v:
    "resolve_execution_profile profile = Inr sel"
    "v2_slippage e sel \<lparr>p_spread_bps = Fin 0, p_adverse = False, p_impact = False, p_penalty_bps = Fin 0\<rparr> part = Inr (impact, slip)"
    "fr_fill_px r = Some (fmul lpx (fadd (Fin 1) (fquot (fmul (Fin (v2_direction side)) slip) (Fin 10000))))"
    "fr_fill_ts r = Some (mb_ts b + minute)"
    by metis
  have sel: "sel \<in> {BASELINE, COST_2X, PARTICIPATION_STRESS}" using registry_profile v(1) assms(3) by blast
  have px: "fr_fill_px r = Some lpx" using v(3) v2_limit_price [OF v(2) sel assms(4)] by simp
  have through: "side \<in> {''buy'', ''cover''} \<and> fle (mb_low b) (fsub lpx tick) \<or>
      side \<in> {''sell'', ''short''} \<and> fle (fadd lpx tick) (mb_high b)"
    using f(4) by (auto simp: touched_bar_def split: if_splits dest!: find_SomeD)
  obtain all where "minute_bars e db ticker d source a = Inr all" "b \<in> set all"
    using eligible_minutes_spec(5) [OF f(1,2)] by blast
  then show ?thesis using px through f(3) v(4) eligible_minutes_spec(1) [OF f(1,2)] by blast
qed

theorem limit_fill_exact_witness:
  "\<exists>r. attempt_intraday_limit_fill example_env example_db ''SPY'' ''buy'' (Fin 5) (ymd 2026 10 6)
      (Aware (combine (ymd 2026 10 6) (hm 14 0)) 0) (Fin 10) NoProfile ''intraday_prices'' ''prices'' None = Inr r \<and>
     fr_fill_px r = Some (Fin 10)"
proof -
  let ?f = "attempt_intraday_limit_fill example_env example_db ''SPY'' ''buy'' (Fin 5) (ymd 2026 10 6)
      (Aware (combine (ymd 2026 10 6) (hm 14 0)) 0) (Fin 10) NoProfile ''intraday_prices'' ''prices'' None"
  have "case ?f of Inr r \<Rightarrow> fr_status r = ''filled'' | Inl _ \<Rightarrow> False" by code_simp
  then obtain r where r: "?f = Inr r" "fr_status r = ''filled''" by (cases ?f) auto
  have i: "is64 (Fin 10)" using is64_rnd [of 10] by simp
  show ?thesis using limit_fill_exact [OF r _ i] r(1) by auto
qed

text \<open>An intraday market order never trades on information from before it could act: its fill uses
  a bar that starts at least one minute after receipt, inside the session, and is stamped at
  the end of that bar.\<close>

theorem market_fill_after_receipt:
  assumes "attempt_intraday_market_fill e db ticker side qty d rcv profile source daily a = Inr r"
    and "fr_status r = ''filled''"
  shows "\<exists>ts. fr_fill_ts r = Some ts \<and> naive_utc rcv + 2 * minute \<le> ts \<and>
    fst (session_bounds e d) + minute \<le> ts \<and> ts < snd (session_bounds e d) + minute"
proof -
  from market_fill_filled [OF assms] obtain bars b mdv ref pr where f:
    "eligible_minutes e db ticker d rcv source a = Inr (b # bars)"
    "v2_result e side qty ref mdv pr ''intraday_bar'' source (mb_bar_ref b) (mb_ts b + minute) profile = Inr r"
    by metis
  from v2_result_filled [OF f(2) assms(2)] have ts: "fr_fill_ts r = Some (mb_ts b + minute)" by metis
  have "b \<in> set (b # bars)" by simp
  then show ?thesis using ts eligible_minutes_spec(1-3) [OF f(1)] by fastforce
qed

theorem market_fill_after_receipt_witness:
  "\<exists>r ts. attempt_intraday_market_fill example_env example_db ''SPY'' ''sell'' (Fin 5) (ymd 2026 10 6)
      (Aware (combine (ymd 2026 10 6) (hm 14 0)) 0) NoProfile ''intraday_prices'' ''prices'' None = Inr r \<and>
     fr_fill_ts r = Some ts \<and> combine (ymd 2026 10 6) (hm 14 0) + 2 * minute \<le> ts"
proof -
  let ?f = "attempt_intraday_market_fill example_env example_db ''SPY'' ''sell'' (Fin 5) (ymd 2026 10 6)
      (Aware (combine (ymd 2026 10 6) (hm 14 0)) 0) NoProfile ''intraday_prices'' ''prices'' None"
  have "case ?f of Inr r \<Rightarrow> fr_status r = ''filled'' | Inl _ \<Rightarrow> False" by code_simp
  then obtain r where r: "?f = Inr r" "fr_status r = ''filled''" by (cases ?f) auto
  have u: "naive_utc (Aware (combine (ymd 2026 10 6) (hm 14 0)) 0) = combine (ymd 2026 10 6) (hm 14 0)"
    by (simp add: naive_utc_def)
  show ?thesis using market_fill_after_receipt [OF r] r(1) unfolding u by blast
qed

text \<open>C20. Point-in-time execution: with an availability cutoff, no fill path of the account engine can
  tell the store from the store as it was known at the cutoff. Rows stamped later have no
  influence on any outcome, price, stamp or error.\<close>

theorem fills_point_in_time:
  "attempt_next_open_fill e (as_known a db) t side q sd fd p s (Some a) pen =
     attempt_next_open_fill e db t side q sd fd p s (Some a) pen \<and>
   attempt_auction_fill e (as_known a db) t side q d rcv ot p s (Some a) pen =
     attempt_auction_fill e db t side q d rcv ot p s (Some a) pen \<and>
   attempt_intraday_market_fill e (as_known a db) t side q d rcv p s daily (Some a) =
     attempt_intraday_market_fill e db t side q d rcv p s daily (Some a) \<and>
   attempt_intraday_limit_fill e (as_known a db) t side q d rcv lpx p s daily (Some a) =
     attempt_intraday_limit_fill e db t side q d rcv lpx p s daily (Some a)"
  unfolding attempt_next_open_fill_def attempt_auction_fill_def attempt_intraday_market_fill_def
    attempt_intraday_limit_fill_def eligible_minutes_def as_known_simps
  by (intro conjI refl)

text \<open>A next-open order cannot stay pending for ever: once three exchange sessions lie between the
  signal and the fill date, an attempt without a trusted bar rejects it, and a pending outcome
  always means that fewer have passed.\<close>

theorem pending_is_bounded:
  assumes "attempt_next_open_fill e db t side q sd fd p s a pen = Inr r" "fr_status r = ''pending''"
  shows "sd < fd \<and> card {x. sd < x \<and> x \<le> fd \<and> is_session x} < 3"
proof -
  have nv: "v2_result e side q ref mdv pr k src bref ts p = Inr r \<Longrightarrow> fr_status r \<noteq> ''pending''" for ref mdv pr k src bref ts
    by (auto simp: v2_result_def fill_status_def Let_def bindE_eq_Inr split: option.splits if_splits)
  have "sd < fd \<and> count_sessions sd fd 0 < PENDING_MAX_DAYS"
    using assms nv
    by (auto simp: attempt_next_open_fill_def fill_status_def bindE_eq_Inr split: option.splits if_splits)
  then show ?thesis by (simp add: count_sessions_eq PENDING_MAX_DAYS_def)
qed

theorem pending_is_bounded_witness:
  "\<exists>r. attempt_next_open_fill example_env example_db ''SPY'' ''buy'' (Fin 5) (ymd 2026 10 6) (ymd 2026 10 7)
      NoProfile ''prices'' None (Fin 0) = Inr r \<and>
     card {x. ymd 2026 10 6 < x \<and> x \<le> ymd 2026 10 7 \<and> is_session x} < 3"
proof -
  let ?f = "attempt_next_open_fill example_env example_db ''SPY'' ''buy'' (Fin 5) (ymd 2026 10 6) (ymd 2026 10 7)
      NoProfile ''prices'' None (Fin 0)"
  have "case ?f of Inr r \<Rightarrow> fr_status r = ''pending'' | Inl _ \<Rightarrow> False" by code_simp
  then obtain r where r: "?f = Inr r" "fr_status r = ''pending''" by (cases ?f) auto
  show ?thesis using pending_is_bounded [OF r] r(1) by blast
qed

end
