(* ===== verification/Book.thy ===== *)
theory Book
  imports Fills "HOL-Library.Product_Lexorder"
begin

text \<open>
  The accounting tables: portfolios and their account settings
  (\<open>src/sim/schema.py\<close>), positions, open lots, day trades, and the append-only fills, fees,
  dividends, settlements, cash events and splits that the ledger replays. A table is the list
  of its rows; INSERT appends, UPDATE and DELETE act on the rows their WHERE clause selects.
\<close>

section \<open>Rows\<close>

record portfolio_row =
  pf_id :: string
  pf_active :: bool
  pf_cash :: float64
  pf_initial_cash :: "float64 option"
  pf_strategy :: string
  pf_external_sha256 :: "string option"
  pf_created :: date
  pf_execution_profile :: "string option"

record account_row =
  pa_portfolio_id :: string
  pa_engine :: "string option"
  pa_cost_profile :: "string option"
  pa_account_type :: "string option"
  pa_visibility :: "string option"
  pa_status :: "string option"
  pa_price_source :: "string option"
  pa_day_trade_rule :: "string option"
  pa_allow_short :: "bool option"

record settings =
  engine :: string
  cost_profile :: string
  account_type :: string
  visibility :: string
  account_status :: string
  account_price_source :: string
  day_trade_rule :: string
  allow_short :: bool

record position =
  pos_portfolio :: string
  pos_ticker :: string
  pos_qty :: float64
  pos_cost :: float64

record lot =
  lot_portfolio :: string
  lot_instrument :: string
  lot_opened :: date
  lot_order :: int
  lot_qty :: float64
  lot_px :: float64

record day_trade =
  dt_portfolio :: string
  dt_session :: date
  dt_instrument :: string
  dt_open_order :: int
  dt_close_order :: "int option"

record fill_row =
  fl_order :: int
  fl_portfolio :: string
  fl_ticker :: string
  fl_side :: string
  fl_qty :: float64
  fl_px :: float64
  fl_open_px :: float64
  fl_date :: date

record detail_row =
  dl_order :: int
  dl_fill_ts :: "datetime option"
  dl_multiplier :: "float64 option"

record cash_event_row =
  ce_portfolio :: string
  ce_date :: date
  ce_seq :: int
  ce_kind :: string
  ce_amount :: float64
  ce_instrument :: "string option"
  ce_ref_order :: "int option"
  ce_note :: "string option"
  ce_created :: datetime

record dividend_row =
  dv_portfolio :: string
  dv_ticker :: string
  dv_ex_date :: date
  dv_qty :: float64
  dv_dps :: float64
  dv_amount :: float64

record settlement_row =
  st_portfolio :: string
  st_ticker :: string
  st_kind :: string
  st_qty :: float64
  st_price :: float64
  st_into :: "string option"
  st_ratio :: "float64 option"
  st_effective :: date
  st_source :: string
  st_created :: datetime

text \<open>A split: from \<open>split_adjustments\<close> for legacy books, from the account's own events for the
  account engine (\<open>sp_portfolio\<close> is then set).\<close>

record split_row =
  sp_portfolio :: "string option"
  sp_ticker :: string
  sp_ex_date :: date
  sp_ratio :: float64

record book =
  portfolios :: "portfolio_row list"
  portfolio_accounts :: "account_row list"
  sim_positions :: "position list"
  sim_position_lots :: "lot list"
  sim_day_trades :: "day_trade list"
  sim_fills :: "fill_row list"
  sim_fill_details :: "detail_row list"
  sim_fill_fees :: "(int \<times> FeeBreakdown) list"
  sim_cash_events :: "cash_event_row list"
  sim_dividends :: "dividend_row list"
  sim_settlements :: "settlement_row list"
  sim_splits :: "split_row list"

definition INITIAL_CASH :: float64 where "INITIAL_CASH = Fin 39000"

section \<open>Account settings\<close>

definition coalesce :: "'a option \<Rightarrow> 'a \<Rightarrow> 'a" where
  "coalesce x d = (case x of Some v \<Rightarrow> v | None \<Rightarrow> d)"

definition portfolio_row_of :: "book \<Rightarrow> string \<Rightarrow> portfolio_row option" where
  "portfolio_row_of bk pid = find (\<lambda>p. pf_id p = pid) (portfolios bk)"

text \<open>The view \<open>portfolio_accounts_v\<close> and its reader.\<close>

definition portfolio_account :: "book \<Rightarrow> string \<Rightarrow> settings outcome" where
  "portfolio_account bk pid = (case portfolio_row_of bk pid of
     None \<Rightarrow> Inl (KeyError ''unknown portfolio'')
   | Some p \<Rightarrow>
       (let pa = find (\<lambda>a. pa_portfolio_id a = pid) (portfolio_accounts bk);
            get = (\<lambda>f d. coalesce (Option.bind pa f) d)
        in Inr \<lparr>engine = get pa_engine ''league'', cost_profile = get pa_cost_profile ''baseline_v1'',
                account_type = get pa_account_type ''cash_legacy'', visibility = get pa_visibility ''public'',
                account_status = get pa_status (if pf_active p then ''active'' else ''inactive''),
                account_price_source = get pa_price_source ''prices'',
                day_trade_rule = get pa_day_trade_rule ''pdt_25k_legacy'',
                allow_short = coalesce (Option.bind pa pa_allow_short) False\<rparr>))"

section \<open>Row updates\<close>

definition update_rows :: "('a \<Rightarrow> bool) \<Rightarrow> ('a \<Rightarrow> 'a) \<Rightarrow> 'a list \<Rightarrow> 'a list" where
  "update_rows P f rows = map (\<lambda>r. if P r then f r else r) rows"

definition delete_rows :: "('a \<Rightarrow> bool) \<Rightarrow> 'a list \<Rightarrow> 'a list" where
  "delete_rows P rows = filter (\<lambda>r. \<not> P r) rows"

text \<open>\<open>UPDATE portfolios SET cash = cash + ? WHERE id = ?\<close>.\<close>

definition add_cash :: "book \<Rightarrow> string \<Rightarrow> float64 \<Rightarrow> book" where
  "add_cash bk pid amount =
     bk\<lparr>portfolios := update_rows (\<lambda>p. pf_id p = pid) (\<lambda>p. p\<lparr>pf_cash := fadd (pf_cash p) amount\<rparr>) (portfolios bk)\<rparr>"

definition is_position :: "string \<Rightarrow> string \<Rightarrow> position \<Rightarrow> bool" where
  "is_position pid ticker r \<longleftrightarrow> pos_portfolio r = pid \<and> pos_ticker r = ticker"

definition position_of :: "book \<Rightarrow> string \<Rightarrow> string \<Rightarrow> position option" where
  "position_of bk pid ticker = find (is_position pid ticker) (sim_positions bk)"

text \<open>The UPDATE of a stored position, or the INSERT of a new one.\<close>

definition put_position :: "book \<Rightarrow> string \<Rightarrow> string \<Rightarrow> float64 \<Rightarrow> float64 \<Rightarrow> book" where
  "put_position bk pid ticker qty cost =
     (if position_of bk pid ticker \<noteq> None
      then bk\<lparr>sim_positions := update_rows (is_position pid ticker) (\<lambda>r. r\<lparr>pos_qty := qty, pos_cost := cost\<rparr>) (sim_positions bk)\<rparr>
      else bk\<lparr>sim_positions := sim_positions bk @
               [\<lparr>pos_portfolio = pid, pos_ticker = ticker, pos_qty = qty, pos_cost = cost\<rparr>]\<rparr>)"

definition is_lot :: "string \<Rightarrow> string \<Rightarrow> int \<Rightarrow> lot \<Rightarrow> bool" where
  "is_lot pid instrument order r \<longleftrightarrow> lot_portfolio r = pid \<and> lot_instrument r = instrument \<and> lot_order r = order"

section \<open>Lookup laws\<close>

lemma find_append: "find P (xs @ ys) = (case find P xs of Some x \<Rightarrow> Some x | None \<Rightarrow> find P ys)"
  by (induction xs) auto

lemma find_update_rows:
  assumes "\<And>r. Q (f r) = Q r"
  shows "find Q (update_rows P f rows) = map_option (\<lambda>r. if P r then f r else r) (find Q rows)"
  using assms by (induction rows) (auto simp: update_rows_def)

lemma find_map_frame: "(\<And>r. P r \<Longrightarrow> \<not> Q r) \<Longrightarrow> (\<And>r. Q (f r) = Q r) \<Longrightarrow> find Q (update_rows P f rows) = find Q rows"
  by (induction rows) (auto simp: update_rows_def)

lemma add_cash_lookup:
  "portfolio_row_of (add_cash bk pid x) q =
     map_option (\<lambda>p. if q = pid then p\<lparr>pf_cash := fadd (pf_cash p) x\<rparr> else p) (portfolio_row_of bk q)"
  unfolding portfolio_row_of_def add_cash_def
  by (simp add: find_update_rows) (auto simp: map_option_case split: option.splits dest: find_SomeD)

lemma put_position_lookup:
  "position_of (put_position bk pid t q c) p u =
     (if p = pid \<and> u = t then Some \<lparr>pos_portfolio = pid, pos_ticker = t, pos_qty = q, pos_cost = c\<rparr>
      else position_of bk p u)"
proof (cases "position_of bk pid t")
  case None
  then show ?thesis
    unfolding put_position_def position_of_def
    by (auto simp: find_append is_position_def split: option.splits dest: find_NoneD)
next
  case (Some r)
  show ?thesis
  proof (cases "p = pid \<and> u = t")
    case True
    have k: "is_position pid t (r'\<lparr>pos_qty := q, pos_cost := c\<rparr>) = is_position pid t r'" for r'
      by (simp add: is_position_def)
    have "position_of (put_position bk pid t q c) pid t = Some (r\<lparr>pos_qty := q, pos_cost := c\<rparr>)"
      using Some find_SomeD [of "is_position pid t" "sim_positions bk" r] k
      by (simp add: put_position_def position_of_def find_update_rows)
    moreover have "pos_portfolio r = pid" "pos_ticker r = t"
      using Some find_SomeD [of "is_position pid t" "sim_positions bk" r]
      by (auto simp: position_of_def is_position_def)
    ultimately show ?thesis using True by (cases r) simp
  next
    case False
    then show ?thesis using Some
      unfolding put_position_def position_of_def
      by (auto simp: position_of_def is_position_def intro!: find_map_frame)
  qed
qed

end
