(* ===== verification/Ledger.thy ===== *)
theory Ledger
  imports Book
begin

text \<open>
  The ledger of \<open>src/sim/ledger.py\<close> and the settlement arithmetic of
  \<open>src/sim/settle.py\<close> that it replays: lots, fills on the four sides, cash events, splits, the
  chronological event sequence and the rebuild of an account from it. A raised exception is
  \<open>Inl\<close>; the caller's transaction then discards the partial writes, so no state goes with it.
\<close>

definition MIN_FILL_USD :: float64 where "MIN_FILL_USD = Fin 1"

definition CASH_EVENT_KINDS :: "string list" where
  "CASH_EVENT_KINDS = [''borrow_fee'', ''margin_interest'', ''short_dividend'', ''buy_in_penalty'', ''expiry'',
     ''assignment'', ''exercise'', ''cash_settlement'', ''adjustment'']"

definition DUST :: float64 where "DUST = lit (1 / 10 ^ 12)"

section \<open>Lots\<close>

record MatchedLot =
  ml_order :: int
  ml_opened :: date
  ml_qty :: float64
  ml_px :: float64

definition add_lot :: "book \<Rightarrow> string \<Rightarrow> string \<Rightarrow> date \<Rightarrow> int \<Rightarrow> float64 \<Rightarrow> float64 \<Rightarrow> book outcome" where
  "add_lot bk pid instrument opened order qty avg_px =
     (case find (is_lot pid instrument order) (sim_position_lots bk) of
        None \<Rightarrow>
          Inr (bk\<lparr>sim_position_lots := sim_position_lots bk @
            [\<lparr>lot_portfolio = pid, lot_instrument = instrument, lot_opened = opened, lot_order = order,
              lot_qty = qty, lot_px = avg_px\<rparr>]\<rparr>)
      | Some l \<Rightarrow>
          (let old_qty = lot_qty l; old_px = lot_px l in
           if flt (fmul old_qty qty) (Fin 0)
           then Inl (ValueError ''cannot merge long and short quantities into one lot'')
           else
             (let new_qty = fadd old_qty qty in
              bindE (if new_qty = Fin 0 then Inr (Fin 0)
                     else fdiv (fadd (fmul (fabs old_qty) old_px) (fmul (fabs qty) avg_px)) (fabs new_qty)) (\<lambda>new_px.
              Inr (bk\<lparr>sim_position_lots := update_rows (is_lot pid instrument order)
                     (\<lambda>r. r\<lparr>lot_qty := new_qty, lot_px := new_px\<rparr>) (sim_position_lots bk)\<rparr>)))))"

text \<open>\<open>ORDER BY opened_session, fill_ts, open_order_id\<close> with NULL stamps last.\<close>

definition lot_key :: "book \<Rightarrow> lot \<Rightarrow> int \<times> int \<times> int \<times> int" where
  "lot_key bk l =
     (let ts = Option.bind (find (\<lambda>d. dl_order d = lot_order l) (sim_fill_details bk)) dl_fill_ts
      in (lot_opened l, (case ts of None \<Rightarrow> 1 | Some _ \<Rightarrow> 0), (case ts of None \<Rightarrow> 0 | Some t \<Rightarrow> t), lot_order l))"

definition open_lots :: "book \<Rightarrow> string \<Rightarrow> string \<Rightarrow> bool \<Rightarrow> lot list" where
  "open_lots bk pid instrument closing_short =
     sort_key (lot_key bk) (filter (\<lambda>l. lot_portfolio l = pid \<and> lot_instrument l = instrument \<and>
       (if closing_short then flt (lot_qty l) (Fin 0) else flt (Fin 0) (lot_qty l))) (sim_position_lots bk))"

text \<open>The write of one matched lot: delete it when only dust is left, else store the rest.\<close>

definition consume_lot :: "string \<Rightarrow> string \<Rightarrow> bool \<Rightarrow> bool \<Rightarrow> int \<Rightarrow> float64 \<Rightarrow> lot list \<Rightarrow> lot list" where
  "consume_lot pid instrument closing_short consume order left table =
     (if consume \<and> fle left DUST then delete_rows (is_lot pid instrument order) table
      else if consume
      then update_rows (is_lot pid instrument order)
             (\<lambda>r. r\<lparr>lot_qty := (if closing_short then fneg left else left)\<rparr>) table
      else table)"

text \<open>The loop over the open lots: what is left to match, and the updated table.\<close>

fun match_loop :: "string \<Rightarrow> string \<Rightarrow> bool \<Rightarrow> bool \<Rightarrow> float64 \<Rightarrow> lot list \<Rightarrow> lot list \<Rightarrow> lot list \<times> MatchedLot list" where
  "match_loop pid instrument closing_short consume remaining [] table = (table, [])"
| "match_loop pid instrument closing_short consume remaining (l # ls) table =
     (let available = fabs (lot_qty l);
          consumed = fmin remaining available;
          table' = consume_lot pid instrument closing_short consume (lot_order l) (fsub available consumed) table;
          remaining' = fsub remaining consumed;
          m = \<lparr>ml_order = lot_order l, ml_opened = lot_opened l, ml_qty = consumed, ml_px = lot_px l\<rparr>
      in if fle remaining' DUST then (table', [m])
         else (let (t, ms) = match_loop pid instrument closing_short consume remaining' ls table' in (t, m # ms)))"

definition match_lots :: "book \<Rightarrow> string \<Rightarrow> string \<Rightarrow> float64 \<Rightarrow> bool \<Rightarrow> bool \<Rightarrow> book \<times> MatchedLot list" where
  "match_lots bk pid instrument qty closing_short consume =
     (if fle qty DUST then (bk, [])
      else (let (table, ms) = match_loop pid instrument closing_short consume qty
                  (open_lots bk pid instrument closing_short) (sim_position_lots bk)
            in (bk\<lparr>sim_position_lots := table\<rparr>, ms)))"

section \<open>Fills\<close>

text \<open>The fields \<open>apply_fill\<close> reads of a fill, whichever container it comes in.\<close>

record fill =
  f_portfolio :: string
  f_instrument :: string
  f_side :: string
  f_qty :: pyval
  f_px :: pyval
  f_multiplier :: pyval
  f_order :: "int option"
  f_session :: "date option"

definition open_lot :: "book \<Rightarrow> fill \<Rightarrow> float64 \<Rightarrow> float64 \<Rightarrow> book outcome" where
  "open_lot bk fl qty px = (case (f_order fl, f_session fl) of
     (Some order, Some opened) \<Rightarrow> add_lot bk (f_portfolio fl) (f_instrument fl) opened order qty px
   | _ \<Rightarrow> Inr bk)"

text \<open>The primary key \<open>(portfolio_id, close_order_id)\<close> refuses a second day trade of one order.\<close>

definition record_day_trade :: "book \<Rightarrow> fill \<Rightarrow> MatchedLot list \<Rightarrow> book outcome" where
  "record_day_trade bk fl matched =
     (case find (\<lambda>l. Some (ml_opened l) = f_session fl) matched of
        None \<Rightarrow> Inr bk
      | Some l \<Rightarrow>
          if \<exists>t\<in>set (sim_day_trades bk). dt_portfolio t = f_portfolio fl \<and> dt_close_order t = f_order fl
          then Inl (ConstraintError ''sim_day_trades'')
          else Inr (bk\<lparr>sim_day_trades := sim_day_trades bk @
                 [\<lparr>dt_portfolio = f_portfolio fl, dt_session = ml_opened l, dt_instrument = f_instrument fl,
                   dt_open_order = ml_order l, dt_close_order = f_order fl\<rparr>]\<rparr>))"

definition TOL9 :: float64 where "TOL9 = lit (1 / 10 ^ 9)"

definition position_map :: "book \<Rightarrow> string \<Rightarrow> (string \<times> float64) list" where
  "position_map bk pid = map (\<lambda>r. (pos_ticker r, pos_qty r))
     (filter (\<lambda>r. pos_portfolio r = pid \<and> fle TOL9 (fabs (pos_qty r))) (sim_positions bk))"

definition lot_map :: "'e env_scheme \<Rightarrow> book \<Rightarrow> string \<Rightarrow> (string \<times> float64) list" where
  "lot_map e bk pid =
     (let mine = filter (\<lambda>l. lot_portfolio l = pid) (sim_position_lots bk)
      in filter (\<lambda>(_, q). fle TOL9 (fabs q))
           (map (\<lambda>t. (t, sql_sum e (map lot_qty (filter (\<lambda>l. lot_instrument l = t) mine))))
             (remdups (map lot_instrument mine))))"

definition assert_lots_match_positions :: "'e env_scheme \<Rightarrow> book \<Rightarrow> string \<Rightarrow> unit outcome" where
  "assert_lots_match_positions e bk pid =
     (let ps = position_map bk pid; ls = lot_map e bk pid in
      raise_if (fst ` set ps \<noteq> fst ` set ls \<or>
                (\<exists>(t, q)\<in>set ps. \<not> isclose q (the (map_of ls t)) DUST TOL9))
        (ValueError ''position lots differ from positions''))"

definition fee_fields :: "FeeBreakdown \<Rightarrow> float64 list" where
  "fee_fields f = [commission f, exchange_fee f, clearing_fee f, pass_through f, cat_fee f, sec_fee f,
     finra_taf f, occ_fee f, orf_fee f, total_usd f]"

text \<open>The three finite numbers of a fill and its notional; a bad one rejects the fill.\<close>

definition fill_numbers :: "fill \<Rightarrow> (float64 \<times> float64 \<times> float64) outcome" where
  "fill_numbers fl =
     bindE (finite_number (f_qty fl) ''fill quantity'' True False) (\<lambda>qty.
     bindE (finite_number (f_px fl) ''fill price'' True False) (\<lambda>px.
     bindE (finite_number (f_multiplier fl) ''multiplier'' True False) (\<lambda>multiplier.
     bindE (finite_number (PFloat (fmul (fmul qty px) multiplier)) ''fill notional'' True False) (\<lambda>_.
     Inr (qty, px, multiplier)))))"

text \<open>The checks made after the fees are known and before the first write.\<close>

definition fill_guards ::
    "string \<Rightarrow> float64 \<Rightarrow> float64 \<Rightarrow> float64 \<Rightarrow> float64 \<Rightarrow> float64 \<Rightarrow> float64 \<Rightarrow> float64 \<Rightarrow> unit outcome" where
  "fill_guards side qty px multiplier cash current_qty current_cost fee =
     (let signed_notional = fmul (fmul (fmul qty px) multiplier) (Fin (if side \<in> {''buy'', ''cover''} then -1 else 1)) in
      bindE (finite_number (PFloat cash) ''cash'' False False) (\<lambda>_.
      bindE (finite_number (PFloat current_qty) ''position quantity'' False False) (\<lambda>_.
      bindE (finite_number (PFloat current_cost) ''position basis'' False True) (\<lambda>_.
      bindE (finite_number (PFloat (fsub (fadd cash signed_notional) fee)) ''cash after fill'' False False) (\<lambda>_.
      bindE (finite_number (PFloat (fadd (fabs current_qty) qty)) ''position after fill'' False False) (\<lambda>_.
      bindE (finite_number (PFloat (fadd (fmul (fabs current_qty) current_cost) (fmul qty px))) ''position basis value'' False False) (\<lambda>_.
      Inr ())))))))"

text \<open>What a side decides: the book with its lots changed, the position, the cash movement, the applied
  quantity and the matched lots. None stands for the early \<open>return 0.0\<close>.\<close>

record effect =
  ef_book :: book
  ef_qty :: float64
  ef_cost :: float64
  ef_cash :: float64
  ef_applied :: float64
  ef_matched :: "MatchedLot list"

definition buy_quantity :: "string \<Rightarrow> float64 \<Rightarrow> float64 \<Rightarrow> float64 \<Rightarrow> float64 \<Rightarrow> float64 \<Rightarrow> float64 option outcome" where
  "buy_quantity acct cash fee qty px multiplier =
     (let available = (if acct = ''cash_legacy'' then fsub cash fee else PInf);
          notional = fmul (fmul qty px) multiplier in
      if flt available notional
      then bindE (fdiv (fmax available (Fin 0)) (fmul px multiplier)) (\<lambda>q.
           let affordable = fmul q (fsub (Fin 1) DUST) in
           if flt (fmul (fmul affordable px) multiplier) MIN_FILL_USD then Inr None else Inr (Some affordable))
      else Inr (Some qty))"

definition apply_buy ::
    "book \<Rightarrow> fill \<Rightarrow> settings \<Rightarrow> float64 \<Rightarrow> float64 \<Rightarrow> float64 \<Rightarrow> float64 \<Rightarrow> float64 \<Rightarrow> float64 \<Rightarrow> float64
     \<Rightarrow> effect option outcome" where
  "apply_buy bk fl st qty px multiplier cash current_qty current_cost fee =
     (if flt current_qty (Fin 0) then Inl (ValueError ''buy cannot close a short position; use cover'') else
      bindE (buy_quantity (account_type st) cash fee qty px multiplier) (\<lambda>sized. case sized of
        None \<Rightarrow> Inr None
      | Some q \<Rightarrow>
          (let new_qty = fadd current_qty q in
           bindE (if new_qty = Fin 0 then Inr (Fin 0)
                  else fdiv (fadd (fmul current_qty current_cost) (fmul q px)) new_qty) (\<lambda>new_cost.
           bindE (open_lot bk fl q px) (\<lambda>bk'.
           Inr (Some \<lparr>ef_book = bk', ef_qty = new_qty, ef_cost = new_cost,
                      ef_cash = fsub (fneg (fmul (fmul q px) multiplier)) fee, ef_applied = q, ef_matched = []\<rparr>))))))"

definition apply_close ::
    "book \<Rightarrow> fill \<Rightarrow> settings \<Rightarrow> bool \<Rightarrow> float64 \<Rightarrow> float64 \<Rightarrow> float64 \<Rightarrow> float64 \<Rightarrow> float64 \<Rightarrow> float64
     \<Rightarrow> effect option outcome" where
  "apply_close bk fl st closing_short qty px multiplier current_qty current_cost fee =
     (if (if closing_short then fle (Fin 0) current_qty else fle current_qty (Fin 0)) then Inr None else
      (let held = (if closing_short then fabs current_qty else current_qty);
           q = (if flt held qty then held else qty);
           notional = fmul (fmul q px) multiplier;
           (bk', matched) = match_lots bk (f_portfolio fl) (f_instrument fl) q closing_short True in
       bindE (if engine st = ''account'' then record_day_trade bk' fl matched else Inr bk') (\<lambda>bk''.
       Inr (Some \<lparr>ef_book = bk'', ef_qty = (if closing_short then fadd current_qty q else fsub current_qty q),
                  ef_cost = current_cost,
                  ef_cash = (if closing_short then fsub (fneg notional) fee else fsub notional fee),
                  ef_applied = q, ef_matched = matched\<rparr>))))"

definition apply_short ::
    "book \<Rightarrow> fill \<Rightarrow> float64 \<Rightarrow> float64 \<Rightarrow> float64 \<Rightarrow> float64 \<Rightarrow> float64 \<Rightarrow> float64 \<Rightarrow> effect option outcome" where
  "apply_short bk fl qty px multiplier current_qty current_cost fee =
     (if flt (Fin 0) current_qty then Inl (ValueError ''short cannot close a long position; use sell'') else
      (let short_before = fabs current_qty; short_after = fadd short_before qty in
       bindE (if short_after = Fin 0 then Inr (Fin 0)
              else fdiv (fadd (fmul short_before current_cost) (fmul qty px)) short_after) (\<lambda>new_cost.
       bindE (open_lot bk fl (fneg qty) px) (\<lambda>bk'.
       Inr (Some \<lparr>ef_book = bk', ef_qty = fneg short_after, ef_cost = new_cost,
                  ef_cash = fsub (fmul (fmul qty px) multiplier) fee, ef_applied = qty, ef_matched = []\<rparr>)))))"

definition side_effect ::
    "book \<Rightarrow> fill \<Rightarrow> settings \<Rightarrow> float64 \<Rightarrow> float64 \<Rightarrow> float64 \<Rightarrow> float64 \<Rightarrow> float64 \<Rightarrow> float64 \<Rightarrow> float64
     \<Rightarrow> effect option outcome" where
  "side_effect bk fl st qty px multiplier cash current_qty current_cost fee =
     (if f_side fl = ''buy'' then apply_buy bk fl st qty px multiplier cash current_qty current_cost fee
      else if f_side fl = ''sell'' then apply_close bk fl st False qty px multiplier current_qty current_cost fee
      else if f_side fl = ''short'' then apply_short bk fl qty px multiplier current_qty current_cost fee
      else apply_close bk fl st True qty px multiplier current_qty current_cost fee)"

definition persist_fees :: "book \<Rightarrow> int \<Rightarrow> FeeBreakdown \<Rightarrow> book outcome" where
  "persist_fees bk order fees =
     (if order \<in> fst ` set (sim_fill_fees bk) then Inl (ConstraintError ''sim_fill_fees'')
      else Inr (bk\<lparr>sim_fill_fees := sim_fill_fees bk @ [(order, fees)]\<rparr>))"

text \<open>The result of a fill: the book, the applied quantity, and the matched lots that the source hands to
  its \<open>on_close\<close> callback.\<close>

type_synonym fill_outcome = "book \<times> float64 \<times> MatchedLot list"

definition finish_fill ::
    "'e env_scheme \<Rightarrow> fill \<Rightarrow> settings \<Rightarrow> FeeBreakdown option \<Rightarrow> bool \<Rightarrow> effect \<Rightarrow> fill_outcome outcome" where
  "finish_fill e fl st fees persist ef =
     (let bk1 = add_cash (ef_book ef) (f_portfolio fl) (ef_cash ef);
          bk2 = put_position bk1 (f_portfolio fl) (f_instrument fl) (ef_qty ef) (ef_cost ef) in
      bindE (case (fees, f_order fl) of
               (Some charged, Some order) \<Rightarrow> if persist then persist_fees bk2 order charged else Inr bk2
             | _ \<Rightarrow> Inr bk2) (\<lambda>bk3.
      bindE (if engine st = ''account'' then assert_lots_match_positions e bk3 (f_portfolio fl) else Inr ()) (\<lambda>_.
      Inr (bk3, ef_applied ef, ef_matched ef))))"

definition apply_fill ::
    "'e env_scheme \<Rightarrow> book \<Rightarrow> fill \<Rightarrow> FeeBreakdown option \<Rightarrow> bool \<Rightarrow> fill_outcome outcome" where
  "apply_fill e bk fl fees persist = (case fill_numbers fl of
     Inl _ \<Rightarrow> Inr (bk, Fin 0, [])
   | Inr (qty, px, multiplier) \<Rightarrow>
       if f_side fl \<notin> set default_sides then Inl (ValueError ''unknown fill side'') else
       (case portfolio_row_of bk (f_portfolio fl) of
          None \<Rightarrow> Inl (KeyError ''unknown portfolio'')
        | Some pf \<Rightarrow>
       bindE (portfolio_account bk (f_portfolio fl)) (\<lambda>st.
       if engine st = ''account'' \<and> (f_order fl = None \<or> f_session fl = None)
       then Inl (ValueError ''account-engine fills require order_id and fill date'')
       else if f_side fl = ''short'' \<and> account_type st = ''cash_legacy''
       then Inl (ValueError ''cash_legacy portfolios cannot short'')
       else
       (let row = position_of bk (f_portfolio fl) (f_instrument fl);
            (current_qty, current_cost) = (case row of Some r \<Rightarrow> (pos_qty r, pos_cost r) | None \<Rightarrow> (Fin 0, Fin 0));
            fee = (case fees of None \<Rightarrow> Fin 0 | Some f \<Rightarrow> total_usd f) in
        bindE (case fees of None \<Rightarrow> Inr []
               | Some f \<Rightarrow> mapE (\<lambda>x. finite_number (PFloat x) ''fill fee'' False True) (fee_fields f)) (\<lambda>_.
        bindE (fill_guards (f_side fl) qty px multiplier (pf_cash pf) current_qty current_cost fee) (\<lambda>_.
        bindE (side_effect bk fl st qty px multiplier (pf_cash pf) current_qty current_cost fee) (\<lambda>effect.
        case effect of
          None \<Rightarrow> Inr (bk, Fin 0, [])
        | Some ef \<Rightarrow> finish_fill e fl st fees persist ef)))))))"

section \<open>Cash events\<close>

definition get_cash_value :: "book \<Rightarrow> string \<Rightarrow> float64 outcome" where
  "get_cash_value bk pid = (case portfolio_row_of bk pid of
     None \<Rightarrow> Inl (KeyError ''unknown portfolio'')
   | Some p \<Rightarrow> finite_number (PFloat (pf_cash p)) ''cash'' False False)"

record cash_event =
  c_portfolio :: string
  c_date :: date
  c_kind :: string
  c_amount :: pyval
  c_seq :: "int option"
  c_instrument :: "string option"
  c_ref_order :: "int option"
  c_note :: "string option"
  c_created :: "datetime option"

text \<open>\<open>COALESCE(MAX(seq), 0) + 1\<close>.\<close>

definition next_seq :: "book \<Rightarrow> string \<Rightarrow> date \<Rightarrow> int" where
  "next_seq bk pid d =
     (case map ce_seq (filter (\<lambda>r. ce_portfolio r = pid \<and> ce_date r = d) (sim_cash_events bk)) of
        [] \<Rightarrow> 1 | s # ss \<Rightarrow> fold max ss s + 1)"

definition apply_cash_event :: "book \<Rightarrow> datetime \<Rightarrow> cash_event \<Rightarrow> (book \<times> int) outcome" where
  "apply_cash_event bk now ev =
     bindE (finite_number (c_amount ev) ''cash-event amount'' False False) (\<lambda>amount.
     if c_kind ev \<notin> set CASH_EVENT_KINDS then Inl (ValueError ''unknown cash-event kind'') else
     bindE (get_cash_value bk (c_portfolio ev)) (\<lambda>cash.
     bindE (finite_number (PFloat (fadd cash amount)) ''cash after event'' False False) (\<lambda>_.
     let seq = (case c_seq ev of Some s \<Rightarrow> s | None \<Rightarrow> next_seq bk (c_portfolio ev) (c_date ev)) in
     if \<exists>r\<in>set (sim_cash_events bk). ce_portfolio r = c_portfolio ev \<and> ce_date r = c_date ev \<and> ce_seq r = seq
     then Inl (ConstraintError ''sim_cash_events'')
     else Inr (add_cash (bk\<lparr>sim_cash_events := sim_cash_events bk @
               [\<lparr>ce_portfolio = c_portfolio ev, ce_date = c_date ev, ce_seq = seq, ce_kind = c_kind ev,
                 ce_amount = amount, ce_instrument = c_instrument ev, ce_ref_order = c_ref_order ev,
                 ce_note = c_note ev, ce_created = coalesce (c_created ev) now\<rparr>]\<rparr>) (c_portfolio ev) amount, seq))))"

definition prior_accruals :: "book \<Rightarrow> cash_event \<Rightarrow> cash_event_row list" where
  "prior_accruals bk ev =
     filter (\<lambda>r. ce_portfolio r = c_portfolio ev \<and> ce_date r = c_date ev \<and> ce_kind r = c_kind ev \<and>
                 ce_instrument r = c_instrument ev) (sim_cash_events bk)"

definition post_accrual :: "'e env_scheme \<Rightarrow> book \<Rightarrow> datetime \<Rightarrow> cash_event \<Rightarrow> bool \<Rightarrow> (book \<times> bool) outcome" where
  "post_accrual e bk now ev replay =
     (let existing = prior_accruals bk ev;
          total = (if existing = [] then Fin 0 else sql_sum e (map ce_amount existing)) in
      if existing \<noteq> [] \<and> \<not> replay then Inr (bk, False)
      else
        (let bk1 = (if replay then add_cash bk (c_portfolio ev) total else bk) in
         bindE (py_float (c_amount ev)) (\<lambda>amount.
         let delta = fsub amount total in
         if flt (fabs delta) (lit (1 / 10 ^ 10)) \<and> existing \<noteq> [] then Inr (bk1, False)
         else bindE (apply_cash_event bk1 now (ev\<lparr>c_amount := PFloat delta\<rparr>)) (\<lambda>(bk2, _). Inr (bk2, True)))))"

section \<open>Splits and settlements\<close>

definition split_lot :: "string \<Rightarrow> string \<Rightarrow> date \<Rightarrow> lot \<Rightarrow> bool" where
  "split_lot pid ticker ex l \<longleftrightarrow> lot_portfolio l = pid \<and> lot_instrument l = ticker \<and> lot_opened l < ex"

definition apply_split :: "'e env_scheme \<Rightarrow> book \<Rightarrow> string \<Rightarrow> string \<Rightarrow> date \<Rightarrow> float64 \<Rightarrow> book" where
  "apply_split e bk pid ticker ex ratio =
     (let old = filter (split_lot pid ticker ex) (sim_position_lots bk);
          old_qty = (if old = [] then Fin 0 else sql_sum e (map lot_qty old));
          bk1 = bk\<lparr>sim_position_lots := update_rows (split_lot pid ticker ex)
                     (\<lambda>l. l\<lparr>lot_qty := fmul (lot_qty l) ratio, lot_px := fquot (lot_px l) ratio\<rparr>) (sim_position_lots bk)\<rparr>;
          mine = filter (\<lambda>l. lot_portfolio l = pid \<and> lot_instrument l = ticker \<and> lot_qty l \<noteq> Fin 0) (sim_position_lots bk1);
          basis = fquot (sql_sum e (map (\<lambda>l. fmul (fabs (lot_qty l)) (lot_px l)) mine))
                        (sql_sum e (map (\<lambda>l. fabs (lot_qty l)) mine))
      in if old_qty = Fin 0 then bk1
         else bk1\<lparr>sim_positions := update_rows (is_position pid ticker)
                (\<lambda>r. r\<lparr>pos_qty := fadd (pos_qty r) (fmul old_qty (fsub ratio (Fin 1))), pos_cost := basis\<rparr>)
                (sim_positions bk1)\<rparr>)"

text \<open>A ValueError of a numeric check is re-raised as a refused settlement.\<close>

definition refused :: "'a outcome \<Rightarrow> 'a outcome" where
  "refused m = (case m of Inl (ValueError _) \<Rightarrow> Inl SettlementRefused | _ \<Rightarrow> m)"

definition opt_float :: "float64 option \<Rightarrow> pyval" where
  "opt_float x = (case x of None \<Rightarrow> PNone | Some v \<Rightarrow> PFloat v)"

definition numeric_terms :: "string \<Rightarrow> float64 \<Rightarrow> float64 option \<Rightarrow> unit outcome" where
  "numeric_terms kind price ratio = refused (
     bindE (finite_number (PFloat price) ''settlement price'' False True) (\<lambda>_.
     bindE (if kind = ''cash'' then finite_number (PFloat price) ''cash price'' True False else Inr price) (\<lambda>_.
     bindE (raise_if (kind = ''worthless'' \<and> price \<noteq> Fin 0) (ValueError ''worthless price must be zero'')) (\<lambda>_.
     bindE (if kind = ''stock'' then finite_number (opt_float ratio) ''stock ratio'' True False else Inr price) (\<lambda>_.
     Inr ())))))"

definition open_position :: "book \<Rightarrow> string \<Rightarrow> string option \<Rightarrow> float64 \<times> float64" where
  "open_position bk pid ticker = (case Option.bind ticker (position_of bk pid) of
     Some r \<Rightarrow> if pos_qty r \<noteq> Fin 0 then (pos_qty r, pos_cost r) else (Fin 0, Fin 0)
   | None \<Rightarrow> (Fin 0, Fin 0))"

definition check_application ::
    "book \<Rightarrow> string \<Rightarrow> string \<Rightarrow> string \<Rightarrow> float64 \<Rightarrow> float64 \<Rightarrow> string option \<Rightarrow> float64 option \<Rightarrow> unit outcome" where
  "check_application bk pid ticker kind qty price into ratio =
     bindE (numeric_terms kind price ratio) (\<lambda>_. refused (
     bindE (get_cash_value bk pid) (\<lambda>cash.
     bindE (finite_number (PFloat qty) ''settlement quantity'' False False) (\<lambda>_.
     bindE (finite_number (PFloat (fadd cash (fmul qty price))) ''settled cash'' False False) (\<lambda>_.
     let (held, basis) = open_position bk pid (Some ticker) in
     bindE (finite_number (PFloat (fsub held qty)) ''remaining quantity'' False False) (\<lambda>_.
     bindE (finite_number (PFloat basis) ''basis'' False True) (\<lambda>_.
     if kind \<noteq> ''stock'' then Inr ()
     else
       (let r = coalesce ratio (Fin 1); shares = fmul qty r; (current, acq_cost) = open_position bk pid into in
        bindE (finite_number (PFloat shares) ''conversion shares'' False False) (\<lambda>_.
        bindE (finite_number (PFloat (fquot basis r)) ''converted basis'' False False) (\<lambda>converted.
        bindE (finite_number (PFloat (fadd current shares)) ''acquirer quantity'' False False) (\<lambda>_.
        bindE (finite_number (PFloat (fadd (fmul (fabs current) acq_cost) (fmul (fabs shares) converted)))
                 ''acquirer basis value'' False False) (\<lambda>_.
        bindE (mapE (\<lambda>l. bindE (finite_number (PFloat (fmul (lot_qty l) r)) ''converted lot quantity'' False False) (\<lambda>_.
                         finite_number (PFloat (fquot (lot_px l) r)) ''converted lot basis'' False False))
                 (filter (\<lambda>l. lot_portfolio l = pid \<and> lot_instrument l = ticker) (sim_position_lots bk))) (\<lambda>_.
        Inr ())))))))))))))"

definition acquirer_cost :: "float64 \<Rightarrow> float64 \<Rightarrow> float64 \<Rightarrow> float64 \<Rightarrow> float64 \<Rightarrow> float64" where
  "acquirer_cost cur_q cur_c new_shares basis new_q =
     (if fle (Fin 0) (fmul cur_q new_shares)
      then (if new_q = Fin 0 then Fin 0
            else fquot (fadd (fmul (fabs cur_q) cur_c) (fmul (fabs new_shares) basis)) (fabs new_q))
      else if flt (fabs new_shares) (fabs cur_q) then cur_c
      else if new_q = Fin 0 then Fin 0 else basis)"

definition convert_stock ::
    "book \<Rightarrow> string \<Rightarrow> string option \<Rightarrow> float64 \<Rightarrow> float64 \<Rightarrow> float64 \<Rightarrow> MatchedLot list \<Rightarrow> book outcome" where
  "convert_stock bk pid into qty ratio avg_cost matched = (case into of
     None \<Rightarrow> Inl (ConstraintError ''sim_positions'')
   | Some acquirer \<Rightarrow>
       (let new_shares = fmul qty ratio;
            basis = (if ratio = Fin 0 then Fin 0 else fquot avg_cost ratio);
            sign = Fin (if flt qty (Fin 0) then -1 else 1) in
        bindE (foldE (\<lambda>b l. add_lot b pid acquirer (ml_opened l) (ml_order l)
                       (fmul (fmul sign (ml_qty l)) ratio) (fquot (ml_px l) ratio)) bk matched) (\<lambda>bk1.
        case position_of bk1 pid acquirer of
          Some r \<Rightarrow>
            (let new_q = fadd (pos_qty r) new_shares
             in Inr (put_position bk1 pid acquirer new_q
                      (acquirer_cost (pos_qty r) (pos_cost r) new_shares basis new_q)))
        | None \<Rightarrow> Inr (put_position bk1 pid acquirer new_shares basis))))"

definition apply_settlement_event ::
    "'e env_scheme \<Rightarrow> book \<Rightarrow> string \<Rightarrow> string \<Rightarrow> string \<Rightarrow> float64 \<Rightarrow> float64 \<Rightarrow> string option \<Rightarrow> float64 option
     \<Rightarrow> (book \<times> MatchedLot list) outcome" where
  "apply_settlement_event e bk pid ticker kind recorded price into ratio =
     (let row = position_of bk pid ticker;
          (held, avg_cost) = (case row of Some r \<Rightarrow> (pos_qty r, pos_cost r) | None \<Rightarrow> (Fin 0, Fin 0)) in
      bindE (portfolio_account bk pid) (\<lambda>st.
      let qty = (if engine st = ''account'' then held else recorded) in
      bindE (check_application bk pid ticker kind qty price into ratio) (\<lambda>_.
      let bk1 = (if price \<noteq> Fin 0 then add_cash bk pid (fmul qty price) else bk);
          (bk2, matched) = match_lots bk1 pid ticker (fabs qty) (flt qty (Fin 0)) True;
          bk3 = (if row \<noteq> None
                 then bk2\<lparr>sim_positions := update_rows (is_position pid ticker)
                            (\<lambda>r. r\<lparr>pos_qty := fsub held qty\<rparr>) (sim_positions bk2)\<rparr>
                 else bk2) in
      bindE (if kind = ''stock'' then convert_stock bk3 pid into qty (coalesce ratio (Fin 0)) avg_cost matched else Inr bk3) (\<lambda>bk4.
      bindE (if engine st = ''account'' then assert_lots_match_positions e bk4 pid else Inr ()) (\<lambda>_.
      Inr (bk4, matched))))))"

section \<open>The chronological event sequence\<close>

datatype event_body =
    FillBody fill_row "float64" "FeeBreakdown option"
  | SplitBody string string date float64
  | DividendBody dividend_row
  | SettlementBody settlement_row
  | CashBody cash_event_row

record LedgerEvent =
  ev_stamp :: datetime
  ev_phase :: int
  ev_sequence :: "string \<times> int \<times> string \<times> int"
  ev_body :: event_body

definition ev_key :: "LedgerEvent \<Rightarrow> datetime \<times> int \<times> string \<times> int \<times> string \<times> int" where
  "ev_key ev = (ev_stamp ev, ev_phase ev, ev_sequence ev)"

definition recorded_splits :: "book \<Rightarrow> string \<Rightarrow> date option \<Rightarrow> split_row list" where
  "recorded_splits bk pid through =
     sort_key (\<lambda>s. (sp_ex_date s, sp_ticker s))
       (filter (\<lambda>s. sp_portfolio s = Some pid \<and> (case through of None \<Rightarrow> True | Some d \<Rightarrow> sp_ex_date s \<le> d)) (sim_splits bk))"

definition split_factors :: "book \<Rightarrow> split_row list" where
  "split_factors bk = filter (\<lambda>s. sp_portfolio s = None \<and> flt (Fin 0) (sp_ratio s)) (sim_splits bk)"

definition split_events :: "'e env_scheme \<Rightarrow> book \<Rightarrow> string \<Rightarrow> bool \<Rightarrow> date option \<Rightarrow> LedgerEvent list" where
  "split_events e bk pid account through =
     map (\<lambda>s. \<lparr>ev_stamp = fst (session_bounds e (sp_ex_date s)), ev_phase = 0, ev_sequence = (pid, 1, sp_ticker s, 0),
               ev_body = SplitBody pid (sp_ticker s) (sp_ex_date s) (sp_ratio s)\<rparr>)
       (if account then recorded_splits bk pid through else split_factors bk)"

definition dividend_events :: "'e env_scheme \<Rightarrow> book \<Rightarrow> string \<Rightarrow> LedgerEvent list" where
  "dividend_events e bk pid =
     map (\<lambda>r. \<lparr>ev_stamp = fst (session_bounds e (dv_ex_date r)), ev_phase = 1, ev_sequence = (pid, 1, dv_ticker r, 0),
               ev_body = DividendBody r\<rparr>) (filter (\<lambda>r. dv_portfolio r = pid) (sim_dividends bk))"

definition settlement_events :: "'e env_scheme \<Rightarrow> book \<Rightarrow> string \<Rightarrow> LedgerEvent list" where
  "settlement_events e bk pid =
     map (\<lambda>r. \<lparr>ev_stamp = fst (session_bounds e (st_effective r)), ev_phase = 2, ev_sequence = (pid, 1, st_ticker r, 0),
               ev_body = SettlementBody r\<rparr>) (filter (\<lambda>r. st_portfolio r = pid) (sim_settlements bk))"

definition cash_stamp :: "'e env_scheme \<Rightarrow> cash_event_row \<Rightarrow> datetime \<times> int" where
  "cash_stamp e r =
     (let (opened, closed) = session_bounds e (ce_date r);
          financing = ce_kind r \<in> {''borrow_fee'', ''margin_interest''};
          stamp = (if financing then opened else if date_of (ce_created r) = ce_date r then ce_created r else closed);
          priority = (if financing then (if ce_kind r = ''margin_interest'' then -1 else 3) else 5)
      in if ce_kind r = ''adjustment'' \<and> ce_note r = Some ''historical dividend entitlement correction''
         then (opened, 1) else (stamp, priority))"

definition cash_events_of :: "'e env_scheme \<Rightarrow> book \<Rightarrow> string \<Rightarrow> LedgerEvent list" where
  "cash_events_of e bk pid =
     map (\<lambda>r. \<lparr>ev_stamp = fst (cash_stamp e r), ev_phase = snd (cash_stamp e r), ev_sequence = (pid, 1, [], ce_seq r),
               ev_body = CashBody r\<rparr>) (filter (\<lambda>r. ce_portfolio r = pid) (sim_cash_events bk))"

definition fill_event :: "'e env_scheme \<Rightarrow> book \<Rightarrow> string \<Rightarrow> bool \<Rightarrow> fill_row \<Rightarrow> LedgerEvent outcome" where
  "fill_event e bk pid account f =
     (let detail = find (\<lambda>d. dl_order d = fl_order f) (sim_fill_details bk);
          ts = Option.bind detail dl_fill_ts;
          priority = (if account \<or> fl_side f \<in> {''sell'', ''cover''} then 0 else 1) in
      if account \<and> ts = None then Inl (ValueError ''account-engine fill has no authoritative fill_ts'')
      else Inr \<lparr>ev_stamp = (if account then the ts else fst (session_bounds e (fl_date f))), ev_phase = 4,
                ev_sequence = (pid, priority, [], fl_order f),
                ev_body = FillBody f (coalesce (Option.bind detail dl_multiplier) (Fin 1))
                            (map_of (sim_fill_fees bk) (fl_order f))\<rparr>)"

definition account_events :: "'e env_scheme \<Rightarrow> book \<Rightarrow> date option \<Rightarrow> string \<Rightarrow> LedgerEvent list outcome" where
  "account_events e bk through pid =
     bindE (portfolio_account bk pid) (\<lambda>st.
     let account = (engine st = ''account'') in
     bindE (mapE (fill_event e bk pid account) (filter (\<lambda>f. fl_portfolio f = pid) (sim_fills bk))) (\<lambda>fills.
     Inr (split_events e bk pid account through @ dividend_events e bk pid @ settlement_events e bk pid @
          cash_events_of e bk pid @ fills)))"

definition events :: "'e env_scheme \<Rightarrow> book \<Rightarrow> string list \<Rightarrow> date option \<Rightarrow> date option \<Rightarrow> LedgerEvent list outcome" where
  "events e bk ids since through =
     bindE (mapE (account_events e bk through) ids) (\<lambda>groups.
     Inr (sort_key ev_key
       (filter (\<lambda>ev. (case since of None \<Rightarrow> True | Some d \<Rightarrow> d \<le> date_of (ev_stamp ev)) \<and>
                     (case through of None \<Rightarrow> True | Some d \<Rightarrow> date_of (ev_stamp ev) \<le> d)) (concat groups))))"

section \<open>Replay\<close>

definition row_fill :: "fill_row \<Rightarrow> float64 \<Rightarrow> fill" where
  "row_fill f m = \<lparr>f_portfolio = fl_portfolio f, f_instrument = fl_ticker f, f_side = fl_side f,
     f_qty = PFloat (fl_qty f), f_px = PFloat (fl_px f), f_multiplier = PFloat m,
     f_order = Some (fl_order f), f_session = Some (fl_date f)\<rparr>"

definition post_amount :: "book \<Rightarrow> string \<Rightarrow> float64 \<Rightarrow> book outcome" where
  "post_amount bk pid amount =
     bindE (get_cash_value bk pid) (\<lambda>cash.
     bindE (finite_number (PFloat (fadd cash amount)) ''cash after event'' False False) (\<lambda>_.
     Inr (add_cash bk pid amount)))"

definition apply_event :: "'e env_scheme \<Rightarrow> book \<Rightarrow> LedgerEvent \<Rightarrow> book outcome" where
  "apply_event e bk ev = (case ev_body ev of
     FillBody f m fees \<Rightarrow>
       (let fees' = (case fees of Some x \<Rightarrow> if profile_id x = [] then None else Some x | None \<Rightarrow> None) in
        bindE (apply_fill e bk (row_fill f m) fees' False) (\<lambda>(bk', applied, _).
        if \<not> isclose applied (fl_qty f) DUST DUST
        then Inl (ValueError ''stored fill changed quantity during replay'') else Inr bk'))
   | SplitBody pid t ex ratio \<Rightarrow> Inr (apply_split e bk pid t ex ratio)
   | SettlementBody r \<Rightarrow>
       bindE (apply_settlement_event e bk (st_portfolio r) (st_ticker r) (st_kind r) (st_qty r) (st_price r) (st_into r) (st_ratio r))
         (\<lambda>(bk', _). Inr bk')
   | DividendBody r \<Rightarrow>
       bindE (finite_number (PFloat (dv_amount r)) ''cash event amount'' False False) (\<lambda>amount.
       bindE (finite_number (PFloat (dv_dps r)) ''dividend per share'' True False) (\<lambda>_.
       bindE (finite_number (PFloat (dv_qty r)) ''dividend quantity'' False False) (\<lambda>_.
       post_amount bk (dv_portfolio r) amount)))
   | CashBody r \<Rightarrow>
       bindE (finite_number (PFloat (ce_amount r)) ''cash event amount'' False False) (\<lambda>amount.
       post_amount bk (ce_portfolio r) amount))"

text \<open>The reset before a replay: the derived tables of the selected accounts are emptied and their cash is
  their initial cash.\<close>

definition reset :: "string list \<Rightarrow> book \<Rightarrow> book" where
  "reset ids bk = bk
     \<lparr>sim_positions := delete_rows (\<lambda>r. pos_portfolio r \<in> set ids) (sim_positions bk),
      sim_position_lots := delete_rows (\<lambda>r. lot_portfolio r \<in> set ids) (sim_position_lots bk),
      sim_day_trades := delete_rows (\<lambda>r. dt_portfolio r \<in> set ids) (sim_day_trades bk),
      portfolios := update_rows (\<lambda>p. pf_id p \<in> set ids)
        (\<lambda>p. p\<lparr>pf_cash := coalesce (pf_initial_cash p) INITIAL_CASH\<rparr>) (portfolios bk)\<rparr>"

definition rebuild_state :: "'e env_scheme \<Rightarrow> book \<Rightarrow> string list option \<Rightarrow> date option \<Rightarrow> book outcome" where
  "rebuild_state e bk portfolio_ids through =
     (let ids = (case portfolio_ids of Some xs \<Rightarrow> sort (remdups xs) | None \<Rightarrow> sort (map pf_id (portfolios bk))) in
      if ids = [] then Inr bk
      else bindE (events e bk ids None through) (\<lambda>sequence. foldE (apply_event e) (reset ids bk) sequence))"

end
