(* ===== verification/LedgerLaws.thy ===== *)
theory LedgerLaws
  imports Ledger
begin

text \<open>
  The laws of the accounting operations of \<open>src/sim/ledger.py\<close>: which rows a fill may touch, that a closing
  fill cannot cross zero and a cash purchase cannot overdraw, that closes are matched first in, first out,
  that cash events get fresh sequence numbers, that accruals post once, and that every operation keeps the
  primary keys of the tables it writes.
\<close>

text \<open>A drifted book for the witnesses: the stored position and cash of A disagree with its two fills.\<close>

definition example_book :: book where
  "example_book =
     \<lparr>portfolios = [\<lparr>pf_id = ''A'', pf_active = True, pf_cash = Fin 7, pf_initial_cash = Some (Fin 1000), pf_strategy = ''momentum'', pf_external_sha256 = None,
                     pf_created = ymd 2026 1 2, pf_execution_profile = None\<rparr>,
                    \<lparr>pf_id = ''B'', pf_active = True, pf_cash = Fin 500, pf_initial_cash = None, pf_strategy = ''momentum'', pf_external_sha256 = None,
                     pf_created = ymd 2026 1 2, pf_execution_profile = None\<rparr>],
      portfolio_accounts = [],
      sim_positions = [\<lparr>pos_portfolio = ''A'', pos_ticker = ''SPY'', pos_qty = Fin 99, pos_cost = Fin 1\<rparr>,
                       \<lparr>pos_portfolio = ''B'', pos_ticker = ''SPY'', pos_qty = Fin 3, pos_cost = Fin 2\<rparr>],
      sim_position_lots = [], sim_day_trades = [],
      sim_fills = [\<lparr>fl_order = 1, fl_portfolio = ''A'', fl_ticker = ''SPY'', fl_side = ''buy'', fl_qty = Fin 10,
                    fl_px = Fin 20, fl_open_px = Fin 20, fl_date = ymd 2026 10 6\<rparr>,
                   \<lparr>fl_order = 2, fl_portfolio = ''A'', fl_ticker = ''SPY'', fl_side = ''sell'', fl_qty = Fin 4,
                    fl_px = Fin 25, fl_open_px = Fin 25, fl_date = ymd 2026 10 7\<rparr>],
      sim_fill_details = [], sim_fill_fees = [],
      sim_cash_events = [], sim_dividends = [], sim_settlements = [], sim_splits = []\<rparr>"

section \<open>Shape of a fill\<close>

text \<open>The stored quantity and basis of an instrument, zero when there is no row.\<close>

definition holding :: "book \<Rightarrow> string \<Rightarrow> string \<Rightarrow> float64 \<times> float64" where
  "holding bk pid t = (case position_of bk pid t of Some r \<Rightarrow> (pos_qty r, pos_cost r) | None \<Rightarrow> (Fin 0, Fin 0))"

lemma fill_guards_Inr:
  "fill_guards side (Fin q) (Fin p) (Fin m) cash cq cc fee = Inr u \<Longrightarrow>
     \<exists>c a b. cash = Fin c \<and> cq = Fin a \<and> cc = Fin b \<and> 0 \<le> b"
  by (simp add: fill_guards_def Let_def bindE_eq_Inr finite_number_float_iff)

lemma apply_fill_cases:
  assumes "apply_fill e bk fl fees persist = Inr (bk', applied, ms)"
  obtains (nothing) "bk' = bk" "applied = Fin 0" "ms = []"
  | (effect) q p m pf st hq hc fee ef where
    "fill_numbers fl = Inr (Fin q, Fin p, Fin m)" "0 < q" "0 < p" "0 < m"
    "portfolio_row_of bk (f_portfolio fl) = Some pf" "portfolio_account bk (f_portfolio fl) = Inr st"
    "holding bk (f_portfolio fl) (f_instrument fl) = (Fin hq, Fin hc)" "0 \<le> hc"
    "fee = (case fees of None \<Rightarrow> Fin 0 | Some f \<Rightarrow> total_usd f)"
    "fill_guards (f_side fl) (Fin q) (Fin p) (Fin m) (pf_cash pf) (Fin hq) (Fin hc) fee = Inr ()"
    "side_effect bk fl st (Fin q) (Fin p) (Fin m) (pf_cash pf) (Fin hq) (Fin hc) fee = Inr (Some ef)"
    "finish_fill e fl st fees persist ef = Inr (bk', applied, ms)"
    "\<not> (f_side fl = ''short'' \<and> account_type st = ''cash_legacy'')" "f_side fl \<in> set default_sides"
proof (cases "fill_numbers fl")
  case (Inl x)
  show ?thesis by (rule nothing) (use assms Inl in \<open>auto simp: apply_fill_def\<close>)
next
  case (Inr n)
  obtain qty px mult where n: "n = (qty, px, mult)" by (metis prod_cases3)
  obtain q p m where fin: "qty = Fin q" "px = Fin p" "mult = Fin m" "0 < q" "0 < p" "0 < m"
    using Inr n by (auto simp: fill_numbers_def bindE_eq_Inr elim!: finite_number_Inr)
  obtain hq hc where h: "holding bk (f_portfolio fl) (f_instrument fl) = (hq, hc)" by (metis surj_pair)
  obtain pf st where acc: "portfolio_row_of bk (f_portfolio fl) = Some pf" "portfolio_account bk (f_portfolio fl) = Inr st"
    "f_side fl \<in> set default_sides" "\<not> (f_side fl = ''short'' \<and> account_type st = ''cash_legacy'')"
    using assms Inr n by (auto simp: apply_fill_def bindE_eq_Inr split: if_splits option.splits)
  let ?fee = "case fees of None \<Rightarrow> Fin 0 | Some f \<Rightarrow> total_usd f"
  obtain eff where g: "fill_guards (f_side fl) qty px mult (pf_cash pf) hq hc ?fee = Inr ()"
    "side_effect bk fl st qty px mult (pf_cash pf) hq hc ?fee = Inr eff"
    "(case eff of None \<Rightarrow> Inr (bk, Fin 0, []) | Some ef \<Rightarrow> finish_fill e fl st fees persist ef) = Inr (bk', applied, ms)"
    using assms acc(4)
    by (simp add: apply_fill_def Inr n acc(1-3) h [unfolded holding_def] Let_def bindE_eq_Inr split: if_split_asm) blast
  obtain hq' hc' where hf: "hq = Fin hq'" "hc = Fin hc'" "0 \<le> hc'"
    using g(1) fin fill_guards_Inr by blast
  show ?thesis
  proof (cases eff)
    case None
    show ?thesis by (rule nothing) (use g(3) None in auto)
  next
    case (Some ef)
    then show ?thesis using effect [of q p m pf st hq' hc' ?fee ef] Inr n fin acc h g hf by simp
  qed
qed


section \<open>Frames\<close>

definition same_accounts :: "book \<Rightarrow> book \<Rightarrow> bool" where
  "same_accounts bk bk' \<longleftrightarrow> portfolios bk' = portfolios bk \<and> portfolio_accounts bk' = portfolio_accounts bk \<and>
     sim_positions bk' = sim_positions bk \<and> sim_fill_fees bk' = sim_fill_fees bk \<and> sim_fills bk' = sim_fills bk \<and>
     sim_cash_events bk' = sim_cash_events bk"

lemma same_accounts_add_lot: "add_lot bk pid i d k q p = Inr bk' \<Longrightarrow> same_accounts bk bk'"
  by (auto simp: add_lot_def Let_def bindE_eq_Inr same_accounts_def split: option.splits if_splits)

lemma same_accounts_match_lots: "match_lots bk pid i q cs c = (bk', ms) \<Longrightarrow> same_accounts bk bk'"
  by (auto simp: match_lots_def same_accounts_def split: if_splits prod.splits)

lemma same_accounts_day_trade: "record_day_trade bk fl ms = Inr bk' \<Longrightarrow> same_accounts bk bk'"
  by (auto simp: record_day_trade_def same_accounts_def split: option.splits if_splits)

lemma same_accounts_refl: "same_accounts bk bk" by (simp add: same_accounts_def)

lemma same_accounts_trans: "same_accounts a b \<Longrightarrow> same_accounts b c \<Longrightarrow> same_accounts a c"
  by (simp add: same_accounts_def)

lemma same_accounts_open_lot: "open_lot bk fl q p = Inr bk' \<Longrightarrow> same_accounts bk bk'"
  by (auto simp: open_lot_def same_accounts_refl same_accounts_add_lot split: option.splits)

lemma same_accounts_apply_close:
  assumes "apply_close bk fl st cs qty px m cq cc fee = Inr (Some ef)"
  shows "same_accounts bk (ef_book ef)"
proof -
  obtain b ms where "match_lots bk (f_portfolio fl) (f_instrument fl)
      (if flt (if cs then fabs cq else cq) qty then (if cs then fabs cq else cq) else qty) cs True = (b, ms)"
    by (metis surj_pair)
  then show ?thesis
    using assms same_accounts_match_lots [of bk] same_accounts_day_trade same_accounts_trans
    by (auto simp: apply_close_def Let_def bindE_eq_Inr split: if_splits) (metis+)
qed

lemma same_accounts_side_effect:
  assumes "side_effect bk fl st qty px m cash cq cc fee = Inr (Some ef)"
  shows "same_accounts bk (ef_book ef)"
  using assms same_accounts_apply_close same_accounts_open_lot
  by (auto simp: side_effect_def apply_buy_def apply_short_def Let_def bindE_eq_Inr split: if_splits option.splits)

lemma finish_fill_position:
  assumes "finish_fill e fl st fees persist ef = Inr (bk', q, ms)"
  shows "q = ef_applied ef \<and> ms = ef_matched ef \<and>
    position_of bk' p t = (if p = f_portfolio fl \<and> t = f_instrument fl
      then Some \<lparr>pos_portfolio = p, pos_ticker = t, pos_qty = ef_qty ef, pos_cost = ef_cost ef\<rparr>
      else position_of (ef_book ef) p t)"
proof -
  let ?b = "put_position (add_cash (ef_book ef) (f_portfolio fl) (ef_cash ef)) (f_portfolio fl) (f_instrument fl) (ef_qty ef) (ef_cost ef)"
  have "sim_positions bk' = sim_positions ?b" "q = ef_applied ef" "ms = ef_matched ef"
    using assms by (auto simp: finish_fill_def persist_fees_def Let_def bindE_eq_Inr split: option.splits if_splits)
  moreover have "position_of (add_cash b x y) p t = position_of b p t" for b x y
    by (simp add: position_of_def add_cash_def)
  ultimately show ?thesis using put_position_lookup [of "add_cash (ef_book ef) (f_portfolio fl) (ef_cash ef)"]
    by (auto simp: position_of_def)
qed

lemma finish_fill_cash:
  assumes "finish_fill e fl st fees persist ef = Inr (bk', q, ms)"
  shows "portfolio_row_of bk' p = map_option (\<lambda>r. if p = f_portfolio fl then r\<lparr>pf_cash := fadd (pf_cash r) (ef_cash ef)\<rparr> else r)
    (portfolio_row_of (ef_book ef) p)"
proof -
  have "portfolios bk' = portfolios (add_cash (ef_book ef) (f_portfolio fl) (ef_cash ef))"
    using assms by (auto simp: finish_fill_def persist_fees_def put_position_def Let_def bindE_eq_Inr split: option.splits if_splits)
  then show ?thesis using add_cash_lookup [of "ef_book ef" "f_portfolio fl" "ef_cash ef" p]
    by (simp add: portfolio_row_of_def)
qed


section \<open>Closing fills\<close>

lemma apply_close_effect:
  assumes "apply_close bk fl st cs (Fin q) px m (Fin h) cc fee = Inr (Some ef)"
  shows "(if cs then h < 0 else 0 < h) \<and> ef_applied ef = Fin (min q \<bar>h\<bar>) \<and> ef_cost ef = cc \<and>
    ef_qty ef = rnd (if cs then h + min q \<bar>h\<bar> else h - min q \<bar>h\<bar>) \<and>
    ef_matched ef = snd (match_lots bk (f_portfolio fl) (f_instrument fl) (Fin (min q \<bar>h\<bar>)) cs True)"
proof -
  have g: "if cs then h < 0 else 0 < h"
    using assms by (auto simp: apply_close_def split: if_splits)
  have k: "(if flt (if cs then fabs (Fin h) else Fin h) (Fin q) then (if cs then fabs (Fin h) else Fin h) else Fin q) = Fin (min q \<bar>h\<bar>)"
    using g by (auto split: if_splits)
  obtain b ms where m: "match_lots bk (f_portfolio fl) (f_instrument fl) (Fin (min q \<bar>h\<bar>)) cs True = (b, ms)"
    by (metis surj_pair)
  from assms g show ?thesis
    unfolding apply_close_def k Let_def m by (auto simp: bindE_eq_Inr split: if_splits)
qed

lemma close_position:
  fixes q h :: rat
  assumes "is64 (Fin h)" "0 < q" "if cs then h < 0 else 0 < h"
  shows "\<exists>h'. rnd (if cs then h + min q \<bar>h\<bar> else h - min q \<bar>h\<bar>) = Fin h' \<and>
    (if cs then h \<le> h' \<and> h' \<le> 0 else 0 \<le> h' \<and> h' \<le> h) \<and> (\<bar>h\<bar> \<le> q \<longrightarrow> h' = 0)"
proof (cases cs)
  case True
  have "is64 (Fin (- h))" using assms(1) is64_fneg [of "Fin h"] by simp
  then obtain v where "rnd (- h - min q (- h)) = Fin v" "0 \<le> v" "v \<le> - h"
    using rnd_between [of "- h - min q (- h)" "- h"] assms True by auto
  then have "rnd (h + min q \<bar>h\<bar>) = Fin (- v)" "h \<le> - v" "- v \<le> 0"
    using rnd_uminus [of "- h - min q (- h)"] assms True by (auto simp: algebra_simps)
  moreover have "- v = 0" if "\<bar>h\<bar> \<le> q"
    using that calculation(1) True assms(3) by (simp add: min_def split: if_splits)
  ultimately show ?thesis using True by auto
next
  case False
  then show ?thesis using rnd_between [of "h - min q h" h] assms by (auto simp: min_def)
qed

text \<open>C7: A closing fill never crosses through zero. When \<open>apply_fill\<close> applies a sale or a cover, the applied
  quantity is the requested one clamped to what is held, the position shrinks towards zero without
  changing sign (and to exactly zero when the clamp bites), its basis is kept, and the lots handed to the
  close callback are those matched against the applied quantity.\<close>

theorem close_never_crosses_zero:
  assumes "apply_fill e bk fl fees persist = Inr (bk', applied, ms)" "applied \<noteq> Fin 0"
    and "f_side fl \<in> {''sell'', ''cover''}" "is64 (fst (holding bk (f_portfolio fl) (f_instrument fl)))"
  shows "\<exists>q p m h h' c. fill_numbers fl = Inr (Fin q, p, m) \<and>
    holding bk (f_portfolio fl) (f_instrument fl) = (Fin h, c) \<and>
    holding bk' (f_portfolio fl) (f_instrument fl) = (Fin h', c) \<and>
    applied = Fin (min q \<bar>h\<bar>) \<and> (\<bar>h\<bar> \<le> q \<longrightarrow> h' = 0) \<and>
    (if f_side fl = ''sell'' then 0 < h \<and> 0 \<le> h' \<and> h' \<le> h else h < 0 \<and> h \<le> h' \<and> h' \<le> 0) \<and>
    ms = snd (match_lots bk (f_portfolio fl) (f_instrument fl) applied (f_side fl = ''cover'') True)"
proof (cases rule: apply_fill_cases [OF assms(1)])
  case 1
  then show ?thesis using assms(2) by simp
next
  case (2 q p m pf st hq hc fee ef)
  let ?cs = "f_side fl = ''cover''"
  have c: "apply_close bk fl st ?cs (Fin q) (Fin p) (Fin m) (Fin hq) (Fin hc) fee = Inr (Some ef)"
    using 2(11) assms(3) by (auto simp: side_effect_def)
  note eff = apply_close_effect [OF c]
  from close_position [of hq q ?cs] eff assms(4) 2
  obtain h' where h': "ef_qty ef = Fin h'" "if ?cs then hq \<le> h' \<and> h' \<le> 0 else 0 \<le> h' \<and> h' \<le> hq" "\<bar>hq\<bar> \<le> q \<longrightarrow> h' = 0"
    by auto
  from finish_fill_position [OF 2(12), of "f_portfolio fl" "f_instrument fl"]
  have p: "applied = ef_applied ef" "ms = ef_matched ef"
    "holding bk' (f_portfolio fl) (f_instrument fl) = (ef_qty ef, ef_cost ef)"
    by (auto simp: holding_def)
  show ?thesis
    by (rule exI [of _ q], rule exI [of _ "Fin p"], rule exI [of _ "Fin m"], rule exI [of _ hq], rule exI [of _ h'], rule exI [of _ "Fin hc"])
      (use 2 eff h' p assms(3) in auto)
qed

definition example_sell :: fill where
  "example_sell = \<lparr>f_portfolio = ''A'', f_instrument = ''SPY'', f_side = ''sell'', f_qty = PInt 120, f_px = PFloat (Fin 20),
     f_multiplier = PFloat (Fin 1), f_order = Some 3, f_session = Some (ymd 2026 10 8)\<rparr>"

lemma example_sell_applies:
  "\<exists>bk' ms. apply_fill example_env example_book example_sell None True = Inr (bk', Fin 99, ms)"
proof -
  have "case apply_fill example_env example_book example_sell None True of Inr (_, a, _) \<Rightarrow> a = Fin 99 | Inl _ \<Rightarrow> False"
    by code_simp
  then show ?thesis by (auto split: sum.splits prod.splits)
qed

theorem close_never_crosses_zero_witness:
  "\<exists>bk' ms. apply_fill example_env example_book example_sell None True = Inr (bk', Fin 99, ms) \<and>
     holding bk' ''A'' ''SPY'' = (Fin 0, Fin 1)"
proof -
  obtain bk' ms where a: "apply_fill example_env example_book example_sell None True = Inr (bk', Fin 99, ms)"
    using example_sell_applies by blast
  have h: "holding example_book ''A'' ''SPY'' = (Fin 99, Fin 1)" "f_portfolio example_sell = ''A''" "f_instrument example_sell = ''SPY''"
    "f_side example_sell = ''sell''" "fill_numbers example_sell = Inr (Fin 120, Fin 20, Fin 1)" by code_simp+
  have "is64 (Fin 99)" by (simp add: is64_numeral)
  then show ?thesis using close_never_crosses_zero [OF a] h a by auto
qed

lemma side_effect_applied:
  assumes "side_effect bk fl st (Fin q) (Fin p) (Fin m) cash (Fin h) (Fin c) fee = Inr (Some ef)" "0 < q"
  shows "ef_applied ef \<noteq> Fin 0"
proof -
  have z: "flt (fmul (fmul (Fin 0) (Fin p)) (Fin m)) MIN_FILL_USD" by (simp add: MIN_FILL_USD_def)
  have b: "x \<noteq> Fin 0" if "buy_quantity a cash fee (Fin q) (Fin p) (Fin m) = Inr (Some x)" for a x
    using that assms(2) z by (auto simp: buy_quantity_def Let_def bindE_eq_Inr split: if_splits)
  have cl: "ef_applied ef \<noteq> Fin 0" if "apply_close bk fl st cs (Fin q) (Fin p) (Fin m) (Fin h) (Fin c) fee = Inr (Some ef)" for cs
    using apply_close_effect [OF that] assms(2) by (auto split: if_splits)
  show ?thesis
    using assms b cl
    by (auto simp: side_effect_def apply_buy_def apply_short_def Let_def bindE_eq_Inr split: if_splits option.splits)
qed

text \<open>A fill changes only its own account and instrument. Whatever \<open>apply_fill\<close> returns, every other
  account keeps its cash and every other position its row; the recorded fills and cash events are kept; and when
  the applied quantity is zero the whole book is unchanged.\<close>

theorem fill_frame:
  assumes "apply_fill e bk fl fees persist = Inr (bk', applied, ms)"
  shows "(applied = Fin 0 \<longrightarrow> bk' = bk \<and> ms = []) \<and>
    (\<forall>q t. q \<noteq> f_portfolio fl \<or> t \<noteq> f_instrument fl \<longrightarrow> position_of bk' q t = position_of bk q t) \<and>
    (\<forall>q. q \<noteq> f_portfolio fl \<longrightarrow> portfolio_row_of bk' q = portfolio_row_of bk q) \<and>
    sim_fills bk' = sim_fills bk \<and> sim_cash_events bk' = sim_cash_events bk"
proof (cases rule: apply_fill_cases [OF assms])
  case 1
  then show ?thesis by simp
next
  case (2 q p m pf st hq hc fee ef)
  have same: "same_accounts bk (ef_book ef)" by (rule same_accounts_side_effect [OF 2(11)])
  have pos: "position_of (ef_book ef) = position_of bk" "portfolio_row_of (ef_book ef) = portfolio_row_of bk"
    using same by (auto simp: same_accounts_def position_of_def portfolio_row_of_def fun_eq_iff)
  have j: "sim_fills bk' = sim_fills (ef_book ef)" "sim_cash_events bk' = sim_cash_events (ef_book ef)"
    using 2(12) by (auto simp: finish_fill_def persist_fees_def put_position_def add_cash_def Let_def bindE_eq_Inr
        split: option.splits if_splits)
  have "applied \<noteq> Fin 0"
    using side_effect_applied [OF 2(11,2)] finish_fill_position [OF 2(12)] by simp
  then show ?thesis
    using finish_fill_position [OF 2(12)] finish_fill_cash [OF 2(12)] same j
    by (simp add: pos same_accounts_def map_option.identity)
qed

theorem fill_frame_witness:
  "\<exists>bk' ms. apply_fill example_env example_book example_sell None True = Inr (bk', Fin 99, ms) \<and>
     position_of bk' ''B'' ''SPY'' = position_of example_book ''B'' ''SPY'' \<and>
     portfolio_row_of bk' ''B'' = portfolio_row_of example_book ''B''"
proof -
  obtain bk' ms where a: "apply_fill example_env example_book example_sell None True = Inr (bk', Fin 99, ms)"
    using example_sell_applies by blast
  have "f_portfolio example_sell = ''A''" by (simp add: example_sell_def)
  then show ?thesis using fill_frame [OF a] a by auto
qed


section \<open>Cash purchases\<close>

lemma dust_factor: "\<exists>c. fsub (Fin 1) DUST = Fin c \<and> 0 \<le> c \<and> c \<le> 1 - 9 / 10 ^ 13"
proof -
  have "case fsub (Fin 1) DUST of Fin c \<Rightarrow> 0 \<le> c \<and> c \<le> 1 - 9 / 10 ^ 13 | _ \<Rightarrow> False" by code_simp
  then show ?thesis by (auto split: float64.splits)
qed

text \<open>The working range of the clamp: prices of \<open>2^-100\<close> to \<open>2^100\<close>, multipliers up to \<open>2^100\<close> and cash up
  to \<open>2^300\<close>, far beyond any stored value and short of the exponent limits.\<close>

definition working_range :: "rat \<Rightarrow> rat \<Rightarrow> rat \<Rightarrow> bool" where
  "working_range c p m \<longleftrightarrow> 0 \<le> c \<and> c \<le> 2 ^ 300 \<and> 1 / 2 ^ 100 \<le> p \<and> p \<le> 2 ^ 100 \<and> 1 \<le> m \<and> m \<le> 2 ^ 100"

lemma clamped_finite:
  assumes "working_range c p m" "0 \<le> f" "f \<le> 1"
  shows "\<exists>s. fmul (fquot (fmax (Fin c) (Fin 0)) (fmul (Fin p) (Fin m))) (Fin f) = Fin s \<and>
    s = rr (rr (c / rr (p * m)) * f) \<and> fmul (Fin p) (Fin m) = Fin (rr (p * m)) \<and> 0 < rr (p * m) \<and>
    fmul (fmul (Fin s) (Fin p)) (Fin m) = Fin (rr (rr (s * p) * m))"
proof -
  note w = assms(1)[unfolded working_range_def]
  have p0: "0 < p" using w by (auto intro: less_le_trans [of _ "1 / 2 ^ 100"])
  have "p * m \<le> 2 ^ 100 * 2 ^ 100" using w p0 by (intro mult_mono) auto
  then have d: "rnd (p * m) = Fin (rr (p * m))" using rnd_upto [of "p * m" 200] w p0 by simp
  have "1 / 2 ^ 100 * 1 \<le> p * m" using w by (intro mult_mono) auto
  then have "rr (1 / 2 ^ 100) \<le> rr (p * m)" by (intro rr_mono) simp
  moreover have "rr (1 / 2 ^ 100) = 1 / 2 ^ 100" using rr_powi [of "- 100", unfolded powi_100] by simp
  ultimately have dl: "1 / 2 ^ 100 \<le> rr (p * m)" by simp
  then have d0: "0 < rr (p * m)" by (rule less_le_trans [rotated]) simp
  have "c / rr (p * m) \<le> 2 ^ 300 / (1 / 2 ^ 100)" using w dl by (intro frac_le) auto
  then have t: "rnd (c / rr (p * m)) = Fin (rr (c / rr (p * m)))" "0 \<le> rr (c / rr (p * m))" "rr (c / rr (p * m)) \<le> 2 ^ 400"
    using rnd_upto [of "c / rr (p * m)" 400] w d0 by auto
  let ?s = "rr (rr (c / rr (p * m)) * f)"
  have "rr (c / rr (p * m)) * f \<le> 2 ^ 400 * 1" using t assms by (intro mult_mono) auto
  then have s: "rnd (rr (c / rr (p * m)) * f) = Fin ?s" "0 \<le> ?s" "?s \<le> 2 ^ 400"
    using rnd_upto [of "rr (c / rr (p * m)) * f" 400] t assms by auto
  have "?s * p \<le> 2 ^ 400 * 2 ^ 100" using s w by (intro mult_mono) auto
  then have y: "rnd (?s * p) = Fin (rr (?s * p))" "0 \<le> rr (?s * p)" "rr (?s * p) \<le> 2 ^ 500"
    using rnd_upto [of "?s * p" 500] s p0 by auto
  have "rr (?s * p) * m \<le> 2 ^ 500 * 2 ^ 100" using y w by (intro mult_mono) auto
  then have z: "rnd (rr (?s * p) * m) = Fin (rr (rr (?s * p) * m))"
    using rnd_upto [of "rr (?s * p) * m" 600] y w by auto
  have "fmax (Fin c) (Fin 0) = Fin c" using w by (simp add: fmax_def)
  then show ?thesis using d d0 t s y z by simp
qed

lemma working_range_powi:
  assumes "working_range c p m"
  shows "2 powi - 500 \<le> p" "p \<le> 2 powi 500" "1 \<le> m" "m \<le> 2 powi 100"
proof -
  note w = assms[unfolded working_range_def]
  note a = powi_100
  have "(2::rat) powi - 500 \<le> 2 powi - 100" "(2::rat) powi 100 \<le> 2 powi 500" by (rule powi_mono, simp)+
  then show "2 powi - 500 \<le> p" "p \<le> 2 powi 500" using w unfolding a by (meson order.trans)+
  show "1 \<le> m" "m \<le> 2 powi 100" using w a by auto
qed

lemma cash_buy_sized:
  assumes "buy_quantity ''cash_legacy'' (Fin c) (Fin 0) (Fin q) (Fin p) (Fin m) = Inr (Some x)"
    and "is64 (Fin c)" "working_range c p m" "0 < q"
    and n0: "fmul (fmul (Fin q) (Fin p)) (Fin m) = Fin n0" "0 < n0"
  shows "\<exists>s n. x = Fin s \<and> 0 \<le> s \<and> s \<le> q \<and> fmul (fmul x (Fin p)) (Fin m) = Fin n \<and> 0 \<le> n \<and> n \<le> c"
proof (cases "c < n0")
  case False
  then show ?thesis using assms by (auto simp: buy_quantity_def Let_def rnd_is64 split: if_splits)
next
  case True
  obtain f where f: "fsub (Fin 1) DUST = Fin f" "0 \<le> f" "f \<le> 1 - 9 / 10 ^ 13" using dust_factor by blast
  have f1: "f \<le> 1" using f(3) by (rule order.trans) simp
  from clamped_finite [OF assms(3) f(2) f1] obtain s where
    s: "fmul (fquot (fmax (Fin c) (Fin 0)) (fmul (Fin p) (Fin m))) (Fin f) = Fin s"
    "s = rr (rr (c / rr (p * m)) * f)" "fmul (Fin p) (Fin m) = Fin (rr (p * m))" "0 < rr (p * m)"
    "fmul (fmul (Fin s) (Fin p)) (Fin m) = Fin (rr (rr (s * p) * m))" by blast
  have av: "fsub (Fin c) (Fin 0) = Fin c" using assms(2) by (simp add: rnd_is64)
  have dv: "fdiv (fmax (Fin c) (Fin 0)) (fmul (Fin p) (Fin m)) = Inr (fquot (fmax (Fin c) (Fin 0)) (fmul (Fin p) (Fin m)))"
    using s(3,4) by (simp add: fdiv_def del: fmul_Fin)
  have x: "x = Fin s" "1 \<le> rr (rr (s * p) * m)"
    using assms(1) True
    by (auto simp: buy_quantity_def Let_def av n0(1) dv f(1) s(1,5) MIN_FILL_USD_def
        simp del: fmul_Fin fsub_Fin fquot_Fin split: if_splits)
  note r = working_range_powi [OF assms(3)]
  have "0 \<le> s" by (rule order.trans [OF _ less_imp_le [OF ieee.clamp_affordable(2) [OF r f(2,3), of c, folded s(2)]]])
      (use x(2) in simp_all)
  moreover have "rr (rr (s * p) * m) \<le> c" "s \<le> q"
    using ieee.clamp_affordable [OF r f(2,3)] ieee.clamp_shrinks [OF r f(2,3)] x(2) True assms(4)
    unfolding fmul_finite [OF n0(1)] s(2) by (auto simp: less_imp_le)
  ultimately show ?thesis using x s(5) by fastforce
qed


lemma apply_buy_effect:
  assumes "apply_buy bk fl st qty px m cash cq cc fee = Inr (Some ef)"
  shows "buy_quantity (account_type st) cash fee qty px m = Inr (Some (ef_applied ef)) \<and>
    ef_cash ef = fsub (fneg (fmul (fmul (ef_applied ef) px) m)) fee \<and> ef_qty ef = fadd cq (ef_applied ef)"
proof -
  obtain q where "buy_quantity (account_type st) cash fee qty px m = Inr (Some q)"
    "ef_applied ef = q" "ef_cash ef = fsub (fneg (fmul (fmul q px) m)) fee" "ef_qty ef = fadd cq q"
    using assms unfolding apply_buy_def Let_def by (cases "flt cq (Fin 0)") (auto simp: bindE_eq_Inr split: option.split_asm)
  then show ?thesis by simp
qed

lemma fill_numbers_notional:
  assumes "fill_numbers fl = Inr (Fin q, Fin p, Fin m)"
  shows "\<exists>n. fmul (fmul (Fin q) (Fin p)) (Fin m) = Fin n \<and> 0 < n"
proof -
  from assms obtain w where "finite_number (PFloat (fmul (fmul (Fin q) (Fin p)) (Fin m))) ''fill notional'' True False = Inr w"
    unfolding fill_numbers_def bindE_eq_Inr sum.inject prod.inject by blast
  then show ?thesis unfolding finite_number_float_iff by blast
qed

text \<open>C8: A cash account is never overdrawn by a purchase. On a \<open>cash_legacy\<close> account with non-negative cash
  and no dollar fee, a buy in the working range leaves the cash between zero and what it was, in binary64
  arithmetic: when the clamp bites, the affordable size, computed by a division, a haircut of \<open>1e-12\<close> and two
  roundings, still costs no more than the cash; and the applied quantity never exceeds the requested one.\<close>

theorem cash_buy_never_overdraws:
  assumes "apply_fill e bk fl fees persist = Inr (bk', applied, ms)" "f_side fl = ''buy''"
    and "portfolio_account bk (f_portfolio fl) = Inr st" "account_type st = ''cash_legacy''"
    and "portfolio_row_of bk (f_portfolio fl) = Some pf" "pf_cash pf = Fin c" "is64 (Fin c)"
    and "fill_numbers fl = Inr (Fin q, Fin p, Fin m)" "working_range c p m"
    and "(case fees of None \<Rightarrow> Fin 0 | Some f \<Rightarrow> total_usd f) = Fin 0"
  shows "\<exists>pf' c' a. portfolio_row_of bk' (f_portfolio fl) = Some pf' \<and> pf_cash pf' = Fin c' \<and> 0 \<le> c' \<and> c' \<le> c \<and>
    applied = Fin a \<and> 0 \<le> a \<and> a \<le> q"
proof (cases rule: apply_fill_cases [OF assms(1)])
  case 1
  then show ?thesis using assms by (auto simp: working_range_def fill_numbers_def bindE_eq_Inr elim!: finite_number_Inr)
next
  case (2 q' p' m' pf' st' hq hc fee ef)
  have eqs: "q' = q" "p' = p" "m' = m" "pf' = pf" "st' = st" "fee = Fin 0" using 2 assms by auto
  have b: "apply_buy bk fl st (Fin q) (Fin p) (Fin m) (Fin c) (Fin hq) (Fin hc) (Fin 0) = Inr (Some ef)"
    using 2(11) assms(2,6) eqs by (simp add: side_effect_def)
  note eff = apply_buy_effect [OF b]
  obtain n0 where n0: "fmul (fmul (Fin q) (Fin p)) (Fin m) = Fin n0" "0 < n0"
    using fill_numbers_notional [OF assms(8)] by blast
  have q0: "0 < q" using 2(2) eqs by simp
  from cash_buy_sized [OF _ assms(7,9) q0 n0, of "ef_applied ef"] eff assms(4)
  obtain s n where s: "ef_applied ef = Fin s" "s \<le> q" "fmul (fmul (Fin s) (Fin p)) (Fin m) = Fin n" "0 \<le> n" "n \<le> c" "0 \<le> s"
    by metis
  have "is64 (Fin n)" using is64_fmul [of "fmul (Fin s) (Fin p)" "Fin m"] s(3) by (simp del: fmul_Fin is64_fmul)
  then have "is64 (Fin (- n))" using is64_fneg [of "Fin n"] by simp
  then have "ef_cash ef = Fin (- n)" using eff s(1,3) by (simp add: rnd_is64 del: fmul_Fin)
  moreover obtain c' where "rnd (c - n) = Fin c'" "0 \<le> c'" "c' \<le> c"
    using rnd_between [of "c - n" c] s assms(7) by auto
  ultimately have cash: "fadd (pf_cash pf) (ef_cash ef) = Fin c'" "0 \<le> c'" "c' \<le> c" using assms(6) by simp_all
  have "portfolio_row_of (ef_book ef) (f_portfolio fl) = Some pf"
    using same_accounts_side_effect [OF 2(11)] assms(5) by (simp add: same_accounts_def portfolio_row_of_def)
  then have "portfolio_row_of bk' (f_portfolio fl) = Some (pf\<lparr>pf_cash := Fin c'\<rparr>)"
    using finish_fill_cash [OF 2(12), of "f_portfolio fl"] cash(1) by simp
  moreover have "applied = Fin s" using finish_fill_position [OF 2(12)] s(1) by simp
  ultimately show ?thesis using s cash by auto
qed

theorem cash_buy_witness:
  "\<exists>bk' ms pf' c' a. apply_fill example_env example_book (example_sell\<lparr>f_side := ''buy''\<rparr>) None True = Inr (bk', Fin a, ms) \<and>
     portfolio_row_of bk' ''A'' = Some pf' \<and> pf_cash pf' = Fin c' \<and> 0 \<le> c' \<and> c' \<le> 7 \<and> a \<le> 120"
proof -
  let ?f = "example_sell\<lparr>f_side := ''buy''\<rparr>"
  have "case apply_fill example_env example_book ?f None True of Inr _ \<Rightarrow> True | Inl _ \<Rightarrow> False" by code_simp
  then obtain bk' x ms where a: "apply_fill example_env example_book ?f None True = Inr (bk', x, ms)"
    by (auto split: sum.splits)
  obtain st where st: "portfolio_account example_book (f_portfolio ?f) = Inr st" "account_type st = ''cash_legacy''"
    by (simp add: portfolio_account_def portfolio_row_of_def example_book_def example_sell_def coalesce_def Let_def)
  obtain pf where pf: "portfolio_row_of example_book (f_portfolio ?f) = Some pf" "pf_cash pf = Fin 7"
    by (simp add: portfolio_row_of_def example_book_def example_sell_def)
  have n: "f_portfolio ?f = ''A''" "f_side ?f = ''buy''" "fill_numbers ?f = Inr (Fin 120, Fin 20, Fin 1)" by code_simp+
  have "is64 (Fin 7)" by (simp add: is64_numeral)
  moreover have "working_range 7 20 1" by (simp add: working_range_def)
  ultimately show ?thesis
    using cash_buy_never_overdraws [OF a n(2) st pf _ n(3), of] a n(1) by auto
qed

section \<open>First in, first out\<close>

lemma dust_nonneg: "fle (Fin 0) DUST"
  unfolding DUST_def lit_def using fle_rnd_mono [of 0 "1 / 10 ^ 12"] by simp

lemma match_loop_fifo:
  assumes "match_loop pid i cs c (Fin r) ls table = (t, ms)" "is64 (Fin r)" "0 \<le> r"
  shows "length ms \<le> length ls \<and> map ml_order ms = map lot_order (take (length ms) ls) \<and>
    (\<forall>j. Suc j < length ms \<longrightarrow> ml_qty (ms ! j) = fabs (lot_qty (ls ! j))) \<and> (\<forall>m\<in>set ms. fle (ml_qty m) (Fin r))"
  using assms
proof (induction ls arbitrary: r table t ms)
  case Nil
  then show ?case by simp
next
  case (Cons l ls)
  obtain k where k: "fmin (Fin r) (fabs (lot_qty l)) = Fin k" "0 \<le> k" "k \<le> r" "k = r \<or> fabs (lot_qty l) = Fin k"
    using fmin_finite [OF Cons.prems(3)] by blast
  obtain r' where r': "rnd (r - k) = Fin r'" "0 \<le> r'" "r' \<le> r"
    using rnd_between [of "r - k" r] k Cons.prems(2) by auto
  show ?case
  proof (cases "fle (Fin r') DUST")
    case True
    then show ?thesis using Cons.prems(1) k(1,3) r'(1) by (auto simp: Let_def)
  next
    case False
    then have eq: "fabs (lot_qty l) = Fin k" using k(4) r'(1) dust_nonneg by auto
    let ?t = "consume_lot pid i cs c (lot_order l) (fsub (fabs (lot_qty l)) (Fin k)) table"
    obtain t' ms' where m: "match_loop pid i cs c (Fin r') ls ?t = (t', ms')" by (metis surj_pair)
    have ms: "ms = \<lparr>ml_order = lot_order l, ml_opened = lot_opened l, ml_qty = Fin k, ml_px = lot_px l\<rparr> # ms'"
      using Cons.prems(1) k(1) r'(1) m False by (simp add: Let_def)
    have "is64 (Fin r')" using is64_rnd [of "r - k"] r'(1) by simp
    from Cons.IH [OF m this r'(2)] show ?thesis
      using k r' eq unfolding ms by (auto simp: nth_Cons split: nat.splits intro: fle_trans)
  qed
qed

lemma open_lots_by_session: "sorted (map lot_opened (open_lots bk pid i cs))"
proof -
  have "sorted (map (lot_key bk) (open_lots bk pid i cs))" by (simp add: open_lots_def)
  then show ?thesis unfolding sorted_map
    by (rule sorted_wrt_mono_rel [rotated]) (auto simp: lot_key_def Let_def)
qed

text \<open>C26: Closing quantity is matched first in, first out. The candidates are the account's lots of the instrument on
  the closing side, in the order of their opening sessions; the lots that \<open>match_lots\<close> returns are the first ones of
  them; every one but the last is matched in full; and none is matched for more than the closing quantity.\<close>

theorem match_lots_fifo:
  assumes "match_lots bk pid i (Fin q) cs consume = (bk', ms)" "is64 (Fin q)"
  shows "map ml_order ms = map lot_order (take (length ms) (open_lots bk pid i cs)) \<and>
    sorted (map lot_opened (open_lots bk pid i cs)) \<and>
    (\<forall>l. l \<in> set (open_lots bk pid i cs) \<longleftrightarrow> l \<in> set (sim_position_lots bk) \<and> lot_portfolio l = pid \<and>
       lot_instrument l = i \<and> (if cs then flt (lot_qty l) (Fin 0) else flt (Fin 0) (lot_qty l))) \<and>
    (\<forall>j. Suc j < length ms \<longrightarrow> ml_qty (ms ! j) = fabs (lot_qty (open_lots bk pid i cs ! j))) \<and>
    (\<forall>m\<in>set ms. fle (ml_qty m) (Fin q))"
proof -
  have s: "sorted (map lot_opened (open_lots bk pid i cs))" "\<forall>l. l \<in> set (open_lots bk pid i cs) \<longleftrightarrow> l \<in> set (sim_position_lots bk) \<and>
      lot_portfolio l = pid \<and> lot_instrument l = i \<and> (if cs then flt (lot_qty l) (Fin 0) else flt (Fin 0) (lot_qty l))"
    using open_lots_by_session by (auto simp: open_lots_def)
  show ?thesis
  proof (cases "fle (Fin q) DUST")
    case True
    then show ?thesis using assms s by (simp add: match_lots_def)
  next
    case False
    then have "0 \<le> q" using dust_nonneg fle_trans [of "Fin q" "Fin 0" DUST] by force
    then show ?thesis using assms s False match_loop_fifo [of pid i cs consume q "open_lots bk pid i cs" "sim_position_lots bk"]
      by (auto simp: match_lots_def split: prod.splits)
  qed
qed

definition example_lots :: book where
  "example_lots = example_book\<lparr>sim_position_lots :=
     [\<lparr>lot_portfolio = ''A'', lot_instrument = ''SPY'', lot_opened = 5, lot_order = 9, lot_qty = Fin 4, lot_px = Fin 2\<rparr>,
      \<lparr>lot_portfolio = ''A'', lot_instrument = ''SPY'', lot_opened = 3, lot_order = 8, lot_qty = Fin 3, lot_px = Fin 1\<rparr>]\<rparr>"

theorem match_lots_fifo_witness:
  "map ml_order (snd (match_lots example_lots ''A'' ''SPY'' (Fin 5) False True)) = [8, 9] \<and>
   map lot_order (open_lots example_lots ''A'' ''SPY'' False) = [8, 9] \<and>
   ml_qty (snd (match_lots example_lots ''A'' ''SPY'' (Fin 5) False True) ! 0) = fabs (Fin 3)"
proof -
  let ?ls = "open_lots example_lots ''A'' ''SPY'' False"
  obtain b ms where m: "match_lots example_lots ''A'' ''SPY'' (Fin 5) False True = (b, ms)" by (metis surj_pair)
  have l: "map lot_order ?ls = [8, 9]" "lot_qty (?ls ! 0) = Fin 3" by code_simp+
  have n: "length (snd (match_lots example_lots ''A'' ''SPY'' (Fin 5) False True)) = 2" by code_simp
  have "is64 (Fin 5)" by (simp add: is64_numeral)
  from match_lots_fifo [OF m this] show ?thesis using l n m by (auto simp: take_map)
qed

section \<open>Primary keys\<close>

text \<open>The primary keys of the tables the ledger writes.\<close>

definition keyed :: "book \<Rightarrow> bool" where
  "keyed bk \<longleftrightarrow>
     distinct (map pf_id (portfolios bk)) \<and>
     distinct (map (\<lambda>r. (pos_portfolio r, pos_ticker r)) (sim_positions bk)) \<and>
     distinct (map (\<lambda>r. (lot_portfolio r, lot_instrument r, lot_order r)) (sim_position_lots bk)) \<and>
     distinct (map (\<lambda>r. (dt_portfolio r, dt_close_order r)) (sim_day_trades bk)) \<and>
     distinct (map fst (sim_fill_fees bk)) \<and>
     distinct (map (\<lambda>r. (ce_portfolio r, ce_date r, ce_seq r)) (sim_cash_events bk))"

lemma distinct_update: "(\<And>r. k (f r) = k r) \<Longrightarrow> distinct (map k (update_rows P f rows)) = distinct (map k rows)"
  by (simp add: update_rows_def comp_def if_distrib cong: if_cong)

lemma distinct_delete: "distinct (map k rows) \<Longrightarrow> distinct (map k (delete_rows P rows))"
  by (simp add: delete_rows_def distinct_map_filter)

lemma distinct_insert: "distinct (map k rows) \<Longrightarrow> (\<And>r'. r' \<in> set rows \<Longrightarrow> k r' \<noteq> k r) \<Longrightarrow> distinct (map k (rows @ [r]))"
  by (fastforce simp: image_iff)

lemma keyed_add_cash: "keyed bk \<Longrightarrow> keyed (add_cash bk pid x)"
  by (simp add: keyed_def add_cash_def distinct_update)

lemma keyed_put_position: "keyed bk \<Longrightarrow> keyed (put_position bk pid t q c)"
  by (auto simp: keyed_def put_position_def distinct_update position_of_def is_position_def dest: find_NoneD)

lemma keyed_set_positions:
  "keyed bk \<Longrightarrow> (\<And>r. pos_portfolio (f r) = pos_portfolio r \<and> pos_ticker (f r) = pos_ticker r) \<Longrightarrow>
     keyed (bk\<lparr>sim_positions := update_rows P f (sim_positions bk)\<rparr>)"
  by (simp add: keyed_def distinct_update)

lemma keyed_set_lots:
  "keyed bk \<Longrightarrow> (\<And>r. lot_portfolio (f r) = lot_portfolio r \<and> lot_instrument (f r) = lot_instrument r \<and> lot_order (f r) = lot_order r) \<Longrightarrow>
     keyed (bk\<lparr>sim_position_lots := update_rows P f (sim_position_lots bk)\<rparr>)"
  by (simp add: keyed_def distinct_update)

lemma keyed_add_lot: "add_lot bk pid i d k q p = Inr bk' \<Longrightarrow> keyed bk \<Longrightarrow> keyed bk'"
  by (auto simp: add_lot_def Let_def bindE_eq_Inr keyed_def distinct_update is_lot_def find_None_iff
      split: option.splits if_splits)

lemma keyed_consume:
  assumes "distinct (map (\<lambda>r. (lot_portfolio r, lot_instrument r, lot_order r)) table)"
  shows "distinct (map (\<lambda>r. (lot_portfolio r, lot_instrument r, lot_order r)) (consume_lot pid i cs c k left table))"
  using assms by (simp add: consume_lot_def distinct_update distinct_delete)

lemma keyed_match_loop:
  "distinct (map (\<lambda>r. (lot_portfolio r, lot_instrument r, lot_order r)) table) \<Longrightarrow>
   distinct (map (\<lambda>r. (lot_portfolio r, lot_instrument r, lot_order r)) (fst (match_loop pid i cs c rem ls table)))"
  by (induction ls arbitrary: rem table) (simp_all add: Let_def split_beta keyed_consume)

lemma keyed_match_lots: "match_lots bk pid i q cs c = (bk', ms) \<Longrightarrow> keyed bk \<Longrightarrow> keyed bk'"
  using keyed_match_loop [of "sim_position_lots bk" pid i cs c q "open_lots bk pid i cs"]
  by (auto simp: match_lots_def keyed_def split: if_splits prod.splits)

lemma keyed_day_trade: "record_day_trade bk fl ms = Inr bk' \<Longrightarrow> keyed bk \<Longrightarrow> keyed bk'"
  by (fastforce simp: record_day_trade_def keyed_def image_iff split: option.splits if_splits)

lemma keyed_open_lot: "open_lot bk fl q p = Inr bk' \<Longrightarrow> keyed bk \<Longrightarrow> keyed bk'"
  by (auto simp: open_lot_def intro: keyed_add_lot split: option.splits)

lemma keyed_side_effect:
  assumes "side_effect bk fl st qty px m cash cq cc fee = Inr (Some ef)" "keyed bk"
  shows "keyed (ef_book ef)"
proof -
  have cl: "apply_close bk fl st cs qty px m cq cc fee = Inr (Some ef) \<Longrightarrow> ?thesis" for cs
    using assms(2) keyed_match_lots keyed_day_trade
    by (fastforce simp: apply_close_def Let_def bindE_eq_Inr split: if_splits prod.splits)
  show ?thesis
    using assms cl keyed_open_lot
    by (auto simp: side_effect_def apply_buy_def apply_short_def Let_def bindE_eq_Inr split: if_splits option.splits)
qed

lemma keyed_persist_fees: "persist_fees bk k f = Inr bk' \<Longrightarrow> keyed bk \<Longrightarrow> keyed bk'"
  by (auto simp: persist_fees_def keyed_def split: if_splits)

lemma keyed_finish_fill: "finish_fill e fl st fees persist ef = Inr (bk', q, ms) \<Longrightarrow> keyed (ef_book ef) \<Longrightarrow> keyed bk'"
  using keyed_persist_fees keyed_put_position keyed_add_cash
  by (fastforce simp: finish_fill_def Let_def bindE_eq_Inr split: option.splits if_splits)

lemma keyed_apply_fill:
  assumes "apply_fill e bk fl fees persist = Inr (bk', q, ms)" "keyed bk"
  shows "keyed bk'"
  using assms keyed_finish_fill keyed_side_effect
  by (fastforce simp: apply_fill_def Let_def bindE_eq_Inr split: sum.splits if_splits option.splits prod.splits)

text \<open>The row a cash event stores.\<close>

definition cash_row :: "cash_event \<Rightarrow> float64 \<Rightarrow> int \<Rightarrow> datetime \<Rightarrow> cash_event_row" where
  "cash_row ev amount seq now = \<lparr>ce_portfolio = c_portfolio ev, ce_date = c_date ev, ce_seq = seq, ce_kind = c_kind ev,
     ce_amount = amount, ce_instrument = c_instrument ev, ce_ref_order = c_ref_order ev,
     ce_note = c_note ev, ce_created = coalesce (c_created ev) now\<rparr>"

lemma apply_cash_event_Inr:
  assumes "apply_cash_event bk now ev = Inr (bk', seq)"
  obtains amount c where "finite_number (c_amount ev) ''cash-event amount'' False False = Inr (Fin amount)"
    "get_cash_value bk (c_portfolio ev) = Inr (Fin c)" "isfinite (fadd (Fin c) (Fin amount))" "c_kind ev \<in> set CASH_EVENT_KINDS"
    "seq = coalesce (c_seq ev) (next_seq bk (c_portfolio ev) (c_date ev))"
    "\<And>r. r \<in> set (sim_cash_events bk) \<Longrightarrow> (ce_portfolio r, ce_date r, ce_seq r) \<noteq> (c_portfolio ev, c_date ev, seq)"
    "bk' = add_cash (bk\<lparr>sim_cash_events := sim_cash_events bk @ [cash_row ev (Fin amount) seq now]\<rparr>) (c_portfolio ev) (Fin amount)"
proof -
  from assms obtain x y z where x: "finite_number (c_amount ev) ''cash-event amount'' False False = Inr x"
    "c_kind ev \<in> set CASH_EVENT_KINDS" "get_cash_value bk (c_portfolio ev) = Inr y"
    "finite_number (PFloat (fadd y x)) ''cash after event'' False False = Inr z"
    "seq = coalesce (c_seq ev) (next_seq bk (c_portfolio ev) (c_date ev))"
    "\<not> (\<exists>r\<in>set (sim_cash_events bk). ce_portfolio r = c_portfolio ev \<and> ce_date r = c_date ev \<and> ce_seq r = seq)"
    "bk' = add_cash (bk\<lparr>sim_cash_events := sim_cash_events bk @ [cash_row ev x seq now]\<rparr>) (c_portfolio ev) x"
    by (auto simp: apply_cash_event_def Let_def bindE_eq_Inr coalesce_def cash_row_def split: if_split_asm)
  obtain a where a: "x = Fin a" using x(1) by (rule finite_number_Inr)
  obtain c where c: "y = Fin c"
    using x(3) by (auto simp: get_cash_value_def split: option.splits elim: finite_number_Inr)
  obtain w where w: "fadd y x = Fin w" using x(4) by (cases "fadd y x") (auto simp: finite_number_def is_bool_def is_real_def py_float_def isfinite_def)
  show ?thesis by (rule that [of a c]) (use x a c w in auto)
qed

lemma keyed_apply_cash_event:
  assumes "apply_cash_event bk now ev = Inr (bk', s)" "keyed bk"
  shows "keyed bk'"
  using assms(1)
proof (rule apply_cash_event_Inr)
  fix amount
  assume fresh: "\<And>r. r \<in> set (sim_cash_events bk) \<Longrightarrow> (ce_portfolio r, ce_date r, ce_seq r) \<noteq> (c_portfolio ev, c_date ev, s)"
    and bk': "bk' = add_cash (bk\<lparr>sim_cash_events := sim_cash_events bk @ [cash_row ev (Fin amount) s now]\<rparr>) (c_portfolio ev) (Fin amount)"
  have "distinct (map (\<lambda>r. (ce_portfolio r, ce_date r, ce_seq r)) (sim_cash_events bk @ [cash_row ev (Fin amount) s now]))"
    by (rule distinct_insert) (use assms(2) fresh in \<open>auto simp: keyed_def cash_row_def\<close>)
  then show ?thesis unfolding bk' by (intro keyed_add_cash) (use assms(2) in \<open>simp add: keyed_def\<close>)
qed

lemma keyed_apply_split: "keyed bk \<Longrightarrow> keyed (apply_split e bk pid t ex r)"
  unfolding apply_split_def Let_def by (simp add: keyed_set_lots keyed_def distinct_update)

section \<open>Cash events\<close>

lemma fold_max_ge: "x \<in> set xs \<or> x = a \<Longrightarrow> x \<le> fold max xs (a::int)"
  using Max.set_eq_fold [of a xs] Max_ge [of "set (a # xs)" x] by auto

lemma next_seq_fresh:
  assumes "r \<in> set (sim_cash_events bk)" "ce_portfolio r = pid" "ce_date r = d"
  shows "ce_seq r < next_seq bk pid d"
proof -
  let ?xs = "map ce_seq (filter (\<lambda>r. ce_portfolio r = pid \<and> ce_date r = d) (sim_cash_events bk))"
  have "ce_seq r \<in> set ?xs" using assms by auto
  then obtain a as where as: "?xs = a # as" by (cases ?xs) auto
  then have "ce_seq r \<le> fold max as a" using \<open>ce_seq r \<in> set ?xs\<close> fold_max_ge [of "ce_seq r" as a] by auto
  then show ?thesis unfolding next_seq_def as by simp
qed

text \<open>C31: A well-formed cash event always posts, once. For a known account with finite cash, a known kind and a
  finite amount whose sum with the cash is finite, \<open>apply_cash_event\<close> without an explicit sequence number
  succeeds: the number it allocates exceeds every one already used for that account and date, exactly one
  row is appended, and the account's cash moves by exactly the rounded amount.\<close>

theorem cash_event_posts:
  assumes "portfolio_row_of bk (c_portfolio ev) = Some pf" "pf_cash pf = Fin c" "c_kind ev \<in> set CASH_EVENT_KINDS"
    and "finite_number (c_amount ev) ''cash-event amount'' False False = Inr (Fin a)" "rnd (c + a) = Fin c'"
    and "c_seq ev = None"
  shows "\<exists>bk' seq. apply_cash_event bk now ev = Inr (bk', seq) \<and>
    (\<forall>r\<in>set (sim_cash_events bk). ce_portfolio r = c_portfolio ev \<and> ce_date r = c_date ev \<longrightarrow> ce_seq r < seq) \<and>
    sim_cash_events bk' = sim_cash_events bk @ [cash_row ev (Fin a) seq now] \<and>
    portfolio_row_of bk' (c_portfolio ev) = Some (pf\<lparr>pf_cash := Fin c'\<rparr>)"
proof -
  let ?seq = "next_seq bk (c_portfolio ev) (c_date ev)"
  let ?bk = "bk\<lparr>sim_cash_events := sim_cash_events bk @ [cash_row ev (Fin a) ?seq now]\<rparr>"
  have g: "get_cash_value bk (c_portfolio ev) = Inr (Fin c)"
    using assms by (simp add: get_cash_value_def finite_number_float_iff)
  have f: "finite_number (PFloat (Fin c')) ''cash after event'' False False = Inr (Fin c')"
    by (simp add: finite_number_float_iff)
  have "apply_cash_event bk now ev = Inr (add_cash ?bk (c_portfolio ev) (Fin a), ?seq)"
    using assms g f next_seq_fresh [of _ bk "c_portfolio ev" "c_date ev"]
    by (force simp: apply_cash_event_def Let_def cash_row_def)
  moreover have "portfolio_row_of (add_cash ?bk (c_portfolio ev) (Fin a)) (c_portfolio ev) = Some (pf\<lparr>pf_cash := Fin c'\<rparr>)"
    using assms by (simp add: add_cash_lookup) (simp add: portfolio_row_of_def)
  moreover have "sim_cash_events (add_cash ?bk (c_portfolio ev) (Fin a)) = sim_cash_events bk @ [cash_row ev (Fin a) ?seq now]"
    by (simp add: add_cash_def)
  ultimately show ?thesis using next_seq_fresh by blast
qed

definition example_accrual :: cash_event where
  "example_accrual = \<lparr>c_portfolio = ''A'', c_date = ymd 2026 10 8, c_kind = ''borrow_fee'', c_amount = PFloat (Fin (- 2)),
     c_seq = None, c_instrument = Some ''SPY'', c_ref_order = None, c_note = None, c_created = None\<rparr>"

theorem cash_event_posts_witness:
  "\<exists>bk' seq. apply_cash_event example_book 0 example_accrual = Inr (bk', seq) \<and> length (sim_cash_events bk') = 1 \<and>
     portfolio_row_of bk' ''A'' = Some \<lparr>pf_id = ''A'', pf_active = True, pf_cash = Fin 5, pf_initial_cash = Some (Fin 1000), pf_strategy = ''momentum'', pf_external_sha256 = None,
                     pf_created = ymd 2026 1 2, pf_execution_profile = None\<rparr>"
proof -
  have p: "portfolio_row_of example_book (c_portfolio example_accrual) =
      Some \<lparr>pf_id = ''A'', pf_active = True, pf_cash = Fin 7, pf_initial_cash = Some (Fin 1000), pf_strategy = ''momentum'', pf_external_sha256 = None,
                     pf_created = ymd 2026 1 2, pf_execution_profile = None\<rparr>"
    "c_kind example_accrual \<in> set CASH_EVENT_KINDS"
    "finite_number (c_amount example_accrual) ''cash-event amount'' False False = Inr (Fin (- 2))"
    "rnd (7 + - 2) = Fin 5" "c_seq example_accrual = None" by code_simp+
  from cash_event_posts [OF p(1) _ p(2-5), of 0] show ?thesis
    by (auto simp: example_accrual_def example_book_def)
qed

text \<open>C27: An accrual posts at most once. When a first \<open>post_accrual\<close> of an account, date, kind and instrument posts,
  any later call for the same four outside a replay returns False and leaves the book as it is, whatever its
  amount or time; before that, the table held no such event.\<close>

theorem accrual_posts_once:
  assumes "post_accrual e bk now ev False = Inr (bk', True)"
    and "c_portfolio ev' = c_portfolio ev" "c_date ev' = c_date ev" "c_kind ev' = c_kind ev" "c_instrument ev' = c_instrument ev"
  shows "post_accrual e bk' later ev' False = Inr (bk', False) \<and> prior_accruals bk ev = [] \<and> length (prior_accruals bk' ev) = 1"
proof -
  have new: "prior_accruals bk ev = []" using assms(1) by (auto simp: post_accrual_def Let_def split: if_splits)
  from assms(1) new obtain d s where ap: "apply_cash_event bk now (ev\<lparr>c_amount := PFloat d\<rparr>) = Inr (bk', s)"
    by (auto simp: post_accrual_def Let_def bindE_eq_Inr)
  then obtain a where "sim_cash_events bk' = sim_cash_events bk @ [cash_row (ev\<lparr>c_amount := PFloat d\<rparr>) a s now]"
    by (rule apply_cash_event_Inr) (simp add: add_cash_def)
  then have len: "length (prior_accruals bk' ev) = 1" using new by (simp add: prior_accruals_def cash_row_def)
  moreover have "prior_accruals bk' ev' = prior_accruals bk' ev" using assms(2-) by (simp add: prior_accruals_def)
  ultimately have "prior_accruals bk' ev' \<noteq> []" by auto
  then show ?thesis using new len by (simp add: post_accrual_def Let_def)
qed

theorem accrual_posts_once_witness:
  "\<exists>bk'. post_accrual example_env example_book 0 example_accrual False = Inr (bk', True) \<and>
     post_accrual example_env bk' 60 (example_accrual\<lparr>c_amount := PInt 9\<rparr>) False = Inr (bk', False)"
proof -
  have "case post_accrual example_env example_book 0 example_accrual False of Inr (_, b) \<Rightarrow> b | Inl _ \<Rightarrow> False" by code_simp
  then obtain bk' where a: "post_accrual example_env example_book 0 example_accrual False = Inr (bk', True)"
    by (auto split: sum.splits prod.splits)
  from accrual_posts_once [OF a, of "example_accrual\<lparr>c_amount := PInt 9\<rparr>" 60] a show ?thesis by auto
qed

end
