(* ===== verification/Replay.thy ===== *)
theory Replay
  imports LedgerLaws
begin

text \<open>
  What \<open>rebuild_state\<close> of \<open>src/sim/ledger.py\<close> depends on. \<open>reset\<close> forgets the
  derived state of the selected accounts; every mutation of such an account is invisible
  after \<open>reset\<close> (the \<open>reset_*\<close> lemmas, one per operation), and the event sequence reads only
  what \<open>reset\<close> keeps. So a rebuild is a function of the journal.
\<close>

section \<open>What replay keeps\<close>

lemma delete_rows_update:
  "(\<And>r. Q r \<Longrightarrow> P r \<and> P (f r)) \<Longrightarrow> delete_rows P (update_rows Q f rows) = delete_rows P rows"
  by (induction rows) (auto simp: delete_rows_def update_rows_def)

lemma delete_rows_delete: "(\<And>r. Q r \<Longrightarrow> P r) \<Longrightarrow> delete_rows P (delete_rows Q rows) = delete_rows P rows"
  by (induction rows) (auto simp: delete_rows_def)

lemma delete_rows_append: "P r \<Longrightarrow> delete_rows P (rows @ [r]) = delete_rows P rows"
  by (simp add: delete_rows_def)

lemma update_rows_update:
  "(\<And>r. Q r \<Longrightarrow> P r \<and> P (g r) \<and> f (g r) = f r) \<Longrightarrow> update_rows P f (update_rows Q g rows) = update_rows P f rows"
  by (induction rows) (auto simp: update_rows_def)

lemma portfolios_reset:
  "pid \<in> set ids \<Longrightarrow>
   update_rows (\<lambda>p. pf_id p \<in> set ids) (\<lambda>p. p\<lparr>pf_cash := coalesce (pf_initial_cash p) INITIAL_CASH\<rparr>)
     (update_rows (\<lambda>p. pf_id p = pid) (\<lambda>p. p\<lparr>pf_cash := fadd (pf_cash p) x\<rparr>) rows) =
   update_rows (\<lambda>p. pf_id p \<in> set ids) (\<lambda>p. p\<lparr>pf_cash := coalesce (pf_initial_cash p) INITIAL_CASH\<rparr>) rows"
  by (rule update_rows_update) auto

lemma positions_reset:
  assumes "pid \<in> set ids" "\<And>r. pos_portfolio (f r) = pos_portfolio r"
  shows "delete_rows (\<lambda>r. pos_portfolio r \<in> set ids) (update_rows (is_position pid t) f rows) =
    delete_rows (\<lambda>r. pos_portfolio r \<in> set ids) rows"
  by (rule delete_rows_update) (use assms in \<open>auto simp: is_position_def\<close>)

lemma lots_reset:
  assumes "pid \<in> set ids" "\<And>r. lot_portfolio (f r) = lot_portfolio r"
  shows "delete_rows (\<lambda>r. lot_portfolio r \<in> set ids) (update_rows (is_lot pid i k) f rows) =
      delete_rows (\<lambda>r. lot_portfolio r \<in> set ids) rows"
    and "delete_rows (\<lambda>r. lot_portfolio r \<in> set ids) (update_rows (split_lot pid i ex) f rows) =
      delete_rows (\<lambda>r. lot_portfolio r \<in> set ids) rows"
    and "delete_rows (\<lambda>r. lot_portfolio r \<in> set ids) (delete_rows (is_lot pid i k) rows) =
      delete_rows (\<lambda>r. lot_portfolio r \<in> set ids) rows"
  using assms
  by (auto intro!: delete_rows_update delete_rows_delete simp: is_lot_def split_lot_def)

lemmas reset_rows = portfolios_reset positions_reset lots_reset delete_rows_append

lemma reset_add_cash: "pid \<in> set ids \<Longrightarrow> reset ids (add_cash bk pid x) = reset ids bk"
  by (simp add: reset_def add_cash_def reset_rows)

lemma reset_put_position: "pid \<in> set ids \<Longrightarrow> reset ids (put_position bk pid t q c) = reset ids bk"
  by (simp add: reset_def put_position_def reset_rows)

lemma reset_add_lot:
  "add_lot bk pid i d order q p = Inr bk' \<Longrightarrow> pid \<in> set ids \<Longrightarrow> reset ids bk' = reset ids bk"
  by (auto simp: add_lot_def Let_def bindE_eq_Inr reset_def reset_rows split: option.splits if_splits)

lemma consume_lot_reset:
  "pid \<in> set ids \<Longrightarrow> delete_rows (\<lambda>r. lot_portfolio r \<in> set ids) (consume_lot pid i cs c k left table) =
     delete_rows (\<lambda>r. lot_portfolio r \<in> set ids) table"
  by (simp add: consume_lot_def lots_reset)

lemma match_loop_reset:
  "pid \<in> set ids \<Longrightarrow> delete_rows (\<lambda>r. lot_portfolio r \<in> set ids) (fst (match_loop pid i cs c rem ls table)) =
     delete_rows (\<lambda>r. lot_portfolio r \<in> set ids) table"
  by (induction ls arbitrary: rem table) (simp_all add: Let_def split_beta consume_lot_reset)

lemma reset_match_lots: "pid \<in> set ids \<Longrightarrow> reset ids (fst (match_lots bk pid i q cs c)) = reset ids bk"
  using match_loop_reset [of pid ids i cs c q "open_lots bk pid i cs" "sim_position_lots bk"]
  by (auto simp: match_lots_def reset_def split: prod.splits)

lemma reset_day_trade:
  "record_day_trade bk fl ms = Inr bk' \<Longrightarrow> f_portfolio fl \<in> set ids \<Longrightarrow> reset ids bk' = reset ids bk"
  by (auto simp: record_day_trade_def reset_def reset_rows split: option.splits if_splits)

lemma reset_open_lot: "open_lot bk fl q p = Inr bk' \<Longrightarrow> f_portfolio fl \<in> set ids \<Longrightarrow> reset ids bk' = reset ids bk"
  by (auto simp: open_lot_def reset_add_lot split: option.splits)

lemma reset_side_effect:
  assumes "side_effect bk fl st qty px m cash cq cc fee = Inr (Some ef)" "f_portfolio fl \<in> set ids"
  shows "reset ids (ef_book ef) = reset ids bk"
proof -
  have mt: "match_lots bk (f_portfolio fl) i q cs True = (bk', ms) \<Longrightarrow> reset ids bk' = reset ids bk" for i q cs bk' ms
    using reset_match_lots [OF assms(2), of bk i q cs True] by simp
  have cl: "apply_close bk fl st cs qty px m cq cc fee = Inr (Some ef) \<Longrightarrow> ?thesis" for cs
    using assms(2) mt reset_day_trade
    by (auto simp: apply_close_def Let_def bindE_eq_Inr split: if_splits prod.splits)
  show ?thesis
    using assms cl reset_open_lot
    by (auto simp: side_effect_def apply_buy_def apply_short_def Let_def bindE_eq_Inr split: if_splits option.splits)
qed

lemma reset_finish_fill:
  assumes "finish_fill e fl st fees False ef = Inr (bk', q, ms)" "f_portfolio fl \<in> set ids"
  shows "reset ids bk' = reset ids (ef_book ef)"
  using assms
  by (auto simp: finish_fill_def Let_def bindE_eq_Inr reset_put_position reset_add_cash split: option.splits if_splits)

lemma reset_apply_fill:
  assumes "apply_fill e bk fl fees False = Inr (bk', q, ms)" "f_portfolio fl \<in> set ids"
  shows "reset ids bk' = reset ids bk"
  using assms reset_finish_fill [OF _ assms(2)] reset_side_effect [OF _ assms(2)]
  by (fastforce simp: apply_fill_def Let_def bindE_eq_Inr split: sum.splits if_splits option.splits prod.splits)

lemma reset_apply_split: "pid \<in> set ids \<Longrightarrow> reset ids (apply_split e bk pid t ex r) = reset ids bk"
  by (simp add: apply_split_def Let_def reset_def reset_rows)

lemma reset_convert_stock:
  assumes "convert_stock bk pid into q r c ms = Inr bk'" "pid \<in> set ids"
  shows "reset ids bk' = reset ids bk"
proof -
  obtain a bk1 where a: "into = Some a"
    and f: "foldE (\<lambda>b l. add_lot b pid a (ml_opened l) (ml_order l)
        (fmul (fmul (Fin (if flt q (Fin 0) then -1 else 1)) (ml_qty l)) r) (fquot (ml_px l) r)) bk ms = Inr bk1"
    and p: "\<exists>x y. bk' = put_position bk1 pid a x y"
    using assms(1)
    by (cases into; fastforce simp: convert_stock_def Let_def bindE_eq_Inr split: option.splits)
  have "reset ids bk1 = reset ids bk" using foldE_frame [OF f, of "reset ids"] reset_add_lot assms(2) by blast
  then show ?thesis using p reset_put_position [OF assms(2)] by auto
qed

lemma reset_set_positions:
  "pid \<in> set ids \<Longrightarrow> reset ids (bk\<lparr>sim_positions := update_rows (is_position pid t) (\<lambda>r. r\<lparr>pos_qty := x\<rparr>) (sim_positions bk)\<rparr>) = reset ids bk"
  by (simp add: reset_def reset_rows)

lemma reset_settlement:
  assumes "apply_settlement_event e bk pid t k q p into r = Inr (bk', ms)" "pid \<in> set ids"
  shows "reset ids bk' = reset ids bk"
proof -
  have mt: "match_lots b pid i x cs True = (b', l) \<Longrightarrow> reset ids b' = reset ids b" for b i x cs b' l
    using reset_match_lots [OF assms(2), of b i x cs True] by simp
  note simps = reset_add_cash [OF assms(2)] reset_set_positions [OF assms(2)]
  show ?thesis
    using assms(1) mt reset_convert_stock [OF _ assms(2)]
    by (auto simp: apply_settlement_event_def Let_def bindE_eq_Inr simps split: if_splits option.splits prod.splits)
qed


text \<open>The account an event belongs to.\<close>

definition ev_account :: "LedgerEvent \<Rightarrow> string" where
  "ev_account ev = (case ev_body ev of
     FillBody f _ _ \<Rightarrow> fl_portfolio f | SplitBody pid _ _ _ \<Rightarrow> pid | DividendBody r \<Rightarrow> dv_portfolio r
   | SettlementBody r \<Rightarrow> st_portfolio r | CashBody r \<Rightarrow> ce_portfolio r)"

lemma reset_apply_event:
  assumes "apply_event e bk ev = Inr bk'" "ev_account ev \<in> set ids"
  shows "reset ids bk' = reset ids bk"
  using assms reset_apply_fill [of e bk _ _ bk' _ _ ids] reset_settlement [of e bk _ _ _ _ _ _ _ bk' _ ids]
  by (auto simp: apply_event_def ev_account_def row_fill_def post_amount_def Let_def bindE_eq_Inr
      reset_add_cash reset_apply_split split: event_body.splits if_splits)

section \<open>The contract of an account operation\<close>

text \<open>What every operation on one account promises: it is invisible once the account is reset, and it
  keeps the primary keys. A sequence of such operations promises the same of all the accounts it names.\<close>

locale account_operation =
  fixes run :: "book \<Rightarrow> 'x \<Rightarrow> book outcome" and account_of :: "'x \<Rightarrow> string"
  assumes resets: "run bk x = Inr bk' \<Longrightarrow> account_of x \<in> set ids \<Longrightarrow> reset ids bk' = reset ids bk"
    and keys: "run bk x = Inr bk' \<Longrightarrow> keyed bk \<Longrightarrow> keyed bk'"
begin

lemma sequence_resets:
  assumes "foldE run bk xs = Inr bk'" "\<And>x. x \<in> set xs \<Longrightarrow> account_of x \<in> set ids"
  shows "reset ids bk' = reset ids bk"
  by (rule foldE_frame [OF assms(1)]) (use assms(2) resets in blast)

lemma sequence_keys:
  assumes "foldE run bk xs = Inr bk'" "keyed bk"
  shows "keyed bk'"
  by (rule foldE_invariant [where I = keyed, OF assms]) (rule keys)

end

lemma keyed_convert_stock:
  assumes "convert_stock bk pid into q r c ms = Inr bk'" "keyed bk"
  shows "keyed bk'"
proof -
  obtain a bk1 where f: "foldE (\<lambda>b l. add_lot b pid a (ml_opened l) (ml_order l)
        (fmul (fmul (Fin (if flt q (Fin 0) then -1 else 1)) (ml_qty l)) r) (fquot (ml_px l) r)) bk ms = Inr bk1"
    and p: "\<exists>x y. bk' = put_position bk1 pid a x y"
    using assms(1)
    by (cases into; fastforce simp: convert_stock_def Let_def bindE_eq_Inr split: option.splits)
  have "keyed bk1" by (rule foldE_invariant [where I = keyed, OF f assms(2)]) (rule keyed_add_lot)
  then show ?thesis using p keyed_put_position by blast
qed

lemma keyed_settlement:
  assumes "apply_settlement_event e bk pid t k q p into r = Inr (bk', ms)" "keyed bk"
  shows "keyed bk'"
proof -
  have mt: "match_lots b pid i x cs True = (b', l) \<Longrightarrow> keyed b \<Longrightarrow> keyed b'" for b i x cs b' l
    by (rule keyed_match_lots)
  show ?thesis
    using assms(1) mt keyed_convert_stock assms(2)
    by (auto simp: apply_settlement_event_def Let_def bindE_eq_Inr keyed_add_cash keyed_set_positions split: if_splits option.splits prod.splits)
qed

lemma keyed_apply_event:
  assumes "apply_event e bk ev = Inr bk'" "keyed bk"
  shows "keyed bk'"
  using assms keyed_apply_fill keyed_settlement
  by (fastforce simp: apply_event_def post_amount_def Let_def bindE_eq_Inr keyed_add_cash keyed_apply_split
      split: event_body.splits if_splits)

interpretation replay: account_operation "apply_event e" ev_account
  by unfold_locales (rule reset_apply_event, assumption+, rule keyed_apply_event)

lemma keyed_reset: "keyed bk \<Longrightarrow> keyed (reset ids bk)"
  by (simp add: keyed_def reset_def distinct_update distinct_delete)

lemma keyed_post_accrual:
  assumes "post_accrual e bk now ev replay = Inr (bk', b)" "keyed bk"
  shows "keyed bk'"
  using assms keyed_add_cash keyed_apply_cash_event
  by (fastforce simp: post_accrual_def Let_def bindE_eq_Inr split: if_splits)

text \<open>The event sequence reads only what a reset keeps.\<close>

lemma portfolio_account_reset: "portfolio_account (reset ids bk) pid = portfolio_account bk pid"
proof -
  have "portfolio_row_of (reset ids bk) pid =
      map_option (\<lambda>p. if pf_id p \<in> set ids then p\<lparr>pf_cash := coalesce (pf_initial_cash p) INITIAL_CASH\<rparr> else p)
        (portfolio_row_of bk pid)"
    unfolding portfolio_row_of_def reset_def by (simp add: find_update_rows)
  then show ?thesis
    by (cases "portfolio_row_of bk pid") (simp_all add: portfolio_account_def reset_def)
qed

lemma reset_journal:
  "sim_fills (reset ids bk) = sim_fills bk" "sim_fill_details (reset ids bk) = sim_fill_details bk"
  "sim_fill_fees (reset ids bk) = sim_fill_fees bk" "sim_cash_events (reset ids bk) = sim_cash_events bk"
  "sim_dividends (reset ids bk) = sim_dividends bk" "sim_settlements (reset ids bk) = sim_settlements bk"
  "sim_splits (reset ids bk) = sim_splits bk"
  by (simp_all add: reset_def)

lemma fill_event_reset: "fill_event e (reset ids bk) = fill_event e bk"
  by (intro ext) (simp only: fill_event_def reset_journal)

lemma events_reset: "events e (reset ids bk) ids' since through = events e bk ids' since through"
proof -
  have "account_events e (reset ids bk) through = account_events e bk through"
    by (rule ext) (simp only: account_events_def portfolio_account_reset fill_event_reset split_events_def dividend_events_def
        settlement_events_def cash_events_of_def recorded_splits_def split_factors_def reset_journal)
  then show ?thesis by (simp add: events_def)
qed

lemma fill_event_account: "fill_event e bk pid a f = Inr ev \<Longrightarrow> ev_account ev = fl_portfolio f"
  by (auto simp: fill_event_def Let_def ev_account_def split: if_splits)

lemma account_events_account:
  assumes "account_events e bk through pid = Inr evs" "ev \<in> set evs"
  shows "ev_account ev = pid"
  using assms mapE_set fill_event_account
  by (fastforce simp: account_events_def Let_def bindE_eq_Inr split_events_def dividend_events_def settlement_events_def
      cash_events_of_def ev_account_def)

lemma events_account:
  assumes "events e bk ids since through = Inr evs" "ev \<in> set evs"
  shows "ev_account ev \<in> set ids"
  using assms mapE_set account_events_account
  by (fastforce simp: events_def bindE_eq_Inr)

lemma reset_reset: "reset ids (reset ids bk) = reset ids bk"
proof -
  let ?P = "\<lambda>p. pf_id p \<in> set ids" and ?f = "\<lambda>p. p\<lparr>pf_cash := coalesce (pf_initial_cash p) INITIAL_CASH\<rparr>"
  have "update_rows ?P ?f (update_rows ?P ?f (portfolios bk)) = update_rows ?P ?f (portfolios bk)"
    by (rule update_rows_update) auto
  then show ?thesis by (simp add: reset_def delete_rows_def)
qed

lemma pf_ids_reset: "map pf_id (portfolios (reset ids bk)) = map pf_id (portfolios bk)"
  by (simp add: reset_def update_rows_def)

definition rebuild_ids :: "book \<Rightarrow> string list option \<Rightarrow> string list" where
  "rebuild_ids bk portfolio_ids =
     (case portfolio_ids of Some xs \<Rightarrow> sort (remdups xs) | None \<Rightarrow> sort (map pf_id (portfolios bk)))"

lemma rebuild_state_unfold:
  "rebuild_state e bk portfolio_ids through =
     (if rebuild_ids bk portfolio_ids = [] then Inr bk
      else bindE (events e bk (rebuild_ids bk portfolio_ids) None through)
             (foldE (apply_event e) (reset (rebuild_ids bk portfolio_ids) bk)))"
  by (simp add: rebuild_state_def rebuild_ids_def Let_def)

lemma rebuild_reset:
  assumes "rebuild_state e bk sel through = Inr bk'"
  shows "reset (rebuild_ids bk sel) bk' = reset (rebuild_ids bk sel) bk"
proof (cases "rebuild_ids bk sel = []")
  case True
  then show ?thesis using assms by (simp add: rebuild_state_unfold)
next
  case False
  let ?ids = "rebuild_ids bk sel"
  obtain evs where evs: "events e bk ?ids None through = Inr evs"
    "foldE (apply_event e) (reset ?ids bk) evs = Inr bk'"
    using assms False by (auto simp: rebuild_state_unfold bindE_eq_Inr)
  have "reset ?ids bk' = reset ?ids (reset ?ids bk)"
    by (rule replay.sequence_resets [OF evs(2)]) (rule events_account [OF evs(1)])
  then show ?thesis by (simp add: reset_reset)
qed

lemma rebuild_ids_reset: "reset ids bk' = reset ids bk \<Longrightarrow> rebuild_ids bk' sel = rebuild_ids bk sel"
  by (metis pf_ids_reset rebuild_ids_def)

lemma rebuild_determined:
  assumes "reset (rebuild_ids bk sel) bk' = reset (rebuild_ids bk sel) bk" "rebuild_ids bk sel \<noteq> []"
  shows "rebuild_state e bk' sel through = rebuild_state e bk sel through"
proof -
  let ?ids = "rebuild_ids bk sel"
  have "events e bk' ?ids None through = events e bk ?ids None through"
    by (metis assms(1) events_reset)
  then show ?thesis using assms rebuild_ids_reset [OF assms(1), of sel] by (simp add: rebuild_state_unfold)
qed

lemma reset_none: "reset [] bk = bk"
  by (simp add: reset_def delete_rows_def update_rows_def)

lemma reset_others:
  assumes "reset ids bk' = reset ids bk" "q \<notin> set ids"
  shows "position_of bk' q t = position_of bk q t" "portfolio_row_of bk' q = portfolio_row_of bk q"
proof -
  have k: "find (is_position q t) (delete_rows (\<lambda>r. pos_portfolio r \<in> set ids) rows) = find (is_position q t) rows" for rows
    using assms(2) by (induction rows) (auto simp: delete_rows_def is_position_def)
  have "sim_positions (reset ids bk') = sim_positions (reset ids bk)" using assms(1) by simp
  then show "position_of bk' q t = position_of bk q t"
    using k by (simp add: position_of_def reset_def) metis
  have f: "find (\<lambda>p. pf_id p = q) (update_rows (\<lambda>p. pf_id p \<in> set ids)
      (\<lambda>p. p\<lparr>pf_cash := coalesce (pf_initial_cash p) INITIAL_CASH\<rparr>) rows) = find (\<lambda>p. pf_id p = q) rows" for rows
    by (rule find_map_frame) (use assms(2) in auto)
  have "portfolios (reset ids bk') = portfolios (reset ids bk)" using assms(1) by simp
  then have "find (\<lambda>p. pf_id p = q) (portfolios (reset ids bk')) = find (\<lambda>p. pf_id p = q) (portfolios (reset ids bk))"
    by simp
  then show "portfolio_row_of bk' q = portfolio_row_of bk q" by (simp add: portfolio_row_of_def reset_def f)
qed

lemma filter_delete_rows: "(\<And>r. P r \<Longrightarrow> \<not> Q r) \<Longrightarrow> filter P (delete_rows Q rows) = filter P rows"
  by (induction rows) (auto simp: delete_rows_def)

lemma reset_other_rows:
  assumes "reset ids bk' = reset ids bk" "q \<notin> set ids"
  shows "filter (\<lambda>r. pos_portfolio r = q) (sim_positions bk') = filter (\<lambda>r. pos_portfolio r = q) (sim_positions bk)"
    and "filter (\<lambda>r. lot_portfolio r = q) (sim_position_lots bk') = filter (\<lambda>r. lot_portfolio r = q) (sim_position_lots bk)"
    and "filter (\<lambda>r. dt_portfolio r = q) (sim_day_trades bk') = filter (\<lambda>r. dt_portfolio r = q) (sim_day_trades bk)"
proof -
  have rows: "sim_positions (reset ids bk') = sim_positions (reset ids bk)" "sim_position_lots (reset ids bk') = sim_position_lots (reset ids bk)"
    "sim_day_trades (reset ids bk') = sim_day_trades (reset ids bk)" using assms(1) by simp_all
  have p: "filter (\<lambda>r. pos_portfolio r = q) (delete_rows (\<lambda>r. pos_portfolio r \<in> set ids) xs) = filter (\<lambda>r. pos_portfolio r = q) xs" for xs
    by (rule filter_delete_rows) (use assms(2) in auto)
  have l: "filter (\<lambda>r. lot_portfolio r = q) (delete_rows (\<lambda>r. lot_portfolio r \<in> set ids) xs) = filter (\<lambda>r. lot_portfolio r = q) xs" for xs
    by (rule filter_delete_rows) (use assms(2) in auto)
  have d: "filter (\<lambda>r. dt_portfolio r = q) (delete_rows (\<lambda>r. dt_portfolio r \<in> set ids) xs) = filter (\<lambda>r. dt_portfolio r = q) xs" for xs
    by (rule filter_delete_rows) (use assms(2) in auto)
  show "filter (\<lambda>r. pos_portfolio r = q) (sim_positions bk') = filter (\<lambda>r. pos_portfolio r = q) (sim_positions bk)"
    using p [of "sim_positions bk'"] p [of "sim_positions bk"] rows(1) by (simp add: reset_def)
  show "filter (\<lambda>r. lot_portfolio r = q) (sim_position_lots bk') = filter (\<lambda>r. lot_portfolio r = q) (sim_position_lots bk)"
    using l [of "sim_position_lots bk'"] l [of "sim_position_lots bk"] rows(2) by (simp add: reset_def)
  show "filter (\<lambda>r. dt_portfolio r = q) (sim_day_trades bk') = filter (\<lambda>r. dt_portfolio r = q) (sim_day_trades bk)"
    using d [of "sim_day_trades bk'"] d [of "sim_day_trades bk"] rows(3) by (simp add: reset_def)
qed

text \<open>The tables of the journal: a rebuild reads them and never writes them.\<close>

definition journal_of :: "book \<Rightarrow> fill_row list \<times> detail_row list \<times> (int \<times> FeeBreakdown) list \<times> cash_event_row list \<times> dividend_row list \<times> settlement_row list \<times> split_row list" where
  "journal_of bk = (sim_fills bk, sim_fill_details bk, sim_fill_fees bk, sim_cash_events bk, sim_dividends bk, sim_settlements bk, sim_splits bk)"

lemma reset_same_journal: "reset ids bk' = reset ids bk \<Longrightarrow> journal_of bk' = journal_of bk"
  by (metis journal_of_def reset_journal)

section \<open>The rebuild is a function of the journal\<close>

text \<open>C1: Rebuilding is idempotent and depends on the journal only. If a rebuild of the selected accounts
  succeeds, then rebuilding its result, or any book that differs from the original only in the derived
  positions, lots, day trades and cash of those accounts, gives the same book again; the accounts that were not
  selected keep their cash, positions, lots and day trades row for row; and no row of the journal (fills with their
  details and fees, cash events, dividends, settlements, splits) is written, of any account.\<close>

theorem rebuild_idempotent:
  assumes "rebuild_state e bk sel through = Inr bk1"
  shows "rebuild_state e bk1 sel through = Inr bk1 \<and>
    (\<forall>bk'. reset (rebuild_ids bk sel) bk' = reset (rebuild_ids bk sel) bk \<longrightarrow>
           rebuild_state e bk' sel through = Inr bk1) \<and>
    (\<forall>q t. q \<notin> set (rebuild_ids bk sel) \<longrightarrow>
           position_of bk1 q t = position_of bk q t \<and> portfolio_row_of bk1 q = portfolio_row_of bk q \<and>
           filter (\<lambda>r. pos_portfolio r = q) (sim_positions bk1) = filter (\<lambda>r. pos_portfolio r = q) (sim_positions bk) \<and>
           filter (\<lambda>r. lot_portfolio r = q) (sim_position_lots bk1) = filter (\<lambda>r. lot_portfolio r = q) (sim_position_lots bk) \<and>
           filter (\<lambda>r. dt_portfolio r = q) (sim_day_trades bk1) = filter (\<lambda>r. dt_portfolio r = q) (sim_day_trades bk)) \<and>
    journal_of bk1 = journal_of bk"
proof -
  let ?ids = "rebuild_ids bk sel"
  have det: "rebuild_state e bk' sel through = Inr bk1" if "reset ?ids bk' = reset ?ids bk" for bk'
  proof (cases "?ids = []")
    case True
    then show ?thesis using that assms by (simp add: reset_none)
  next
    case False
    then show ?thesis using rebuild_determined [OF that False, of e through] assms by simp
  qed
  moreover note rebuild_reset [OF assms]
  ultimately show ?thesis
    using reset_others [OF rebuild_reset [OF assms]] reset_other_rows [OF rebuild_reset [OF assms]] reset_same_journal [OF rebuild_reset [OF assms]]
    by blast
qed

lemma example_rebuild:
  "\<exists>bk1. rebuild_state example_env example_book (Some [''A'']) None = Inr bk1 \<and>
     position_of bk1 ''A'' ''SPY'' = Some \<lparr>pos_portfolio = ''A'', pos_ticker = ''SPY'', pos_qty = Fin 6, pos_cost = Fin 20\<rparr>"
proof -
  have "(case rebuild_state example_env example_book (Some [''A'']) None of
      Inl _ \<Rightarrow> False | Inr b \<Rightarrow> position_of b ''A'' ''SPY'' =
        Some \<lparr>pos_portfolio = ''A'', pos_ticker = ''SPY'', pos_qty = Fin 6, pos_cost = Fin 20\<rparr>)"
    by code_simp
  then show ?thesis by (auto split: sum.splits)
qed

theorem rebuild_idempotent_witness:
  "\<exists>bk1. rebuild_state example_env example_book (Some [''A'']) None = Inr bk1 \<and>
     position_of bk1 ''A'' ''SPY'' = Some \<lparr>pos_portfolio = ''A'', pos_ticker = ''SPY'', pos_qty = Fin 6, pos_cost = Fin 20\<rparr> \<and>
     rebuild_state example_env bk1 (Some [''A'']) None = Inr bk1 \<and>
     position_of bk1 ''B'' ''SPY'' = position_of example_book ''B'' ''SPY'' \<and>
     filter (\<lambda>r. lot_portfolio r = ''B'') (sim_position_lots bk1) = filter (\<lambda>r. lot_portfolio r = ''B'') (sim_position_lots example_book)"
proof -
  obtain bk1 where r: "rebuild_state example_env example_book (Some [''A'']) None = Inr bk1"
    "position_of bk1 ''A'' ''SPY'' = Some \<lparr>pos_portfolio = ''A'', pos_ticker = ''SPY'', pos_qty = Fin 6, pos_cost = Fin 20\<rparr>"
    using example_rebuild by blast
  have "''B'' \<notin> set (rebuild_ids example_book (Some [''A'']))" by (simp add: rebuild_ids_def)
  then show ?thesis using rebuild_idempotent [OF r(1)] r by blast
qed

section \<open>Primary keys\<close>

lemma keyed_rebuild_state: "rebuild_state e bk sel through = Inr bk' \<Longrightarrow> keyed bk \<Longrightarrow> keyed bk'"
  using replay.sequence_keys [OF _ keyed_reset] by (fastforce simp: rebuild_state_unfold bindE_eq_Inr split: if_splits)

end
