(* ===== verification/Projection.thy ===== *)
theory Projection
  imports Replay
begin

text \<open>
  Projections of \<open>src/sim/ledger.py\<close>: the isolated copy of one account, its canonical state, the
  state after a chronological prefix of its events, the states at many closes from one replay, and
  the closed trades. The prefix checkpoints that an offline run may switch on are left out: without
  them \<open>projected_states_at_closes\<close> is the code below.
\<close>

section \<open>The isolated copy and its state\<close>

definition replay_connection :: "book \<Rightarrow> string \<Rightarrow> book" where
  "replay_connection bk pid =
     (let fills = filter (\<lambda>f. fl_portfolio f = pid) (sim_fills bk); ids = map fl_order fills in
      bk\<lparr>portfolios := filter (\<lambda>p. pf_id p = pid) (portfolios bk),
         portfolio_accounts := filter (\<lambda>a. pa_portfolio_id a = pid) (portfolio_accounts bk),
         sim_positions := filter (\<lambda>r. pos_portfolio r = pid) (sim_positions bk),
         sim_position_lots := filter (\<lambda>l. lot_portfolio l = pid) (sim_position_lots bk),
         sim_day_trades := filter (\<lambda>t. dt_portfolio t = pid) (sim_day_trades bk),
         sim_fills := fills,
         sim_fill_details := filter (\<lambda>d. dl_order d \<in> set ids) (sim_fill_details bk),
         sim_fill_fees := filter (\<lambda>(k, _). k \<in> set ids) (sim_fill_fees bk),
         sim_cash_events := filter (\<lambda>r. ce_portfolio r = pid) (sim_cash_events bk),
         sim_dividends := filter (\<lambda>r. dv_portfolio r = pid) (sim_dividends bk),
         sim_settlements := filter (\<lambda>r. st_portfolio r = pid) (sim_settlements bk),
         sim_splits := filter (\<lambda>s. sp_portfolio s \<in> {None, Some pid}) (sim_splits bk)\<rparr>)"

record ledger_state =
  ls_cash :: float64
  ls_positions :: "(string \<times> float64 \<times> float64) list"
  ls_lots :: "(string \<times> date \<times> int \<times> float64 \<times> float64) list"

text \<open>\<open>fetchone()[0]\<close> of a missing row is a TypeError.\<close>

definition state :: "book \<Rightarrow> string \<Rightarrow> ledger_state outcome" where
  "state bk pid = (case portfolio_row_of bk pid of
     None \<Rightarrow> Inl (TypeError ''NoneType'')
   | Some p \<Rightarrow> Inr
       \<lparr>ls_cash = pf_cash p,
        ls_positions = sort_key fst (map (\<lambda>r. (pos_ticker r, pos_qty r, pos_cost r))
          (filter (\<lambda>r. pos_portfolio r = pid \<and> pos_qty r \<noteq> Fin 0) (sim_positions bk))),
        ls_lots = map (\<lambda>l. (lot_instrument l, lot_opened l, lot_order l, lot_qty l, lot_px l))
          (sort_key (\<lambda>l. (lot_instrument l, lot_opened l, lot_order l))
            (filter (\<lambda>l. lot_portfolio l = pid \<and> lot_qty l \<noteq> Fin 0) (sim_position_lots bk)))\<rparr>)"

text \<open>The DELETEs and the UPDATE without a WHERE clause: on the copy every row is the account's.\<close>

definition reset_all :: "book \<Rightarrow> book" where
  "reset_all bk = bk\<lparr>sim_positions := [], sim_position_lots := [], sim_day_trades := [],
     portfolios := map (\<lambda>p. p\<lparr>pf_cash := coalesce (pf_initial_cash p) INITIAL_CASH\<rparr>) (portfolios bk)\<rparr>"

definition is_fill_of :: "int \<Rightarrow> LedgerEvent \<Rightarrow> bool" where
  "is_fill_of order ev = (case ev_body ev of FillBody f _ _ \<Rightarrow> fl_order f = order | _ \<Rightarrow> False)"

definition projected_state ::
    "'e env_scheme \<Rightarrow> book \<Rightarrow> string \<Rightarrow> date option \<Rightarrow> int option \<Rightarrow> ledger_state option outcome" where
  "projected_state e bk pid through before_order_id =
     (let target = replay_connection bk pid in
      case before_order_id of
        None \<Rightarrow> bindE (rebuild_state e target (Some [pid]) through) (\<lambda>b. bindE (state b pid) (\<lambda>s. Inr (Some s)))
      | Some order \<Rightarrow>
          bindE (events e target [pid] None through) (\<lambda>sequence.
          bindE (foldE (apply_event e) (reset_all target) (takeWhile (\<lambda>ev. \<not> is_fill_of order ev) sequence)) (\<lambda>b.
          if \<exists>ev\<in>set sequence. is_fill_of order ev then bindE (state b pid) (\<lambda>s. Inr (Some s)) else Inr None)))"

section \<open>Many closes from one replay\<close>

text \<open>The loop over the sorted days: the inner while applies the events up to the day's end, and the
  remaining events are kept for the next day.\<close>

fun close_loop ::
    "'e env_scheme \<Rightarrow> string \<Rightarrow> book \<Rightarrow> LedgerEvent list \<Rightarrow> date list \<Rightarrow> (date \<times> ledger_state) list outcome" where
  "close_loop e pid bk evs [] = Inr []"
| "close_loop e pid bk evs (d # ds) =
     bindE (foldE (apply_event e) bk (takeWhile (\<lambda>ev. date_of (ev_stamp ev) \<le> d) evs)) (\<lambda>b.
     bindE (state b pid) (\<lambda>s.
     bindE (close_loop e pid b (dropWhile (\<lambda>ev. date_of (ev_stamp ev) \<le> d) evs) ds) (\<lambda>rest.
     Inr ((d, s) # rest))))"

definition projected_states_at_closes ::
    "'e env_scheme \<Rightarrow> book \<Rightarrow> string \<Rightarrow> date list \<Rightarrow> (date \<times> ledger_state) list outcome" where
  "projected_states_at_closes e bk pid days0 =
     (let days = sort (remdups days0); target = replay_connection bk pid in
      if days = [] then Inr []
      else bindE (events e target [pid] None (Some (last days))) (\<lambda>sequence.
           close_loop e pid (reset_all target) sequence days))"

section \<open>Closed trades\<close>

text \<open>What a close hands to its callback, and the outcome the callback collects per matched lot.\<close>

record closing =
  cl_matched :: "MatchedLot list"
  cl_side :: string
  cl_qty :: float64
  cl_px :: float64
  cl_multiplier :: float64
  cl_fee :: float64

definition event_close :: "'e env_scheme \<Rightarrow> book \<Rightarrow> LedgerEvent \<Rightarrow> closing option outcome" where
  "event_close e bk ev = (case ev_body ev of
     FillBody f m fees \<Rightarrow>
       (let fees' = (case fees of Some x \<Rightarrow> if profile_id x = [] then None else Some x | None \<Rightarrow> None) in
        bindE (apply_fill e bk (row_fill f m) fees' False) (\<lambda>(_, q, ms).
        Inr (if ms = [] then None
             else Some \<lparr>cl_matched = ms, cl_side = fl_side f, cl_qty = q, cl_px = fl_px f, cl_multiplier = m,
                        cl_fee = (case fees' of None \<Rightarrow> Fin 0 | Some x \<Rightarrow> total_usd x)\<rparr>)))
   | SettlementBody r \<Rightarrow>
       bindE (apply_settlement_event e bk (st_portfolio r) (st_ticker r) (st_kind r) (st_qty r) (st_price r) (st_into r) (st_ratio r))
         (\<lambda>(_, ms).
        bindE (portfolio_account bk (st_portfolio r)) (\<lambda>st.
        let q = (if engine st = ''account'' then fst (open_position bk (st_portfolio r) (Some (st_ticker r))) else st_qty r) in
        Inr (if st_kind r = ''stock'' then None
             else Some \<lparr>cl_matched = ms, cl_side = (if flt q (Fin 0) then ''cover'' else ''sell''), cl_qty = fabs q,
                        cl_px = st_price r, cl_multiplier = Fin 1, cl_fee = Fin 0\<rparr>)))
   | _ \<Rightarrow> Inr None)"

record trade_outcome =
  tr_entry :: date
  tr_net_bp :: float64

definition opening_of :: "book \<Rightarrow> int \<Rightarrow> (float64 \<times> float64) outcome" where
  "opening_of bk order = (case find (\<lambda>f. fl_order f = order) (sim_fills bk) of
     None \<Rightarrow> Inl (TypeError ''NoneType'')
   | Some f \<Rightarrow>
       (let multiplier = coalesce (Option.bind (find (\<lambda>d. dl_order d = order) (sim_fill_details bk)) dl_multiplier) (Fin 1)
        in Inr (fmul (fmul (fl_qty f) (fl_px f)) multiplier,
                (case map_of (sim_fill_fees bk) order of Some x \<Rightarrow> total_usd x | None \<Rightarrow> Fin 0))))"

definition collect_lot :: "book \<Rightarrow> closing \<Rightarrow> MatchedLot \<Rightarrow> trade_outcome outcome" where
  "collect_lot bk c l =
     bindE (opening_of bk (ml_order l)) (\<lambda>(notional, fees).
     let basis = fmul (fmul (ml_qty l) (ml_px l)) (cl_multiplier c) in
     bindE (fdiv (fmul fees basis) notional) (\<lambda>opening_fee.
     let gross = fmul (fmul (fmul (ml_qty l) (fsub (cl_px c) (ml_px l))) (cl_multiplier c))
                   (Fin (if cl_side c = ''cover'' then -1 else 1)) in
     bindE (fdiv (fmul (cl_fee c) (ml_qty l)) (cl_qty c)) (\<lambda>closing_fee.
     bindE (fdiv (fsub (fsub gross opening_fee) closing_fee) basis) (\<lambda>net.
     Inr \<lparr>tr_entry = ml_opened l, tr_net_bp = fmul net (Fin 10000)\<rparr>))))"

definition collect_step ::
    "'e env_scheme \<Rightarrow> book \<times> trade_outcome list \<Rightarrow> LedgerEvent \<Rightarrow> (book \<times> trade_outcome list) outcome" where
  "collect_step e s ev = (case s of (bk, outcomes) \<Rightarrow>
     bindE (event_close e bk ev) (\<lambda>close.
     bindE (case close of None \<Rightarrow> Inr [] | Some c \<Rightarrow> mapE (collect_lot bk c) (cl_matched c)) (\<lambda>new.
     bindE (apply_event e bk ev) (\<lambda>bk'.
     Inr (bk', outcomes @ new)))))"

definition closed_trades :: "'e env_scheme \<Rightarrow> book \<Rightarrow> string \<Rightarrow> trade_outcome list outcome" where
  "closed_trades e bk pid =
     (let target = replay_connection bk pid in
      bindE (events e target [pid] None None) (\<lambda>sequence.
      bindE (foldE (collect_step e) (reset [pid] target, []) sequence) (\<lambda>(_, outcomes). Inr outcomes)))"


section \<open>One replay or many\<close>

text \<open>The exchange opens on the UTC date of its session.\<close>

definition opens_same_day :: "'e env_scheme \<Rightarrow> bool" where
  "opens_same_day e \<longleftrightarrow> (\<forall>d. date_of (fst (session_bounds e d)) = d)"

lemma reset_replay_connection: "reset_all (replay_connection bk pid) = reset [pid] (replay_connection bk pid)"
proof -
  have d: "delete_rows (\<lambda>r. f r = pid) (filter (\<lambda>r. f r = pid) rows) = []" for f :: "'a \<Rightarrow> string" and rows
    by (simp add: delete_rows_def filter_empty_conv)
  have u: "update_rows (\<lambda>p. pf_id p = pid) g (filter (\<lambda>p. pf_id p = pid) rows) = map g (filter (\<lambda>p. pf_id p = pid) rows)" for g rows
    by (auto simp: update_rows_def)
  show ?thesis by (simp add: reset_all_def reset_def replay_connection_def Let_def d u)
qed

lemma sorted_takeWhile_filter: "sorted (map f xs) \<Longrightarrow> takeWhile (\<lambda>x. f x \<le> d) xs = filter (\<lambda>x. f x \<le> d) xs"
  for d :: "'a::linorder"
proof (induction xs)
  case (Cons a xs)
  then show ?case by (cases "f a \<le> d") (auto simp: filter_empty_conv eq_commute [of "[]"] dest: order.trans)
qed simp

lemma sorted_le_last: "sorted xs \<Longrightarrow> x \<in> set xs \<Longrightarrow> x \<le> last xs"
  by (induction xs) auto

lemma close_loop_prefixes:
  assumes "close_loop e pid b evs ds = Inr snaps" "sorted (map (\<lambda>ev. date_of (ev_stamp ev)) evs)" "sorted ds"
  shows "map fst snaps = ds \<and> (\<forall>(d, s)\<in>set snaps.
    \<exists>b'. foldE (apply_event e) b (filter (\<lambda>ev. date_of (ev_stamp ev) \<le> d) evs) = Inr b' \<and> state b' pid = Inr s)"
  using assms
proof (induction ds arbitrary: b evs snaps)
  case Nil
  then show ?case by simp
next
  case (Cons d ds)
  let ?f = "\<lambda>ev. date_of (ev_stamp ev)"
  let ?t = "takeWhile (\<lambda>ev. ?f ev \<le> d) evs" and ?r = "dropWhile (\<lambda>ev. ?f ev \<le> d) evs"
  obtain b1 s rest where st: "foldE (apply_event e) b ?t = Inr b1" "state b1 pid = Inr s"
    "close_loop e pid b1 ?r ds = Inr rest" "snaps = (d, s) # rest"
    using Cons.prems(1) by (auto simp: bindE_eq_Inr)
  have sr: "sorted (map ?f ?r)" using Cons.prems(2) by (metis dropWhile_eq_drop sorted_wrt_drop drop_map)
  note ih = Cons.IH [OF st(3) sr] Cons.prems(3)
  have split: "filter (\<lambda>ev. ?f ev \<le> d') evs = ?t @ filter (\<lambda>ev. ?f ev \<le> d') ?r" if "d \<le> d'" for d'
  proof -
    have "filter (\<lambda>ev. ?f ev \<le> d') evs = filter (\<lambda>ev. ?f ev \<le> d') ?t @ filter (\<lambda>ev. ?f ev \<le> d') ?r"
      by (metis filter_append takeWhile_dropWhile_id)
    moreover have "filter (\<lambda>ev. ?f ev \<le> d') ?t = ?t"
      using that by (auto simp: filter_id_conv dest: set_takeWhileD)
    ultimately show ?thesis by simp
  qed
  have now: "filter (\<lambda>ev. ?f ev \<le> d) evs = ?t" using sorted_takeWhile_filter [OF Cons.prems(2)] by simp
  have "\<exists>b'. foldE (apply_event e) b (filter (\<lambda>ev. ?f ev \<le> d') evs) = Inr b' \<and> state b' pid = Inr s'"
    if "(d', s') \<in> set rest" for d' s'
  proof -
    have m: "map fst rest = ds" using ih by simp
    then have "d' \<in> set ds" using that by force
    then have "d \<le> d'" using Cons.prems(3) by simp
    then show ?thesis using ih that split st(1) by (auto simp: foldE_append)
  qed
  then show ?case using ih st now by auto
qed

lemma recorded_splits_through:
  "d \<le> d' \<Longrightarrow> recorded_splits bk pid (Some d) = filter (\<lambda>s. sp_ex_date s \<le> d) (recorded_splits bk pid (Some d'))"
  by (auto simp: recorded_splits_def filter_sort intro!: arg_cong [where f = "sort_key _"] filter_cong)

lemma split_events_through:
  assumes "opens_same_day e" "d \<le> d'"
  shows "filter (\<lambda>ev. date_of (ev_stamp ev) \<le> d) (split_events e bk pid a (Some d)) =
    filter (\<lambda>ev. date_of (ev_stamp ev) \<le> d) (split_events e bk pid a (Some d'))"
proof (cases a)
  case True
  have o: "date_of (fst (session_bounds e x)) = x" for x using assms(1) by (simp add: opens_same_day_def)
  show ?thesis using True by (simp add: split_events_def filter_map comp_def o recorded_splits_through [OF assms(2)])
qed (simp add: split_events_def)

lemma account_events_through:
  assumes "opens_same_day e" "d \<le> d'" "account_events e bk (Some d') pid = Inr evs'"
  shows "\<exists>evs. account_events e bk (Some d) pid = Inr evs \<and>
    filter (\<lambda>ev. date_of (ev_stamp ev) \<le> d) evs = filter (\<lambda>ev. date_of (ev_stamp ev) \<le> d) evs'"
  using assms(3) split_events_through [OF assms(1,2)]
  by (fastforce simp: account_events_def Let_def bindE_eq_Inr)

lemma events_through:
  assumes "opens_same_day e" "d \<le> d'" "events e bk [pid] None (Some d') = Inr evs"
  shows "events e bk [pid] None (Some d) = Inr (filter (\<lambda>ev. date_of (ev_stamp ev) \<le> d) evs)"
proof -
  obtain g' where g': "account_events e bk (Some d') pid = Inr g'"
    "evs = sort_key ev_key (filter (\<lambda>ev. date_of (ev_stamp ev) \<le> d') g')"
    using assms(3) by (auto simp: events_def bindE_eq_Inr)
  from account_events_through [OF assms(1,2) g'(1)] obtain g where
    g: "account_events e bk (Some d) pid = Inr g"
    "filter (\<lambda>ev. date_of (ev_stamp ev) \<le> d) g = filter (\<lambda>ev. date_of (ev_stamp ev) \<le> d) g'" by blast
  have "filter (\<lambda>ev. date_of (ev_stamp ev) \<le> d) (filter (\<lambda>ev. date_of (ev_stamp ev) \<le> d') g') = filter (\<lambda>ev. date_of (ev_stamp ev) \<le> d) g'"
    using assms(2) by (auto intro: filter_cong)
  then show ?thesis using g g' by (simp add: events_def filter_sort)
qed

lemma events_sorted:
  assumes "events e bk ids since through = Inr evs"
  shows "sorted (map (\<lambda>ev. date_of (ev_stamp ev)) evs)"
proof -
  have "sorted (map ev_key evs)" using assms by (auto simp: events_def bindE_eq_Inr)
  moreover have "ev_key x \<le> ev_key y \<Longrightarrow> date_of (ev_stamp x) \<le> date_of (ev_stamp y)" for x y
    by (auto simp: ev_key_def less_eq_prod_def date_of_def day_usec_def intro: zdiv_mono1)
  ultimately show ?thesis by (auto simp: sorted_wrt_map elim!: sorted_wrt_mono_rel [rotated])
qed

lemma states_agree:
  assumes "projected_states_at_closes e bk pid days = Inr snaps" "opens_same_day e"
  shows "map fst snaps = sort (remdups days) \<and>
    (\<forall>(d, s)\<in>set snaps. projected_state e bk pid (Some d) None = Inr (Some s))"
proof (cases "days = []")
  case True
  then show ?thesis using assms(1) by (simp add: projected_states_at_closes_def Let_def)
next
  case False
  let ?t = "replay_connection bk pid" and ?ds = "sort (remdups days)"
  have ne: "?ds \<noteq> []" using False by (metis remdups_eq_nil_iff set_empty set_sort)
  obtain evs where ev: "events e ?t [pid] None (Some (last ?ds)) = Inr evs"
    "close_loop e pid (reset [pid] ?t) evs ?ds = Inr snaps"
    using assms(1) ne by (auto simp: projected_states_at_closes_def Let_def bindE_eq_Inr reset_replay_connection)
  note cl = close_loop_prefixes [OF ev(2) events_sorted [OF ev(1)] sorted_sort]
  have "projected_state e bk pid (Some d) None = Inr (Some s)" if "(d, s) \<in> set snaps" for d s
  proof -
    have "d \<in> fst ` set snaps" using that by force
    then have "d \<in> set ?ds" using cl by (metis list.set_map)
    then have "d \<le> last ?ds" by (intro sorted_le_last sorted_sort)
    from events_through [OF assms(2) this ev(1)] cl that show ?thesis
      by (fastforce simp: projected_state_def rebuild_state_unfold rebuild_ids_def Let_def)
  qed
  then show ?thesis using cl by auto
qed

text \<open>C9: One chronological replay gives the same states as one replay per day. Whenever
  \<open>projected_states_at_closes\<close> returns, it has one entry per requested day, in order, and each is exactly
  what an independent \<open>projected_state\<close> through that day computes.\<close>

theorem projections_agree:
  assumes "projected_states_at_closes e bk pid days = Inr snaps" "opens_same_day e"
  shows "map fst snaps = sort (remdups days) \<and>
    (\<forall>(d, s)\<in>set snaps. projected_state e bk pid (Some d) None = Inr (Some s))"
  by (rule states_agree [OF assms])


lemma example_opens: "opens_same_day example_env"
  by (simp add: opens_same_day_def example_env_def session_bounds_def combine_def date_of_def MARKET_OPEN_def hm_def minute_def day_usec_def)

lemma two_entries:
  fixes r :: "exc + (date \<times> 's) list"
  shows "(case r of Inr [(d1, s1), (d2, s2)] \<Rightarrow> d1 = a \<and> d2 = b \<and> P s1 \<and> Q s2 | _ \<Rightarrow> False) \<Longrightarrow>
     \<exists>s1 s2. r = Inr [(a, s1), (b, s2)] \<and> P s1 \<and> Q s2"
proof (cases r)
  case (Inr l)
  then show "?thesis" if "case r of Inr [(d1, s1), (d2, s2)] \<Rightarrow> d1 = a \<and> d2 = b \<and> P s1 \<and> Q s2 | _ \<Rightarrow> False"
    using that by (cases l rule: remdups_adj.cases; cases "tl (tl l)") auto
qed simp

theorem projections_agree_witness:
  "\<exists>s1 s2. projected_states_at_closes example_env example_book ''A'' [ymd 2026 10 7, ymd 2026 10 6] =
       Inr [(ymd 2026 10 6, s1), (ymd 2026 10 7, s2)] \<and>
     ls_positions s1 = [(''SPY'', Fin 10, Fin 20)] \<and> ls_positions s2 = [(''SPY'', Fin 6, Fin 20)] \<and>
     projected_state example_env example_book ''A'' (Some (ymd 2026 10 6)) None = Inr (Some s1)"
proof -
  have "case projected_states_at_closes example_env example_book ''A'' [ymd 2026 10 7, ymd 2026 10 6] of
      Inr [(d1, s1), (d2, s2)] \<Rightarrow> d1 = ymd 2026 10 6 \<and> d2 = ymd 2026 10 7 \<and>
        ls_positions s1 = [(''SPY'', Fin 10, Fin 20)] \<and> ls_positions s2 = [(''SPY'', Fin 6, Fin 20)]
    | _ \<Rightarrow> False" by code_simp
  from two_entries [OF this] obtain s1 s2 where p:
    "projected_states_at_closes example_env example_book ''A'' [ymd 2026 10 7, ymd 2026 10 6] =
      Inr [(ymd 2026 10 6, s1), (ymd 2026 10 7, s2)]"
    "ls_positions s1 = [(''SPY'', Fin 10, Fin 20)]" "ls_positions s2 = [(''SPY'', Fin 6, Fin 20)]"
    by blast
  have "projected_state example_env example_book ''A'' (Some (ymd 2026 10 6)) None = Inr (Some s1)"
    using projections_agree [OF p(1) example_opens] by simp
  then show ?thesis using p by blast
qed

end
