(* ===== verification/Valuation.thy ===== *)
theory Valuation
  imports Projection
begin

text \<open>
  Marks and portfolio reads: \<open>src/sim/valuation.py\<close> (the source-aware mark of a holding and its split
  adjustment) and \<open>src/sim/portfolio.py\<close> (cash, positions, batched closes, mark-to-market and the dividend
  credit). \<open>store\<close> is the whole database these functions see: the market tables, the accounting
  book of \<open>Book\<close>, the captured corporate actions, the applied split adjustments and the equity table.
\<close>

record corporate_action =
  ca_ticker :: string
  ca_ex_date :: date
  ca_kind :: string
  ca_value :: "float64 option"
  ca_fetched_at :: "datetime option"

record split_adjustment =
  sa_ticker :: string
  sa_ex_date :: date
  sa_break_date :: date

record equity_row =
  eq_portfolio :: string
  eq_date :: date
  eq_equity :: float64
  eq_cash :: float64
  eq_positions :: int

record store =
  market :: market_db
  ledger :: book
  corporate_actions :: "corporate_action list option"
  split_adjustments :: "split_adjustment list"
  sim_equity :: "equity_row list"

section \<open>Marks\<close>

record Mark =
  mk_price :: float64
  mk_observed_at :: datetime
  mk_stale :: bool
  mk_source :: string

definition already_adjusted :: "store \<Rightarrow> string \<Rightarrow> Mark \<Rightarrow> date \<Rightarrow> bool" where
  "already_adjusted st ticker m ex \<longleftrightarrow>
     mk_source m = ''prices'' \<and>
     (\<exists>a\<in>set (split_adjustments st). sa_ticker a = ticker \<and> sa_ex_date a = ex \<and> date_of (mk_observed_at m) < sa_break_date a)"

definition split_mark :: "store \<Rightarrow> string \<Rightarrow> string \<Rightarrow> date \<Rightarrow> Mark \<Rightarrow> Mark outcome" where
  "split_mark st pid ticker day m =
     bindE (foldE (\<lambda>price s.
              if sp_ticker s \<noteq> ticker \<or> sp_ex_date s \<le> date_of (mk_observed_at m) then Inr price
              else if already_adjusted st ticker m (sp_ex_date s) then Inr price
              else fdiv price (sp_ratio s))
            (mk_price m) (recorded_splits (ledger st) pid (Some day))) (\<lambda>price.
     Inr (m\<lparr>mk_price := price\<rparr>))"

definition fill_stamp :: "book \<Rightarrow> fill_row \<Rightarrow> datetime" where
  "fill_stamp bk f = coalesce (Option.bind (find (\<lambda>d. dl_order d = fl_order f) (sim_fill_details bk)) dl_fill_ts)
     (combine (fl_date f) 0)"

definition last_fill :: "book \<Rightarrow> string \<Rightarrow> string \<Rightarrow> date \<Rightarrow> datetime \<Rightarrow> fill_row option" where
  "last_fill bk pid ticker day stamp =
     first_by (\<lambda>a b. fill_stamp bk b < fill_stamp bk a \<or> fill_stamp bk a = fill_stamp bk b \<and> fl_order b < fl_order a)
       (filter (\<lambda>f. fl_portfolio f = pid \<and> fl_ticker f = ticker \<and> fl_date f \<le> day \<and> fill_stamp bk f \<le> stamp \<and>
                    isfinite (fl_px f) \<and> flt (Fin 0) (fl_px f)) (sim_fills bk))"

definition daily_mark :: "'e env_scheme \<Rightarrow> string \<Rightarrow> date \<Rightarrow> (date \<times> float64) option \<Rightarrow> Mark option" where
  "daily_mark e source day observation =
     map_option (\<lambda>(d, price). \<lparr>mk_price = price, mk_observed_at = snd (session_bounds e d), mk_stale = (d < day),
                               mk_source = source\<rparr>) observation"

definition minute_mark :: "string \<Rightarrow> datetime \<Rightarrow> MinuteBar list \<Rightarrow> Mark option" where
  "minute_mark source stamp bars =
     (case filter (\<lambda>b. mb_ts b + minute \<le> stamp) bars of
        [] \<Rightarrow> None
      | b # bs \<Rightarrow> (let l = last (b # bs) in
          Some \<lparr>mk_price = mb_close l, mk_observed_at = mb_ts l + minute, mk_stale = False, mk_source = source\<rparr>))"

definition mark_stamp :: "'e env_scheme \<Rightarrow> date \<Rightarrow> stamp option \<Rightarrow> datetime" where
  "mark_stamp e day as_of = (case as_of of None \<Rightarrow> snd (session_bounds e day) | Some t \<Rightarrow> naive_utc t)"

definition mark ::
    "'e env_scheme \<Rightarrow> store \<Rightarrow> string \<Rightarrow> string \<Rightarrow> date \<Rightarrow> string option \<Rightarrow> stamp option \<Rightarrow> stamp option \<Rightarrow> Mark outcome" where
  "mark e st pid ticker day price_source as_of available_at =
     bindE (case price_source of
              Some s \<Rightarrow> if s \<noteq> [] then Inr s else bindE (portfolio_account (ledger st) pid) (\<lambda>a. Inr (account_price_source a))
            | None \<Rightarrow> bindE (portfolio_account (ledger st) pid) (\<lambda>a. Inr (account_price_source a))) (\<lambda>source.
     let (opened, closed) = session_bounds e day; stamp = mark_stamp e day as_of in
     bindE (latest_close_observation (market st) ticker day source available_at (stamp < closed)) (\<lambda>observation.
     let daily = daily_mark e source day observation;
         minute_source = (if source = ''massive_daily'' then ''massive_minute'' else ''intraday_prices'') in
     bindE (if opened < stamp \<and> stamp < closed
            then bindE (minute_bars e (market st) ticker day minute_source available_at) (\<lambda>bars.
                 Inr (case minute_mark minute_source stamp bars of Some m \<Rightarrow> Some m | None \<Rightarrow> daily))
            else Inr daily) (\<lambda>candidate.
     case candidate of
       Some m \<Rightarrow> split_mark st pid ticker day m
     | None \<Rightarrow>
         (case last_fill (ledger st) pid ticker day stamp of
            Some f \<Rightarrow> split_mark st pid ticker day
                       \<lparr>mk_price = fl_px f, mk_observed_at = fill_stamp (ledger st) f, mk_stale = True, mk_source = ''fill''\<rparr>
          | None \<Rightarrow> Inl (AccountRefused ''no price ever observed'')))))"

record valued_position =
  vp_instrument :: string
  vp_quantity :: float64
  vp_cost :: float64
  vp_mark :: Mark
  vp_value :: float64

definition positions ::
    "'e env_scheme \<Rightarrow> store \<Rightarrow> string \<Rightarrow> date \<Rightarrow> string option \<Rightarrow> stamp option \<Rightarrow> stamp option \<Rightarrow> valued_position list outcome" where
  "positions e st pid day price_source as_of available_at =
     mapE (\<lambda>r. bindE (mark e st pid (pos_ticker r) day price_source as_of available_at) (\<lambda>m.
             Inr \<lparr>vp_instrument = pos_ticker r, vp_quantity = pos_qty r, vp_cost = pos_cost r, vp_mark = m,
                  vp_value = fmul (pos_qty r) (mk_price m)\<rparr>))
       (sort_key pos_ticker (filter (\<lambda>r. pos_portfolio r = pid \<and> pos_qty r \<noteq> Fin 0) (sim_positions (ledger st))))"

section \<open>Portfolio reads\<close>

definition get_positions :: "book \<Rightarrow> string \<Rightarrow> position list" where
  "get_positions bk pid = filter (\<lambda>r. pos_portfolio r = pid \<and> pos_qty r \<noteq> Fin 0) (sim_positions bk)"

definition get_cash :: "book \<Rightarrow> string \<Rightarrow> float64 outcome" where
  "get_cash bk pid = (case portfolio_row_of bk pid of
     None \<Rightarrow> Inl (TypeError ''NoneType'') | Some p \<Rightarrow> Inr (pf_cash p))"

definition get_initial_cash :: "book \<Rightarrow> string \<Rightarrow> float64 outcome" where
  "get_initial_cash bk pid = (case portfolio_row_of bk pid of
     None \<Rightarrow> Inl (KeyError ''unknown portfolio'') | Some p \<Rightarrow> Inr (coalesce (pf_initial_cash p) INITIAL_CASH))"

definition fill_dates :: "book \<Rightarrow> string \<Rightarrow> string \<Rightarrow> string \<Rightarrow> date list" where
  "fill_dates bk pid ticker side =
     map fl_date (filter (\<lambda>f. fl_portfolio f = pid \<and> fl_ticker f = ticker \<and> fl_side f = side) (sim_fills bk))"

definition position_open_since :: "book \<Rightarrow> string \<Rightarrow> string \<Rightarrow> date option" where
  "position_open_since bk pid ticker =
     (let buys = fill_dates bk pid ticker ''buy'' in
      case first_by (\<lambda>a b. b < a) (fill_dates bk pid ticker ''sell'') of
        None \<Rightarrow> first_by (\<lambda>a b. a < b) buys
      | Some last_sell \<Rightarrow> first_by (\<lambda>a b. a < b) (filter (\<lambda>d. last_sell < d) buys))"

definition close_observation :: "store \<Rightarrow> string \<Rightarrow> date \<Rightarrow> (date \<times> float64) option outcome" where
  "close_observation st ticker d = latest_close_observation (market st) ticker d ''prices'' None False"

text \<open>The batched reader: admitted bars of the date itself, then the ordered search for the rest.\<close>

definition price_rows :: "store \<Rightarrow> string list \<Rightarrow> date \<Rightarrow> daily_row list" where
  "price_rows st names d =
     (let trusted = filter (\<lambda>r. trusted_bar_sql (dr_bar r)) (d_rows (prices (market st)));
          exact = filter (\<lambda>r. dr_ticker r \<in> set names \<and> dr_date r = d) trusted;
          rest = filter (\<lambda>t. t \<notin> dr_ticker ` set exact) names
      in exact @ List.map_filter (\<lambda>t. first_by (\<lambda>r s. dr_date s < dr_date r)
           (filter (\<lambda>r. dr_ticker r = t \<and> dr_date r \<le> d) trusted)) rest)"

definition close_observations :: "store \<Rightarrow> string list \<Rightarrow> date \<Rightarrow> string \<Rightarrow> (date \<times> float64) option" where
  "close_observations st tickers d =
     (let names = sort (remdups tickers); columns = d_columns (prices (market st)) in
      if names = [] \<or> columns = [] \<or> \<not> {''open'', ''high'', ''low'', ''close'', ''volume''} \<subseteq> set columns then (\<lambda>_. None)
      else fold (\<lambda>r out. out(dr_ticker r := map_option (\<lambda>c. (dr_date r, c)) (cell_float (b_close (dr_bar r)))))
             (price_rows st names d) (\<lambda>_. None))"

definition close_on :: "store \<Rightarrow> string \<Rightarrow> date \<Rightarrow> (float64 option \<times> bool) outcome" where
  "close_on st ticker d = bindE (close_observation st ticker d) (\<lambda>observation.
     Inr (case observation of None \<Rightarrow> (None, True) | Some (day, close) \<Rightarrow> (Some close, day \<noteq> d)))"

section \<open>Mark to market\<close>

text \<open>One position of the loop: the running market value and the carried tickers.\<close>

definition mtm_step ::
    "(string \<Rightarrow> (date \<times> float64) option) \<Rightarrow> date \<Rightarrow> position \<Rightarrow> float64 \<times> string list \<Rightarrow> float64 \<times> string list" where
  "mtm_step observations d r acc = (case observations (pos_ticker r) of
     None \<Rightarrow> (fst acc, snd acc @ [pos_ticker r])
   | Some (day, close) \<Rightarrow>
       (fadd (fst acc) (fmul (pos_qty r) close), (if day \<noteq> d then snd acc @ [pos_ticker r] else snd acc)))"

record mtm_result =
  mtm_equity :: float64
  mtm_cash :: float64
  mtm_positions :: int
  mtm_carried :: "string list"

definition put_equity :: "store \<Rightarrow> equity_row \<Rightarrow> store" where
  "put_equity st r = st\<lparr>sim_equity :=
     filter (\<lambda>x. \<not> (eq_portfolio x = eq_portfolio r \<and> eq_date x = eq_date r)) (sim_equity st) @ [r]\<rparr>"

definition mark_to_market :: "store \<Rightarrow> string \<Rightarrow> date \<Rightarrow> (store \<times> mtm_result) outcome" where
  "mark_to_market st pid d =
     bindE (get_cash (ledger st) pid) (\<lambda>cash.
     let held = get_positions (ledger st) pid;
         observations = close_observations st (map pos_ticker held) d;
         (mkt, carried) = fold (mtm_step observations d) held (Fin 0, []) in
     bindE (finite_number (PFloat (fadd cash mkt)) ''marked equity'' False False) (\<lambda>equity.
     Inr (put_equity st \<lparr>eq_portfolio = pid, eq_date = d, eq_equity = equity, eq_cash = cash, eq_positions = int (length held)\<rparr>,
          \<lparr>mtm_equity = equity, mtm_cash = cash, mtm_positions = int (length held), mtm_carried = carried\<rparr>)))"

section \<open>Dividends\<close>

definition DIVIDEND_LOOKBACK_DAYS :: int where "DIVIDEND_LOOKBACK_DAYS = 10"

definition window_dividends :: "corporate_action list \<Rightarrow> date \<Rightarrow> date \<Rightarrow> corporate_action list" where
  "window_dividends actions since d =
     sort_key (\<lambda>a. (ca_ex_date a, ca_ticker a))
       (filter (\<lambda>a. ca_kind a = ''dividend'' \<and> since < ca_ex_date a \<and> ca_ex_date a \<le> d) actions)"

definition credited_keys :: "book \<Rightarrow> date \<Rightarrow> date \<Rightarrow> (string \<times> string \<times> date) list" where
  "credited_keys bk since d = map (\<lambda>r. (dv_portfolio r, dv_ticker r, dv_ex_date r))
     (filter (\<lambda>r. since < dv_ex_date r \<and> dv_ex_date r \<le> d) (sim_dividends bk))"

definition dividend_portfolios :: "book \<Rightarrow> string option \<Rightarrow> string list outcome" where
  "dividend_portfolios bk portfolio_id =
     bindE (mapE (\<lambda>p. bindE (portfolio_account bk (pf_id p)) (\<lambda>a. Inr (p, a))) (filter pf_active (portfolios bk))) (\<lambda>rows.
     Inr (sort (map (\<lambda>(p, _). pf_id p) (filter (\<lambda>(p, a). case portfolio_id of
        None \<Rightarrow> engine a \<noteq> ''account'' | Some q \<Rightarrow> pf_id p = q) rows))))"

definition known_tickers :: "book \<Rightarrow> string \<Rightarrow> string list" where
  "known_tickers bk pid = map fl_ticker (filter (\<lambda>f. fl_portfolio f = pid) (sim_fills bk)) @
     List.map_filter st_into (filter (\<lambda>r. st_portfolio r = pid) (sim_settlements bk))"

definition position_qty :: "ledger_state \<Rightarrow> string \<Rightarrow> float64" where
  "position_qty s ticker = (case map_of (ls_positions s) ticker of Some (q, _) \<Rightarrow> q | None \<Rightarrow> Fin 0)"

text \<open>The loop over the eligible dividends of one portfolio: the planned cash and the credits.\<close>

definition credit_step ::
    "string \<Rightarrow> (date \<times> ledger_state) list \<Rightarrow> float64 \<times> dividend_row list \<Rightarrow> corporate_action
     \<Rightarrow> (float64 \<times> dividend_row list) outcome" where
  "credit_step pid prefixes acc a =
     (case map_of prefixes (ca_ex_date a - 1) of
        None \<Rightarrow> Inl (KeyError ''prefix'')
      | Some s \<Rightarrow>
          (let qty = position_qty s (ca_ticker a); dps = coalesce (ca_value a) (Fin 0) in
           if flt (fabs qty) TOL9 then Inr acc
           else bindE (finite_number (PFloat (fmul qty dps)) ''dividend amount'' False False) (\<lambda>amount.
                bindE (finite_number (PFloat (fadd (fst acc) amount)) ''cash after dividend'' False False) (\<lambda>planned.
                Inr (planned, snd acc @ [\<lparr>dv_portfolio = pid, dv_ticker = ca_ticker a, dv_ex_date = ca_ex_date a, dv_qty = qty,
                                          dv_dps = dps, dv_amount = amount\<rparr>])))))"

definition plan_credits ::
    "'e env_scheme \<Rightarrow> book \<Rightarrow> corporate_action list \<Rightarrow> (string \<times> string \<times> date) list \<Rightarrow> string \<Rightarrow> dividend_row list outcome" where
  "plan_credits e bk divs already pid =
     (let eligible = filter (\<lambda>a. ca_ticker a \<in> set (known_tickers bk pid) \<and> (pid, ca_ticker a, ca_ex_date a) \<notin> set already) divs in
      bindE (projected_states_at_closes e bk pid (map (\<lambda>a. ca_ex_date a - 1) eligible)) (\<lambda>prefixes.
      bindE (get_cash bk pid) (\<lambda>cash.
      bindE (foldE (credit_step pid prefixes) (cash, []) eligible) (\<lambda>(_, credits). Inr credits))))"

definition book_dividend :: "book \<Rightarrow> dividend_row \<Rightarrow> book outcome" where
  "book_dividend bk r =
     (if \<exists>x\<in>set (sim_dividends bk). dv_portfolio x = dv_portfolio r \<and> dv_ticker x = dv_ticker r \<and> dv_ex_date x = dv_ex_date r
      then Inl (ConstraintError ''sim_dividends'')
      else Inr ((add_cash bk (dv_portfolio r) (dv_amount r))\<lparr>sim_dividends := sim_dividends bk @ [r]\<rparr>))"

definition credit_dividends ::
    "'e env_scheme \<Rightarrow> store \<Rightarrow> date \<Rightarrow> int \<Rightarrow> string option \<Rightarrow> (store \<times> int \<times> float64) outcome" where
  "credit_dividends e st d lookback_days portfolio_id = (case corporate_actions st of
     None \<Rightarrow> Inr (st, 0, Fin 0)
   | Some actions \<Rightarrow>
       (let since = d - lookback_days; bk = ledger st; divs = window_dividends actions since d in
        if divs = [] then Inr (st, 0, Fin 0)
        else
        bindE (mapE (\<lambda>a. finite_number (opt_float (ca_value a)) ''dividend per share'' True False) divs) (\<lambda>_.
        bindE (dividend_portfolios bk portfolio_id) (\<lambda>ids.
        bindE (mapE (plan_credits e bk divs (credited_keys bk since d)) ids) (\<lambda>plans.
        let credits = concat plans in
        bindE (foldE book_dividend bk credits) (\<lambda>bk'.
        Inr (st\<lparr>ledger := bk'\<rparr>, int (length credits), fold (\<lambda>r acc. fadd acc (dv_amount r)) credits (Fin 0))))))))"

section \<open>Marks look only backwards\<close>

lemma fold_best_in: "fold (\<lambda>s best. if b s best then s else best) rs r \<in> insert r (set rs)"
proof (induction rs arbitrary: r)
  case (Cons a rs)
  show ?case using Cons.IH [of a] Cons.IH [of r] by auto
qed simp

lemma first_by_Some: "first_by b xs = Some x \<Longrightarrow> x \<in> set xs"
  using fold_best_in [of b "tl xs" "hd xs"] by (cases xs) (auto simp: first_by_def)

lemma in_map_filter: "y \<in> set (List.map_filter f xs) \<longleftrightarrow> (\<exists>x\<in>set xs. f x = Some y)"
  by (force simp: List.map_filter_def)

lemma latest_close_observation_date:
  assumes "latest_close_observation db ticker day source av strict = Inr (Some (d, c))"
  shows "if strict then d < day else d \<le> day"
proof -
  have can: "r \<in> set (canonical source rows) \<Longrightarrow> r \<in> set rows" for r rows
    by (auto simp: canonical_def in_map_filter dest!: first_by_Some split: if_splits)
  show ?thesis using assms
    by (auto simp: latest_close_observation_def bindE_eq_Inr Let_def dest!: first_by_Some can split: if_splits option.splits)
qed

lemma split_mark_observed: "split_mark st pid t day m = Inr m' \<Longrightarrow> mk_observed_at m' = mk_observed_at m"
  by (auto simp: split_mark_def bindE_eq_Inr)

lemma last_fill_stamp: "last_fill bk pid t day stamp = Some f \<Longrightarrow> fill_stamp bk f \<le> stamp"
  by (auto simp: last_fill_def dest!: first_by_Some)

lemma minute_mark_observed:
  assumes "minute_mark src stamp bars = Some m"
  shows "mk_observed_at m \<le> stamp"
proof -
  let ?l = "filter (\<lambda>b. mb_ts b + minute \<le> stamp) bars"
  have "?l \<noteq> []" and m: "mk_observed_at m = mb_ts (last ?l) + minute"
    using assms by (auto simp: minute_mark_def Let_def split: list.split_asm)
  from last_in_set [OF this(1)] show ?thesis unfolding m by simp
qed


text \<open>A store for the witnesses: the market of the fill examples, the drifted book, and one dividend.\<close>

definition example_store :: store where
  "example_store = \<lparr>market = example_db, ledger = example_book,
     corporate_actions = Some [\<lparr>ca_ticker = ''SPY'', ca_ex_date = ymd 2026 10 7, ca_kind = ''dividend'', ca_value = Some (Fin 2),
                               ca_fetched_at = None\<rparr>],
     split_adjustments = [], sim_equity = []\<rparr>"



section \<open>Batched closes\<close>

lemma fold_best_max:
  fixes f :: "'a \<Rightarrow> 'b::linorder"
  shows "y \<in> insert r (set rs) \<Longrightarrow> f y \<le> f (fold (\<lambda>s best. if f best < f s then s else best) rs r)"
proof (induction rs arbitrary: r y)
  case (Cons a rs)
  show ?case
  proof (cases "f r < f a")
    case True
    have "f y \<le> f a \<or> y \<in> set rs" using Cons.prems True by auto
    then show ?thesis using Cons.IH [of a a] Cons.IH [of y a] True by auto
  next
    case False
    have "f y \<le> f r \<or> y \<in> set rs" using Cons.prems False by auto
    then show ?thesis using Cons.IH [of r r] Cons.IH [of y r] False by auto
  qed
qed simp

lemma first_by_max:
  fixes f :: "'a \<Rightarrow> 'b::linorder"
  assumes "first_by (\<lambda>r s. f s < f r) xs = Some x" "y \<in> set xs"
  shows "f y \<le> f x"
  using assms fold_best_max [of y "hd xs" "tl xs" f] by (cases xs) (auto simp: first_by_def)

lemma first_by_None: "first_by b xs = None \<longleftrightarrow> xs = []"
  by (cases xs) (auto simp: first_by_def)

lemma fold_upd:
  "fold (\<lambda>r out. out(k r := v r)) rows out t =
     (case filter (\<lambda>r. k r = t) rows of [] \<Rightarrow> out t | r # rs \<Rightarrow> v (last (r # rs)))"
proof (induction rows rule: rev_induct)
  case (snoc x xs)
  then show ?case by (auto split: list.splits)
qed simp

lemma filter_map_filter_key:
  assumes "\<And>x y. f x = Some y \<Longrightarrow> k y = x"
  shows "filter (\<lambda>r. k r = t) (List.map_filter f xs) = List.map_filter f (filter (\<lambda>x. x = t) xs)"
  using assms by (induction xs) (auto simp: List.map_filter_simps split: option.splits)

lemma filter_eq_distinct: "distinct xs \<Longrightarrow> filter (\<lambda>x. x = t) xs = (if t \<in> set xs then [t] else [])"
  by (induction xs) (auto simp: filter_empty_conv)

definition unique_bars :: "daily_row list \<Rightarrow> bool" where
  "unique_bars rows \<longleftrightarrow> distinct (map (\<lambda>r. (dr_ticker r, dr_date r)) rows)"

lemma unique_bars_eq: "unique_bars rows \<Longrightarrow> r \<in> set rows \<Longrightarrow> r' \<in> set rows \<Longrightarrow> dr_ticker r = dr_ticker r' \<Longrightarrow> dr_date r = dr_date r' \<Longrightarrow> r = r'"
  by (auto simp: unique_bars_def distinct_map dest!: inj_onD)

lemma unique_bars_filter:
  assumes "unique_bars rows" "r \<in> set rows" "P r" "dr_ticker r = t" "dr_date r = d"
  shows "filter (\<lambda>x. P x \<and> dr_ticker x = t \<and> dr_date x = d) rows = [r]"
proof -
  have "filter (\<lambda>x. P x \<and> dr_ticker x = t \<and> dr_date x = d) rows = filter (\<lambda>x. x = r) rows"
    using assms unique_bars_eq by (intro filter_cong) auto
  moreover have "distinct rows" using assms(1) by (auto simp: unique_bars_def distinct_map)
  ultimately show ?thesis using assms(2) by (simp add: filter_eq_distinct)
qed

definition bar_close :: "daily_row \<Rightarrow> (date \<times> float64) option" where
  "bar_close r = map_option (\<lambda>c. (dr_date r, c)) (cell_float (b_close (dr_bar r)))"

definition latest_bar :: "store \<Rightarrow> string \<Rightarrow> date \<Rightarrow> daily_row option" where
  "latest_bar st t d = first_by (\<lambda>r s. dr_date s < dr_date r)
     (filter (\<lambda>r. trusted_bar_sql (dr_bar r)) (filter (\<lambda>r. dr_ticker r = t \<and> dr_date r \<le> d) (d_rows (prices (market st)))))"

lemma latest_bar_alt:
  "latest_bar st t d = first_by (\<lambda>r s. dr_date s < dr_date r)
     (filter (\<lambda>r. dr_ticker r = t \<and> dr_date r \<le> d) (filter (\<lambda>r. trusted_bar_sql (dr_bar r)) (d_rows (prices (market st)))))"
  unfolding latest_bar_def filter_filter by (metis (no_types, opaque_lifting))

lemma close_observation_unfold:
  "close_observation st t d = Inr (if d_columns (prices (market st)) = [] \<or>
      \<not> {''open'', ''high'', ''low'', ''close'', ''volume''} \<subseteq> set (d_columns (prices (market st))) then None
     else Option.bind (latest_bar st t d) bar_close)"
  by (auto simp: close_observation_def latest_close_observation_def daily_source_def canonical_def stamp_admits_def
      latest_bar_def bar_close_def Let_def split: option.split)

lemma price_rows_of:
  assumes "unique_bars (d_rows (prices (market st)))" "distinct names" "t \<in> set names"
  shows "filter (\<lambda>r. dr_ticker r = t) (price_rows st names d) = (case latest_bar st t d of None \<Rightarrow> [] | Some r \<Rightarrow> [r])"
proof -
  let ?rows = "d_rows (prices (market st))"
  let ?tr = "filter (\<lambda>r. trusted_bar_sql (dr_bar r)) ?rows"
  let ?exact = "filter (\<lambda>r. dr_ticker r \<in> set names \<and> dr_date r = d) ?tr"
  let ?rest = "filter (\<lambda>x. x \<notin> dr_ticker ` set ?exact) names"
  let ?f = "\<lambda>x. first_by (\<lambda>r s. dr_date s < dr_date r) (filter (\<lambda>r. dr_ticker r = x \<and> dr_date r \<le> d) ?tr)"
  have k: "?f x = Some r \<Longrightarrow> dr_ticker r = x" for x r by (auto dest!: first_by_Some)
  have second: "filter (\<lambda>r. dr_ticker r = t) (List.map_filter ?f ?rest) =
      (if t \<in> dr_ticker ` set ?exact then [] else case ?f t of None \<Rightarrow> [] | Some r \<Rightarrow> [r])"
  proof -
    have "filter (\<lambda>x. x = t) ?rest = (if t \<in> dr_ticker ` set ?exact then [] else [t])"
      using filter_eq_distinct [of ?rest t] assms(2,3) by auto
    moreover have "filter (\<lambda>r. dr_ticker r = t) (List.map_filter ?f ?rest) = List.map_filter ?f (filter (\<lambda>x. x = t) ?rest)"
      by (rule filter_map_filter_key) (rule k)
    ultimately show ?thesis by (simp only: List.map_filter_simps if_distrib [of "List.map_filter _"])
  qed
  have first: "filter (\<lambda>r. dr_ticker r = t) ?exact = filter (\<lambda>x. trusted_bar_sql (dr_bar x) \<and> dr_ticker x = t \<and> dr_date x = d) ?rows"
    using assms(3) by (auto intro: filter_cong)
  show ?thesis
  proof (cases "t \<in> dr_ticker ` set ?exact")
    case True
    then obtain r where r: "r \<in> set ?rows" "trusted_bar_sql (dr_bar r)" "dr_ticker r = t" "dr_date r = d" by auto
    obtain x where x: "?f t = Some x" using r by (cases "?f t") (auto simp: first_by_None filter_empty_conv)
    have "x \<in> set ?rows \<and> dr_ticker x = t \<and> dr_date x \<le> d" using first_by_Some [OF x] by auto
    moreover have "dr_date r \<le> dr_date x" using first_by_max [OF x, of r] r by simp
    ultimately have "x = r" using unique_bars_eq [OF assms(1), of x r] r by simp
    moreover have "filter (\<lambda>r. dr_ticker r = t) ?exact = [r]" using first unique_bars_filter [OF assms(1) r(1), of "\<lambda>x. trusted_bar_sql (dr_bar x)"] r by simp
    ultimately show ?thesis using second True x by (simp add: price_rows_def Let_def latest_bar_alt)
  next
    case False
    then have "filter (\<lambda>r. dr_ticker r = t) ?exact = []" by (auto simp: filter_empty_conv)
    then show ?thesis using second False by (simp add: price_rows_def Let_def latest_bar_alt)
  qed
qed

text \<open>The batched close reader agrees with the single one. On a price table with one bar per ticker and date,
  \<open>close_observations\<close>, which reads the date's own bars first and searches backwards only for the rest,
  returns for every requested ticker what \<open>close_observation\<close> returns for it.\<close>

theorem batched_closes_agree:
  assumes "unique_bars (d_rows (prices (market st)))" "t \<in> set tickers"
  shows "close_observation st t d = Inr (close_observations st tickers d t)"
proof -
  have "t \<in> set (sort (remdups tickers))" using assms(2) by simp
  then have n: "sort (remdups tickers) \<noteq> []" by (metis empty_iff list.set(1))
  have "filter (\<lambda>r. dr_ticker r = t) (price_rows st (sort (remdups tickers)) d) =
      (case latest_bar st t d of None \<Rightarrow> [] | Some r \<Rightarrow> [r])"
    using price_rows_of [OF assms(1), of "sort (remdups tickers)" t d] assms(2) by simp
  moreover have "close_observations st tickers d t = (if d_columns (prices (market st)) = [] \<or>
      \<not> {''open'', ''high'', ''low'', ''close'', ''volume''} \<subseteq> set (d_columns (prices (market st))) then None
     else fold (\<lambda>r out. out(dr_ticker r := bar_close r)) (price_rows st (sort (remdups tickers)) d) (\<lambda>_. None) t)"
    unfolding close_observations_def Let_def bar_close_def using n by (simp only: if_distribR simp_thms)
  ultimately show ?thesis unfolding close_observation_unfold fold_upd
    by (cases "latest_bar st t d") simp_all
qed

theorem batched_closes_agree_witness:
  "close_observation example_store ''SPY'' (ymd 2026 10 7) = Inr (close_observations example_store [''SPY'', ''IWM''] (ymd 2026 10 7) ''SPY'') \<and>
   close_observations example_store [''SPY'', ''IWM''] (ymd 2026 10 7) ''SPY'' = Some (ymd 2026 10 6, Fin 10)"
proof -
  have "unique_bars (d_rows (prices (market example_store)))" by code_simp
  moreover have "close_observations example_store [''SPY'', ''IWM''] (ymd 2026 10 7) ''SPY'' = Some (ymd 2026 10 6, Fin 10)" by code_simp
  ultimately show ?thesis using batched_closes_agree [of example_store "''SPY''" "[''SPY'', ''IWM'']"] by simp
qed


section \<open>Mark to market\<close>

text \<open>Marking a day is idempotent. When \<open>mark_to_market\<close> returns, the equity table holds exactly one row for the
  portfolio and date, with the equity it returned; rows of other portfolios and dates are kept; and running it
  again gives the same store and the same result.\<close>

theorem mark_to_market_idempotent:
  assumes "mark_to_market st pid d = Inr (st', r)"
  shows "mark_to_market st' pid d = Inr (st', r) \<and>
    filter (\<lambda>x. eq_portfolio x = pid \<and> eq_date x = d) (sim_equity st') =
      [\<lparr>eq_portfolio = pid, eq_date = d, eq_equity = mtm_equity r, eq_cash = mtm_cash r, eq_positions = mtm_positions r\<rparr>] \<and>
    filter (\<lambda>x. \<not> (eq_portfolio x = pid \<and> eq_date x = d)) (sim_equity st') =
      filter (\<lambda>x. \<not> (eq_portfolio x = pid \<and> eq_date x = d)) (sim_equity st) \<and>
    isfinite (mtm_equity r)"
proof -
  let ?row = "\<lparr>eq_portfolio = pid, eq_date = d, eq_equity = mtm_equity r, eq_cash = mtm_cash r, eq_positions = mtm_positions r\<rparr>"
  have st': "st' = put_equity st ?row" and fin: "isfinite (mtm_equity r)"
    using assms by (auto simp: mark_to_market_def bindE_eq_Inr Let_def finite_number_float_iff split_beta)
  have same: "ledger st' = ledger st" "market st' = market st" by (simp_all add: st' put_equity_def)
  have obs: "close_observations st' = close_observations st"
    by (intro ext) (simp only: close_observations_def price_rows_def same)
  have again: "put_equity st' x = put_equity st x" if "eq_portfolio x = pid" "eq_date x = d" for x
    using that by (simp add: st' put_equity_def)
  have "mark_to_market st' pid d = mark_to_market st pid d"
    unfolding mark_to_market_def same obs
    by (intro arg_cong2 [where f = bindE] refl ext) (simp add: Let_def split_beta again)
  moreover have "filter (\<lambda>x. eq_portfolio x = pid \<and> eq_date x = d) (sim_equity st') = [?row]"
    by (simp add: st' put_equity_def filter_empty_conv)
  ultimately show ?thesis using assms fin by (simp add: st' put_equity_def)
qed

theorem mark_to_market_witness:
  "\<exists>st' r. mark_to_market example_store ''A'' (ymd 2026 10 6) = Inr (st', r) \<and> mtm_equity r = Fin 997 \<and>
     mark_to_market st' ''A'' (ymd 2026 10 6) = Inr (st', r)"
proof -
  have "case mark_to_market example_store ''A'' (ymd 2026 10 6) of Inr (_, r) \<Rightarrow> mtm_equity r = Fin 997 | Inl _ \<Rightarrow> False"
    by code_simp
  then obtain st' r where "mark_to_market example_store ''A'' (ymd 2026 10 6) = Inr (st', r)" "mtm_equity r = Fin 997"
    by (auto split: sum.split_asm prod.split_asm)
  then show ?thesis using mark_to_market_idempotent by blast
qed

section \<open>Dividends\<close>

definition dividend_key :: "dividend_row \<Rightarrow> string \<times> string \<times> date" where
  "dividend_key r = (dv_portfolio r, dv_ticker r, dv_ex_date r)"

lemma book_dividends:
  assumes "foldE book_dividend bk rows = Inr bk'" "distinct (map dividend_key (sim_dividends bk))"
  shows "sim_dividends bk' = sim_dividends bk @ rows \<and> distinct (map dividend_key (sim_dividends bk')) \<and>
    sim_positions bk' = sim_positions bk \<and> sim_position_lots bk' = sim_position_lots bk"
  using assms
proof (induction rows arbitrary: bk)
  case (Cons r rows)
  from Cons.prems(1) obtain b where b: "book_dividend bk r = Inr b" "foldE book_dividend b rows = Inr bk'"
    by (auto simp: bindE_eq_Inr)
  then have n: "sim_dividends b = sim_dividends bk @ [r]" "\<forall>x\<in>set (sim_dividends bk). dividend_key x \<noteq> dividend_key r"
    "sim_positions b = sim_positions bk" "sim_position_lots b = sim_position_lots bk"
    by (auto simp: book_dividend_def dividend_key_def add_cash_def split: if_splits)
  then have "distinct (map dividend_key (sim_dividends b))" using Cons.prems(2) by (auto simp: image_iff)
  from Cons.IH [OF b(2) this] n show ?case by (metis append_assoc append_Cons append_Nil)
qed simp

lemma book_dividends_cash:
  "foldE book_dividend bk rows = Inr bk' \<Longrightarrow> portfolio_row_of bk' q =
     map_option (\<lambda>p. p\<lparr>pf_cash := fold (\<lambda>r cash. fadd cash (dv_amount r)) (filter (\<lambda>r. dv_portfolio r = q) rows) (pf_cash p)\<rparr>) (portfolio_row_of bk q)"
proof (induction rows arbitrary: bk)
  case (Cons r rows)
  from Cons.prems obtain b where b: "book_dividend bk r = Inr b" "foldE book_dividend b rows = Inr bk'"
    by (auto simp: bindE_eq_Inr)
  then have "portfolios b = portfolios (add_cash bk (dv_portfolio r) (dv_amount r))" by (auto simp: book_dividend_def split: if_split_asm)
  then have "portfolio_row_of b q = map_option (\<lambda>p. if q = dv_portfolio r then p\<lparr>pf_cash := fadd (pf_cash p) (dv_amount r)\<rparr> else p) (portfolio_row_of bk q)"
    unfolding add_cash_lookup [symmetric] by (simp add: portfolio_row_of_def)
  then show ?case by (cases "portfolio_row_of bk q") (simp_all add: Cons.IH [OF b(2)])
qed (simp add: option.map_ident)

text \<open>What a credited row says of its account: the entitlement is the projected position at the close before the
  ex-date.\<close>

definition entitled :: "'e env_scheme \<Rightarrow> book \<Rightarrow> dividend_row \<Rightarrow> bool" where
  "entitled e bk r \<longleftrightarrow>
     (case projected_state e bk (dv_portfolio r) (Some (dv_ex_date r - 1)) None of
        Inr (Some s) \<Rightarrow> dv_qty r = position_qty s (dv_ticker r) | _ \<Rightarrow> False) \<and>
     \<not> flt (fabs (dv_qty r)) TOL9 \<and> dv_amount r = fmul (dv_qty r) (dv_dps r) \<and> isfinite (dv_amount r)"

lemma credit_rows:
  assumes "foldE (credit_step pid prefixes) acc as = Inr acc'" "r \<in> set (snd acc')"
  shows "r \<in> set (snd acc) \<or> (\<exists>a\<in>set as. \<exists>s. map_of prefixes (ca_ex_date a - 1) = Some s \<and>
    r = \<lparr>dv_portfolio = pid, dv_ticker = ca_ticker a, dv_ex_date = ca_ex_date a, dv_qty = position_qty s (ca_ticker a),
         dv_dps = coalesce (ca_value a) (Fin 0), dv_amount = fmul (position_qty s (ca_ticker a)) (coalesce (ca_value a) (Fin 0))\<rparr> \<and>
    \<not> flt (fabs (position_qty s (ca_ticker a))) TOL9 \<and> isfinite (fmul (position_qty s (ca_ticker a)) (coalesce (ca_value a) (Fin 0))))"
  using assms
proof (induction as arbitrary: acc)
  case (Cons a as)
  from Cons.prems(1) obtain acc1 where s: "credit_step pid prefixes acc a = Inr acc1" "foldE (credit_step pid prefixes) acc1 as = Inr acc'"
    by (auto simp: bindE_eq_Inr)
  from Cons.IH [OF s(2) Cons.prems(2)] show ?case
  proof
    assume "r \<in> set (snd acc1)"
    then show ?thesis using s(1)
      by (auto simp: credit_step_def Let_def bindE_eq_Inr finite_number_float_iff split: option.split_asm if_split_asm)
  qed auto
qed simp

lemma plan_credits_rows:
  assumes "plan_credits e bk divs already pid = Inr rows" "r \<in> set rows" "opens_same_day e"
  shows "entitled e bk r \<and> dv_portfolio r = pid \<and> dividend_key r \<notin> set already \<and>
    (\<exists>a\<in>set divs. dv_ticker r = ca_ticker a \<and> dv_ex_date r = ca_ex_date a \<and> dv_dps r = coalesce (ca_value a) (Fin 0))"
proof -
  let ?el = "filter (\<lambda>a. ca_ticker a \<in> set (known_tickers bk pid) \<and> (pid, ca_ticker a, ca_ex_date a) \<notin> set already) divs"
  obtain prefixes cash c where p: "projected_states_at_closes e bk pid (map (\<lambda>a. ca_ex_date a - 1) ?el) = Inr prefixes"
    "foldE (credit_step pid prefixes) (cash, []) ?el = Inr (c, rows)"
    using assms(1) by (auto simp: plan_credits_def Let_def bindE_eq_Inr)
  have ag: "projected_state e bk pid (Some x) None = Inr (Some s)" if "map_of prefixes x = Some s" for x s
    using states_agree [OF p(1) assms(3)] map_of_SomeD [OF that] by auto
  from credit_rows [OF p(2), of r] assms(2) obtain a s where a: "a \<in> set ?el" "map_of prefixes (ca_ex_date a - 1) = Some s"
    "r = \<lparr>dv_portfolio = pid, dv_ticker = ca_ticker a, dv_ex_date = ca_ex_date a, dv_qty = position_qty s (ca_ticker a),
         dv_dps = coalesce (ca_value a) (Fin 0), dv_amount = fmul (position_qty s (ca_ticker a)) (coalesce (ca_value a) (Fin 0))\<rparr>"
    "\<not> flt (fabs (position_qty s (ca_ticker a))) TOL9" "isfinite (fmul (position_qty s (ca_ticker a)) (coalesce (ca_value a) (Fin 0)))"
    by auto
  then show ?thesis using ag [OF a(2)] by (auto simp: entitled_def dividend_key_def)
qed

text \<open>The other direction: the loop leaves no entitled dividend out.\<close>

lemma credit_rows_kept:
  "foldE (credit_step pid prefixes) acc as = Inr acc' \<Longrightarrow> set (snd acc) \<subseteq> set (snd acc')"
proof (induction as arbitrary: acc)
  case (Cons a as)
  from Cons.prems obtain acc1 where s: "credit_step pid prefixes acc a = Inr acc1" "foldE (credit_step pid prefixes) acc1 as = Inr acc'"
    by (auto simp: bindE_eq_Inr)
  from s(1) have "set (snd acc) \<subseteq> set (snd acc1)"
    by (auto simp: credit_step_def Let_def bindE_eq_Inr split: option.split_asm if_split_asm)
  with Cons.IH [OF s(2)] show ?case by blast
qed simp

lemma credit_complete:
  assumes "foldE (credit_step pid prefixes) acc as = Inr acc'" "a \<in> set as"
    and "map_of prefixes (ca_ex_date a - 1) = Some s" "\<not> flt (fabs (position_qty s (ca_ticker a))) TOL9"
  shows "(pid, ca_ticker a, ca_ex_date a) \<in> dividend_key ` set (snd acc')"
  using assms(1,2)
proof (induction as arbitrary: acc)
  case (Cons x as)
  from Cons.prems(1) obtain acc1 where s: "credit_step pid prefixes acc x = Inr acc1" "foldE (credit_step pid prefixes) acc1 as = Inr acc'"
    by (auto simp: bindE_eq_Inr)
  show ?case
  proof (cases "a \<in> set as")
    case False
    then have "(pid, ca_ticker a, ca_ex_date a) \<in> dividend_key ` set (snd acc1)"
      using s(1) Cons.prems(2) assms(3,4) by (auto simp: credit_step_def Let_def bindE_eq_Inr dividend_key_def)
    then show ?thesis using credit_rows_kept [OF s(2)] by blast
  qed (rule Cons.IH [OF s(2)])
qed simp

lemma plan_credits_complete:
  assumes "plan_credits e bk divs already pid = Inr rows" "opens_same_day e"
    and "a \<in> set divs" "ca_ticker a \<in> set (known_tickers bk pid)" "(pid, ca_ticker a, ca_ex_date a) \<notin> set already"
    and "projected_state e bk pid (Some (ca_ex_date a - 1)) None = Inr (Some s)" "\<not> flt (fabs (position_qty s (ca_ticker a))) TOL9"
  shows "(pid, ca_ticker a, ca_ex_date a) \<in> dividend_key ` set rows"
proof -
  let ?el = "filter (\<lambda>a. ca_ticker a \<in> set (known_tickers bk pid) \<and> (pid, ca_ticker a, ca_ex_date a) \<notin> set already) divs"
  obtain prefixes cash c where p: "projected_states_at_closes e bk pid (map (\<lambda>a. ca_ex_date a - 1) ?el) = Inr prefixes"
    "foldE (credit_step pid prefixes) (cash, []) ?el = Inr (c, rows)"
    using assms(1) by (auto simp: plan_credits_def Let_def bindE_eq_Inr)
  have el: "a \<in> set ?el" using assms(3-5) by simp
  have agree: "map fst prefixes = sort (remdups (map (\<lambda>a. ca_ex_date a - 1) ?el))"
    "\<forall>(x, t)\<in>set prefixes. projected_state e bk pid (Some x) None = Inr (Some t)"
    using states_agree [OF p(1) assms(2)] by blast+
  have "ca_ex_date a - 1 \<in> set (map fst prefixes)" using el unfolding agree(1) by simp
  then obtain t where t: "map_of prefixes (ca_ex_date a - 1) = Some t"
    by (metis map_of_eq_None_iff option.exhaust set_map)
  with agree(2) map_of_SomeD [OF t] assms(6) have "t = s" by auto
  from credit_complete [OF p(2) el t] assms(7) this show ?thesis by simp
qed

lemma credited_keys_iff:
  "(pid, t, ex) \<in> set (credited_keys bk since d) \<longleftrightarrow> (pid, t, ex) \<in> dividend_key ` set (sim_dividends bk) \<and> since < ex \<and> ex \<le> d"
  by (force simp: credited_keys_def dividend_key_def image_iff)

text \<open>The two outcomes of a successful run: nothing to credit, or the planned rows of every portfolio booked.\<close>

lemma credit_dividends_runs:
  assumes "credit_dividends e st d lookback sel = Inr (st', n, amount)" "corporate_actions st = Some actions"
    and "a \<in> set (window_dividends actions (d - lookback) d)"
  obtains ids plans bk' where "dividend_portfolios (ledger st) sel = Inr ids"
    "mapE (plan_credits e (ledger st) (window_dividends actions (d - lookback) d) (credited_keys (ledger st) (d - lookback) d)) ids = Inr plans"
    "foldE book_dividend (ledger st) (concat plans) = Inr bk'" "st' = st\<lparr>ledger := bk'\<rparr>" "n = int (length (concat plans))"
    "amount = fold (\<lambda>r total. fadd total (dv_amount r)) (concat plans) (Fin 0)"
proof -
  have ne: "window_dividends actions (d - lookback) d \<noteq> []" using assms(3) by auto
  show ?thesis using assms(1) that
    unfolding credit_dividends_def assms(2) option.case Let_def if_not_P [OF ne] bindE_eq_Inr by blast
qed

text \<open>C17: Dividends are credited exactly once and to the right holder. A run of \<open>credit_dividends\<close> appends one row
  per credit and touches no position or lot; no appended row repeats the portfolio, ticker and ex-date of a
  credited one, so the key stays unique across late and repeated runs; each appended row is a captured
  dividend of the window for a selected portfolio and carries its dividend per share, its quantity is the signed position
  the ledger projects at the close before the ex-date (negative for a short, which pays), and its amount is quantity times
  dividend; every portfolio gets exactly the amounts of its appended rows added to its cash, in order, and nothing else of
  its row moves; the returned total is their sum; and no dividend of the window on a ticker the account has held, with a
  projected position of at least 1e-9, is left without its row.\<close>

theorem dividends_exactly_once:
  assumes "credit_dividends e st d lookback sel = Inr (st', n, amount)" "opens_same_day e"
    and "distinct (map dividend_key (sim_dividends (ledger st)))"
    and "corporate_actions st = Some actions" "dividend_portfolios (ledger st) sel = Inr ids"
  shows "\<exists>rows. sim_dividends (ledger st') = sim_dividends (ledger st) @ rows \<and> n = int (length rows) \<and>
    amount = fold (\<lambda>r total. fadd total (dv_amount r)) rows (Fin 0) \<and>
    distinct (map dividend_key (sim_dividends (ledger st'))) \<and>
    sim_positions (ledger st') = sim_positions (ledger st) \<and> sim_position_lots (ledger st') = sim_position_lots (ledger st) \<and>
    (\<forall>pid. portfolio_row_of (ledger st') pid = map_option (\<lambda>p. p\<lparr>pf_cash :=
        fold (\<lambda>r cash. fadd cash (dv_amount r)) (filter (\<lambda>r. dv_portfolio r = pid) rows) (pf_cash p)\<rparr>) (portfolio_row_of (ledger st) pid)) \<and>
    (\<forall>r\<in>set rows. entitled e (ledger st) r \<and> d - lookback < dv_ex_date r \<and> dv_ex_date r \<le> d \<and> dv_portfolio r \<in> set ids \<and>
       (\<exists>a\<in>set actions. ca_kind a = ''dividend'' \<and> dv_ticker r = ca_ticker a \<and> dv_ex_date r = ca_ex_date a \<and>
          dv_dps r = coalesce (ca_value a) (Fin 0))) \<and>
    (\<forall>pid\<in>set ids. \<forall>a\<in>set (window_dividends actions (d - lookback) d). \<forall>s.
       ca_ticker a \<in> set (known_tickers (ledger st) pid) \<longrightarrow>
       projected_state e (ledger st) pid (Some (ca_ex_date a - 1)) None = Inr (Some s) \<longrightarrow>
       \<not> flt (fabs (position_qty s (ca_ticker a))) TOL9 \<longrightarrow>
       (pid, ca_ticker a, ca_ex_date a) \<in> dividend_key ` set (sim_dividends (ledger st')))"
proof (cases "window_dividends actions (d - lookback) d = []")
  case True
  then show ?thesis using assms(1,3,4) by (intro exI [of _ "[]"]) (simp add: credit_dividends_def option.map_ident)
next
  case False
  let ?divs = "window_dividends actions (d - lookback) d" and ?al = "credited_keys (ledger st) (d - lookback) d"
  from False obtain x where "x \<in> set ?divs" by (cases ?divs) auto
  from credit_dividends_runs [OF assms(1,4) this] assms(5) obtain plans bk' where
    c: "mapE (plan_credits e (ledger st) ?divs ?al) ids = Inr plans"
    "foldE book_dividend (ledger st) (concat plans) = Inr bk'" "st' = st\<lparr>ledger := bk'\<rparr>" "n = int (length (concat plans))"
    "amount = fold (\<lambda>r total. fadd total (dv_amount r)) (concat plans) (Fin 0)"
    by (metis Inr_inject)
  have bk: "ledger st' = bk'" using c(3) by simp
  note booked = book_dividends [OF c(2) assms(3)]
  have rows: "entitled e (ledger st) r \<and> d - lookback < dv_ex_date r \<and> dv_ex_date r \<le> d \<and> dv_portfolio r \<in> set ids \<and>
      (\<exists>a\<in>set actions. ca_kind a = ''dividend'' \<and> dv_ticker r = ca_ticker a \<and> dv_ex_date r = ca_ex_date a \<and> dv_dps r = coalesce (ca_value a) (Fin 0))" if "r \<in> set (concat plans)" for r
  proof -
    from that obtain p where p: "p \<in> set plans" "r \<in> set p" by auto
    from mapE_set [OF c(1) p(1)] obtain pid where i: "pid \<in> set ids" "plan_credits e (ledger st) ?divs ?al pid = Inr p" by blast
    note r = plan_credits_rows [OF i(2) p(2) assms(2)]
    then obtain a where "a \<in> set ?divs" "dv_ticker r = ca_ticker a" "dv_ex_date r = ca_ex_date a" "dv_dps r = coalesce (ca_value a) (Fin 0)" by blast
    then show ?thesis using r i(1) by (auto simp: window_dividends_def)
  qed
  have all: "(pid, ca_ticker a, ca_ex_date a) \<in> dividend_key ` set (sim_dividends bk')"
    if "pid \<in> set ids" "a \<in> set ?divs" "ca_ticker a \<in> set (known_tickers (ledger st) pid)"
      "projected_state e (ledger st) pid (Some (ca_ex_date a - 1)) None = Inr (Some s)" "\<not> flt (fabs (position_qty s (ca_ticker a))) TOL9"
    for pid a s
  proof (cases "(pid, ca_ticker a, ca_ex_date a) \<in> set ?al")
    case False
    from mapE_member [OF c(1) that(1)] obtain p where p: "p \<in> set plans" "plan_credits e (ledger st) ?divs ?al pid = Inr p" by blast
    from plan_credits_complete [OF p(2) assms(2) that(2,3) False that(4,5)] p(1) booked show ?thesis by auto
  qed (use booked in \<open>auto simp: credited_keys_iff\<close>)
  note cash = book_dividends_cash [OF c(2)]
  show ?thesis unfolding bk by (rule exI [of _ "concat plans"]) (use booked rows c(4,5) all cash in blast)
qed

theorem dividends_exactly_once_witness:
  "\<exists>st' amount rows. credit_dividends example_env example_store (ymd 2026 10 8) 10 None = Inr (st', 1, amount) \<and> amount = Fin 20 \<and>
     sim_dividends (ledger st') = rows \<and> length rows = 1 \<and> entitled example_env (ledger example_store) (hd rows) \<and> dv_dps (hd rows) = Fin 2"
proof -
  have "case credit_dividends example_env example_store (ymd 2026 10 8) 10 None of Inr (_, n, a) \<Rightarrow> n = 1 \<and> a = Fin 20 | Inl _ \<Rightarrow> False"
    by code_simp
  then obtain st' where c: "credit_dividends example_env example_store (ymd 2026 10 8) 10 None = Inr (st', 1, Fin 20)"
    by (auto split: sum.split_asm prod.split_asm)
  have n: "sim_dividends (ledger example_store) = []" by code_simp
  obtain actions where a: "corporate_actions example_store = Some actions" by (simp add: example_store_def)
  have "dividend_portfolios (ledger example_store) None = Inr [''A'', ''B'']" by code_simp
  from dividends_exactly_once [OF c example_opens _ a this] n obtain rows where
    "sim_dividends (ledger st') = rows" "1 = int (length rows)" "\<forall>r\<in>set rows. entitled example_env (ledger example_store) r \<and> (\<exists>a\<in>set actions. dv_dps r = coalesce (ca_value a) (Fin 0))" by auto blast
  moreover from this(2) have "length rows = 1" by simp
  moreover from a have "\<forall>x\<in>set actions. ca_value x = Some (Fin 2)" by (auto simp: example_store_def)
  ultimately show ?thesis using c by (cases rows) (auto simp: coalesce_def)
qed

end
