(* ===== verification/Margin.thy ===== *)
theory Margin
  imports Valuation "HOL-Library.AList"
begin

text \<open>
  Reg T margin, financing and the day-trading rules of \<open>src/sim/margin.py\<close>, with the order-id
  sequence of \<open>src/sim/schema.py\<close> and the account list of \<open>src/engine/accounts/__init__.py\<close>.
  \<open>desk\<close> adds to the store the orders, their details, the account events and the account state.
\<close>

section \<open>Orders and account tables\<close>

record order_row =
  ord_id :: int
  ord_portfolio :: string
  ord_ticker :: string
  ord_side :: string
  ord_qty :: float64
  ord_signal_date :: date
  ord_status :: string
  ord_reject_reason :: "string option"

record order_detail =
  od_order :: int
  od_instrument :: string
  od_instrument_kind :: string
  od_order_type :: string
  od_side :: string
  od_limit_px :: "float64 option"
  od_contingent_on :: "int option"
  od_session_date :: date
  od_received_at :: datetime
  od_state :: string
  od_state_reason :: "string option"
  od_state_at :: datetime

text \<open>The payloads the modelled code writes, compares and reads back, one constructor per shape of JSON object:
  a margin call, the evidence of a halt, a resume (who, note, anchor equity and anchor session), a client
  cancellation, a retirement request (close session, queued and cancelled orders), the end of a retirement, the
  marks of a persisted close, the evidence of a failed verification, a note on a locate (instrument and session), a stale
  mark (instrument, session, source, price and observation), a session whose marks are all current, a captured split
  (instrument, ex-date and ratio), a failed settlement (session, exception and message) and a concentration alert
  (session, instrument, holders, notional, median dollar volume and triggers).\<close>

datatype halt_detail =
    NoDetail
  | Note string
  | Reconciliation date string
  | Drawdown float64 float64 float64
  | DailyLoss float64 float64 float64

datatype payload =
    MarginCall date float64 float64 float64
  | HaltedBy string "int list" halt_detail
  | Resumed string string float64 "date option"
  | CancelledOrder int
  | Retirement date "int list" "int list"
  | Flat
  | EquityCheckpoint date "(string \<times> float64) list"
  | Evidence string
  | LocateNote string date
  | StaleMark string date string float64 datetime
  | MarkedSession date
  | SplitNote string date float64
  | ErrorNote date string string
  | Alert date string nat float64 "float64 option" "string list"
  | RawPayload string

record account_event =
  ae_id :: int
  ae_portfolio :: string
  ae_kind :: string
  ae_payload :: payload
  ae_created :: datetime

record account_state_row =
  as_portfolio :: string
  as_peak_equity :: float64
  as_prior_close_equity :: "float64 option"
  as_drawdown_anchor :: "float64 option"
  as_halted_at :: "datetime option"
  as_halt_reason :: "string option"
  as_resumed_at :: "datetime option"
  as_resumed_by :: "string option"
  as_pdt_flagged_at :: "datetime option"
  as_pdt_restricted_until :: "date option"
  as_retired_at :: "datetime option"
  as_updated_at :: datetime

record desk =
  d_store :: store
  sim_orders :: "order_row list"
  sim_order_details :: "order_detail list"
  order_sequence :: "int option"
  account_events :: "account_event list option"
  account_state :: "account_state_row list option"

definition desk_book :: "desk \<Rightarrow> book" where
  "desk_book dk = ledger (d_store dk)"

definition max_order_id :: "desk \<Rightarrow> int" where
  "max_order_id dk = (case map ord_id (sim_orders dk) of [] \<Rightarrow> 0 | i # is \<Rightarrow> fold max is i)"

text \<open>A sequence is the value its next \<open>nextval\<close> returns.\<close>

definition bootstrap_order_sequence :: "desk \<Rightarrow> desk" where
  "bootstrap_order_sequence dk =
     (if order_sequence dk \<noteq> None then dk else dk\<lparr>order_sequence := Some (max_order_id dk + 1)\<rparr>)"

definition next_order_id :: "desk \<Rightarrow> desk \<times> int" where
  "next_order_id dk =
     (let dk1 = bootstrap_order_sequence dk; maximum = max_order_id dk1; candidate = the (order_sequence dk1) in
      if candidate \<le> maximum then (dk1\<lparr>order_sequence := Some (maximum + 2)\<rparr>, maximum + 1)
      else (dk1\<lparr>order_sequence := Some (candidate + 1)\<rparr>, candidate))"

definition account_portfolios :: "book \<Rightarrow> bool \<Rightarrow> (string \<times> settings) list outcome" where
  "account_portfolios bk active_only =
     bindE (mapE (\<lambda>pid. bindE (portfolio_account bk pid) (\<lambda>st. Inr (pid, st))) (sort (map pf_id (portfolios bk)))) (\<lambda>rows.
     Inr (filter (\<lambda>(_, st). engine st = ''account'' \<and> (active_only \<longrightarrow> account_status st = ''active'')) rows))"

section \<open>Margin state\<close>

definition PDT_MIN_EQUITY :: float64 where "PDT_MIN_EQUITY = Fin 25000"
definition PDT_MAX_DAY_TRADES :: nat where "PDT_MAX_DAY_TRADES = 3"
definition PDT_WINDOW_SESSIONS :: nat where "PDT_WINDOW_SESSIONS = 5"
definition PDT_RESTRICTION_DAYS :: int where "PDT_RESTRICTION_DAYS = 90"
definition DAY_TRADE_RULES :: "string list" where "DAY_TRADE_RULES = [''pdt_25k_legacy'', ''intraday_margin_2026'']"

record MarginState =
  ms_equity :: float64
  ms_long_market_value :: float64
  ms_short_market_value :: float64
  ms_initial_requirement :: float64
  ms_maintenance_requirement :: float64
  ms_initial_excess :: float64
  ms_maintenance_excess :: float64

record PDTResult =
  pdt_allowed :: bool
  pdt_reason :: "string option"
  pdt_creates_day_trade :: bool
  pdt_trailing_day_trades :: nat
  pdt_rule :: string

definition get_day_trade_rule :: "book \<Rightarrow> string \<Rightarrow> string outcome" where
  "get_day_trade_rule bk pid =
     bindE (portfolio_account bk pid) (\<lambda>st.
     bindE (raise_if (day_trade_rule st \<notin> set DAY_TRADE_RULES) (ValueError ''unknown day_trade_rule'')) (\<lambda>_.
     Inr (day_trade_rule st)))"

type_synonym marks = "(string \<times> float64 \<times> float64) list"

definition marks_of ::
    "'e env_scheme \<Rightarrow> store \<Rightarrow> string \<Rightarrow> date \<Rightarrow> string \<Rightarrow> stamp option \<Rightarrow> stamp option \<Rightarrow> marks outcome" where
  "marks_of e st pid day price_source as_of available_at =
     mapE (\<lambda>r. bindE (mark e st pid (pos_ticker r) day (Some price_source) as_of available_at) (\<lambda>m.
             Inr (pos_ticker r, pos_qty r, mk_price m)))
       (filter (\<lambda>r. pos_portfolio r = pid \<and> pos_qty r \<noteq> Fin 0) (sim_positions (ledger st)))"

text \<open>The cash and marks after a projected fill.\<close>

definition project_fill ::
    "string \<times> string \<times> float64 \<times> float64 \<Rightarrow> float64 \<Rightarrow> marks \<Rightarrow> (float64 \<times> marks) outcome" where
  "project_fill projected cash marks =
     (let (ticker, side, qty, price) = projected;
          current = (case map_of marks ticker of Some (q, _) \<Rightarrow> q | None \<Rightarrow> Fin 0) in
      if side = ''buy'' then
        (if flt current (Fin 0) then Inl (ValueError ''buy cannot close a short; use cover'')
         else Inr (fsub cash (fmul qty price), AList.update ticker (fadd current qty, price) marks))
      else if side = ''sell'' then
        (let q = fmin qty (fmax current (Fin 0))
         in Inr (fadd cash (fmul q price), AList.update ticker (fsub current q, price) marks))
      else if side = ''short'' then
        (if flt (Fin 0) current then Inl (ValueError ''short cannot close a long; use sell'')
         else Inr (fadd cash (fmul qty price), AList.update ticker (fsub current qty, price) marks))
      else if side = ''cover'' then
        (let q = fmin qty (fabs (fmin current (Fin 0)))
         in Inr (fsub cash (fmul q price), AList.update ticker (fadd current q, price) marks))
      else Inl (ValueError ''unknown side''))"

definition margin_of :: "float64 \<Rightarrow> marks \<Rightarrow> MarginState" where
  "margin_of cash marks =
     (let longs = filter (\<lambda>(q, _). flt (Fin 0) q) (map snd marks);
          shorts = filter (\<lambda>(q, _). flt q (Fin 0)) (map snd marks);
          long_value = py_sum (map (\<lambda>(q, p). fmul q p) longs);
          short_value = py_sum (map (\<lambda>(q, p). fmul (fabs q) p) shorts);
          short_share_floor = py_sum (map (\<lambda>(q, _). fmul (fabs q) (Fin 5)) shorts);
          equity = fsub (fadd cash long_value) short_value;
          initial = fadd (fmul (Fin (1 / 2)) long_value) (fmul (Fin (1 / 2)) short_value);
          maintenance = fadd (fmul (Fin (1 / 4)) long_value) (fmax (fmul (lit (30 / 100)) short_value) short_share_floor)
      in \<lparr>ms_equity = equity, ms_long_market_value = long_value, ms_short_market_value = short_value,
          ms_initial_requirement = initial, ms_maintenance_requirement = maintenance,
          ms_initial_excess = fsub equity initial, ms_maintenance_excess = fsub equity maintenance\<rparr>)"

definition margin_state ::
    "'e env_scheme \<Rightarrow> store \<Rightarrow> string \<Rightarrow> date \<Rightarrow> (string \<times> string \<times> float64 \<times> float64) option \<Rightarrow> float64 \<Rightarrow> string
     \<Rightarrow> stamp option \<Rightarrow> stamp option \<Rightarrow> MarginState outcome" where
  "margin_state e st pid day projected fees price_source as_of available_at =
     bindE (get_cash (ledger st) pid) (\<lambda>cash0.
     bindE (marks_of e st pid day price_source as_of available_at) (\<lambda>marks0.
     bindE (case projected of None \<Rightarrow> Inr (fsub cash0 fees, marks0)
            | Some p \<Rightarrow> project_fill p (fsub cash0 fees) marks0) (\<lambda>(cash, marks).
     Inr (margin_of cash marks))))"

definition initial_margin_allows ::
    "'e env_scheme \<Rightarrow> store \<Rightarrow> string \<Rightarrow> string \<Rightarrow> string \<Rightarrow> float64 \<Rightarrow> float64 \<Rightarrow> date \<Rightarrow> float64 \<Rightarrow> string
     \<Rightarrow> stamp option \<Rightarrow> stamp option \<Rightarrow> bool outcome" where
  "initial_margin_allows e st pid ticker side qty price day fees price_source as_of available_at =
     bindE (margin_state e st pid day (Some (ticker, side, qty, price)) fees price_source as_of available_at) (\<lambda>s.
     Inr (fle (fneg TOL9) (ms_initial_excess s)))"

section \<open>Day trades\<close>

text \<open>The loop that collects the latest \<open>count\<close> sessions up to a day, newest first.\<close>

fun sessions_back :: "nat \<Rightarrow> date \<Rightarrow> date list" where
  "sessions_back 0 d = []"
| "sessions_back (Suc n) d = (let s = session_upto d in s # sessions_back n (s - 1))"

definition window_start :: "date \<Rightarrow> nat \<Rightarrow> date outcome" where
  "window_start day count = (case sessions_back count day of
     [] \<Rightarrow> Inl (ValueError ''min() arg is an empty sequence'') | s # ss \<Rightarrow> Inr (fold min ss s))"

definition prior_close_equity :: "store \<Rightarrow> string \<Rightarrow> date \<Rightarrow> float64 outcome" where
  "prior_close_equity st pid day =
     (case first_by (\<lambda>a b. eq_date b < eq_date a) (filter (\<lambda>r. eq_portfolio r = pid \<and> eq_date r < day) (sim_equity st)) of
        Some r \<Rightarrow> Inr (eq_equity r)
      | None \<Rightarrow>
          (case portfolio_row_of (ledger st) pid of
             None \<Rightarrow> Inl (KeyError ''unknown portfolio'')
           | Some p \<Rightarrow> Inr (coalesce (pf_initial_cash p) (pf_cash p))))"

definition matched_day_trade_open :: "book \<Rightarrow> string \<Rightarrow> string \<Rightarrow> string \<Rightarrow> float64 \<Rightarrow> date \<Rightarrow> int option" where
  "matched_day_trade_open bk pid instrument side qty session_date =
     (if side \<notin> {''sell'', ''cover''} then None
      else map_option ml_order (find (\<lambda>l. ml_opened l = session_date)
             (snd (match_lots bk pid instrument qty (side = ''cover'') False))))"

definition would_create_day_trade :: "book \<Rightarrow> string \<Rightarrow> string \<Rightarrow> string \<Rightarrow> float64 \<Rightarrow> date \<Rightarrow> bool" where
  "would_create_day_trade bk pid instrument side qty session_date \<longleftrightarrow>
     matched_day_trade_open bk pid instrument side qty session_date \<noteq> None"

definition trailing_day_trades :: "book \<Rightarrow> string \<Rightarrow> date \<Rightarrow> nat outcome" where
  "trailing_day_trades bk pid day =
     bindE (window_start day PDT_WINDOW_SESSIONS) (\<lambda>start.
     Inr (length (filter (\<lambda>t. dt_portfolio t = pid \<and> start \<le> dt_session t \<and> dt_session t \<le> day) (sim_day_trades bk))))"

definition restricted_until :: "desk \<Rightarrow> string \<Rightarrow> date option" where
  "restricted_until dk pid = (case account_state dk of
     None \<Rightarrow> None
   | Some rows \<Rightarrow> Option.bind (find (\<lambda>r. as_portfolio r = pid) rows) as_pdt_restricted_until)"

definition flag_pdt :: "desk \<Rightarrow> string \<Rightarrow> date \<Rightarrow> datetime \<Rightarrow> desk" where
  "flag_pdt dk pid day now = (case account_state dk of
     None \<Rightarrow> dk
   | Some rows \<Rightarrow>
       (let restricted = day + PDT_RESTRICTION_DAYS in
        dk\<lparr>account_state := Some (update_rows (\<lambda>r. as_portfolio r = pid)
             (\<lambda>r. r\<lparr>as_pdt_flagged_at := Some (coalesce (as_pdt_flagged_at r) now),
                    as_pdt_restricted_until := Some (max (coalesce (as_pdt_restricted_until r) restricted) restricted),
                    as_updated_at := now\<rparr>) rows)\<rparr>))"

definition pdt_check ::
    "'e env_scheme \<Rightarrow> desk \<Rightarrow> datetime \<Rightarrow> string \<Rightarrow> string \<Rightarrow> string \<Rightarrow> float64 \<Rightarrow> date \<Rightarrow> float64 option \<Rightarrow> string option
     \<Rightarrow> stamp option \<Rightarrow> stamp option \<Rightarrow> (desk \<times> PDTResult) outcome" where
  "pdt_check e dk now pid instrument side qty session_date price price_source as_of available_at =
     (let bk = desk_book dk; creates = would_create_day_trade bk pid instrument side qty session_date in
      bindE (get_day_trade_rule bk pid) (\<lambda>rule.
      bindE (trailing_day_trades bk pid session_date) (\<lambda>count.
      bindE (portfolio_account bk pid) (\<lambda>st.
      let result = (\<lambda>ok reason. \<lparr>pdt_allowed = ok, pdt_reason = reason, pdt_creates_day_trade = creates,
                      pdt_trailing_day_trades = count, pdt_rule = rule\<rparr>) in
      if account_type st \<noteq> ''margin'' then Inr (dk, result True None)
      else if rule = ''intraday_margin_2026'' then
        (case price of
           Some px \<Rightarrow>
             if side \<in> {''buy'', ''short''} then
               bindE (initial_margin_allows e (d_store dk) pid instrument side qty px session_date (Fin 0)
                        (case price_source of Some s \<Rightarrow> if s = [] then account_price_source st else s | None \<Rightarrow> account_price_source st)
                        as_of available_at) (\<lambda>ok.
               Inr (dk, if ok then result True None else result False (Some ''reg_t_initial'')))
             else Inr (dk, result True None)
         | None \<Rightarrow> Inr (dk, result True None))
      else
        bindE (prior_close_equity (d_store dk) pid session_date) (\<lambda>prior_equity.
        if (case restricted_until dk pid of Some r \<Rightarrow> session_date \<le> r | None \<Rightarrow> False) \<and>
           flt prior_equity PDT_MIN_EQUITY \<and> side \<in> {''buy'', ''short''}
        then Inr (dk, result False (Some ''pdt_restricted''))
        else if creates \<and> flt prior_equity PDT_MIN_EQUITY \<and> PDT_MAX_DAY_TRADES \<le> count
        then Inr (flag_pdt dk pid session_date now, result False (Some ''pdt_limit''))
        else Inr (dk, result True None))))))"

section \<open>Interest\<close>

fun str_nat :: "nat \<Rightarrow> string" where
  "str_nat n = (if n < 10 then [char_of (48 + n)] else str_nat (n div 10) @ [char_of (48 + n mod 10)])"

definition processing :: "settings \<Rightarrow> bool" where
  "processing st \<longleftrightarrow> account_status st \<in> {''active'', ''halted'', ''retiring''}"

definition accrual_dates :: "book \<Rightarrow> string \<Rightarrow> date \<Rightarrow> int option \<Rightarrow> date list outcome" where
  "accrual_dates bk pid day days = (case days of
     None \<Rightarrow>
       (let prior = map ce_date (filter (\<lambda>r. ce_portfolio r = pid \<and> ce_kind r = ''margin_interest'' \<and> ce_date r < day) (sim_cash_events bk));
            start = (case prior of [] \<Rightarrow> session_upto (day - 1) | d # ds \<Rightarrow> fold max ds d)
        in Inr (map (\<lambda>k. start + int k) [1..<nat (day - start) + 1]))
   | Some n \<Rightarrow>
       if n < 0 then Inl (ValueError ''days must be non-negative'')
       else Inr (map (\<lambda>k. day - int k) (rev [0..<nat n])))"

definition interest_event :: "'e env_scheme \<Rightarrow> string \<Rightarrow> date \<Rightarrow> float64 \<Rightarrow> nat \<Rightarrow> cash_event" where
  "interest_event e pid day fee n =
     \<lparr>c_portfolio = pid, c_date = day, c_kind = ''margin_interest'', c_amount = PFloat (fneg fee), c_seq = None,
      c_instrument = None, c_ref_order = None, c_note = Some (str_nat n @ '' calendar day(s)''),
      c_created = Some (fst (session_bounds e day))\<rparr>"

text \<open>The body of the loop: the book, the number of events and the total charged so far.\<close>

definition interest_step ::
    "'e env_scheme \<Rightarrow> datetime \<Rightarrow> date \<Rightarrow> int option \<Rightarrow> bool \<Rightarrow> book \<times> nat \<times> float64 \<Rightarrow> string \<times> settings
     \<Rightarrow> (book \<times> nat \<times> float64) outcome" where
  "interest_step e now day days replay s p =
     (let (bk, count, charged) = s; (pid, st) = p in
      bindE (get_cash bk pid) (\<lambda>cash.
      if (\<exists>r\<in>set (sim_cash_events bk). ce_portfolio r = pid \<and> ce_date r = day \<and> ce_kind r = ''margin_interest'') \<and> \<not> replay
      then Inr s
      else
        bindE (accrual_dates bk pid day days) (\<lambda>dates.
        bindE (mapE (\<lambda>d. margin_interest (fmax (fneg cash) (Fin 0)) 1 d (ProfileId (cost_profile st))) dates) (\<lambda>fees.
        let fee = py_sum fees in
        bindE (post_accrual e bk now (interest_event e pid day fee (length dates)) replay) (\<lambda>(bk', _).
        Inr (bk', count + 1, fadd charged fee))))))"

definition accrue_interest ::
    "'e env_scheme \<Rightarrow> book \<Rightarrow> datetime \<Rightarrow> date \<Rightarrow> int option \<Rightarrow> string option \<Rightarrow> bool \<Rightarrow> (book \<times> nat \<times> float64) outcome" where
  "accrue_interest e bk now day days portfolio_id replay =
     bindE (account_portfolios bk False) (\<lambda>rows.
     foldE (interest_step e now day days replay) (bk, 0, Fin 0)
       (filter (\<lambda>(pid, st). processing st \<and> (case portfolio_id of None \<Rightarrow> True | Some q \<Rightarrow> pid = q)) rows))"

section \<open>Maintenance calls\<close>

definition add_account_event :: "account_event list \<Rightarrow> string \<Rightarrow> string \<Rightarrow> payload \<Rightarrow> datetime \<Rightarrow> account_event list" where
  "add_account_event evs pid kind body now =
     (let next = (case map ae_id evs of [] \<Rightarrow> 0 | i # is \<Rightarrow> fold max is i) + 1
      in evs @ [\<lparr>ae_id = next, ae_portfolio = pid, ae_kind = kind, ae_payload = body, ae_created = now\<rparr>])"

definition record_margin_call :: "desk \<Rightarrow> string \<Rightarrow> date \<Rightarrow> MarginState \<Rightarrow> datetime \<Rightarrow> desk" where
  "record_margin_call dk pid day s now = (case account_events dk of
     None \<Rightarrow> dk
   | Some evs \<Rightarrow>
       (let body = MarginCall day (ms_equity s) (ms_maintenance_requirement s) (ms_maintenance_excess s) in
        if \<exists>v\<in>set evs. ae_portfolio v = pid \<and> ae_kind v = ''margin_call'' \<and> ae_payload v = body then dk
        else dk\<lparr>account_events := Some (add_account_event evs pid ''margin_call'' body now)\<rparr>))"

text \<open>SQL \<open>LIKE 'p%'\<close>: an underscore of the pattern stands for any one character.\<close>

definition like_prefix :: "string \<Rightarrow> string option \<Rightarrow> bool" where
  "like_prefix p s = (case s of None \<Rightarrow> False | Some x \<Rightarrow> list_all2 (\<lambda>c d. c = CHR ''_'' \<or> c = d) p (take (length p) x))"

lemma like_prefix_refl [simp]: "like_prefix p (Some p)"
  by (simp add: like_prefix_def list_all2_refl)

definition has_pending :: "desk \<Rightarrow> string \<Rightarrow> string \<Rightarrow> string option \<Rightarrow> string \<Rightarrow> bool" where
  "has_pending dk pid ticker side reason \<longleftrightarrow>
     (\<exists>o1\<in>set (sim_orders dk). \<exists>d\<in>set (sim_order_details dk). od_order d = ord_id o1 \<and> ord_portfolio o1 = pid \<and>
        ord_ticker o1 = ticker \<and> ord_status o1 = ''pending'' \<and> (case side of None \<Rightarrow> True | Some s \<Rightarrow> ord_side o1 = s) \<and>
        like_prefix reason (od_state_reason d))"

text \<open>The two INSERTs of a forced next-open order.\<close>

definition queue_order ::
    "desk \<Rightarrow> string \<Rightarrow> string \<Rightarrow> string \<Rightarrow> float64 \<Rightarrow> date \<Rightarrow> datetime \<Rightarrow> string \<Rightarrow> desk \<times> int" where
  "queue_order dk pid ticker side amount day received reason =
     (let (dk1, oid) = next_order_id dk in
      (dk1\<lparr>sim_orders := sim_orders dk1 @ [\<lparr>ord_id = oid, ord_portfolio = pid, ord_ticker = ticker, ord_side = side, ord_qty = amount,
             ord_signal_date = day, ord_status = ''pending'', ord_reject_reason = None\<rparr>],
           sim_order_details := sim_order_details dk1 @ [\<lparr>od_order = oid, od_instrument = ticker, od_instrument_kind = ''stock'',
             od_order_type = ''next_open'', od_side = side, od_limit_px = None, od_contingent_on = None,
             od_session_date = day, od_received_at = received, od_state = ''queued'',
             od_state_reason = Some reason, od_state_at = received\<rparr>]\<rparr>, oid))"

definition reduction_step ::
    "string \<Rightarrow> date \<Rightarrow> datetime \<Rightarrow> float64 \<Rightarrow> position \<Rightarrow> desk \<times> int list \<Rightarrow> desk \<times> int list" where
  "reduction_step pid day received ratio r acc =
     (let (dk, queued) = acc;
          side = (if flt (Fin 0) (pos_qty r) then ''sell'' else ''cover'');
          amount = fmul (fabs (pos_qty r)) ratio in
      if fle amount DUST \<or> has_pending dk pid (pos_ticker r) None ''margin_call'' then acc
      else (let (dk', oid) = queue_order dk pid (pos_ticker r) side amount day received ''margin_call'' in (dk', queued @ [oid])))"

definition queue_margin_reductions ::
    "'e env_scheme \<Rightarrow> desk \<Rightarrow> datetime \<Rightarrow> string \<Rightarrow> date \<Rightarrow> (desk \<times> int list) outcome" where
  "queue_margin_reductions e dk now pid day =
     bindE (portfolio_account (desk_book dk) pid) (\<lambda>st.
     bindE (margin_state e (d_store dk) pid day None (Fin 0) (account_price_source st) None None) (\<lambda>s.
     if fle (Fin 0) (ms_maintenance_excess s) \<or> fle (ms_maintenance_requirement s) (Fin 0) then Inr (dk, [])
     else
       (let dk1 = record_margin_call dk pid day s now in
        bindE (fdiv (fneg (ms_maintenance_excess s)) (ms_maintenance_requirement s)) (\<lambda>shortfall.
        let ratio = fmin (Fin 1) shortfall;
            held = sort_key pos_ticker (filter (\<lambda>r. pos_portfolio r = pid \<and> pos_qty r \<noteq> Fin 0) (sim_positions (desk_book dk))) in
        Inr (fold (reduction_step pid day (snd (session_bounds e day)) ratio) held (dk1, []))))))"

text \<open>The loop assigns to the parameter \<open>portfolio_id\<close> that its own filter reads.\<close>

definition maintenance_step ::
    "'e env_scheme \<Rightarrow> datetime \<Rightarrow> date \<Rightarrow> desk \<times> string option \<times> (string \<times> int list) list \<Rightarrow> string \<times> settings
     \<Rightarrow> (desk \<times> string option \<times> (string \<times> int list) list) outcome" where
  "maintenance_step e now day s p =
     (let (dk, portfolio_id, out) = s; (pid, st) = p in
      if \<not> processing st then Inr s
      else if (case portfolio_id of None \<Rightarrow> False | Some q \<Rightarrow> pid \<noteq> q) then Inr s
      else if account_type st \<noteq> ''margin'' then Inr s
      else bindE (queue_margin_reductions e dk now pid day) (\<lambda>(dk', queued).
           Inr (dk', Some pid, if queued = [] then out else AList.update pid queued out)))"

definition check_maintenance ::
    "'e env_scheme \<Rightarrow> desk \<Rightarrow> datetime \<Rightarrow> date \<Rightarrow> string option \<Rightarrow> (desk \<times> (string \<times> int list) list) outcome" where
  "check_maintenance e dk now day portfolio_id =
     bindE (account_portfolios (desk_book dk) False) (\<lambda>rows.
     bindE (foldE (maintenance_step e now day) (dk, portfolio_id, []) rows) (\<lambda>(dk', _, out).
     Inr (dk', out)))"

definition example_state :: account_state_row where
  "example_state = \<lparr>as_portfolio = ''A'', as_peak_equity = Fin 1000, as_prior_close_equity = Some (Fin 1000),
     as_drawdown_anchor = Some (Fin 1000), as_halted_at = None, as_halt_reason = None, as_resumed_at = None,
     as_resumed_by = None, as_pdt_flagged_at = None, as_pdt_restricted_until = None, as_retired_at = None,
     as_updated_at = 0\<rparr>"

text \<open>Two margin accounts, both below maintenance.\<close>

definition example_desk :: desk where
  "example_desk =
     (let row = (\<lambda>pid. \<lparr>pf_id = pid, pf_active = True, pf_cash = Fin (- 900), pf_initial_cash = None, pf_strategy = ''momentum'', pf_external_sha256 = None,
                     pf_created = ymd 2026 1 2, pf_execution_profile = None\<rparr>);
          acct = (\<lambda>pid. \<lparr>pa_portfolio_id = pid, pa_engine = Some ''account'', pa_cost_profile = None, pa_account_type = Some ''margin'',
                   pa_visibility = None, pa_status = Some ''active'', pa_price_source = None, pa_day_trade_rule = None, pa_allow_short = None\<rparr>);
          pos = (\<lambda>pid. \<lparr>pos_portfolio = pid, pos_ticker = ''SPY'', pos_qty = Fin 100, pos_cost = Fin 10\<rparr>);
          bk = example_book\<lparr>portfolios := [row ''A'', row ''B''], portfolio_accounts := [acct ''A'', acct ''B''],
                 sim_positions := [pos ''A'', pos ''B''],
                 sim_position_lots := [\<lparr>lot_portfolio = ''A'', lot_instrument = ''SPY'', lot_opened = ymd 2026 10 6, lot_order = 8,
                                       lot_qty = Fin 100, lot_px = Fin 10\<rparr>],
                 sim_day_trades := map (\<lambda>k. \<lparr>dt_portfolio = ''A'', dt_session = ymd 2026 10 5, dt_instrument = ''SPY'',
                                       dt_open_order = k, dt_close_order = Some (k + 1)\<rparr>) [1, 3, 5],
                 sim_fills := []\<rparr>
      in \<lparr>d_store = example_store\<lparr>ledger := bk\<rparr>, sim_orders = [], sim_order_details = [], order_sequence = None,
          account_events = Some [],
          account_state = Some [example_state]\<rparr>)"

section \<open>Order ids\<close>

lemma max_order_id_ge: "r \<in> set (sim_orders dk) \<Longrightarrow> ord_id r \<le> max_order_id dk"
proof -
  assume "r \<in> set (sim_orders dk)"
  then have "ord_id r \<in> set (map ord_id (sim_orders dk))" by simp
  then show ?thesis
    using fold_max_ge [of "ord_id r"] unfolding max_order_id_def
    by (cases "map ord_id (sim_orders dk)") auto
qed

lemma next_order_id_spec:
  assumes "next_order_id dk = (dk', i)"
  shows "max_order_id dk < i" "order_sequence dk' = Some (i + 1)" "sim_orders dk' = sim_orders dk"
    "order_sequence dk = Some s \<Longrightarrow> s \<le> i" "desk_book dk' = desk_book dk" "d_store dk' = d_store dk"
  using assms
  by (auto simp: next_order_id_def bootstrap_order_sequence_def Let_def max_order_id_def desk_book_def split: if_splits)

text \<open>A run of issues, with arbitrary deletions and inserts between them: the desk is only required to keep
  its sequence.\<close>

inductive issues :: "desk \<Rightarrow> int list \<Rightarrow> desk \<Rightarrow> bool" where
  none: "issues dk [] dk"
| issue: "next_order_id dk = (dk1, i) \<Longrightarrow> order_sequence dk2 = order_sequence dk1 \<Longrightarrow> issues dk2 is dk' \<Longrightarrow> issues dk (i # is) dk'"

inductive_cases issues_ConsE: "issues dk (i # is) dk'"

lemma issues_above: "issues dk is dk' \<Longrightarrow> order_sequence dk = Some s \<Longrightarrow> (\<forall>i\<in>set is. s \<le> i) \<and> sorted_wrt (<) is"
proof (induction arbitrary: s rule: issues.induct)
  case (issue dk dk1 i dk2 "is" dk')
  have q: "order_sequence dk2 = Some (i + 1)" "s \<le> i"
    using issue.hyps(1,2) issue.prems next_order_id_spec by auto
  from issue.IH [OF q(1)] q(2) show ?case by auto
qed simp

text \<open>C39: Order ids are never reused. In any run of \<open>next_order_id\<close> calls, whatever orders are inserted or deleted
  between them, the ids issued increase strictly, and each one is above every order stored when it was issued.\<close>

theorem order_ids_increase:
  assumes "issues dk is dk'"
  shows "sorted_wrt (<) is \<and> (is \<noteq> [] \<longrightarrow> (\<forall>r\<in>set (sim_orders dk). ord_id r < hd is))"
  using assms
proof (cases rule: issues.cases)
  case (issue dk1 i dk2 is')
  have q: "order_sequence dk2 = Some (i + 1)" using issue next_order_id_spec by simp
  have "\<forall>r\<in>set (sim_orders dk). ord_id r < i"
    using max_order_id_ge [of _ dk] next_order_id_spec(1) [OF issue(2)] by fastforce
  then show ?thesis using issues_above [OF issue(4) q] issue(1) by auto
qed simp

theorem order_ids_increase_witness:
  "\<exists>dk'. issues example_desk [1, 2] dk' \<and> sorted_wrt (<) [1, 2 :: int]"
proof -
  obtain dk1 where 1: "next_order_id example_desk = (dk1, 1)" and s1: "order_sequence dk1 = Some 2" "sim_orders dk1 = []"
    by (simp add: next_order_id_def bootstrap_order_sequence_def max_order_id_def example_desk_def Let_def)
  obtain dk2 where 2: "next_order_id dk1 = (dk2, 2)"
    using s1 by (simp add: next_order_id_def bootstrap_order_sequence_def max_order_id_def Let_def)
  have "issues example_desk [1, 2] dk2" by (rule issue [OF 1 refl], rule issue [OF 2 refl], rule none)
  then show ?thesis using order_ids_increase by blast
qed

section \<open>The preview of a day trade\<close>

lemma match_loop_preview: "snd (match_loop pid i cs c r ls t) = snd (match_loop pid i cs c' r ls t')"
proof (induction ls arbitrary: r t t')
  case (Cons l ls)
  show ?case
    using Cons.IH [of "fsub r (fmin r (fabs (lot_qty l)))"] by (simp add: Let_def split_beta)
qed simp

lemma match_lots_preview: "snd (match_lots bk pid i q cs c) = snd (match_lots bk pid i q cs c')"
  using match_loop_preview by (simp add: match_lots_def split_beta)

lemma apply_close_day_trade:
  assumes "apply_close bk fl st cs (Fin q) px m (Fin h) cc fee = Inr (Some ef)" "engine st = ''account''"
  shows "\<exists>b. same_accounts bk b \<and> sim_day_trades b = sim_day_trades bk \<and> record_day_trade b fl (ef_matched ef) = Inr (ef_book ef)"
proof -
  let ?q = "if flt (if cs then fabs (Fin h) else Fin h) (Fin q) then (if cs then fabs (Fin h) else Fin h) else Fin q"
  obtain b ms where m: "match_lots bk (f_portfolio fl) (f_instrument fl) ?q cs True = (b, ms)" by (metis surj_pair)
  have b: "sim_day_trades b = sim_day_trades bk" "same_accounts bk b"
    using m same_accounts_match_lots by (auto simp: match_lots_def split: if_splits prod.splits)
  have "record_day_trade b fl (ef_matched ef) = Inr (ef_book ef)"
    using assms unfolding apply_close_def Let_def m by (auto simp: bindE_eq_Inr split: if_split_asm)
  then show ?thesis using b by blast
qed

text \<open>C29: The day-trade preview is exact. For an account-engine sale or cover that \<open>apply_fill\<close> applies, the fill
  records a day trade if and only if \<open>would_create_day_trade\<close>, which matches lots without consuming them,
  said so for the applied quantity on the book before the fill; and the recorded opening order is the previewed one.\<close>

theorem day_trade_preview_exact:
  assumes "apply_fill e bk fl fees persist = Inr (bk', applied, ms)" "applied \<noteq> Fin 0"
    and "f_side fl \<in> {''sell'', ''cover''}" "portfolio_account bk (f_portfolio fl) = Inr st" "engine st = ''account''"
    and "f_session fl = Some d"
  shows "sim_day_trades bk' = sim_day_trades bk @
    (if would_create_day_trade bk (f_portfolio fl) (f_instrument fl) (f_side fl) applied d
     then [\<lparr>dt_portfolio = f_portfolio fl, dt_session = d, dt_instrument = f_instrument fl,
            dt_open_order = the (matched_day_trade_open bk (f_portfolio fl) (f_instrument fl) (f_side fl) applied d),
            dt_close_order = f_order fl\<rparr>] else [])"
proof (cases rule: apply_fill_cases [OF assms(1)])
  case 1
  then show ?thesis using assms(2) by simp
next
  case (2 q p m pf st' hq hc fee ef)
  let ?cs = "f_side fl = ''cover''"
  have st: "st' = st" using 2 assms(4) by simp
  have c: "apply_close bk fl st ?cs (Fin q) (Fin p) (Fin m) (Fin hq) (Fin hc) fee = Inr (Some ef)"
    using 2(11) assms(3) st by (auto simp: side_effect_def)
  have fin: "sim_day_trades bk' = sim_day_trades (ef_book ef)" "applied = ef_applied ef"
    using 2(12) finish_fill_position [OF 2(12)]
    by (auto simp: finish_fill_def persist_fees_def put_position_def add_cash_def Let_def bindE_eq_Inr split: option.splits if_splits)
  have mt: "ef_matched ef = snd (match_lots bk (f_portfolio fl) (f_instrument fl) applied ?cs False)"
    using apply_close_effect [OF c] match_lots_preview fin(2) by simp
  obtain b where b: "sim_day_trades b = sim_day_trades bk" "record_day_trade b fl (ef_matched ef) = Inr (ef_book ef)"
    using apply_close_day_trade [OF c assms(5)] by blast
  have side: "f_side fl \<in> {''sell'', ''cover''}" by (rule assms(3))
  have pre: "matched_day_trade_open bk (f_portfolio fl) (f_instrument fl) (f_side fl) applied d =
      map_option ml_order (find (\<lambda>l. ml_opened l = d) (ef_matched ef))"
    using side by (simp add: matched_day_trade_open_def mt)
  show ?thesis
  proof (cases "find (\<lambda>l. ml_opened l = d) (ef_matched ef)")
    case None
    then show ?thesis using b assms(6) fin(1) pre by (simp add: record_day_trade_def would_create_day_trade_def)
  next
    case (Some l)
    have "ml_opened l = d" using find_SomeD [OF Some] by simp
    then show ?thesis using b assms(6) fin(1) pre Some
      by (auto simp: record_day_trade_def would_create_day_trade_def split: if_split_asm dest!: sym [where t = "ef_book ef"])
  qed
qed

theorem day_trade_preview_witness:
  "\<exists>bk' ms. apply_fill example_env (desk_book example_desk) (example_sell\<lparr>f_qty := PInt 40, f_session := Some (ymd 2026 10 6)\<rparr>) None True =
       Inr (bk', Fin 40, ms) \<and>
     would_create_day_trade (desk_book example_desk) ''A'' ''SPY'' ''sell'' (Fin 40) (ymd 2026 10 6) \<and>
     length (sim_day_trades bk') = 4"
proof -
  let ?f = "example_sell\<lparr>f_qty := PInt 40, f_session := Some (ymd 2026 10 6)\<rparr>"
  have "case apply_fill example_env (desk_book example_desk) ?f None True of Inr (_, a, _) \<Rightarrow> a = Fin 40 | Inl _ \<Rightarrow> False" by code_simp
  then obtain bk' ms where a: "apply_fill example_env (desk_book example_desk) ?f None True = Inr (bk', Fin 40, ms)"
    by (auto split: sum.split_asm prod.split_asm)
  have "case portfolio_account (desk_book example_desk) (f_portfolio ?f) of Inr st \<Rightarrow> engine st = ''account'' | Inl _ \<Rightarrow> False" by code_simp
  then obtain st where st: "portfolio_account (desk_book example_desk) (f_portfolio ?f) = Inr st" "engine st = ''account''"
    by (auto split: sum.split_asm)
  have f: "f_side ?f = ''sell''" "f_portfolio ?f = ''A''" "f_instrument ?f = ''SPY''" by (simp_all add: example_sell_def)
  have w: "would_create_day_trade (desk_book example_desk) ''A'' ''SPY'' ''sell'' (Fin 40) (ymd 2026 10 6)"
    "length (sim_day_trades (desk_book example_desk)) = 3" by code_simp+
  have "f_side ?f \<in> {''sell'', ''cover''}" using f by simp
  from day_trade_preview_exact [OF a _ this st, of "ymd 2026 10 6"] show ?thesis using a w f by simp
qed


section \<open>The pattern-day-trader restriction\<close>

lemma window_start_total: "0 < n \<Longrightarrow> \<exists>s. window_start d n = Inr s"
  by (cases n) (simp_all add: window_start_def Let_def)

lemma trailing_total: "\<exists>k. trailing_day_trades bk pid d = Inr k"
  using window_start_total [of PDT_WINDOW_SESSIONS d] by (auto simp: trailing_day_trades_def PDT_WINDOW_SESSIONS_def bindE_def)

lemma pdt_limit_cases:
  assumes "pdt_check e dk now pid i side q day px ps ao av = Inr (dk', r)" "pdt_reason r = Some ''pdt_limit''"
  shows "dk' = flag_pdt dk pid day now \<and> \<not> pdt_allowed r \<and> pdt_creates_day_trade r \<and> PDT_MAX_DAY_TRADES \<le> pdt_trailing_day_trades r \<and>
    (\<exists>st eq. portfolio_account (desk_book dk) pid = Inr st \<and> account_type st = ''margin'' \<and>
       get_day_trade_rule (desk_book dk) pid = Inr ''pdt_25k_legacy'' \<and>
       prior_close_equity (d_store dk) pid day = Inr eq \<and> flt eq PDT_MIN_EQUITY)"
  using assms
  by (auto simp: pdt_check_def Let_def bindE_eq_Inr get_day_trade_rule_def DAY_TRADE_RULES_def
      split: if_split_asm option.split_asm)

lemma flag_pdt_restricts:
  assumes "account_state dk = Some rows" "find (\<lambda>r. as_portfolio r = pid) rows = Some row"
  shows "\<exists>r. restricted_until (flag_pdt dk pid day now) pid = Some r \<and> day + PDT_RESTRICTION_DAYS \<le> r"
  using assms find_SomeD [OF assms(2)]
  by (simp add: restricted_until_def flag_pdt_def Let_def find_update_rows)

text \<open>C28: A day-trade limit refusal restricts the account for ninety days. When \<open>pdt_check\<close> refuses a close with
  \<open>pdt_limit\<close>, the account had at least three day trades in the window; and on
  the desk it leaves behind every opening order of a session in the next ninety days is refused
  with \<open>pdt_restricted\<close> while the prior equity stays below that minimum.\<close>

theorem pdt_restriction_sticks:
  assumes "pdt_check e dk now pid i side q day px ps ao av = Inr (dk', r)" "pdt_reason r = Some ''pdt_limit''"
    and "account_state dk = Some rows" "find (\<lambda>x. as_portfolio x = pid) rows = Some row"
  shows "\<not> pdt_allowed r \<and> 3 \<le> pdt_trailing_day_trades r \<and>
    (\<forall>now2 i2 side2 q2 d2 px2 ps2 ao2 av2 eq. d2 \<le> day + 90 \<and> side2 \<in> {''buy'', ''short''} \<and>
       prior_close_equity (d_store dk') pid d2 = Inr eq \<and> flt eq PDT_MIN_EQUITY \<longrightarrow>
       (\<exists>r2. pdt_check e dk' now2 pid i2 side2 q2 d2 px2 ps2 ao2 av2 = Inr (dk', r2) \<and>
             \<not> pdt_allowed r2 \<and> pdt_reason r2 = Some ''pdt_restricted''))"
proof -
  note c = pdt_limit_cases [OF assms(1,2)]
  obtain st where st: "portfolio_account (desk_book dk) pid = Inr st" "account_type st = ''margin''"
    "get_day_trade_rule (desk_book dk) pid = Inr ''pdt_25k_legacy''" using c by blast
  have bk: "desk_book dk' = desk_book dk" "d_store dk' = d_store dk"
    using c by (simp_all add: flag_pdt_def desk_book_def Let_def split: option.split)
  obtain u where u: "restricted_until dk' pid = Some u" "day + PDT_RESTRICTION_DAYS \<le> u"
    using flag_pdt_restricts [OF assms(3,4)] c by metis
  have "\<exists>r2. pdt_check e dk' now2 pid i2 side2 q2 d2 px2 ps2 ao2 av2 = Inr (dk', r2) \<and>
      \<not> pdt_allowed r2 \<and> pdt_reason r2 = Some ''pdt_restricted''"
    if "d2 \<le> day + 90" "side2 \<in> {''buy'', ''short''}" "prior_close_equity (d_store dk') pid d2 = Inr eq" "flt eq PDT_MIN_EQUITY"
    for now2 i2 side2 q2 d2 px2 ps2 ao2 av2 eq
  proof -
    obtain k where "trailing_day_trades (desk_book dk) pid d2 = Inr k" using trailing_total by blast
    then show ?thesis using that st bk u by (simp add: pdt_check_def Let_def PDT_RESTRICTION_DAYS_def)
  qed
  then show ?thesis using c by (simp add: PDT_MAX_DAY_TRADES_def)
qed

theorem pdt_restriction_witness:
  "\<exists>dk' r r2. pdt_check example_env example_desk 0 ''A'' ''SPY'' ''sell'' (Fin 40) (ymd 2026 10 6) None None None None = Inr (dk', r) \<and>
     pdt_reason r = Some ''pdt_limit'' \<and>
     pdt_check example_env dk' 0 ''A'' ''QQQ'' ''buy'' (Fin 1) (ymd 2026 12 1) None None None None = Inr (dk', r2) \<and> \<not> pdt_allowed r2"
proof -
  have "case pdt_check example_env example_desk 0 ''A'' ''SPY'' ''sell'' (Fin 40) (ymd 2026 10 6) None None None None of
      Inr (dk', r) \<Rightarrow> pdt_reason r = Some ''pdt_limit'' \<and> prior_close_equity (d_store dk') ''A'' (ymd 2026 12 1) = Inr (Fin (- 900))
    | Inl _ \<Rightarrow> False" by code_simp
  then obtain dk' r where p: "pdt_check example_env example_desk 0 ''A'' ''SPY'' ''sell'' (Fin 40) (ymd 2026 10 6) None None None None = Inr (dk', r)"
    "pdt_reason r = Some ''pdt_limit''" "prior_close_equity (d_store dk') ''A'' (ymd 2026 12 1) = Inr (Fin (- 900))"
    by (auto split: sum.split_asm prod.split_asm)
  have st: "account_state example_desk = Some [example_state]"
    by (simp add: example_desk_def Let_def)
  have "ymd 2026 12 1 \<le> ymd 2026 10 6 + 90" by code_simp
  moreover have "flt (Fin (- 900)) PDT_MIN_EQUITY" by (simp add: PDT_MIN_EQUITY_def)
  ultimately have h: "ymd 2026 12 1 \<le> ymd 2026 10 6 + 90 \<and> ''buy'' \<in> {''buy'', ''short''} \<and>
      prior_close_equity (d_store dk') ''A'' (ymd 2026 12 1) = Inr (Fin (- 900)) \<and> flt (Fin (- 900)) PDT_MIN_EQUITY"
    using p(3) by blast
  have "find (\<lambda>x. as_portfolio x = ''A'')
[example_state] = Some example_state" by (simp add: example_state_def)
  note t = pdt_restriction_sticks [OF p(1,2) st this, THEN conjunct2, THEN conjunct2, rule_format, OF h]
  then show ?thesis using p(1,2) by blast
qed

section \<open>The maintenance check examines one account\<close>

lemma maintenance_fold_first:
  assumes "find (\<lambda>(pid, st). processing st \<and> account_type st = ''margin'') rows = Some (q, st)"
  shows "foldE (maintenance_step e now day) (dk, None, []) rows = foldE (maintenance_step e now day) (dk, Some q, []) rows"
  using assms
proof (induction rows)
  case (Cons r rows)
  obtain pid st' where r: "r = (pid, st')" by (metis surj_pair)
  show ?case
  proof (cases "processing st' \<and> account_type st' = ''margin''")
    case True
    then have "pid = q" using Cons.prems r by simp
    then have "maintenance_step e now day (dk, None, []) r = maintenance_step e now day (dk, Some q, []) r"
      using r True by (simp add: maintenance_step_def)
    then show ?thesis by simp
  next
    case False
    then have "maintenance_step e now day (dk, None, []) r = Inr (dk, None, [])"
      "maintenance_step e now day (dk, Some q, []) r = Inr (dk, Some q, [])"
      using r by (auto simp: maintenance_step_def)
    moreover have "find (\<lambda>(pid, st). processing st \<and> account_type st = ''margin'') rows = Some (q, st)"
      using Cons.prems False r by simp
    ultimately show ?thesis using Cons.IH by simp
  qed
qed simp

text \<open>C40: The maintenance check for all accounts stops at the first one. Called without an account,
  \<open>check_maintenance\<close> does exactly what it does when asked for the first processing margin account in id order:
  its loop overwrites the parameter its own filter reads, so a later account below maintenance is
  never examined.\<close>

theorem check_maintenance_first_only:
  assumes "account_portfolios (desk_book dk) False = Inr rows"
    and "find (\<lambda>(pid, st). processing st \<and> account_type st = ''margin'') rows = Some (q, st)"
  shows "check_maintenance e dk now day None = check_maintenance e dk now day (Some q)"
  by (simp add: check_maintenance_def maintenance_fold_first [OF assms(2)] assms(1))

theorem check_maintenance_first_only_witness:
  "check_maintenance example_env example_desk 0 (ymd 2026 10 6) None = check_maintenance example_env example_desk 0 (ymd 2026 10 6) (Some ''A'') \<and>
   map_sum (\<lambda>x. x) snd (check_maintenance example_env example_desk 0 (ymd 2026 10 6) None) = Inr [(''A'', [1])] \<and>
   map_sum (\<lambda>x. x) snd (check_maintenance example_env example_desk 0 (ymd 2026 10 6) (Some ''B'')) = Inr [(''B'', [1])]"
proof -
  have "case account_portfolios (desk_book example_desk) False of Inl _ \<Rightarrow> False | Inr rows \<Rightarrow>
      (case find (\<lambda>(pid, st). processing st \<and> account_type st = ''margin'') rows of None \<Rightarrow> False | Some (q, _) \<Rightarrow> q = ''A'')"
    by code_simp
  then obtain rows st where "account_portfolios (desk_book example_desk) False = Inr rows"
    "find (\<lambda>(pid, st). processing st \<and> account_type st = ''margin'') rows = Some (''A'', st)"
    by (auto split: sum.split_asm option.split_asm)
  moreover have "map_sum (\<lambda>x. x) snd (check_maintenance example_env example_desk 0 (ymd 2026 10 6) (Some ''A'')) = Inr [(''A'', [1])]"
    "map_sum (\<lambda>x. x) snd (check_maintenance example_env example_desk 0 (ymd 2026 10 6) (Some ''B'')) = Inr [(''B'', [1])]"
    by code_simp+
  ultimately show ?thesis using check_maintenance_first_only [of example_desk rows "''A''" st example_env 0 "ymd 2026 10 6"] by simp
qed

end
