(* ===== verification/Shorts.thy ===== *)
theory Shorts
  imports Margin
begin

text \<open>
  Stock locates, borrow accrual and Reg SHO buy-ins of \<open>src/sim/shorts.py\<close>. The short-data store is a
  record of its own: the threshold list and the short-interest table, each with its columns, and the
  liquidity flags of the market store. A missing table is None.
\<close>

definition ETB_ANNUAL_RATE :: float64 where "ETB_ANNUAL_RATE = lit (25 / 10000)"
definition MIN_SHORT_PRICE :: float64 where "MIN_SHORT_PRICE = Fin 5"
definition MIN_SHORT_MDV :: float64 where "MIN_SHORT_MDV = Fin 5000000"
definition STALE_AFTER_SESSIONS :: int where "STALE_AFTER_SESSIONS = 10"
definition BUY_IN_THRESHOLD_SESSIONS :: nat where "BUY_IN_THRESHOLD_SESSIONS = 5"

section \<open>Point-in-time short data\<close>

text \<open>A row of a short-data table: the ticker, when it was published, the date cells by column, and the days to
  cover where the table has them.\<close>

record short_row =
  sr_ticker :: string
  sr_publication_date :: "date option"
  sr_dates :: "(string \<times> date) list"
  sr_days_to_cover :: "float64 option"

record short_table =
  sh_columns :: "string list"
  sh_rows :: "short_row list"

record short_db =
  regsho_threshold :: "short_table option"
  finra_short_interest :: "short_table option"

record liquidity_row =
  lq_ticker :: string
  lq_snapshot :: date
  lq_liquid :: bool
  lq_active :: bool

record liquidity_db =
  universe_snapshot :: "liquidity_row list option"
  universe :: "(string \<times> bool) list option"

definition columns_of :: "short_table option \<Rightarrow> string list" where
  "columns_of t = (case t of None \<Rightarrow> [] | Some x \<Rightarrow> sh_columns x)"

definition rows_of :: "short_table option \<Rightarrow> short_row list" where
  "rows_of t = (case t of None \<Rightarrow> [] | Some x \<Rightarrow> sh_rows x)"

text \<open>The calendar loop \<open>while cursor < end\<close>.\<close>

function session_days :: "date \<Rightarrow> date \<Rightarrow> int" where
  "session_days start finish =
     (if start < finish then (if is_session (start + 1) then 1 else 0) + session_days (start + 1) finish else 0)"
  by pat_completeness auto
termination
  by (relation "measure (\<lambda>(s, f). nat (f - s))") auto

declare session_days.simps [simp del]

definition previous_sessions :: "date \<Rightarrow> nat \<Rightarrow> date list" where
  "previous_sessions day count = sort (sessions_back count day)"

definition event_date_column :: "string list \<Rightarrow> string" where
  "event_date_column columns =
     (case find (\<lambda>c. c \<in> set columns) [''session_date'', ''trade_date'', ''settlement_date'', ''date'', ''as_of''] of
        Some c \<Rightarrow> c | None \<Rightarrow> ''publication_date'')"

definition event_date :: "string \<Rightarrow> short_row \<Rightarrow> date option" where
  "event_date col r = (if col = ''publication_date'' then sr_publication_date r else map_of (sr_dates r) col)"

definition published_by :: "date \<Rightarrow> short_row \<Rightarrow> bool" where
  "published_by day r = (case sr_publication_date r of None \<Rightarrow> False | Some p \<Rightarrow> p \<le> day)"

definition published_through :: "short_table option \<Rightarrow> date \<Rightarrow> date option" where
  "published_through t day =
     (if columns_of t = [] \<or> ''publication_date'' \<notin> set (columns_of t) then None
      else first_by (\<lambda>a b. b < a) (List.map_filter sr_publication_date (filter (published_by day) (rows_of t))))"

definition threshold_dates :: "short_db \<Rightarrow> string \<Rightarrow> date \<Rightarrow> date list" where
  "threshold_dates sdb ticker day =
     (let t = regsho_threshold sdb; cols = columns_of t; col = event_date_column cols in
      if cols = [] \<or> \<not> {''ticker'', ''publication_date''} \<subseteq> set cols then []
      else filter (\<lambda>d. d \<le> day)
             (List.map_filter (event_date col) (filter (\<lambda>r. sr_ticker r = ticker \<and> published_by day r) (rows_of t))))"

text \<open>\<open>ORDER BY publication_date DESC, <event column> DESC LIMIT 1\<close>, where a NULL event date sorts last.\<close>

definition latest_days_to_cover :: "short_db \<Rightarrow> string \<Rightarrow> date \<Rightarrow> float64 option" where
  "latest_days_to_cover sdb ticker day =
     (let t = finra_short_interest sdb; cols = columns_of t; col = event_date_column cols;
          key = (\<lambda>r. (the (sr_publication_date r), (case event_date col r of None \<Rightarrow> (0::int, 0) | Some d \<Rightarrow> (1, d)))) in
      if cols = [] \<or> \<not> {''ticker'', ''publication_date'', ''days_to_cover''} \<subseteq> set cols then None
      else Option.bind (first_by (\<lambda>a b. key b < key a) (filter (\<lambda>r. sr_ticker r = ticker \<and> published_by day r) (rows_of t)))
             sr_days_to_cover)"

definition prior_close :: "market_db \<Rightarrow> string \<Rightarrow> date \<Rightarrow> string \<Rightarrow> stamp option \<Rightarrow> float64 option outcome" where
  "prior_close db ticker day source available_at = latest_close db ticker day source available_at True"

definition short_data_available :: "short_db option \<Rightarrow> bool" where
  "short_data_available sdb = (case sdb of None \<Rightarrow> False
     | Some x \<Rightarrow> regsho_threshold x \<noteq> None \<and> finra_short_interest x \<noteq> None)"

definition liquid_as_of :: "liquidity_db \<Rightarrow> string \<Rightarrow> date \<Rightarrow> bool" where
  "liquid_as_of ldb ticker day =
     (let dated = (case universe_snapshot ldb of None \<Rightarrow> None
            | Some rows \<Rightarrow> first_by (\<lambda>a b. lq_snapshot b < lq_snapshot a)
                 (filter (\<lambda>r. lq_ticker r = ticker \<and> lq_snapshot r \<le> day) rows)) in
      case dated of
        Some r \<Rightarrow> lq_liquid r
      | None \<Rightarrow> (case universe ldb of None \<Rightarrow> False | Some rows \<Rightarrow> map_of rows ticker = Some True))"

section \<open>Locates\<close>

record LocateResult =
  lr_available :: bool
  lr_classification :: string
  lr_reason :: "string option"
  lr_annual_rate :: "float64 option"
  lr_data_stale :: bool

definition newest_publication :: "short_db \<Rightarrow> date \<Rightarrow> date option" where
  "newest_publication sdb day =
     first_by (\<lambda>a b. b < a) (List.map_filter (\<lambda>x. x)
       [published_through (regsho_threshold sdb) day, published_through (finra_short_interest sdb) day])"

definition short_data_stale :: "short_db \<Rightarrow> date \<Rightarrow> bool" where
  "short_data_stale sdb day = (case newest_publication sdb day of
     None \<Rightarrow> True | Some d \<Rightarrow> STALE_AFTER_SESSIONS < session_days d day)"

definition conservative_reason :: "float64 option \<Rightarrow> float64 option \<Rightarrow> bool \<Rightarrow> string option" where
  "conservative_reason close mdv liquid =
     (if (case close of None \<Rightarrow> True | Some c \<Rightarrow> flt c MIN_SHORT_PRICE) then Some ''price_below_5''
      else if (case mdv of None \<Rightarrow> True | Some m \<Rightarrow> flt m MIN_SHORT_MDV) then Some ''mdv_below_5m''
      else if \<not> liquid then Some ''not_liquid''
      else None)"

definition locate ::
    "'e env_scheme \<Rightarrow> short_db \<Rightarrow> market_db \<Rightarrow> liquidity_db \<Rightarrow> string \<Rightarrow> date \<Rightarrow> string \<Rightarrow> stamp option \<Rightarrow> LocateResult outcome" where
  "locate e sdb db ldb ticker day price_source available_at =
     (let stale = short_data_stale sdb day;
          htb = (\<lambda>reason s. \<lparr>lr_available = False, lr_classification = ''HTB'', lr_reason = Some reason, lr_annual_rate = None,
                             lr_data_stale = s\<rparr>) in
      bindE (prior_close db ticker day price_source available_at) (\<lambda>close.
      bindE (median_dollar_volume e db ticker day price_source 60 available_at) (\<lambda>mdv.
      case conservative_reason close mdv (liquid_as_of ldb ticker day) of
        Some reason \<Rightarrow> Inr (htb reason stale)
      | None \<Rightarrow>
          if \<not> stale \<and> set (threshold_dates sdb ticker day) \<inter> set (previous_sessions day 5) \<noteq> {}
          then Inr (htb ''regsho_threshold'' False)
          else if \<not> stale \<and> (case latest_days_to_cover sdb ticker day of None \<Rightarrow> False | Some d \<Rightarrow> fle (Fin 10) d)
          then Inr (htb ''days_to_cover'' False)
          else Inr \<lparr>lr_available = True, lr_classification = ''ETB'', lr_reason = None, lr_annual_rate = Some ETB_ANNUAL_RATE,
                    lr_data_stale = stale\<rparr>)))"

definition threshold_streak :: "short_db \<Rightarrow> string \<Rightarrow> date \<Rightarrow> nat \<Rightarrow> bool" where
  "threshold_streak sdb ticker day sessions \<longleftrightarrow>
     set (previous_sessions day sessions) \<subseteq> set (threshold_dates sdb ticker day)"

definition calendar_days_since_previous_session :: "date \<Rightarrow> int" where
  "calendar_days_since_previous_session day = day - session_upto (day - 1)"

section \<open>Borrow accrual\<close>

text \<open>The shorts of one account, and on a replay the instruments already charged that day.\<close>

definition borrow_rows :: "book \<Rightarrow> date \<Rightarrow> bool \<Rightarrow> string \<Rightarrow> (string \<times> float64) list" where
  "borrow_rows bk day replay pid =
     (let held = map (\<lambda>r. (pos_ticker r, pos_qty r)) (filter (\<lambda>r. pos_portfolio r = pid \<and> flt (pos_qty r) (Fin 0)) (sim_positions bk));
          charged = remdups (List.map_filter ce_instrument
            (filter (\<lambda>r. ce_portfolio r = pid \<and> ce_date r = day \<and> ce_kind r = ''borrow_fee'') (sim_cash_events bk)));
          extra = (if replay then map (\<lambda>t. (t, Fin 0)) (filter (\<lambda>t. t \<notin> fst ` set held) charged) else [])
      in sort_key fst (held @ extra))"

definition borrow_portions :: "book \<Rightarrow> string \<Rightarrow> string \<Rightarrow> float64 \<Rightarrow> date \<Rightarrow> int option \<Rightarrow> (float64 \<times> int) list" where
  "borrow_portions bk pid ticker qty day days = (case days of
     Some n \<Rightarrow> [(fabs qty, n)]
   | None \<Rightarrow>
       (let default_span = calendar_days_since_previous_session day;
            prior = map ce_date (filter (\<lambda>r. ce_portfolio r = pid \<and> ce_instrument r = Some ticker \<and> ce_kind r = ''borrow_fee'' \<and> ce_date r < day)
                      (sim_cash_events bk));
            start_floor = (case prior of [] \<Rightarrow> day - default_span | d # ds \<Rightarrow> fold max ds d);
            lots = filter (\<lambda>l. lot_portfolio l = pid \<and> lot_instrument l = ticker \<and> flt (lot_qty l) (Fin 0)) (sim_position_lots bk);
            portions = map (\<lambda>l. (fabs (lot_qty l), max (day - max start_floor (lot_opened l)) 0)) lots;
            covered = fold (\<lambda>l acc. fadd acc (fabs (lot_qty l))) lots (Fin 0)
        in if flt (fadd covered DUST) (fabs qty) then portions @ [(fsub (fabs qty) covered, default_span)] else portions))"

definition borrow_event :: "'e env_scheme \<Rightarrow> string \<Rightarrow> date \<Rightarrow> string \<Rightarrow> float64 \<Rightarrow> int \<Rightarrow> cash_event" where
  "borrow_event e pid day ticker fee charged_days =
     \<lparr>c_portfolio = pid, c_date = day, c_kind = ''borrow_fee'', c_amount = PFloat (fneg fee), c_seq = None,
      c_instrument = Some ticker, c_ref_order = None,
      c_note = Some (''up to '' @ (if charged_days < 0 then ''-'' @ str_nat (nat (- charged_days)) else str_nat (nat charged_days)) @
                     '' calendar day(s)''),
      c_created = Some (fst (session_bounds e day))\<rparr>"

definition borrow_step ::
    "'e env_scheme \<Rightarrow> datetime \<Rightarrow> date \<Rightarrow> int option \<Rightarrow> bool \<Rightarrow> store \<times> nat \<times> float64 \<Rightarrow> (string \<times> settings) \<times> string \<times> float64
     \<Rightarrow> (store \<times> nat \<times> float64) outcome" where
  "borrow_step e now day days replay s row =
     (let (st, count, charged) = s; ((pid, acct), ticker, qty) = row; bk = ledger st in
      if (\<exists>r\<in>set (sim_cash_events bk). ce_portfolio r = pid \<and> ce_date r = day \<and> ce_kind r = ''borrow_fee'' \<and> ce_instrument r = Some ticker) \<and> \<not> replay
      then Inr s
      else
        bindE (if qty \<noteq> Fin 0
               then bindE (mark e st pid ticker day (Some (account_price_source acct)) (Some (Naive (fst (session_bounds e day)))) None)
                      (\<lambda>m. Inr (mk_price m))
               else Inr (Fin 0)) (\<lambda>close.
        let portions = borrow_portions bk pid ticker qty day days in
        bindE (mapE (\<lambda>(q, span). borrow_fee (fmul q close) span day (ProfileId (cost_profile acct)))
                 (filter (\<lambda>(_, span). 0 < span) portions)) (\<lambda>fees.
        let fee = py_sum fees; charged_days = (case map snd portions of [] \<Rightarrow> 0 | x # xs \<Rightarrow> fold max xs x) in
        bindE (post_accrual e bk now (borrow_event e pid day ticker fee charged_days) replay) (\<lambda>(bk', _).
        Inr (st\<lparr>ledger := bk'\<rparr>, count + 1, fadd charged fee)))))"

definition accrue_borrow ::
    "'e env_scheme \<Rightarrow> store \<Rightarrow> datetime \<Rightarrow> date \<Rightarrow> int option \<Rightarrow> string option \<Rightarrow> bool \<Rightarrow> (store \<times> nat \<times> float64) outcome" where
  "accrue_borrow e st now day days portfolio_id replay =
     bindE (account_portfolios (ledger st) False) (\<lambda>accounts.
     let selected = filter (\<lambda>(pid, a). processing a \<and> (case portfolio_id of None \<Rightarrow> True | Some q \<Rightarrow> pid = q)) accounts;
         rows = concat (map (\<lambda>p. map (\<lambda>h. (p, h)) (borrow_rows (ledger st) day replay (fst p))) selected) in
     foldE (borrow_step e now day days replay) (st, 0, Fin 0) rows)"

section \<open>Buy-ins\<close>

definition buy_in_step ::
    "short_db \<Rightarrow> date \<Rightarrow> datetime \<Rightarrow> string \<times> string \<times> float64 \<Rightarrow> desk \<times> int list \<Rightarrow> desk \<times> int list" where
  "buy_in_step sdb day received row acc =
     (let (pid, ticker, qty) = row; (dk, queued) = acc in
      if \<not> threshold_streak sdb ticker day BUY_IN_THRESHOLD_SESSIONS then acc
      else if has_pending dk pid ticker (Some ''cover'') ''buy_in'' then acc
      else (let (dk', oid) = queue_order dk pid ticker ''cover'' (fabs qty) day received ''buy_in'' in (dk', queued @ [oid])))"

definition short_positions :: "book \<Rightarrow> (string \<times> settings) list \<Rightarrow> string option \<Rightarrow> (string \<times> string \<times> float64) list" where
  "short_positions bk accounts portfolio_id =
     concat (map (\<lambda>(pid, _). map (\<lambda>r. (pid, pos_ticker r, pos_qty r))
        (sort_key pos_ticker (filter (\<lambda>r. pos_portfolio r = pid \<and> flt (pos_qty r) (Fin 0)) (sim_positions bk))))
      (filter (\<lambda>(pid, a). processing a \<and> (case portfolio_id of None \<Rightarrow> True | Some q \<Rightarrow> pid = q)) accounts))"

definition queue_buy_ins ::
    "'e env_scheme \<Rightarrow> desk \<Rightarrow> short_db \<Rightarrow> date \<Rightarrow> string option \<Rightarrow> (desk \<times> int list) outcome" where
  "queue_buy_ins e dk sdb day portfolio_id =
     bindE (account_portfolios (desk_book dk) False) (\<lambda>accounts.
     Inr (fold (buy_in_step sdb day (snd (session_bounds e day)))
            (short_positions (desk_book dk) accounts portfolio_id) (dk, [])))"

section \<open>Locates look only at what was published\<close>

text \<open>The store without what was published after the day.\<close>

definition published_after :: "date \<Rightarrow> short_row \<Rightarrow> bool" where
  "published_after day r \<longleftrightarrow> (\<exists>p. sr_publication_date r = Some p \<and> day < p)"

definition known_rows :: "date \<Rightarrow> short_table option \<Rightarrow> short_table option" where
  "known_rows day = map_option (\<lambda>t. t\<lparr>sh_rows := filter (\<lambda>r. \<not> published_after day r) (sh_rows t)\<rparr>)"

definition as_published :: "date \<Rightarrow> short_db \<Rightarrow> short_db" where
  "as_published day sdb = \<lparr>regsho_threshold = known_rows day (regsho_threshold sdb),
     finra_short_interest = known_rows day (finra_short_interest sdb)\<rparr>"

lemma known_rows_of: "columns_of (known_rows day t) = columns_of t" "rows_of (known_rows day t) = filter (\<lambda>r. \<not> published_after day r) (rows_of t)"
  by (cases t; simp add: known_rows_def columns_of_def rows_of_def)+

lemma published_filter:
  "filter (\<lambda>r. sr_ticker r = t \<and> published_by day r) (filter (\<lambda>r. \<not> published_after day r) rows) =
   filter (\<lambda>r. sr_ticker r = t \<and> published_by day r) rows"
  "filter (published_by day) (filter (\<lambda>r. \<not> published_after day r) rows) = filter (published_by day) rows"
  by (auto simp: published_by_def published_after_def split: option.splits intro!: filter_cong)

lemma as_published_reads:
  "published_through (known_rows day t) day = published_through t day"
  "threshold_dates (as_published day sdb) ticker day = threshold_dates sdb ticker day"
  "latest_days_to_cover (as_published day sdb) ticker day = latest_days_to_cover sdb ticker day"
  unfolding published_through_def threshold_dates_def latest_days_to_cover_def as_published_def Let_def short_db.simps
    known_rows_of published_filter by (rule refl)+

text \<open>C30: A locate uses only short data published by its day. \<open>locate\<close> and \<open>threshold_streak\<close> give the same answer
  on the short-data store and on the store cut down to the rows published by the day, so a threshold
  listing or a short-interest figure published later cannot change a past classification.\<close>

theorem locate_point_in_time:
  "locate e (as_published day sdb) db ldb ticker day price_source available_at = locate e sdb db ldb ticker day price_source available_at \<and>
   threshold_streak (as_published day sdb) ticker day n = threshold_streak sdb ticker day n"
proof -
  have "short_data_stale (as_published day sdb) day = short_data_stale sdb day"
    by (simp only: short_data_stale_def newest_publication_def as_published_def short_db.simps as_published_reads(1))
  then show ?thesis by (simp only: locate_def threshold_streak_def as_published_reads(2,3) simp_thms)
qed

text \<open>A locate is granted only to an easy-to-borrow name. When \<open>locate\<close> reports a name available, it is classified
  ETB at the fixed rate, its last close before the day is at least five dollars, its median dollar volume at
  least five million, and it is flagged liquid; and unless the short data is reported stale, it was on no
  threshold list of the last five sessions and its days to cover are below ten.\<close>

theorem locate_available_requires:
  assumes "locate e sdb db ldb ticker day price_source available_at = Inr r" "lr_available r"
  shows "lr_classification r = ''ETB'' \<and> lr_annual_rate r = Some ETB_ANNUAL_RATE \<and> liquid_as_of ldb ticker day \<and>
    (\<exists>c. prior_close db ticker day price_source available_at = Inr (Some c) \<and> \<not> flt c (Fin 5)) \<and>
    (\<exists>m. median_dollar_volume e db ticker day price_source 60 available_at = Inr (Some m) \<and> \<not> flt m (Fin 5000000)) \<and>
    lr_data_stale r = short_data_stale sdb day \<and>
    (\<not> lr_data_stale r \<longrightarrow>
       set (threshold_dates sdb ticker day) \<inter> set (previous_sessions day 5) = {} \<and>
       \<not> (case latest_days_to_cover sdb ticker day of None \<Rightarrow> False | Some d \<Rightarrow> fle (Fin 10) d))"
proof -
  obtain close mdv where b1: "prior_close db ticker day price_source available_at = Inr close"
    "median_dollar_volume e db ticker day price_source 60 available_at = Inr mdv"
    using assms unfolding locate_def Let_def bindE_eq_Inr by blast
  have "conservative_reason close mdv (liquid_as_of ldb ticker day) = None"
    using assms b1 by (cases "conservative_reason close mdv (liquid_as_of ldb ticker day)") (auto simp: locate_def Let_def)
  note b = b1 this
  have r: "r = \<lparr>lr_available = True, lr_classification = ''ETB'', lr_reason = None, lr_annual_rate = Some ETB_ANNUAL_RATE,
                lr_data_stale = short_data_stale sdb day\<rparr>"
    and n: "short_data_stale sdb day \<or> (set (threshold_dates sdb ticker day) \<inter> set (previous_sessions day 5) = {} \<and>
       \<not> (case latest_days_to_cover sdb ticker day of None \<Rightarrow> False | Some d \<Rightarrow> fle (Fin 10) d))"
    using assms b by (auto simp: locate_def Let_def split: if_split_asm)
  have "liquid_as_of ldb ticker day" "\<exists>c. close = Some c \<and> \<not> flt c MIN_SHORT_PRICE" "\<exists>m. mdv = Some m \<and> \<not> flt m MIN_SHORT_MDV"
    using b(3) by (auto simp: conservative_reason_def split: if_split_asm option.split_asm)
  then show ?thesis using b(1,2) r n unfolding MIN_SHORT_PRICE_def MIN_SHORT_MDV_def by auto
qed

section \<open>Forced orders are queued once\<close>

definition grows :: "desk \<Rightarrow> desk \<Rightarrow> bool" where
  "grows dk dk' \<longleftrightarrow> set (sim_orders dk) \<subseteq> set (sim_orders dk') \<and> set (sim_order_details dk) \<subseteq> set (sim_order_details dk') \<and>
     d_store dk' = d_store dk"

lemma grows_refl: "grows dk dk" by (simp add: grows_def)

lemma grows_trans: "grows a b \<Longrightarrow> grows b c \<Longrightarrow> grows a c" by (auto simp: grows_def)

lemma has_pending_grows: "has_pending dk pid t side reason \<Longrightarrow> grows dk dk' \<Longrightarrow> has_pending dk' pid t side reason"
  unfolding has_pending_def grows_def by blast

lemma queue_order_grows:
  assumes "queue_order dk pid t side amount day rc reason = (dk', oid)"
  shows "grows dk dk'" and "has_pending dk' pid t (Some side) reason"
proof -
  obtain dk1 i where n: "next_order_id dk = (dk1, i)" by (metis surj_pair)
  have same: "sim_orders dk1 = sim_orders dk" "d_store dk1 = d_store dk" using next_order_id_spec [OF n] by auto
  have det: "sim_order_details dk1 = sim_order_details dk"
    using n by (auto simp: next_order_id_def bootstrap_order_sequence_def Let_def split: if_splits)
  show "grows dk dk'" using assms n same det by (auto simp: queue_order_def grows_def)
  show "has_pending dk' pid t (Some side) reason"
    using assms n by (auto simp: queue_order_def has_pending_def)
qed

lemma buy_in_fold:
  "grows (fst acc) (fst (fold (buy_in_step sdb day rc) rows acc)) \<and>
   (\<forall>(pid, t, q)\<in>set rows. threshold_streak sdb t day BUY_IN_THRESHOLD_SESSIONS \<longrightarrow>
      has_pending (fst (fold (buy_in_step sdb day rc) rows acc)) pid t (Some ''cover'') ''buy_in'')"
proof (induction rows arbitrary: acc)
  case Nil
  then show ?case by (simp add: grows_refl)
next
  case (Cons row rows)
  obtain pid t q where row: "row = (pid, t, q)" by (metis prod_cases3)
  obtain dk ids where acc: "acc = (dk, ids)" by (metis surj_pair)
  let ?acc = "buy_in_step sdb day rc row acc"
  have one: "grows dk (fst ?acc)" "threshold_streak sdb t day BUY_IN_THRESHOLD_SESSIONS \<Longrightarrow> has_pending (fst ?acc) pid t (Some ''cover'') ''buy_in''"
    using queue_order_grows [of dk pid t "''cover''" "fabs q" day rc "''buy_in''"]
    by (auto simp: buy_in_step_def row acc Let_def grows_refl split: prod.splits)
  then show ?case using Cons.IH [of ?acc] grows_trans has_pending_grows acc row by auto
qed

lemma buy_in_fold_idle:
  "(\<forall>(pid, t, q)\<in>set rows. threshold_streak sdb t day BUY_IN_THRESHOLD_SESSIONS \<longrightarrow> has_pending dk pid t (Some ''cover'') ''buy_in'') \<Longrightarrow>
   fold (buy_in_step sdb day rc) rows (dk, ids) = (dk, ids)"
  by (induction rows) (auto simp: buy_in_step_def Let_def)

text \<open>A buy-in is queued once. After \<open>queue_buy_ins\<close> every processing short on five consecutive threshold lists has
  a pending cover, and running it again the same day queues nothing and leaves the desk as it is.\<close>

theorem buy_ins_queue_once:
  assumes "queue_buy_ins e dk sdb day sel = Inr (dk', ids)"
  shows "queue_buy_ins e dk' sdb day sel = Inr (dk', []) \<and>
    (\<exists>accounts. account_portfolios (desk_book dk) False = Inr accounts \<and>
      (\<forall>(pid, t, q)\<in>set (short_positions (desk_book dk) accounts sel). threshold_streak sdb t day 5 \<longrightarrow>
         has_pending dk' pid t (Some ''cover'') ''buy_in''))"
proof -
  obtain accounts where a: "account_portfolios (desk_book dk) False = Inr accounts"
    "fold (buy_in_step sdb day (snd (session_bounds e day))) (short_positions (desk_book dk) accounts sel) (dk, []) = (dk', ids)"
    using assms by (auto simp: queue_buy_ins_def bindE_eq_Inr)
  have g: "grows dk dk'" and p: "\<forall>(pid, t, q)\<in>set (short_positions (desk_book dk) accounts sel).
      threshold_streak sdb t day BUY_IN_THRESHOLD_SESSIONS \<longrightarrow> has_pending dk' pid t (Some ''cover'') ''buy_in''"
    using buy_in_fold [of "(dk, [])" sdb day "snd (session_bounds e day)" "short_positions (desk_book dk) accounts sel"] a(2) by auto
  have "desk_book dk' = desk_book dk" using g by (simp add: grows_def desk_book_def)
  then have "queue_buy_ins e dk' sdb day sel = Inr (dk', [])"
    using a(1) buy_in_fold_idle [OF p] by (simp add: queue_buy_ins_def)
  then show ?thesis using a(1) p by (auto simp: BUY_IN_THRESHOLD_SESSIONS_def)
qed


text \<open>Short data for the witnesses: a listing published on the day after the session examined.\<close>

definition example_short :: short_db where
  "example_short = \<lparr>regsho_threshold = Some \<lparr>sh_columns = [''ticker'', ''publication_date'', ''session_date''],
       sh_rows = map (\<lambda>d. \<lparr>sr_ticker = ''SPY'', sr_publication_date = Some d, sr_dates = [(''session_date'', d)], sr_days_to_cover = None\<rparr>)
         (sessions_back 5 (ymd 2026 10 6))\<rparr>,
     finra_short_interest = Some \<lparr>sh_columns = [''ticker'', ''publication_date'', ''days_to_cover''], sh_rows = []\<rparr>\<rparr>"

definition liquid_db :: market_db where
  "liquid_db = example_db\<lparr>prices := (prices example_db)\<lparr>d_rows := map (\<lambda>r. r\<lparr>dr_bar := (dr_bar r)\<lparr>b_volume := BigInt 1000000\<rparr>\<rparr>)
     (d_rows (prices example_db))\<rparr>\<rparr>"

theorem locate_available_witness:
  "\<exists>r. locate example_env example_short liquid_db \<lparr>universe_snapshot = None, universe = Some [(''SPY'', True)]\<rparr> ''SPY'' (ymd 2026 12 1) ''prices'' None = Inr r \<and>
     lr_available r \<and> lr_data_stale r \<and> lr_annual_rate r = Some ETB_ANNUAL_RATE"
proof -
  let ?ldb = "\<lparr>universe_snapshot = None, universe = Some [(''SPY'', True)]\<rparr>"
  have "case locate example_env example_short liquid_db ?ldb ''SPY'' (ymd 2026 12 1) ''prices'' None of
      Inr r \<Rightarrow> lr_available r \<and> lr_data_stale r | Inl _ \<Rightarrow> False" by code_simp
  then obtain r where r: "locate example_env example_short liquid_db ?ldb ''SPY'' (ymd 2026 12 1) ''prices'' None = Inr r"
    "lr_available r" "lr_data_stale r" by (auto split: sum.split_asm)
  then show ?thesis using locate_available_requires [OF r(1,2)] by blast
qed

theorem buy_ins_queue_once_witness:
  "\<exists>dk'. queue_buy_ins example_env (example_desk\<lparr>d_store := (d_store example_desk)\<lparr>ledger := (desk_book example_desk)\<lparr>sim_positions :=
        [\<lparr>pos_portfolio = ''A'', pos_ticker = ''SPY'', pos_qty = Fin (- 7), pos_cost = Fin 10\<rparr>]\<rparr>\<rparr>\<rparr>) example_short (ymd 2026 10 6) None =
      Inr (dk', [1]) \<and>
    queue_buy_ins example_env dk' example_short (ymd 2026 10 6) None = Inr (dk', [])"
proof -
  let ?dk = "example_desk\<lparr>d_store := (d_store example_desk)\<lparr>ledger := (desk_book example_desk)\<lparr>sim_positions :=
        [\<lparr>pos_portfolio = ''A'', pos_ticker = ''SPY'', pos_qty = Fin (- 7), pos_cost = Fin 10\<rparr>]\<rparr>\<rparr>\<rparr>"
  have "case queue_buy_ins example_env ?dk example_short (ymd 2026 10 6) None of Inr (_, ids) \<Rightarrow> ids = [1] | Inl _ \<Rightarrow> False" by code_simp
  then obtain dk' where d: "queue_buy_ins example_env ?dk example_short (ymd 2026 10 6) None = Inr (dk', [1])"
    by (auto split: sum.split_asm prod.split_asm)
  then show ?thesis using buy_ins_queue_once [OF d] by blast
qed

end
