(* ===== verification/Verify.thy ===== *)
theory Verify
  imports Shorts
begin

text \<open>
  The verification of an account: \<open>equity_checkpoint\<close>, \<open>states_match\<close> and \<open>checkpoints\<close> of
  \<open>src/sim/ledger.py\<close>, and the comparison that \<open>verify\<close> of \<open>src/engine/accounts/service.py\<close> runs over them. The
  stored state and every stored close are compared with the replay of the retained journal.
\<close>

section \<open>Comparing states\<close>

definition dollars_match :: "float64 \<Rightarrow> float64 \<Rightarrow> bool" where
  "dollars_match expected actual \<longleftrightarrow> fle (fabs (fsub expected actual)) (lit (5 / 1000))"

definition qty_match :: "float64 \<Rightarrow> float64 \<Rightarrow> bool" where
  "qty_match expected actual \<longleftrightarrow> isclose expected actual (Fin 0) TOL9"

definition positions_match :: "(string \<times> float64 \<times> float64) list \<Rightarrow> (string \<times> float64 \<times> float64) list \<Rightarrow> bool" where
  "positions_match expected actual \<longleftrightarrow>
     fst ` set expected = fst ` set actual \<and>
     (\<forall>(t, q, c)\<in>set expected. case map_of actual t of None \<Rightarrow> False | Some (q', c') \<Rightarrow> qty_match q q' \<and> dollars_match c c')"

definition lots_match :: "(string \<times> date \<times> int \<times> float64 \<times> float64) list \<Rightarrow> (string \<times> date \<times> int \<times> float64 \<times> float64) list \<Rightarrow> bool" where
  "lots_match expected actual \<longleftrightarrow>
     list_all2 (\<lambda>(t, d, o1, q, p) (t', d', o2, q', p'). t = t' \<and> d = d' \<and> o1 = o2 \<and> qty_match q q' \<and> dollars_match p p') expected actual"

record close_row =
  cr_date :: date
  cr_equity :: float64
  cr_cash :: float64
  cr_positions :: int

definition closes_match :: "close_row list \<Rightarrow> close_row list \<Rightarrow> bool" where
  "closes_match expected actual \<longleftrightarrow>
     list_all2 (\<lambda>a b. cr_date a = cr_date b \<and> dollars_match (cr_equity a) (cr_equity b) \<and>
       dollars_match (cr_cash a) (cr_cash b) \<and> cr_positions a = cr_positions b) expected actual"

text \<open>The compared dictionaries: the canonical state and one entry per stored close.\<close>

record verified =
  vf_state :: ledger_state
  vf_closes :: "close_row list"

definition states_match :: "verified \<Rightarrow> verified \<Rightarrow> bool" where
  "states_match expected actual \<longleftrightarrow>
     dollars_match (ls_cash (vf_state expected)) (ls_cash (vf_state actual)) \<and>
     positions_match (ls_positions (vf_state expected)) (ls_positions (vf_state actual)) \<and>
     lots_match (ls_lots (vf_state expected)) (ls_lots (vf_state actual)) \<and>
     closes_match (vf_closes expected) (vf_closes actual)"

section \<open>Valuing a close\<close>

text \<open>A mark retained with the close is used first; only a position without one is marked again.\<close>

definition checkpoint_step ::
    "'e env_scheme \<Rightarrow> store \<Rightarrow> string \<Rightarrow> date \<Rightarrow> stamp option \<Rightarrow> (string \<times> float64) list \<Rightarrow> float64 \<Rightarrow> string \<times> float64 \<times> float64
     \<Rightarrow> float64 outcome" where
  "checkpoint_step e st pid day available_at marks equity p = (case p of (ticker, qty, _) \<Rightarrow>
     bindE (case map_of marks ticker of
              Some price \<Rightarrow> Inr price
            | None \<Rightarrow> bindE (mark e st pid ticker day None None available_at) (\<lambda>m. Inr (mk_price m))) (\<lambda>price.
     Inr (fadd equity (fmul qty price))))"

definition equity_checkpoint ::
    "'e env_scheme \<Rightarrow> store \<Rightarrow> string \<Rightarrow> date \<Rightarrow> ledger_state \<Rightarrow> stamp option \<Rightarrow> (string \<times> float64) list \<Rightarrow> close_row outcome" where
  "equity_checkpoint e st pid day snapshot available_at marks =
     bindE (foldE (checkpoint_step e st pid day available_at marks) (ls_cash snapshot) (ls_positions snapshot)) (\<lambda>equity.
     Inr \<lparr>cr_date = day, cr_equity = equity, cr_cash = ls_cash snapshot, cr_positions = int (length (ls_positions snapshot))\<rparr>)"

text \<open>The marks retained per close; a later record of a date replaces an earlier one.\<close>

definition checkpoints :: "desk \<Rightarrow> string \<Rightarrow> (date \<times> (string \<times> float64) list) list" where
  "checkpoints dk pid = (case account_events dk of
     None \<Rightarrow> []
   | Some evs \<Rightarrow> rev (List.map_filter (\<lambda>v. case ae_payload v of EquityCheckpoint d marks \<Rightarrow> Some (d, marks) | _ \<Rightarrow> None)
       (sort_key ae_id (filter (\<lambda>v. ae_portfolio v = pid \<and> ae_kind v = ''equity_checkpoint'') evs))))"

section \<open>The comparison run\<close>

definition stored_closes :: "store \<Rightarrow> string \<Rightarrow> date option \<Rightarrow> equity_row list" where
  "stored_closes st pid session_date = sort_key eq_date (filter (\<lambda>r. eq_portfolio r = pid \<and>
     (case session_date of None \<Rightarrow> True | Some d \<Rightarrow> eq_date r \<le> d)) (sim_equity st))"

definition close_of :: "equity_row \<Rightarrow> close_row" where
  "close_of r = \<lparr>cr_date = eq_date r, cr_equity = eq_equity r, cr_cash = eq_cash r, cr_positions = eq_positions r\<rparr>"

definition verify_run :: "'e env_scheme \<Rightarrow> desk \<Rightarrow> string \<Rightarrow> date option \<Rightarrow> datetime \<Rightarrow> (verified \<times> verified) outcome" where
  "verify_run e dk pid session_date now =
     (let st = d_store dk; bk = ledger st; recorded = checkpoints dk pid; rows = stored_closes st pid session_date in
      bindE (state bk pid) (\<lambda>actual.
      bindE (projected_state e bk pid session_date None) (\<lambda>replayed.
      bindE (projected_states_at_closes e bk pid (map eq_date rows)) (\<lambda>prefixes.
      bindE (mapE (\<lambda>r. case map_of prefixes (eq_date r) of
                 None \<Rightarrow> Inl (KeyError ''prefix'')
               | Some s \<Rightarrow> equity_checkpoint e st pid (eq_date r) s (Some (Aware now 0))
                             (coalesce (map_of recorded (eq_date r)) [])) rows) (\<lambda>closes.
      Inr (\<lparr>vf_state = the replayed, vf_closes = closes\<rparr>, \<lparr>vf_state = actual, vf_closes = map close_of rows\<rparr>))))))"

end
