(* ===== verification/Wire.thy ===== *)
theory Wire
  imports MoneyInputs OrderTypes
begin

text \<open>
  The JSON values that cross the account boundary (\<open>src/engine/paper_accounts.py\<close>), with the comparisons
  and type tests Python applies to them, and the rows that keep them. An object is an association list with
  distinct keys.
\<close>

section \<open>Values\<close>

datatype json =
    JNull
  | JBool bool
  | JInt int
  | JFloat float64
  | JStr string
  | JList "json list"
  | JObj "(string \<times> json) list"

text \<open>\<open>d[key]\<close> on an object whose key set has been checked, and \<open>d.get(key)\<close>.\<close>

definition field :: "(string \<times> json) list \<Rightarrow> string \<Rightarrow> json" where
  "field d key = (case map_of d key of Some v \<Rightarrow> v | None \<Rightarrow> JNull)"

definition keys_of :: "(string \<times> json) list \<Rightarrow> string list" where
  "keys_of d = map fst d"

definition same_keys :: "(string \<times> json) list \<Rightarrow> string list \<Rightarrow> bool" where
  "same_keys d names \<longleftrightarrow> set (keys_of d) = set names"

text \<open>Python's \<open>==\<close>: numbers and booleans compare by value, objects without regard to order.\<close>

definition number_of :: "json \<Rightarrow> float64 option" where
  "number_of v = (case v of JBool b \<Rightarrow> Some (Fin (if b then 1 else 0)) | JInt n \<Rightarrow> Some (Fin (of_int n)) | JFloat x \<Rightarrow> Some x | _ \<Rightarrow> None)"

definition same_number :: "json \<Rightarrow> json \<Rightarrow> bool" where
  "same_number x y = (case (number_of x, number_of y) of (Some a, Some b) \<Rightarrow> a \<noteq> NaN \<and> a = b | _ \<Rightarrow> False)"

primrec jeq :: "json \<Rightarrow> json \<Rightarrow> bool" where
  "jeq JNull y = (y = JNull)"
| "jeq (JBool b) y = same_number (JBool b) y"
| "jeq (JInt n) y = same_number (JInt n) y"
| "jeq (JFloat x) y = same_number (JFloat x) y"
| "jeq (JStr s) y = (y = JStr s)"
| "jeq (JList xs) y = (case y of JList ys \<Rightarrow> list_all2 (\<lambda>p y. p y) (map jeq xs) ys | _ \<Rightarrow> False)"
| "jeq (JObj xs) y = (case y of
     JObj ys \<Rightarrow> set (map fst xs) = set (map fst ys) \<and>
       list_all (\<lambda>(k, p). case map_of ys k of None \<Rightarrow> False | Some v \<Rightarrow> p v) (map (map_prod id jeq) xs)
   | _ \<Rightarrow> False)"

definition is_str :: "json \<Rightarrow> string \<Rightarrow> bool" where
  "is_str v s \<longleftrightarrow> v = JStr s"

text \<open>\<open>value in frozenset(...)\<close> hashes the value: a list or an object raises.\<close>

definition member_of :: "json \<Rightarrow> string list \<Rightarrow> bool outcome" where
  "member_of v names = (case v of JStr s \<Rightarrow> Inr (s \<in> set names) | JList _ \<Rightarrow> Inl (TypeError ''unhashable'') | JObj _ \<Rightarrow> Inl (TypeError ''unhashable'')
     | _ \<Rightarrow> Inr False)"

section \<open>Identities and numbers\<close>

definition ascii_alnum :: string where
  "ascii_alnum = ''ABCDEFGHIJKLMNOPQRSTUVWXYZabcdefghijklmnopqrstuvwxyz0123456789''"

definition is_identifier :: "string \<Rightarrow> bool" where
  "is_identifier s = (case s of [] \<Rightarrow> False
     | c # cs \<Rightarrow> c \<in> set ascii_alnum \<and> length cs \<le> 127 \<and> (\<forall>x\<in>set cs. x \<in> set ascii_alnum \<or> x \<in> set ''_.:-''))"

definition is_sha256 :: "string \<Rightarrow> bool" where
  "is_sha256 s \<longleftrightarrow> length s = 64 \<and> (\<forall>c\<in>set s. c \<in> set ''0123456789abcdef'')"

definition identity :: "json \<Rightarrow> string \<Rightarrow> (string \<Rightarrow> bool) \<Rightarrow> unit outcome" where
  "identity v name pattern = (case v of
     JStr s \<Rightarrow> if pattern s then Inr () else Inl (AccountRefused (''invalid '' @ name))
   | _ \<Rightarrow> Inl (AccountRefused (''invalid '' @ name)))"

text \<open>\<open>math.isfinite\<close> and \<open>float\<close> overflow on an \<open>int\<close> beyond the range.\<close>

definition positive_number :: "json \<Rightarrow> string \<Rightarrow> float64 outcome" where
  "positive_number v name =
     (let refuse = Inl (AccountRefused (name @ '' must be a finite positive number''));
          admit = (\<lambda>x. if \<not> isfinite x \<or> fle x (Fin 0) then refuse else Inr x) in
      case v of JInt n \<Rightarrow> bindE (of_pyint n) admit | JFloat x \<Rightarrow> admit x | _ \<Rightarrow> refuse)"

section \<open>Stored intakes\<close>

text \<open>A receipt: the order and the replay flag of a version 1 intent; the order, the receipt stamp and the cutoff of
  a version 2 intent.\<close>

datatype receipt = Receipt1 int bool | Receipt2 int datetime "datetime option"

record intake_row =
  in_intent :: string
  in_account :: string
  in_order :: int
  in_payload :: json
  in_sha256 :: string
  in_received :: datetime
  in_receipt :: receipt

record spec_row =
  sr_account :: string
  sr_payload :: json
  sr_sha256 :: string

text \<open>What the boundary takes from the standard library: the canonical digest of a value, its sorted text, the ISO parsers and
  the reading of a number from text. They are parameters.\<close>

record wire =
  canonical_sha256 :: "json \<Rightarrow> string"
  json_text :: "json \<Rightarrow> string"
  iso_date :: "string \<Rightarrow> date option"
  iso_datetime :: "string \<Rightarrow> stamp option"
  float_text :: "string \<Rightarrow> float64 outcome"

end
