(* ===== verification/Instruments.thy ===== *)
theory Instruments
  imports Costs
begin

text \<open>
  The instrument master of \<open>src/engine/instruments.py\<close>: canonical identities, the OCC option symbol and its
  21-character padded form, the upsert of a master row and its lookup. Identifiers are ASCII text. The laws relate the
  two forms of an option symbol.
\<close>

section \<open>Identities\<close>

record instrument =
  instrument_id :: string
  i_kind :: string
  i_multiplier :: float64
  i_underlying :: "string option"
  i_expiry :: "date option"
  i_strike :: "float64 option"
  i_right :: "string option"
  i_exercise_style :: "string option"
  i_settlement :: "string option"
  i_deliverable :: "string option"
  i_currency :: string
  i_source :: "string option"
  i_first_seen :: "date option"
  i_last_seen :: "date option"

definition plain_instrument :: "string \<Rightarrow> string \<Rightarrow> float64 \<Rightarrow> instrument" where
  "plain_instrument name kind multiplier = \<lparr>instrument_id = name, i_kind = kind, i_multiplier = multiplier, i_underlying = None,
     i_expiry = None, i_strike = None, i_right = None, i_exercise_style = None, i_settlement = None, i_deliverable = None,
     i_currency = ''USD'', i_source = None, i_first_seen = None, i_last_seen = None\<rparr>"

definition upper_letters :: string where
  "upper_letters = ''ABCDEFGHIJKLMNOPQRSTUVWXYZ''"

definition lower_letters :: string where
  "lower_letters = ''abcdefghijklmnopqrstuvwxyz''"

definition digits :: string where
  "digits = ''0123456789''"

text \<open>\<open>str.isspace\<close>, \<open>strip\<close>, \<open>rstrip\<close> and \<open>upper\<close> on ASCII text.\<close>

definition is_space :: "char \<Rightarrow> bool" where
  "is_space c \<longleftrightarrow> of_char c \<in> {9, 10, 11, 12, 13, 28, 29, 30, 31, 32 :: int}"

definition rstrip :: "string \<Rightarrow> string" where
  "rstrip s = rev (dropWhile is_space (rev s))"

definition strip :: "string \<Rightarrow> string" where
  "strip s = rstrip (dropWhile is_space s)"

definition upper_char :: "char \<Rightarrow> char" where
  "upper_char c = (case map_of (zip lower_letters upper_letters) c of Some u \<Rightarrow> u | None \<Rightarrow> c)"

definition upper :: "string \<Rightarrow> string" where
  "upper s = map upper_char s"

text \<open>The pattern of an option symbol: the length of the root is the length of the text less the 15 characters of date,
  right and strike.\<close>

definition root_char :: "char \<Rightarrow> bool" where
  "root_char c \<longleftrightarrow> c \<in> set upper_letters \<or> c \<in> set digits \<or> c = CHR ''.''"

definition is_root :: "string \<Rightarrow> bool" where
  "is_root s \<longleftrightarrow> 1 \<le> length s \<and> length s \<le> 6 \<and> list_all root_char s"

definition all_digits :: "string \<Rightarrow> bool" where
  "all_digits s \<longleftrightarrow> list_all (\<lambda>c. c \<in> set digits) s"

record occ_match =
  occ_root :: string
  occ_date :: string
  occ_right :: string
  occ_strike :: string

definition occ_suffix :: "string \<Rightarrow> occ_match option" where
  "occ_suffix s =
     (let n = length s - 15; r = drop n s; m = \<lparr>occ_root = take n s, occ_date = take 6 r, occ_right = take 1 (drop 6 r), occ_strike = drop 7 r\<rparr> in
      if 15 \<le> length s \<and> is_root (occ_root m) \<and> all_digits (occ_date m) \<and> occ_right m \<in> {''C'', ''P''} \<and> all_digits (occ_strike m)
      then Some m else None)"

definition normalise :: "string \<Rightarrow> string outcome" where
  "normalise name =
     (if name = [] then Inl (ValueError ''instrument_id must be a non-empty string'')
      else let candidate = strip name;
               compact = (if length candidate = 21 then rstrip (take 6 candidate) @ drop 6 candidate else candidate)
           in Inr (if occ_suffix (upper compact) \<noteq> None then upper compact else candidate))"

section \<open>Option symbols\<close>

definition digit_value :: "char \<Rightarrow> int" where
  "digit_value c = of_char c - 48"

definition number_text :: "string \<Rightarrow> int" where
  "number_text s = foldl (\<lambda>n c. 10 * n + digit_value c) 0 s"

definition days_in_month :: "int \<Rightarrow> int \<Rightarrow> int" where
  "days_in_month y m = ymd (if m = 12 then y + 1 else y) (if m = 12 then 1 else m + 1) 1 - ymd y m 1"

text \<open>\<open>strptime(text, "%y%m%d")\<close> on six digits: two-digit years from 69 on are in the twentieth century.\<close>

definition full_year :: "int \<Rightarrow> int" where
  "full_year yy = (if 69 \<le> yy then 1900 + yy else 2000 + yy)"

definition parse_yymmdd :: "string \<Rightarrow> date outcome" where
  "parse_yymmdd s =
     (let y = full_year (number_text (take 2 s)); m = number_text (take 2 (drop 2 s)); d = number_text (drop 4 s) in
      if 1 \<le> m \<and> m \<le> 12 \<and> 1 \<le> d \<and> d \<le> days_in_month y m then Inr (ymd y m d) else Inl (ValueError ''time data''))"

text \<open>The JSON text of the deliverable.\<close>

definition deliverable_text :: "string \<Rightarrow> string" where
  "deliverable_text stem = ''[{'' @ [CHR 0x22] @ ''instrument_id'' @ [CHR 0x22] @ '':'' @ [CHR 0x22] @ stem @ [CHR 0x22] @ '','' @
     [CHR 0x22] @ ''qty'' @ [CHR 0x22] @ '':100}]''"

definition parse_occ :: "string \<Rightarrow> instrument outcome" where
  "parse_occ symbol =
     bindE (normalise symbol) (\<lambda>name.
     case occ_suffix name of
       None \<Rightarrow> Inl (ValueError ''invalid OCC option symbol'')
     | Some m \<Rightarrow>
         bindE (parse_yymmdd (occ_date m)) (\<lambda>expiry.
         Inr \<lparr>instrument_id = name, i_kind = ''option'', i_multiplier = Fin 100, i_underlying = Some (occ_root m), i_expiry = Some expiry,
              i_strike = Some (rnd (of_int (number_text (occ_strike m)) / 1000)), i_right = Some (occ_right m),
              i_exercise_style = Some ''american'', i_settlement = Some ''physical'', i_deliverable = Some (deliverable_text (occ_root m)),
              i_currency = ''USD'', i_source = None, i_first_seen = None, i_last_seen = None\<rparr>))"

text \<open>Zero-padded decimal text.\<close>

definition digit_char :: "int \<Rightarrow> char" where
  "digit_char d = char_of (48 + d)"

fun padded :: "nat \<Rightarrow> int \<Rightarrow> string" where
  "padded 0 n = []"
| "padded (Suc k) n = padded k (n div 10) @ [digit_char (n mod 10)]"

definition format_yymmdd :: "date \<Rightarrow> string" where
  "format_yymmdd d = padded 2 (year_of d mod 100) @ padded 2 (month_of d) @ padded 2 (day_of d)"

definition pad_root :: "string \<Rightarrow> string" where
  "pad_root stem = stem @ replicate (6 - length stem) CHR '' ''"

definition format_occ :: "instrument \<Rightarrow> string outcome" where
  "format_occ i = (case (i_underlying i, i_expiry i, i_strike i, i_right i) of
     (Some underlying, Some expiry, Some strike, Some right) \<Rightarrow>
       if i_kind i \<noteq> ''option'' \<or> right \<notin> {''C'', ''P''} then Inl (ValueError ''a complete option instrument is required'')
       else let stem = upper underlying in
       if \<not> is_root stem then Inl (ValueError ''OCC root must contain one to six letters, digits, or dots'')
       else (case strike of
           Fin x \<Rightarrow>
             (let scaled = repr_value x * 1000 in
              if scaled \<noteq> of_int \<lfloor>scaled\<rfloor> \<or> \<not> (0 \<le> scaled \<and> scaled \<le> 99999999)
              then Inl (ValueError ''OCC strike must be a non-negative multiple of 0.001'')
              else Inr (pad_root stem @ format_yymmdd expiry @ right @ padded 8 \<lfloor>scaled\<rfloor>))
         | _ \<Rightarrow> Inl (ValueError ''OCC strike must be a non-negative multiple of 0.001''))
   | _ \<Rightarrow> Inl (ValueError ''a complete option instrument is required''))"

definition future :: "string \<Rightarrow> float64 \<Rightarrow> string option \<Rightarrow> string \<Rightarrow> string option \<Rightarrow> instrument outcome" where
  "future name multiplier underlying currency source =
     bindE (normalise name) (\<lambda>canonical.
     if strip canonical = [] \<or> list_ex is_space canonical then Inl (ValueError ''future instrument_id must be a compact identifier'')
     else if \<not> isfinite multiplier \<or> fle multiplier (Fin 0) then Inl (ValueError ''future multiplier must be positive and finite'')
     else Inr ((plain_instrument canonical ''future'' multiplier)
       \<lparr>i_underlying := underlying, i_currency := currency, i_source := source\<rparr>))"

section \<open>The master table\<close>

text \<open>The upsert keeps the first sighting of a stored row.\<close>

definition upsert :: "instrument \<Rightarrow> instrument list \<Rightarrow> instrument list" where
  "upsert i rows =
     (if \<exists>r\<in>set rows. instrument_id r = instrument_id i
      then map (\<lambda>r. if instrument_id r = instrument_id i
                    then i\<lparr>i_first_seen := (case i_first_seen r of Some d \<Rightarrow> Some d | None \<Rightarrow> i_first_seen i)\<rparr> else r) rows
      else rows @ [i])"

definition ensure :: "instrument list \<Rightarrow> instrument \<Rightarrow> instrument list outcome" where
  "ensure rows i =
     bindE (normalise (instrument_id i)) (\<lambda>expected.
     if expected \<noteq> instrument_id i then Inl (ValueError ''instrument_id is not canonical'') else Inr (upsert i rows))"

text \<open>\<open>resolve\<close> without a connection parses the symbol.\<close>

definition resolve :: "string \<Rightarrow> instrument list option \<Rightarrow> instrument outcome" where
  "resolve name con =
     bindE (normalise name) (\<lambda>canonical.
     case con of
       None \<Rightarrow> parse_occ canonical
     | Some rows \<Rightarrow>
         (case find (\<lambda>r. instrument_id r = canonical) rows of
            Some r \<Rightarrow> Inr r
          | None \<Rightarrow> if occ_suffix canonical \<noteq> None then parse_occ canonical else Inl (KeyError ''unknown instrument'')))"

section \<open>Shortest texts of strikes\<close>

lemma powi10_less_iff: "(10::rat) powi a < 10 powi b \<longleftrightarrow> a < b"
proof
  show "a < b \<Longrightarrow> (10::rat) powi a < 10 powi b" by (rule power_int_strict_increasing) simp_all
  show "(10::rat) powi a < 10 powi b \<Longrightarrow> a < b"
    using power_int_increasing [of b a "10::rat"] by (cases "a < b") auto
qed

lemma powi10_le_iff: "(10::rat) powi a \<le> 10 powi b \<longleftrightarrow> a \<le> b"
  by (meson linorder_not_le powi10_less_iff)

lemma powi10_minus3: "(10::rat) powi - 3 = 1 / 1000"
  by (simp add: power_int_def power_divide)

lemma dec_digits_bounds: "1 \<le> n \<Longrightarrow> (10::rat) powi (dec_digits n - 1) \<le> of_int n \<and> of_int n < (10::rat) powi dec_digits n"
proof (induction n rule: dec_digits.induct)
  case (1 n)
  show ?case
  proof (cases "n < 10")
    case True
    have "(of_int n :: rat) < of_int 10" using True by (subst of_int_less_iff)
    moreover have "(of_int 1 :: rat) \<le> of_int n" using 1(2) by (subst of_int_le_iff)
    ultimately show ?thesis using True by (simp add: dec_digits.simps [of n])
  next
    case False
    let ?m = "n div 10"
    have m: "1 \<le> ?m" using False by linarith
    have ih: "(10::rat) powi (dec_digits ?m - 1) \<le> of_int ?m" "of_int ?m < (10::rat) powi dec_digits ?m"
      using 1(1) [OF False m] by auto
    have d: "dec_digits n = 1 + dec_digits ?m" using False dec_digits.simps [of n] by simp
    have pos: "0 \<le> dec_digits k" for k by (induction k rule: dec_digits.induct) (subst dec_digits.simps, simp)
    have p: "(10::rat) powi dec_digits ?m = of_int (10 ^ nat (dec_digits ?m))" using pos by (simp add: power_int_def)
    have "(of_int ?m :: rat) < of_int (10 ^ nat (dec_digits ?m))" using ih(2) p by simp
    then have "?m < 10 ^ nat (dec_digits ?m)" by (simp only: of_int_less_iff)
    then have "n < 10 * 10 ^ nat (dec_digits ?m)" by linarith
    then have "(of_int n :: rat) < of_int (10 * 10 ^ nat (dec_digits ?m))" by (simp only: of_int_less_iff)
    then have up: "of_int n < (10::rat) powi dec_digits n" using p d by (simp add: power_int_add)
    have "(10::rat) powi (dec_digits n - 1) = 10 * 10 powi (dec_digits ?m - 1)" using d power_int_add [of "10::rat" 1 "dec_digits ?m - 1"] by simp
    also have "\<dots> \<le> 10 * of_int ?m" using ih(1) by simp
    also have "\<dots> = of_int (10 * ?m)" by simp
    also have "\<dots> \<le> of_int n" by (subst of_int_le_iff) linarith
    finally show ?thesis using up by simp
  qed
qed

lemma dec_exp_bounds:
  assumes "0 < x"
  shows "10 powi dec_exp x \<le> x \<and> x < 10 powi (dec_exp x + 1)"
proof -
  obtain n d where q: "quotient_of x = (n, d)" by fastforce
  have d: "0 < d" and x: "x = of_int n / of_int d" using quotient_of_denom_pos [OF q] quotient_of_div [OF q] by auto
  have n: "0 < n" using assms x d by (simp add: zero_less_divide_iff)
  note bn = dec_digits_bounds [of n] and bd = dec_digits_bounds [of d]
  let ?k = "dec_digits n - dec_digits d"
  have up: "x < 10 powi (?k + 1)"
  proof -
    have "(10::rat) powi dec_digits n = 10 powi (?k + 1) * 10 powi (dec_digits d - 1)" by (simp flip: power_int_add)
    also have "\<dots> \<le> 10 powi (?k + 1) * of_int d" using bd d by (intro mult_left_mono) auto
    finally have "of_int n < 10 powi (?k + 1) * (of_int d :: rat)" using bn n by force
    then show ?thesis using d x by (simp add: divide_less_eq)
  qed
  have lo: "10 powi (?k - 1) \<le> x"
  proof -
    have "10 powi (?k - 1) * (of_int d :: rat) \<le> 10 powi (?k - 1) * 10 powi dec_digits d" using bd d by (intro mult_left_mono) auto
    also have "\<dots> = 10 powi (dec_digits n - 1)" by (simp flip: power_int_add)
    also have "\<dots> \<le> of_int n" using bn n by auto
    finally show ?thesis using d x by (simp add: le_divide_eq)
  qed
  show ?thesis using up lo q by (auto simp: dec_exp_def Let_def)
qed

text \<open>A decimal with three places between 0.001 and 99999.999 is the shortest text of its float.\<close>

lemma reads_back_error:
  assumes "rnd c = Fin x" "1 / 1000 \<le> x" "x \<le> 2 ^ 17"
  shows "\<bar>c - x\<bar> < 1 / 4000"
proof -
  have x: "x = rr c" using assms(1) by (simp add: rnd_eq_Fin)
  have rep11: "rep (1 / 2048)" unfolding rep_def using rr_fixed [of "1 / 2048" 1 "- 11"] by (simp add: power_int_def power_divide)
  have "\<not> c \<le> 1 / 2048" using rr_le_rep [OF rep11, of c] x assms(2) by auto
  moreover have "\<not> 2 ^ 18 \<le> c" using rep_le_rr [OF rep_power2 [of 18], of c] x assms(3) by auto
  ultimately have c: "1 / 2048 < c" "c < 2 ^ 18" by auto
  have "(2::rat) powi (- 1022) \<le> 2 powi (- 11)" by (simp only: powi_le_iff)
  moreover have "(2::rat) powi (- 11) = 1 / 2048" by (simp add: power_int_def power_divide)
  ultimately have "2 powi (- 1022) \<le> \<bar>c\<bar>" using c(1) by linarith
  from rr_rel_error [OF this] have "\<bar>x - c\<bar> \<le> \<bar>c\<bar> / 2 ^ 53" using x by simp
  also have "\<dots> < 2 ^ 18 / 2 ^ 53" using c by (intro divide_strict_right_mono) auto
  also have "\<dots> < 1 / 4000" by simp
  finally show ?thesis by (simp add: abs_minus_commute)
qed

lemma repr_candidate_mult:
  assumes "repr_candidate x n = Some c"
  shows "rnd c = Fin x" "\<exists>j. c = of_int j * 10 powi (dec_exp x - n + 1)"
  using assms by (auto simp: repr_candidate_def Let_def dest: find_SomeD split: if_splits)

lemma thousandths_float:
  fixes k :: int
  assumes k: "1 \<le> k" "k \<le> 99999999" and x: "rnd (of_int k / 1000) = Fin x"
  shows "1 / 1000 \<le> x" "x \<le> 2 ^ 17" "\<bar>of_int k / 1000 - x\<bar> < 1 / 4000"
proof -
  let ?v = "of_int k / 1000 :: rat"
  have rx: "x = rr ?v" using x by (simp add: rnd_eq_Fin)
  have low: "1 / 1000 \<le> rr (1 / 1000 :: rat)" by code_simp
  have "(of_int 1 :: rat) \<le> of_int k" using k(1) by (subst of_int_le_iff)
  then have "1 / 1000 \<le> ?v" by simp
  then show lo: "1 / 1000 \<le> x" using rr_mono [of "1 / 1000" ?v] low rx by simp
  have "(of_int k :: rat) \<le> of_int 99999999" using k(2) by (subst of_int_le_iff)
  then have "?v \<le> 2 ^ 17" by simp
  then show hi: "x \<le> 2 ^ 17" using rr_le_rep [OF rep_power2 [of 17], of ?v] rx by simp
  show "\<bar>?v - x\<bar> < 1 / 4000" using reads_back_error [OF x lo hi] .
qed

lemma thousandths_exp:
  assumes "1 / 1000 \<le> x" "x \<le> 2 ^ 17"
  shows "- 3 \<le> dec_exp x" "dec_exp x \<le> 6"
proof -
  have e: "10 powi dec_exp x \<le> x \<and> x < 10 powi (dec_exp x + 1)" by (rule dec_exp_bounds, rule less_le_trans [OF _ assms(1)]) simp
  have "(10::rat) powi - 3 < 10 powi (dec_exp x + 1)" unfolding powi10_minus3 using e assms(1) by linarith
  then show "- 3 \<le> dec_exp x" using powi10_less_iff [of "- 3" "dec_exp x + 1"] by simp
  have "x \<le> 1000000" using assms(2) by simp
  then have "(10::rat) powi dec_exp x \<le> 10 powi 6" using e by simp
  then show "dec_exp x \<le> 6" using powi10_le_iff by blast
qed

text \<open>A multiple of 0.001 or of a coarser step that reads back as the float of another one is that one.\<close>

lemma thousandths_unique:
  fixes k j :: int
  assumes "1 / 1000 \<le> x" "x \<le> 2 ^ 17" "\<bar>of_int k / 1000 - x\<bar> < 1 / 4000" "rnd c = Fin x" "c = of_int j * 10 powi s" "- 3 \<le> s"
  shows "c = of_int k / 1000"
proof -
  have c: "\<bar>c - x\<bar> < 1 / 4000" using reads_back_error [OF assms(4,1,2)] .
  have "(10::rat) powi s = 10 powi (s + 3) * 10 powi - 3" using power_int_add [of "10::rat" "s + 3" "- 3"] by simp
  also have "\<dots> = of_int (10 ^ nat (s + 3)) / 1000" unfolding powi10_minus3 using assms(6) by (simp add: power_int_def)
  finally have cj: "c = of_int (j * 10 ^ nat (s + 3)) / 1000" using assms(5) by simp
  moreover have "\<bar>c - of_int k / 1000\<bar> < 1 / 1000" using c assms(3) by linarith
  ultimately have "\<bar>of_int (j * 10 ^ nat (s + 3)) - of_int k :: rat\<bar> < 1" by (simp add: abs_less_iff field_simps)
  then have "\<bar>of_int (j * 10 ^ nat (s + 3) - k) :: rat\<bar> < 1" by simp
  then have "j * 10 ^ nat (s + 3) = k" using of_int_less_iff [of "\<bar>j * 10 ^ nat (s + 3) - k\<bar>" 1, where 'a = rat] by simp
  then show ?thesis using cj by simp
qed

lemma thousandths_hit:
  assumes "\<bar>of_int k / 1000 - x\<bar> < 1 / 4000" "rnd (of_int k / 1000) = Fin x"
  shows "repr_candidate x (dec_exp x + 4) = Some (of_int k / 1000)"
proof -
  have s: "(10::rat) powi (dec_exp x - (dec_exp x + 4) + 1) = 1 / 1000" using powi10_minus3 by simp
  have "\<bar>x * 1000 - of_int k\<bar> < 1 / 4" using assms(1) unfolding abs_less_iff by linarith
  then have "of_int (rne (x * 1000)) < of_int k + (1 :: rat)" "of_int k < of_int (rne (x * 1000)) + (1 :: rat)"
    using rne_bounds [of "x * 1000"] unfolding abs_less_iff by linarith+
  then have "rne (x * 1000) = k" by linarith
  then show ?thesis using s assms(2) by (simp add: repr_candidate_def Let_def)
qed

lemma repr_thousandths:
  fixes k :: int
  assumes k: "1 \<le> k" "k \<le> 99999999" and x: "rnd (of_int k / 1000) = Fin x"
  shows "repr_value x = of_int k / 1000"
proof -
  note f = thousandths_float [OF k x]
  let ?e = "dec_exp x"
  have search: "repr_search x ns = of_int k / 1000" if "sorted ns" "?e + 4 \<in> set ns" for ns
    using that
  proof (induction ns)
    case (Cons n ns)
    show ?case
    proof (cases "repr_candidate x n")
      case None
      then have "n \<noteq> ?e + 4" using thousandths_hit [OF f(3) x] by auto
      then show ?thesis using Cons None by auto
    next
      case (Some c)
      have "n \<le> ?e + 4" using Cons.prems by auto
      then show ?thesis using thousandths_unique [OF f repr_candidate_mult(1) [OF Some]] repr_candidate_mult(2) [OF Some] Some by force
    qed
  qed simp
  have "?e + 4 \<in> set [1..17]" "sorted [1..17 :: int]" using thousandths_exp [OF f(1,2)] by auto
  moreover have "0 < x" using f(1) by (rule less_le_trans [rotated]) simp
  ultimately show ?thesis using search by (simp add: repr_value_def)
qed

section \<open>Symbols and their parts\<close>

lemma root_char_cases: "root_char c \<Longrightarrow> upper_char c = c \<and> \<not> is_space c"
proof -
  have "\<forall>c\<in>set (upper_letters @ digits @ ''.''). upper_char c = c \<and> \<not> is_space c" by code_simp
  then show "root_char c \<Longrightarrow> upper_char c = c \<and> \<not> is_space c" by (auto simp: root_char_def)
qed

lemma root_char_simps: "c \<in> set digits \<Longrightarrow> root_char c" "root_char CHR ''C''" "root_char CHR ''P''"
  by (simp_all add: root_char_def upper_letters_def)

lemma upper_id: "list_all root_char s \<Longrightarrow> upper s = s"
  by (induction s) (auto simp: upper_def root_char_cases)

lemma rstrip_id: "s \<noteq> [] \<Longrightarrow> root_char (last s) \<Longrightarrow> rstrip s = s"
proof -
  assume "s \<noteq> []" "root_char (last s)"
  then have "rev s = last s # tl (rev s)" "\<not> is_space (last s)" using root_char_cases by (auto simp: hd_rev [symmetric])
  then have "dropWhile is_space (rev s) = rev s" by (metis dropWhile.simps(2))
  then show "rstrip s = s" by (simp add: rstrip_def)
qed

lemma strip_id: "s \<noteq> [] \<Longrightarrow> root_char (hd s) \<Longrightarrow> root_char (last s) \<Longrightarrow> strip s = s"
  using root_char_cases [of "hd s"] by (cases s) (auto simp: strip_def rstrip_id)

lemma rstrip_padding: "s \<noteq> [] \<Longrightarrow> root_char (last s) \<Longrightarrow> rstrip (s @ replicate n CHR '' '') = s"
proof -
  assume a: "s \<noteq> []" "root_char (last s)"
  have "is_space CHR '' ''" by code_simp
  then have "dropWhile is_space (replicate n CHR '' '' @ t) = dropWhile is_space t" for t by (induction n) auto
  then show ?thesis using rstrip_id [OF a] by (simp add: rstrip_def)
qed

lemma occ_suffix_parts:
  assumes "occ_suffix s = Some m"
  shows "s = occ_root m @ occ_date m @ occ_right m @ occ_strike m" "is_root (occ_root m)" "all_digits (occ_date m)" "length (occ_date m) = 6"
    "occ_right m \<in> {''C'', ''P''}" "all_digits (occ_strike m)" "length (occ_strike m) = 8" "list_all root_char s"
proof -
  let ?n = "length s - 15"
  let ?r = "drop ?n s"
  have m: "m = \<lparr>occ_root = take ?n s, occ_date = take 6 ?r, occ_right = take 1 (drop 6 ?r), occ_strike = drop 7 ?r\<rparr>" and len: "15 \<le> length s"
    and p: "is_root (occ_root m)" "all_digits (occ_date m)" "occ_right m \<in> {''C'', ''P''}" "all_digits (occ_strike m)"
    using assms by (auto simp: occ_suffix_def Let_def split: if_splits)
  have r: "?r = take 6 ?r @ take 1 (drop 6 ?r) @ drop 7 ?r"
    using append_take_drop_id [of 6 ?r] append_take_drop_id [of 1 "drop 6 ?r"] by (metis Suc_eq_plus1 drop_drop eval_nat_numeral(3) plus_1_eq_Suc)
  show s: "s = occ_root m @ occ_date m @ occ_right m @ occ_strike m" using r append_take_drop_id [of ?n s] m by simp
  show "is_root (occ_root m)" "all_digits (occ_date m)" "occ_right m \<in> {''C'', ''P''}" "all_digits (occ_strike m)" by (fact p)+
  show "length (occ_date m) = 6" "length (occ_strike m) = 8" using m len by auto
  have d: "all_digits t \<Longrightarrow> list_all root_char t" for t by (auto simp: all_digits_def list_all_iff root_char_simps)
  have "list_all root_char (occ_right m)" using p(3) root_char_simps by auto
  then show "list_all root_char s" using d p s by (subst s) (simp add: is_root_def)
qed

lemma occ_suffix_intro:
  assumes "is_root r" "all_digits d" "length d = 6" "t \<in> {''C'', ''P''}" "all_digits k" "length k = 8"
  shows "occ_suffix (r @ d @ t @ k) = Some \<lparr>occ_root = r, occ_date = d, occ_right = t, occ_strike = k\<rparr>"
  using assms by (auto simp: occ_suffix_def Let_def)

text \<open>A canonical option symbol is its own upper case, has no blanks and normalises to itself; so does its padded form.\<close>

lemma normalise_padded:
  assumes "occ_suffix s = Some m"
  shows "normalise (pad_root (occ_root m) @ occ_date m @ occ_right m @ occ_strike m) = Inr s"
proof -
  note p = occ_suffix_parts [OF assms]
  let ?p = "pad_root (occ_root m) @ occ_date m @ occ_right m @ occ_strike m"
  have root: "occ_root m \<noteq> []" "length (occ_root m) \<le> 6" "list_all root_char (occ_root m)" using p(2) by (auto simp: is_root_def)
  have l: "length (pad_root (occ_root m)) = 6" using root by (simp add: pad_root_def)
  have len: "length ?p = 21" using l p(4,5,7) by auto
  have k: "occ_strike m \<noteq> []" using p(7) by auto
  have "last ?p = last (occ_strike m)" "hd ?p = hd (occ_root m)" using k root(1) by (simp_all add: pad_root_def)
  moreover have "root_char (last (occ_strike m))" using p(6) k by (auto simp: all_digits_def list_all_iff root_char_simps)
  moreover have "root_char (hd (occ_root m))" "root_char (last (occ_root m))" using root by (auto simp: list_all_iff)
  ultimately have strip: "strip ?p = ?p" using k by (intro strip_id) auto
  have "rstrip (take 6 ?p) @ drop 6 ?p = s"
    using l rstrip_padding [OF root(1) \<open>root_char (last (occ_root m))\<close>] p(1) by (simp add: pad_root_def)
  then show ?thesis using strip len upper_id [OF p(8)] assms by (auto simp: normalise_def Let_def)
qed

section \<open>Dates and numbers as text\<close>

lemma digit_laws: "c \<in> set digits \<Longrightarrow> 0 \<le> digit_value c \<and> digit_value c < 10 \<and> digit_char (digit_value c) = c"
proof -
  have "\<forall>c\<in>set digits. 0 \<le> digit_value c \<and> digit_value c < 10 \<and> digit_char (digit_value c) = c" by code_simp
  then show "c \<in> set digits \<Longrightarrow> 0 \<le> digit_value c \<and> digit_value c < 10 \<and> digit_char (digit_value c) = c" by blast
qed

lemma number_text_snoc: "number_text (s @ [c]) = 10 * number_text s + digit_value c"
  by (simp add: number_text_def)

lemma padded_number: "all_digits s \<Longrightarrow> padded (length s) (number_text s) = s \<and> 0 \<le> number_text s \<and> number_text s < 10 ^ length s"
proof (induction s rule: rev_induct)
  case Nil
  then show ?case by (simp add: number_text_def)
next
  case (snoc c s)
  have c: "0 \<le> digit_value c" "digit_value c < 10" "digit_char (digit_value c) = c" using snoc.prems digit_laws by (auto simp: all_digits_def)
  have s: "padded (length s) (number_text s) = s" "0 \<le> number_text s" "number_text s < 10 ^ length s"
    using snoc by (auto simp: all_digits_def)
  have "(10 * number_text s + digit_value c) div 10 = number_text s" "(10 * number_text s + digit_value c) mod 10 = digit_value c"
    using c by simp_all
  then show ?case using s c by (simp add: number_text_snoc)
qed

lemma two_digits: "all_digits s \<Longrightarrow> length s = 2 \<Longrightarrow> padded 2 (number_text s) = s \<and> 0 \<le> number_text s \<and> number_text s < 100"
proof -
  assume a: "all_digits s" "length s = 2"
  have "(10::int) ^ length s = 100" using a(2) by simp
  then show ?thesis using padded_number [OF a(1)] a(2) by simp
qed

lemma month_cases: "1 \<le> m \<Longrightarrow> m \<le> 12 \<Longrightarrow>
    m = 1 \<or> m = 2 \<or> m = 3 \<or> m = 4 \<or> m = 5 \<or> m = 6 \<or> m = 7 \<or> m = 8 \<or> m = 9 \<or> m = 10 \<or> m = 11 \<or> m = (12 :: int)"
  by presburger

lemma ymd_parts:
  assumes "1 \<le> m" "m \<le> 12" "1 \<le> d" "d \<le> days_in_month y m"
  shows "year_of (ymd y m d) = y" "month_of (ymd y m d) = m" "day_of (ymd y m d) = d"
proof -
  show y: "year_of (ymd y m d) = y"
    by (rule year_of_unique) (use assms month_cases [OF assms(1,2)] days_before_year_Suc [of y] in
      \<open>auto simp: ymd_def days_in_month_def days_before_month_def\<close>)
  let ?n = "days_before_month y m + d"
  have n: "ymd y m d - days_before_year y = ?n" by (simp add: ymd_def)
  have "int (length (filter (\<lambda>j. days_before_month y j < ?n) [1, 2, 3, 4, 5, 6, 7, 8, 9, 10, 11, 12])) = m"
    using month_cases [OF assms(1,2)] assms(3,4) days_before_year_Suc [of y]
    by (cases "leap y"; elim disjE) (simp_all add: ymd_def days_in_month_def days_before_month_def)
  then show m: "month_of (ymd y m d) = m" unfolding month_of_def y Let_def n .
  show "day_of (ymd y m d) = d" unfolding day_of_def y m by (simp add: ymd_def)
qed

lemma format_parsed_date:
  assumes "parse_yymmdd s = Inr d" "all_digits s" "length s = 6"
  shows "format_yymmdd d = s"
proof -
  let ?y = "number_text (take 2 s)" and ?m = "number_text (take 2 (drop 2 s))" and ?d = "number_text (drop 4 s)"
  have d: "d = ymd (full_year ?y) ?m ?d" and r: "1 \<le> ?m" "?m \<le> 12" "1 \<le> ?d" "?d \<le> days_in_month (full_year ?y) ?m"
    using assms(1) by (auto simp: parse_yymmdd_def Let_def split: if_splits)
  have a: "all_digits (take 2 s)" "all_digits (take 2 (drop 2 s))" "all_digits (drop 4 s)"
    using assms(2) by (auto simp: all_digits_def list_all_iff dest: in_set_takeD in_set_dropD)
  have l: "length (take 2 s) = 2" "length (take 2 (drop 2 s)) = 2" "length (drop 4 s) = 2" using assms(3) by auto
  note t = two_digits [OF a(1) l(1)] two_digits [OF a(2) l(2)] two_digits [OF a(3) l(3)]
  have "full_year ?y mod 100 = ?y" 
  proof -
    have "(1900 + n) mod 100 = n \<and> (2000 + n) mod 100 = n" if "0 \<le> n" "n < 100" for n :: int
      using that mod_mult_self2 [of n 100 19] mod_mult_self2 [of n 100 20] by (simp add: add.commute)
    then show ?thesis using t(1) by (simp add: full_year_def)
  qed
  moreover have "take 2 s @ take 2 (drop 2 s) @ drop 4 s = s"
    using append_take_drop_id [of 2 s] append_take_drop_id [of 2 "drop 2 s"] by simp
  ultimately show ?thesis using t ymd_parts [OF r] unfolding format_yymmdd_def d by simp
qed

section \<open>The round trip\<close>

lemma strike_text:
  assumes "all_digits k" "length k = 8" "rnd (of_int (number_text k) / 1000) = Fin x"
  shows "repr_value x * 1000 = of_int (number_text k)" "padded 8 (number_text k) = k" "0 \<le> number_text k" "number_text k \<le> 99999999"
proof -
  note n = padded_number [OF assms(1), unfolded assms(2)]
  then show b: "padded 8 (number_text k) = k" "0 \<le> number_text k" "number_text k \<le> 99999999" by auto
  show "repr_value x * 1000 = of_int (number_text k)"
  proof (cases "number_text k = 0")
    case True
    then show ?thesis using assms(3) by (simp add: repr_value_def)
  next
    case False
    then show ?thesis using repr_thousandths [OF _ b(3) assms(3)] b(2) by simp
  qed
qed

text \<open>C33: An option symbol survives the trip through its instrument. A symbol that \<open>parse_occ\<close> accepts, padded or
  compact, formats to a text of exactly 21 characters whose last 15 are those of the canonical symbol, and parsing that
  text gives the same instrument again: root, expiry, right and the strike in binary64.\<close>

theorem occ_round_trip:
  assumes "parse_occ symbol = Inr i"
  shows "\<exists>p. format_occ i = Inr p \<and> length p = 21 \<and> drop 6 p = drop (length (instrument_id i) - 15) (instrument_id i) \<and>
    parse_occ p = Inr i"
proof -
  from assms obtain n m d where n: "normalise symbol = Inr n" "occ_suffix n = Some m" "parse_yymmdd (occ_date m) = Inr d"
    and i: "i = \<lparr>instrument_id = n, i_kind = ''option'', i_multiplier = Fin 100, i_underlying = Some (occ_root m), i_expiry = Some d,
              i_strike = Some (rnd (of_int (number_text (occ_strike m)) / 1000)), i_right = Some (occ_right m),
              i_exercise_style = Some ''american'', i_settlement = Some ''physical'', i_deliverable = Some (deliverable_text (occ_root m)),
              i_currency = ''USD'', i_source = None, i_first_seen = None, i_last_seen = None\<rparr>"
    unfolding parse_occ_def bindE_eq_Inr by (auto simp: bindE_eq_Inr split: option.split_asm)
  note p = occ_suffix_parts [OF n(2)]
  let ?p = "pad_root (occ_root m) @ occ_date m @ occ_right m @ occ_strike m" and ?k = "number_text (occ_strike m)"
  have "(of_int ?k :: rat) / 1000 \<le> 2 ^ 17" "0 \<le> (of_int ?k :: rat) / 1000"
    using strike_text(3,4) [OF p(6,7)] padded_number [OF p(6)] p(7) of_int_le_iff [of ?k 99999999, where 'a = rat] by auto
  then obtain x where x: "rnd (of_int ?k / 1000) = Fin x" using rnd_upto [of "of_int ?k / 1000" 17] by auto
  note s = strike_text [OF p(6,7) x]
  have "(of_int ?k :: rat) \<le> of_int 99999999" using s(4) by (subst of_int_le_iff)
  moreover have "list_all root_char (occ_root m)" using p(2) by (simp add: is_root_def)
  ultimately have "format_occ i = Inr ?p"
    using s p(2,5) upper_id format_parsed_date [OF n(3) p(3,4)] x by (auto simp: format_occ_def i Let_def)
  moreover have "length (pad_root (occ_root m)) = 6" using p(2) by (auto simp: is_root_def pad_root_def)
  moreover have "drop (length n - 15) n = occ_date m @ occ_right m @ occ_strike m" using p(1,4,5,7) by auto
  moreover have "parse_occ ?p = Inr i" unfolding parse_occ_def using normalise_padded [OF n(2)] n i by simp
  ultimately show ?thesis using p(4,5,7) by (auto simp: i)
qed

theorem occ_round_trip_witness:
  "\<exists>i p. parse_occ ''SPY260116C00500500'' = Inr i \<and> format_occ i = Inr p \<and> p = ''SPY   260116C00500500'' \<and> parse_occ p = Inr i"
proof -
  have "case parse_occ ''SPY260116C00500500'' of Inr i \<Rightarrow> format_occ i = Inr ''SPY   260116C00500500'' | Inl _ \<Rightarrow> False" by code_simp
  then obtain i where i: "parse_occ ''SPY260116C00500500'' = Inr i" "format_occ i = Inr ''SPY   260116C00500500''" by (auto split: sum.split_asm)
  then show ?thesis using occ_round_trip [OF i(1)] by auto
qed

end
