(* ===== verification/Accounts.thy ===== *)
theory Accounts
  imports Verify Wire Instruments
begin

text \<open>
  The life of a paper account: the risk limits of \<open>src/engine/money/limits.py\<close>, the halts of
  \<open>src/engine/money/halts.py\<close>, the settings upsert of \<open>src/sim/schema.py\<close> and the transactional service
  of \<open>src/engine/accounts/service.py\<close> (verify, cancel, halt, resume, retire, finalize, reconcile). \<open>office\<close> adds
  the reconciliations, the admitted specifications and intakes and the instrument master to the desk. An operation that raises inside its transaction
  is an \<open>Inl\<close> and changes nothing; \<open>halt\<close> and \<open>resume\<close>, which may commit the evidence of a failed verification
  before they raise, return the office beside their outcome.
\<close>

section \<open>Limits\<close>

definition DRAWDOWN_LIMIT :: float64 where
  "DRAWDOWN_LIMIT = lit (- (1 / 5))"

definition DAILY_LOSS_LIMIT :: float64 where
  "DAILY_LOSS_LIMIT = lit (- (1 / 20))"

definition finite_value :: "float64 \<Rightarrow> string \<Rightarrow> float64 outcome" where
  "finite_value v name = (if isfinite v then Inr v else Inl (ValueError (name @ '' must be finite'')))"

definition drawdown :: "float64 \<Rightarrow> float64 \<Rightarrow> float64 outcome" where
  "drawdown equity peak_equity =
     bindE (finite_value equity ''equity'') (\<lambda>equity.
     bindE (finite_value peak_equity ''peak equity'') (\<lambda>peak.
     if fle peak (Fin 0) then Inl (ValueError ''peak equity must be positive'')
     else bindE (fdiv equity peak) (\<lambda>r. Inr (fsub r (Fin 1)))))"

definition daily_return :: "float64 \<Rightarrow> float64 option \<Rightarrow> float64 option outcome" where
  "daily_return equity prior0 = (case prior0 of
     None \<Rightarrow> Inr None
   | Some prior \<Rightarrow>
       bindE (finite_value equity ''equity'') (\<lambda>equity.
       bindE (finite_value prior ''prior close equity'') (\<lambda>prior.
       if fle prior (Fin 0) then Inr None else bindE (fdiv equity prior) (\<lambda>r. Inr (Some (fsub r (Fin 1)))))))"

definition gross_exposure :: "(string \<times> float64) list \<Rightarrow> (string \<times> float64) list \<Rightarrow> float64 outcome" where
  "gross_exposure held marks =
     (if \<not> fst ` set held \<subseteq> fst ` set marks then Inl (ValueError ''missing marks'')
      else bindE (mapE (\<lambda>(ticker, qty). bindE (finite_value (the (map_of marks ticker)) ''mark'') (\<lambda>m. Inr (fabs (fmul qty m)))) held)
             (\<lambda>xs. Inr (py_sum xs)))"

definition margin_excess :: "float64 \<Rightarrow> float64 \<Rightarrow> float64 \<Rightarrow> float64 outcome" where
  "margin_excess equity long_market_value short_market_value =
     (let requirement = fadd (fmul (lit (1 / 4)) (fmax (Fin 0) long_market_value)) (fmul (lit (3 / 10)) (fabs short_market_value)) in
      bindE (finite_value equity ''equity'') (\<lambda>e. Inr (fsub e requirement)))"

section \<open>Tables and settings\<close>

record reconciliation_row =
  rc_portfolio :: string
  rc_session :: date
  rc_expected :: string
  rc_observed :: string
  rc_status :: string
  rc_detail :: string
  rc_created :: datetime

record office =
  o_desk :: desk
  account_reconciliations :: "reconciliation_row list"
  paper_account_intakes :: "intake_row list"
  paper_account_specs :: "spec_row list"
  instruments :: "instrument list"

definition office_book :: "office \<Rightarrow> book" where
  "office_book of1 = ledger (d_store (o_desk of1))"

definition on_desk :: "(desk \<Rightarrow> desk) \<Rightarrow> office \<Rightarrow> office" where
  "on_desk f of1 = of1\<lparr>o_desk := f (o_desk of1)\<rparr>"

definition on_book :: "(book \<Rightarrow> book) \<Rightarrow> office \<Rightarrow> office" where
  "on_book f = on_desk (\<lambda>dk. dk\<lparr>d_store := (d_store dk)\<lparr>ledger := f (ledger (d_store dk))\<rparr>\<rparr>)"

text \<open>The keyword arguments of \<open>set_portfolio_account\<close>: a field is \<open>None\<close> when it is not passed.\<close>

record account_fields =
  fd_engine :: "string option"
  fd_cost_profile :: "string option"
  fd_account_type :: "string option"
  fd_visibility :: "string option"
  fd_status :: "string option option"
  fd_price_source :: "string option"
  fd_day_trade_rule :: "string option"
  fd_allow_short :: "bool option"

definition no_fields :: account_fields where
  "no_fields = \<lparr>fd_engine = None, fd_cost_profile = None, fd_account_type = None, fd_visibility = None, fd_status = None,
     fd_price_source = None, fd_day_trade_rule = None, fd_allow_short = None\<rparr>"

definition outside :: "'a option \<Rightarrow> 'a list \<Rightarrow> bool" where
  "outside x choices = (case x of None \<Rightarrow> False | Some v \<Rightarrow> v \<notin> set choices)"

definition invalid_fields :: "account_fields \<Rightarrow> bool" where
  "invalid_fields f \<longleftrightarrow>
     outside (fd_engine f) [''league'', ''p15'', ''p16'', ''account''] \<or>
     outside (fd_account_type f) [''cash_legacy'', ''margin''] \<or>
     outside (fd_visibility f) [''public'', ''private''] \<or>
     outside (fd_status f) [None, Some ''inactive'', Some ''active'', Some ''halted'', Some ''retiring'', Some ''retired''] \<or>
     outside (fd_price_source f) [''prices'', ''massive_daily''] \<or>
     outside (fd_day_trade_rule f) [''pdt_25k_legacy'', ''intraday_margin_2026''] \<or>
     fd_cost_profile f = Some []"

text \<open>An INSERT fills the columns that are not passed with the defaults of the table; an UPDATE leaves them.\<close>

definition default_account :: "string \<Rightarrow> account_row" where
  "default_account pid = \<lparr>pa_portfolio_id = pid, pa_engine = Some ''league'', pa_cost_profile = Some ''baseline_v1'',
     pa_account_type = Some ''cash_legacy'', pa_visibility = Some ''public'', pa_status = None, pa_price_source = Some ''prices'',
     pa_day_trade_rule = Some ''pdt_25k_legacy'', pa_allow_short = Some False\<rparr>"

definition assign :: "'a option \<Rightarrow> 'a option \<Rightarrow> 'a option" where
  "assign x old = (case x of None \<Rightarrow> old | Some v \<Rightarrow> Some v)"

definition assign_fields :: "account_fields \<Rightarrow> account_row \<Rightarrow> account_row" where
  "assign_fields f r = r\<lparr>pa_engine := assign (fd_engine f) (pa_engine r), pa_cost_profile := assign (fd_cost_profile f) (pa_cost_profile r),
     pa_account_type := assign (fd_account_type f) (pa_account_type r), pa_visibility := assign (fd_visibility f) (pa_visibility r),
     pa_status := (case fd_status f of None \<Rightarrow> pa_status r | Some s \<Rightarrow> s), pa_price_source := assign (fd_price_source f) (pa_price_source r),
     pa_day_trade_rule := assign (fd_day_trade_rule f) (pa_day_trade_rule r), pa_allow_short := assign (fd_allow_short f) (pa_allow_short r)\<rparr>"

definition set_portfolio_account :: "book \<Rightarrow> string \<Rightarrow> account_fields \<Rightarrow> book outcome" where
  "set_portfolio_account bk pid f =
     (if portfolio_row_of bk pid = None then Inl (KeyError ''unknown portfolio'')
      else if invalid_fields f then Inl (ValueError ''invalid field'')
      else if \<exists>a\<in>set (portfolio_accounts bk). pa_portfolio_id a = pid
      then Inr (bk\<lparr>portfolio_accounts := update_rows (\<lambda>a. pa_portfolio_id a = pid) (assign_fields f) (portfolio_accounts bk)\<rparr>)
      else Inr (bk\<lparr>portfolio_accounts := portfolio_accounts bk @ [assign_fields f (default_account pid)]\<rparr>))"

definition set_status :: "office \<Rightarrow> string \<Rightarrow> string \<Rightarrow> office outcome" where
  "set_status of1 pid status =
     bindE (set_portfolio_account (office_book of1) pid (no_fields\<lparr>fd_status := Some (Some status)\<rparr>)) (\<lambda>bk.
     Inr (on_book (\<lambda>_. bk) of1))"

text \<open>\<open>init_schema\<close> creates what is missing and fills a missing initial cash.\<close>

definition init_schema :: "office \<Rightarrow> office" where
  "init_schema of1 =
     on_desk (\<lambda>dk. (bootstrap_order_sequence dk)\<lparr>account_events := Some (coalesce (account_events dk) []),
                     account_state := Some (coalesce (account_state dk) [])\<rparr>)
       (on_book (\<lambda>bk. bk\<lparr>portfolios := update_rows (\<lambda>p. pf_initial_cash p = None) (\<lambda>p. p\<lparr>pf_initial_cash := Some INITIAL_CASH\<rparr>)
                          (portfolios bk)\<rparr>) of1)"

definition record_event :: "office \<Rightarrow> string \<Rightarrow> string \<Rightarrow> payload \<Rightarrow> datetime \<Rightarrow> office" where
  "record_event of1 pid kind body now =
     on_desk (\<lambda>dk. dk\<lparr>account_events := Some (add_account_event (coalesce (account_events dk) []) pid kind body now)\<rparr>) of1"

definition update_state :: "string \<Rightarrow> (account_state_row \<Rightarrow> account_state_row) \<Rightarrow> office \<Rightarrow> office" where
  "update_state pid f = on_desk (\<lambda>dk. dk\<lparr>account_state :=
     map_option (update_rows (\<lambda>r. as_portfolio r = pid) f) (account_state dk)\<rparr>)"

definition office_account :: "office \<Rightarrow> string \<Rightarrow> settings outcome" where
  "office_account of1 pid =
     (if portfolio_row_of (office_book of1) pid = None then Inl (AccountRefused ''unknown account'')
      else bindE (portfolio_account (office_book of1) pid) (\<lambda>st.
           if engine st \<noteq> ''account'' then Inl (AccountRefused ''unknown account'') else Inr st))"

section \<open>Halts\<close>

definition HALT_REASONS :: "string list" where
  "HALT_REASONS = [''halt_drawdown'', ''halt_daily_loss'', ''halt_reconciliation'']"

definition FORCED_CLOSE_REASONS :: "string list" where
  "FORCED_CLOSE_REASONS = [''buy_in'', ''margin_call'', ''retirement'']"

text \<open>An order the engine forces: its detail row names one of the forced-close reasons.\<close>

definition forced_order :: "desk \<Rightarrow> int \<Rightarrow> bool" where
  "forced_order dk order =
     (case find (\<lambda>d. od_order d = order) (sim_order_details dk) of
        None \<Rightarrow> False
      | Some d \<Rightarrow> \<exists>p\<in>set FORCED_CLOSE_REASONS. like_prefix p (od_state_reason d))"

definition ensure_state :: "office \<Rightarrow> string \<Rightarrow> datetime \<Rightarrow> office outcome" where
  "ensure_state of1 pid now =
     (if \<exists>r\<in>set (coalesce (account_state (o_desk of1)) []). as_portfolio r = pid then Inr of1
      else case portfolio_row_of (office_book of1) pid of
        None \<Rightarrow> Inl (AccountRefused ''unknown account'')
      | Some p \<Rightarrow> (case pf_initial_cash p of
          None \<Rightarrow> Inl (ConstraintError ''account_state'')
        | Some c \<Rightarrow> Inr (on_desk (\<lambda>dk. dk\<lparr>account_state := Some (coalesce (account_state dk) [] @
            [\<lparr>as_portfolio = pid, as_peak_equity = c, as_prior_close_equity = Some c, as_drawdown_anchor = Some c, as_halted_at = None,
              as_halt_reason = None, as_resumed_at = None, as_resumed_by = None, as_pdt_flagged_at = None,
              as_pdt_restricted_until = None, as_retired_at = None, as_updated_at = now\<rparr>])\<rparr>) of1)))"

text \<open>The two UPDATEs that cancel a list of orders.\<close>

definition cancel_orders :: "int list \<Rightarrow> string \<Rightarrow> datetime \<Rightarrow> desk \<Rightarrow> desk" where
  "cancel_orders ids reason now dk = dk
     \<lparr>sim_orders := update_rows (\<lambda>r. ord_id r \<in> set ids) (\<lambda>r. r\<lparr>ord_status := ''cancelled'', ord_reject_reason := Some reason\<rparr>) (sim_orders dk),
      sim_order_details := update_rows (\<lambda>d. od_order d \<in> set ids \<and> od_state d = ''queued'')
        (\<lambda>d. d\<lparr>od_state := ''cancelled'', od_state_reason := Some reason, od_state_at := now\<rparr>) (sim_order_details dk)\<rparr>"

definition discretionary_orders :: "desk \<Rightarrow> string \<Rightarrow> int list" where
  "discretionary_orders dk pid = map ord_id (filter (\<lambda>r. ord_portfolio r = pid \<and> ord_status r = ''pending'' \<and>
     \<not> forced_order dk (ord_id r)) (sim_orders dk))"

definition halt_account :: "office \<Rightarrow> string \<Rightarrow> string \<Rightarrow> datetime \<Rightarrow> halt_detail \<Rightarrow> (office \<times> bool) outcome" where
  "halt_account of0 pid reason now detail =
     (if reason \<notin> set HALT_REASONS \<and> reason \<noteq> ''halt_manual'' then Inl (AccountRefused ''invalid halt reason'')
      else let of1 = init_schema of0 in
      bindE (office_account of1 pid) (\<lambda>st.
      if account_status st = ''retired'' then Inl (AccountRefused ''retired'')
      else if account_status st = ''halted'' then Inr (of1, False)
      else
      bindE (ensure_state of1 pid now) (\<lambda>of2.
      bindE (set_status of2 pid ''halted'') (\<lambda>of3.
      let of4 = update_state pid (\<lambda>r. r\<lparr>as_halted_at := Some now, as_halt_reason := Some reason, as_updated_at := now\<rparr>) of3;
          ids = discretionary_orders (o_desk of4) pid;
          of5 = on_desk (cancel_orders ids reason now) of4
      in Inr (record_event of5 pid reason (HaltedBy reason ids detail) now, True)))))"

definition latest_reconciliation :: "office \<Rightarrow> string \<Rightarrow> date \<Rightarrow> reconciliation_row option" where
  "latest_reconciliation of1 pid session_date =
     first_by (\<lambda>a b. (rc_session b, rc_created b) < (rc_session a, rc_created a))
       (filter (\<lambda>r. rc_portfolio r = pid \<and> rc_session r \<le> session_date) (account_reconciliations of1))"

definition latest_resume :: "desk \<Rightarrow> string \<Rightarrow> account_event option" where
  "latest_resume dk pid = first_by (\<lambda>a b. (ae_created b, ae_id b) < (ae_created a, ae_id a))
     (filter (\<lambda>v. ae_portfolio v = pid \<and> ae_kind v = ''resumed'') (coalesce (account_events dk) []))"

definition anchor_session :: "account_event \<Rightarrow> date option" where
  "anchor_session v = (case ae_payload v of Resumed _ _ _ d \<Rightarrow> d | _ \<Rightarrow> None)"

text \<open>The curve of an account up to a session, the anchor of its risk window and the closes in it.\<close>

definition equity_curve :: "store \<Rightarrow> string \<Rightarrow> date \<Rightarrow> (date \<times> float64) list" where
  "equity_curve st pid session_date = sort_key fst (map (\<lambda>r. (eq_date r, eq_equity r))
     (filter (\<lambda>r. eq_portfolio r = pid \<and> eq_date r \<le> session_date) (sim_equity st)))"

definition anchor_day :: "desk \<Rightarrow> string \<Rightarrow> date option" where
  "anchor_day dk pid = Option.bind (latest_resume dk pid) anchor_session"

definition anchor_equity :: "desk \<Rightarrow> string \<Rightarrow> float64 \<Rightarrow> (date \<times> float64) list \<Rightarrow> float64" where
  "anchor_equity dk pid initial curve = (case latest_resume dk pid of
     None \<Rightarrow> initial
   | Some v \<Rightarrow> (case find (\<lambda>(day, _). Some day = anchor_session v) curve of None \<Rightarrow> initial | Some (_, x) \<Rightarrow> x))"

definition subsequent :: "date option \<Rightarrow> (date \<times> float64) list \<Rightarrow> (date \<times> float64) list" where
  "subsequent anchor curve = filter (\<lambda>(day, _). case anchor of None \<Rightarrow> True | Some a \<Rightarrow> a < day) curve"

definition py_max :: "float64 \<Rightarrow> float64 list \<Rightarrow> float64" where
  "py_max x xs = fold (\<lambda>y m. fmax m y) xs x"

definition breach ::
    "office \<Rightarrow> string \<Rightarrow> date \<Rightarrow> float64 \<Rightarrow> float64 \<Rightarrow> float64 \<Rightarrow> (string \<times> halt_detail) option outcome" where
  "breach of1 pid session_date equity risk_peak prior =
     (let latest = latest_reconciliation of1 pid session_date; resumed = latest_resume (o_desk of1) pid;
          fresh = (case latest of None \<Rightarrow> False | Some r \<Rightarrow> rc_status r = ''mismatch'' \<and>
                     (case resumed of None \<Rightarrow> True | Some v \<Rightarrow> ae_created v < rc_created r)) in
      if fresh then Inr (Some (''halt_reconciliation'', Reconciliation (rc_session (the latest)) (rc_detail (the latest))))
      else if fle equity (fmul risk_peak (fadd (Fin 1) DRAWDOWN_LIMIT))
      then bindE (drawdown equity risk_peak) (\<lambda>x. Inr (Some (''halt_drawdown'', Drawdown x equity risk_peak)))
      else bindE (daily_return equity (Some prior)) (\<lambda>ret. case ret of
          None \<Rightarrow> Inr None
        | Some x \<Rightarrow> Inr (if fle equity (fmul prior (fadd (Fin 1) DAILY_LOSS_LIMIT))
                         then Some (''halt_daily_loss'', DailyLoss x equity prior) else None)))"

definition check :: "office \<Rightarrow> string \<Rightarrow> date \<Rightarrow> datetime \<Rightarrow> (office \<times> string option) outcome" where
  "check of0 pid session_date now =
     (let of1 = init_schema of0 in
      bindE (office_account of1 pid) (\<lambda>st.
      if account_status st \<in> {''halted'', ''retired''} then Inr (of1, None)
      else case find (\<lambda>r. eq_portfolio r = pid \<and> eq_date r = session_date) (sim_equity (d_store (o_desk of1))) of
        None \<Rightarrow> Inl (AccountRefused ''account has no equity mark for halt check'')
      | Some row \<Rightarrow>
      bindE (ensure_state of1 pid now) (\<lambda>of2.
      let equity = eq_equity row;
          initial = coalesce (Option.bind (portfolio_row_of (office_book of2) pid) pf_initial_cash) INITIAL_CASH;
          curve = equity_curve (d_store (o_desk of2)) pid session_date;
          anchor = anchor_equity (o_desk of2) pid initial curve;
          since = map snd (subsequent (anchor_day (o_desk of2) pid) curve);
          peak = py_max initial (map snd curve);
          risk_peak = py_max anchor since;
          prior = (if 1 < length since then since ! (length since - 2) else anchor);
          of3 = update_state pid (\<lambda>r. r\<lparr>as_drawdown_anchor := Some anchor\<rparr>) of2
      in bindE (breach of3 pid session_date equity risk_peak prior) (\<lambda>reason.
         let of4 = update_state pid (\<lambda>r. r\<lparr>as_peak_equity := peak, as_prior_close_equity := Some equity, as_updated_at := now\<rparr>) of3 in
         case reason of
           None \<Rightarrow> Inr (of4, None)
         | Some (why, detail) \<Rightarrow> bindE (halt_account of4 pid why now detail) (\<lambda>(of5, _). Inr (of5, Some why))))))"

definition check_step :: "date \<Rightarrow> datetime \<Rightarrow> office \<times> (string \<times> string) list \<Rightarrow> string \<Rightarrow> (office \<times> (string \<times> string) list) outcome" where
  "check_step session_date now acc pid =
     bindE (check (fst acc) pid session_date now) (\<lambda>(of2, reason).
     Inr (of2, (case reason of None \<Rightarrow> snd acc | Some why \<Rightarrow> snd acc @ [(pid, why)])))"

definition active_accounts :: "book \<Rightarrow> string list outcome" where
  "active_accounts bk = bindE (mapE (\<lambda>p. bindE (portfolio_account bk (pf_id p)) (\<lambda>a. Inr (pf_id p, a))) (portfolios bk)) (\<lambda>rows.
     Inr (sort (map fst (filter (\<lambda>(_, a). engine a = ''account'' \<and> account_status a = ''active'') rows))))"

definition check_all :: "office \<Rightarrow> date \<Rightarrow> datetime \<Rightarrow> (office \<times> (string \<times> string) list) outcome" where
  "check_all of0 session_date now =
     bindE (active_accounts (office_book of0)) (\<lambda>ids. foldE (check_step session_date now) (of0, []) ids)"

section \<open>Verification and its evidence\<close>

text \<open>Why a verification failed, and the serialisation of the evidence: the two digests stored with a mismatch and its
  JSON text are parameters.\<close>

datatype verdict = Diverged verified verified | Raised exc

record codec = wire +
  evidence_digests :: "verdict \<Rightarrow> string \<times> string"
  evidence_json :: "verdict \<Rightarrow> string"

definition put_reconciliation :: "reconciliation_row \<Rightarrow> office \<Rightarrow> office" where
  "put_reconciliation r of1 = of1\<lparr>account_reconciliations :=
     (if \<exists>x\<in>set (account_reconciliations of1). rc_portfolio x = rc_portfolio r \<and> rc_session x = rc_session r
      then update_rows (\<lambda>x. rc_portfolio x = rc_portfolio r \<and> rc_session x = rc_session r) (\<lambda>_. r) (account_reconciliations of1)
      else account_reconciliations of1 @ [r])\<rparr>"

definition persist_mismatch :: "codec \<Rightarrow> office \<Rightarrow> string \<Rightarrow> verdict \<Rightarrow> datetime \<Rightarrow> date option \<Rightarrow> office outcome" where
  "persist_mismatch c of1 pid v now session_date =
     (let dates = map eq_date (filter (\<lambda>r. eq_portfolio r = pid) (sim_equity (d_store (o_desk of1))));
          latest = (case dates of [] \<Rightarrow> date_of now | d # ds \<Rightarrow> fold max ds d);
          day = coalesce session_date latest;
          detail = evidence_json c v;
          of2 = put_reconciliation \<lparr>rc_portfolio = pid, rc_session = day, rc_expected = fst (evidence_digests c v),
                  rc_observed = snd (evidence_digests c v), rc_status = ''mismatch'', rc_detail = detail, rc_created = now\<rparr> of1;
          of3 = record_event of2 pid ''verification_mismatch'' (Evidence detail) now
      in bindE (halt_account of3 pid ''halt_reconciliation'' now (Reconciliation day detail)) (\<lambda>(of4, _). Inr of4))"

definition verify :: "codec \<Rightarrow> 'e env_scheme \<Rightarrow> office \<Rightarrow> string \<Rightarrow> date option \<Rightarrow> datetime \<Rightarrow> (office \<times> verdict option) outcome" where
  "verify c e of1 pid session_date now =
     bindE (office_account of1 pid) (\<lambda>_.
     let bad = (\<lambda>v. bindE (persist_mismatch c of1 pid v now session_date) (\<lambda>of2. Inr (of2, Some v))) in
     case verify_run e (o_desk of1) pid session_date now of
       Inl x \<Rightarrow> bad (Raised x)
     | Inr (expected, actual) \<Rightarrow> if states_match expected actual then Inr (of1, None) else bad (Diverged expected actual))"

section \<open>The account service\<close>

definition utc_now :: "datetime \<Rightarrow> stamp option \<Rightarrow> datetime outcome" where
  "utc_now clock now = (case now of
     None \<Rightarrow> Inr clock
   | Some (Naive _) \<Rightarrow> Inl (AccountRefused ''timestamp must include its timezone'')
   | Some (Aware t _) \<Rightarrow> Inr t)"

definition cancel_deadline :: "'e tz_scheme \<Rightarrow> string \<Rightarrow> date \<Rightarrow> datetime option \<Rightarrow> datetime outcome" where
  "cancel_deadline z order_type session_date received_at =
     (if order_type \<in> {''moo'', ''limit_on_open''} then Inr (ny_to_utc z (moo_cutoff session_date))
      else if order_type = ''moc'' then Inr (ny_to_utc z (moc_cutoff session_date))
      else if order_type = ''market''
      then (case received_at of None \<Rightarrow> Inl (AccountRefused ''market order has no receipt timestamp'') | Some r \<Rightarrow> Inr (r + minute))
      else if order_type = ''limit''
      then (case received_at of None \<Rightarrow> Inl (AccountRefused ''limit order has no receipt timestamp'')
            | Some r \<Rightarrow> Inr (max r (ny_to_utc z (combine session_date MARKET_OPEN))))
      else Inr (ny_to_utc z (combine (next_session session_date) MARKET_OPEN)))"

definition cancel :: "'e tz_scheme \<Rightarrow> office \<Rightarrow> string \<Rightarrow> int \<Rightarrow> datetime \<Rightarrow> (office \<times> bool) outcome" where
  "cancel z of0 pid order now =
     (let of1 = init_schema of0; dk = o_desk of1 in
      bindE (office_account of1 pid) (\<lambda>_.
      case find (\<lambda>r. ord_id r = order \<and> ord_portfolio r = pid) (sim_orders dk) of
        None \<Rightarrow> Inl (AccountRefused ''unknown account order'')
      | Some r \<Rightarrow>
          (let d = find (\<lambda>d. od_order d = order) (sim_order_details dk) in
           if ord_status r = ''cancelled'' then Inr (of1, True)
           else if ord_status r \<noteq> ''pending'' \<or> (case d of None \<Rightarrow> False | Some x \<Rightarrow> od_state x \<noteq> ''queued'')
           then Inl (AccountRefused ''order is no longer queued'')
           else
           bindE (cancel_deadline z (case d of None \<Rightarrow> ''next_open'' | Some x \<Rightarrow> if od_order_type x = [] then ''next_open'' else od_order_type x)
                    (ord_signal_date r) (map_option od_received_at d)) (\<lambda>deadline.
           if deadline < now then Inl (AccountRefused ''order window has opened'')
           else Inr (record_event (on_desk (\<lambda>dk. dk
                  \<lparr>sim_orders := update_rows (\<lambda>r. ord_id r = order)
                     (\<lambda>r. r\<lparr>ord_status := ''cancelled'', ord_reject_reason := Some ''cancelled_by_client''\<rparr>) (sim_orders dk),
                   sim_order_details := update_rows (\<lambda>d. od_order d = order)
                     (\<lambda>d. d\<lparr>od_state := ''cancelled'', od_state_reason := Some ''cancelled_by_client'', od_state_at := now\<rparr>)
                     (sim_order_details dk)\<rparr>) of1) pid ''cancelled'' (CancelledOrder order) now, False)))))"

text \<open>\<open>require_verified\<close> before the transaction of an operation: the evidence of a failure is committed and the
  operation raises.\<close>

definition when_verified ::
    "codec \<Rightarrow> 'e env_scheme \<Rightarrow> office \<Rightarrow> string \<Rightarrow> datetime \<Rightarrow> (office \<Rightarrow> (office \<times> 'a) outcome) \<Rightarrow> office \<times> 'a outcome" where
  "when_verified c e of1 pid now body =
     (case verify c e of1 pid None now of
        Inl x \<Rightarrow> (of1, Inl x)
      | Inr (of2, Some _) \<Rightarrow> (of2, Inl VerificationError)
      | Inr (of2, None) \<Rightarrow> (case body of2 of Inl x \<Rightarrow> (of2, Inl x) | Inr (of3, r) \<Rightarrow> (of3, Inr r)))"

definition halt :: "codec \<Rightarrow> 'e env_scheme \<Rightarrow> office \<Rightarrow> string \<Rightarrow> string \<Rightarrow> datetime \<Rightarrow> office \<times> bool outcome" where
  "halt c e of1 pid note now =
     when_verified c e of1 pid now (\<lambda>of2. halt_account of2 pid ''halt_manual'' now (Note (take 4096 note)))"

definition resume_account :: "office \<Rightarrow> string \<Rightarrow> string \<Rightarrow> string \<Rightarrow> datetime \<Rightarrow> (office \<times> string) outcome" where
  "resume_account of0 pid resumed_by note now =
     (if \<exists>r\<in>set (coalesce (account_state (o_desk of0)) []). as_portfolio r = pid \<and> now < as_updated_at r
      then Inl (AccountRefused ''resume effective time is in the past'')
      else
      (let of1 = init_schema of0 in
       bindE (office_account of1 pid) (\<lambda>st.
       if account_status st \<noteq> ''halted'' then Inl (AccountRefused ''only a halted account can resume'')
       else
       (let latest = first_by (\<lambda>a b. eq_date b < eq_date a) (filter (\<lambda>r. eq_portfolio r = pid) (sim_equity (d_store (o_desk of1)))) in
        bindE (case latest of Some r \<Rightarrow> Inr (eq_equity r) | None \<Rightarrow> get_cash (office_book of1) pid) (\<lambda>equity.
        let of2 = on_book (\<lambda>bk. bk\<lparr>portfolios := update_rows (\<lambda>p. pf_id p = pid)
                    (\<lambda>p. p\<lparr>pf_active := (\<exists>i\<in>set (paper_account_intakes of1). in_account i = pid)\<rparr>) (portfolios bk)\<rparr>) of1 in
        bindE (set_status of2 pid ''active'') (\<lambda>of3.
        let of4 = update_state pid (\<lambda>r. r\<lparr>as_resumed_at := Some now, as_resumed_by := Some resumed_by, as_halted_at := None,
                    as_halt_reason := None, as_drawdown_anchor := Some equity, as_prior_close_equity := Some equity,
                    as_updated_at := now\<rparr>) of3
        in Inr (record_event of4 pid ''resumed'' (Resumed resumed_by (take 4096 note) equity (map_option eq_date latest)) now,
                ''active'')))))))"

definition resume :: "codec \<Rightarrow> 'e env_scheme \<Rightarrow> office \<Rightarrow> string \<Rightarrow> string \<Rightarrow> string \<Rightarrow> datetime \<Rightarrow> office \<times> string outcome" where
  "resume c e of1 pid resumed_by note now =
     (if resumed_by \<notin> {''owner'', ''monthly-review''} then (of1, Inl (AccountRefused ''resumed_by must be owner or monthly-review''))
      else when_verified c e of1 pid now (\<lambda>of2. resume_account of2 pid resumed_by note now))"

section \<open>Retirement and reconciliation\<close>

definition retirement_session :: "'e tz_scheme \<Rightarrow> datetime \<Rightarrow> date" where
  "retirement_session z now = next_session (date_of (utc_to_ny z now))"

definition retirement_orders :: "desk \<Rightarrow> string \<Rightarrow> int list" where
  "retirement_orders dk pid = sort (map ord_id (filter (\<lambda>r. ord_portfolio r = pid \<and> ord_status r = ''pending'' \<and>
     (\<exists>d\<in>set (sim_order_details dk). od_order d = ord_id r \<and> like_prefix ''retirement'' (od_state_reason d))) (sim_orders dk)))"

definition opening_orders :: "desk \<Rightarrow> string \<Rightarrow> int list" where
  "opening_orders dk pid = sort (map ord_id (filter (\<lambda>r. ord_portfolio r = pid \<and> ord_status r = ''pending'' \<and>
     ord_side r \<in> {''buy'', ''short''}) (sim_orders dk)))"

definition held_positions :: "book \<Rightarrow> string \<Rightarrow> position list" where
  "held_positions bk pid = sort_key pos_ticker (filter (\<lambda>r. pos_portfolio r = pid \<and> pos_qty r \<noteq> Fin 0) (sim_positions bk))"

text \<open>One closing order of a retirement: a market-on-close order for the whole position.\<close>

definition close_step :: "string \<Rightarrow> date \<Rightarrow> datetime \<Rightarrow> position \<Rightarrow> desk \<times> int list \<Rightarrow> desk \<times> int list" where
  "close_step pid session_date now r acc =
     (let (dk, queued) = acc; (dk1, oid) = next_order_id dk;
          side = (if flt (Fin 0) (pos_qty r) then ''sell'' else ''cover'') in
      (dk1\<lparr>sim_orders := sim_orders dk1 @ [\<lparr>ord_id = oid, ord_portfolio = pid, ord_ticker = pos_ticker r, ord_side = side,
             ord_qty = fabs (pos_qty r), ord_signal_date = session_date, ord_status = ''pending'', ord_reject_reason = None\<rparr>],
           sim_order_details := sim_order_details dk1 @ [\<lparr>od_order = oid, od_instrument = pos_ticker r, od_instrument_kind = ''stock'',
             od_order_type = ''moc'', od_side = side, od_limit_px = None, od_contingent_on = None,
             od_session_date = session_date, od_received_at = now, od_state = ''queued'',
             od_state_reason = Some ''retirement'', od_state_at = now\<rparr>]\<rparr>, queued @ [oid]))"

record retire_result =
  rt_status :: string
  rt_queued :: "int list"
  rt_replayed :: bool

definition set_active :: "string \<Rightarrow> bool \<Rightarrow> office \<Rightarrow> office" where
  "set_active pid active = on_book (\<lambda>bk. bk\<lparr>portfolios := update_rows (\<lambda>p. pf_id p = pid) (\<lambda>p. p\<lparr>pf_active := active\<rparr>) (portfolios bk)\<rparr>)"

definition mark_retired :: "string \<Rightarrow> datetime \<Rightarrow> office \<Rightarrow> office" where
  "mark_retired pid now = update_state pid (\<lambda>r. r\<lparr>as_retired_at := Some now, as_updated_at := now\<rparr>)"

definition retire :: "'e tz_scheme \<Rightarrow> office \<Rightarrow> string \<Rightarrow> datetime \<Rightarrow> (office \<times> retire_result) outcome" where
  "retire z of0 pid now =
     (let of1 = init_schema of0 in
      bindE (office_account of1 pid) (\<lambda>st.
      if account_status st = ''retired'' then Inr (of1, \<lparr>rt_status = ''retired'', rt_queued = [], rt_replayed = True\<rparr>)
      else if account_status st = ''retiring''
      then Inr (of1, \<lparr>rt_status = ''retiring'', rt_queued = retirement_orders (o_desk of1) pid, rt_replayed = True\<rparr>)
      else
      (let session_date = retirement_session z now; opening_ids = opening_orders (o_desk of1) pid;
           of2 = on_desk (cancel_orders opening_ids ''retired'' now) of1;
           held = held_positions (office_book of2) pid;
           (dk, queued) = fold (close_step pid session_date now) held (o_desk of2, []);
           of3 = of2\<lparr>o_desk := dk\<rparr>;
           status = (if held \<noteq> [] then ''retiring'' else ''retired'')
       in bindE (set_status (set_active pid (held \<noteq> []) of3) pid status) (\<lambda>of4.
          let of5 = (if held = [] then mark_retired pid now of4 else of4) in
          Inr (record_event of5 pid (if held \<noteq> [] then ''retirement_requested'' else ''retired'')
                 (Retirement session_date queued opening_ids) now,
               \<lparr>rt_status = status, rt_queued = queued, rt_replayed = False\<rparr>)))))"

definition finalize_retirement :: "office \<Rightarrow> string \<Rightarrow> datetime \<Rightarrow> (office \<times> bool) outcome" where
  "finalize_retirement of1 pid now =
     bindE (portfolio_account (office_book of1) pid) (\<lambda>st.
     if account_status st \<noteq> ''retiring'' then Inr (of1, False)
     else if \<exists>r\<in>set (sim_positions (office_book of1)). pos_portfolio r = pid \<and> fle TOL9 (fabs (pos_qty r)) then Inr (of1, False)
     else bindE (set_status (set_active pid False of1) pid ''retired'') (\<lambda>of2.
          Inr (record_event (mark_retired pid now of2) pid ''retired'' Flat now, True)))"

text \<open>A reconciliation request: its session is \<open>None\<close> when the text is not an ISO date.\<close>

record reconciliation =
  rq_session :: "date option"
  rq_expected :: string
  rq_observed :: string
  rq_status :: string
  rq_detail :: string

definition reconcile :: "office \<Rightarrow> string \<Rightarrow> reconciliation \<Rightarrow> datetime \<Rightarrow> (office \<times> string \<times> bool) outcome" where
  "reconcile of0 pid rq now = (case rq_session rq of
     None \<Rightarrow> Inl (AccountRefused ''invalid reconciliation session'')
   | Some session_date \<Rightarrow>
     if \<not> is_sha256 (rq_expected rq) then Inl (AccountRefused ''invalid expected_sha256'')
     else if \<not> is_sha256 (rq_observed rq) then Inl (AccountRefused ''invalid observed_sha256'')
     else if rq_status rq \<notin> {''ok'', ''mismatch''} then Inl (AccountRefused ''invalid reconciliation status'')
     else
     (let of1 = init_schema of0; detail = take 4096 (rq_detail rq) in
      bindE (office_account of1 pid) (\<lambda>_.
      case find (\<lambda>r. rc_portfolio r = pid \<and> rc_session r = session_date) (account_reconciliations of1) of
        Some old \<Rightarrow>
          if (rc_expected old, rc_observed old, rc_status old, rc_detail old) \<noteq> (rq_expected rq, rq_observed rq, rq_status rq, detail)
          then Inl (AccountRefused ''reconciliation session already bound to different evidence'')
          else Inr (of1, rc_status old, True)
      | None \<Rightarrow>
          (let of2 = of1\<lparr>account_reconciliations := account_reconciliations of1 @ [\<lparr>rc_portfolio = pid, rc_session = session_date,
                 rc_expected = rq_expected rq, rc_observed = rq_observed rq, rc_status = rq_status rq, rc_detail = detail, rc_created = now\<rparr>]\<rparr>
           in bindE (if rq_status rq = ''mismatch''
                     then bindE (halt_account of2 pid ''halt_reconciliation'' now (Reconciliation session_date detail)) (\<lambda>(x, _). Inr x)
                     else Inr of2) (\<lambda>of3.
              Inr (of3, rq_status rq, False))))))"

end
