(* ===== verification/Intake.thy ===== *)
theory Intake
  imports Accounts
begin

text \<open>
  The account boundary of \<open>src/engine/paper_accounts.py\<close>: the validation of account specifications and of trade intents,
  the funding of an account, the capacity check of an order and the transactional intake \<open>submit_intent\<close>. A validated
  specification is kept beside its normalised JSON object with the fields the engine reads, where a field that version 1 does
  not have takes the default its readers use. Every function that runs in the transaction of the intake returns the
  new office or raises, and then nothing is stored.
\<close>

section \<open>Specifications\<close>

type_synonym fields = "(string \<times> json) list"

definition TIERS :: "int list" where "TIERS = [10000, 50000, 100000]"
definition V1_INSTRUMENTS :: "string list" where "V1_INSTRUMENTS = [''stock'', ''etf'']"
definition INSTRUMENTS :: "string list" where "INSTRUMENTS = [''stock'', ''etf'', ''option'', ''future'']"
definition EXECUTABLE_INSTRUMENTS :: "string list" where "EXECUTABLE_INSTRUMENTS = V1_INSTRUMENTS"
definition DAY_TRADE_RULES :: "string list" where "DAY_TRADE_RULES = [''pdt_25k_legacy'', ''intraday_margin_2026'']"
definition PRICE_SOURCES :: "string list" where "PRICE_SOURCES = [''prices'', ''massive_daily'']"

definition V1_SPEC_FIELDS :: "string list" where
  "V1_SPEC_FIELDS = [''schema_version'', ''strategy_ref'', ''spec_sha256'', ''registration_sha256'', ''instrument_kind'', ''capital_usd'',
     ''account_id'', ''max_position_fraction'', ''max_gross_fraction'', ''min_trade_usd'']"

definition V2_SPEC_REQUIRED :: "string list" where
  "V2_SPEC_REQUIRED = [''schema_version'', ''strategy_ref'', ''strategy_version'', ''spec_sha256'', ''artifact_sha256'',
     ''registration_sha256'', ''instrument_kinds'', ''capital_usd'', ''account_id'', ''account_type'', ''max_position_fraction'',
     ''max_gross_fraction'', ''min_trade_usd'', ''allow_short'', ''price_source'', ''benchmark'', ''day_trades_per_week_expected'']"

definition V2_SPEC_OPTIONAL_FIELDS :: "string list" where
  "V2_SPEC_OPTIONAL_FIELDS = [''day_trade_rule'', ''whole_shares'']"

definition V2_SPEC_FIELDS :: "string list" where
  "V2_SPEC_FIELDS = V2_SPEC_REQUIRED @ V2_SPEC_OPTIONAL_FIELDS"

definition V1_INTENT_FIELDS :: "string list" where
  "V1_INTENT_FIELDS = [''schema_version'', ''intent_id'', ''account_id'', ''spec_sha256'', ''registration_sha256'', ''instrument_kind'',
     ''ticker'', ''side'', ''quantity'', ''signal_date'', ''created_at'', ''source_sha256'']"

definition V2_INTENT_FIELDS :: "string list" where
  "V2_INTENT_FIELDS = [''schema_version'', ''intent_id'', ''account_id'', ''spec_sha256'', ''registration_sha256'', ''instrument_id'',
     ''instrument_kind'', ''side'', ''quantity'', ''order_type'', ''limit_price'', ''time_in_force'', ''session_date'', ''contingent_on'',
     ''legs'', ''created_at'', ''source_sha256'']"

record account_spec =
  sp_payload :: fields
  sp_version :: int
  sp_account :: string
  sp_spec_sha256 :: string
  sp_registration_sha256 :: string
  sp_kinds :: "string list"
  sp_capital :: int
  sp_max_position :: float64
  sp_max_gross :: float64
  sp_min_trade :: float64
  sp_account_type :: string
  sp_source :: string
  sp_day_trade_rule :: string
  sp_allow_short :: bool
  sp_whole_shares :: bool

definition utc :: "stamp \<Rightarrow> datetime outcome" where
  "utc s = (case s of Aware t _ \<Rightarrow> Inr t | Naive _ \<Rightarrow> Inl (AccountRefused ''timestamp must include its timezone''))"

definition text_of :: "json \<Rightarrow> string" where
  "text_of v = (case v of JStr s \<Rightarrow> s | _ \<Rightarrow> [])"

definition true_of :: "json \<Rightarrow> bool" where
  "true_of v \<longleftrightarrow> v = JBool True"

definition identities :: "fields \<Rightarrow> string list \<Rightarrow> (string \<Rightarrow> bool) \<Rightarrow> unit outcome" where
  "identities d names pattern = bindE (mapE (\<lambda>name. identity (field d name) name pattern) names) (\<lambda>_. Inr ())"

definition require_member :: "json \<Rightarrow> string list \<Rightarrow> string \<Rightarrow> unit outcome" where
  "require_member v names message = bindE (member_of v names) (\<lambda>ok. raise_if (\<not> ok) (AccountRefused message))"

definition validate_limits :: "fields \<Rightarrow> int \<Rightarrow> float64 \<Rightarrow> (float64 \<times> float64 \<times> float64) outcome" where
  "validate_limits d capital gross_ceiling =
     bindE (positive_number (field d ''max_position_fraction'') ''max_position_fraction'') (\<lambda>position.
     bindE (positive_number (field d ''max_gross_fraction'') ''max_gross_fraction'') (\<lambda>gross.
     bindE (positive_number (field d ''min_trade_usd'') ''min_trade_usd'') (\<lambda>minimum.
     if \<not> (fle position gross \<and> fle gross gross_ceiling) \<or> flt (fmul (Fin (of_int capital)) position) minimum
     then Inl (AccountRefused ''position/gross/minimum constraints are infeasible'')
     else Inr (position, gross, minimum))))"

definition tier :: "json \<Rightarrow> int outcome" where
  "tier v = (let refuse = Inl (AccountRefused ''capital must be an independent USD 10000, 50000 or 100000 tier'') in
     case v of JInt n \<Rightarrow> if n \<in> set TIERS then Inr n else refuse | _ \<Rightarrow> refuse)"

definition validate_spec_v1 :: "fields \<Rightarrow> account_spec outcome" where
  "validate_spec_v1 d =
     bindE (raise_if (\<not> same_keys d V1_SPEC_FIELDS) (AccountRefused ''invalid account specification v1'')) (\<lambda>_.
     bindE (identities d [''strategy_ref'', ''account_id''] is_identifier) (\<lambda>_.
     bindE (identities d [''spec_sha256'', ''registration_sha256''] is_sha256) (\<lambda>_.
     bindE (require_member (field d ''instrument_kind'') V1_INSTRUMENTS ''unsupported execution instrument: only stock/etf paper fills exist'') (\<lambda>_.
     bindE (tier (field d ''capital_usd'')) (\<lambda>capital.
     bindE (validate_limits d capital (Fin 1)) (\<lambda>(position, gross, minimum).
     Inr \<lparr>sp_payload = d, sp_version = 1, sp_account = text_of (field d ''account_id''),
          sp_spec_sha256 = text_of (field d ''spec_sha256''), sp_registration_sha256 = text_of (field d ''registration_sha256''),
          sp_kinds = [text_of (field d ''instrument_kind'')], sp_capital = capital, sp_max_position = position,
          sp_max_gross = gross, sp_min_trade = minimum, sp_account_type = ''cash_legacy'', sp_source = ''prices'',
          sp_day_trade_rule = ''pdt_25k_legacy'', sp_allow_short = False, sp_whole_shares = False\<rparr>))))))"

text \<open>\<open>any(kind not in INSTRUMENTS for kind in kinds)\<close> stops at the first kind outside.\<close>

fun any_outside :: "json list \<Rightarrow> string list \<Rightarrow> bool outcome" where
  "any_outside [] names = Inr False"
| "any_outside (k # ks) names = bindE (member_of k names) (\<lambda>ok. if ok then any_outside ks names else Inr True)"

definition validate_kinds :: "json \<Rightarrow> string list outcome" where
  "validate_kinds v =
     (let refuse = Inl (AccountRefused ''instrument_kinds must be a non-empty unique supported list'') in
      case v of
        JList kinds \<Rightarrow> if kinds = [] then refuse
          else bindE (any_outside kinds INSTRUMENTS) (\<lambda>bad. if bad \<or> \<not> distinct (map text_of kinds) then refuse else Inr (map text_of kinds))
      | _ \<Rightarrow> refuse)"

text \<open>\<open>{**spec, key: spec.get(key, default)}\<close>.\<close>

definition with_default :: "string \<Rightarrow> json \<Rightarrow> fields \<Rightarrow> fields" where
  "with_default key v d = (if map_of d key = None then d @ [(key, v)] else d)"

definition is_bool_json :: "json \<Rightarrow> bool" where
  "is_bool_json v = (case v of JBool _ \<Rightarrow> True | _ \<Rightarrow> False)"

definition natural_json :: "json \<Rightarrow> bool" where
  "natural_json v = (case v of JInt n \<Rightarrow> 0 \<le> n | _ \<Rightarrow> False)"

definition validate_spec_v2 :: "fields \<Rightarrow> account_spec outcome" where
  "validate_spec_v2 spec =
     bindE (raise_if (\<not> (set V2_SPEC_REQUIRED \<subseteq> set (keys_of spec) \<and> set (keys_of spec) \<subseteq> set V2_SPEC_FIELDS))
              (AccountRefused ''invalid account specification v2'')) (\<lambda>_.
     let d = with_default ''day_trade_rule'' (JStr ''pdt_25k_legacy'') spec in
     bindE (identities d [''strategy_ref'', ''strategy_version'', ''account_id''] is_identifier) (\<lambda>_.
     bindE (identities d [''spec_sha256'', ''artifact_sha256'', ''registration_sha256''] is_sha256) (\<lambda>_.
     bindE (validate_kinds (field d ''instrument_kinds'')) (\<lambda>kinds.
     bindE (tier (field d ''capital_usd'')) (\<lambda>capital.
     bindE (raise_if (field d ''account_type'' \<noteq> JStr ''margin'') (AccountRefused ''account_type must be margin'')) (\<lambda>_.
     bindE (raise_if (\<not> is_bool_json (field d ''allow_short'')) (AccountRefused ''allow_short must be boolean'')) (\<lambda>_.
     bindE (require_member (field d ''price_source'') PRICE_SOURCES ''unsupported price source or benchmark'') (\<lambda>_.
     bindE (raise_if (field d ''benchmark'' \<noteq> JStr ''SPY'') (AccountRefused ''unsupported price source or benchmark'')) (\<lambda>_.
     bindE (raise_if (\<not> natural_json (field d ''day_trades_per_week_expected''))
              (AccountRefused ''day_trades_per_week_expected must be a non-negative integer'')) (\<lambda>_.
     bindE (require_member (field d ''day_trade_rule'') DAY_TRADE_RULES ''unsupported day_trade_rule'') (\<lambda>_.
     bindE (raise_if (map_of d ''whole_shares'' \<noteq> None \<and> \<not> is_bool_json (field d ''whole_shares''))
              (AccountRefused ''whole_shares must be boolean'')) (\<lambda>_.
     bindE (validate_limits d capital (lit (3 / 2))) (\<lambda>(position, gross, minimum).
     Inr \<lparr>sp_payload = d, sp_version = 2, sp_account = text_of (field d ''account_id''),
          sp_spec_sha256 = text_of (field d ''spec_sha256''), sp_registration_sha256 = text_of (field d ''registration_sha256''),
          sp_kinds = kinds, sp_capital = capital, sp_max_position = position, sp_max_gross = gross, sp_min_trade = minimum,
          sp_account_type = ''margin'', sp_source = text_of (field d ''price_source''),
          sp_day_trade_rule = text_of (field d ''day_trade_rule''), sp_allow_short = true_of (field d ''allow_short''),
          sp_whole_shares = true_of (field d ''whole_shares'')\<rparr>)))))))))))))"

definition validate_spec :: "json \<Rightarrow> account_spec outcome" where
  "validate_spec spec = (case spec of
     JObj d \<Rightarrow> (case map_of d ''schema_version'' of
         Some (JInt version) \<Rightarrow> if version = 1 then validate_spec_v1 d
           else if version = 2 then validate_spec_v2 d else Inl (AccountRefused ''invalid account specification v2'')
       | _ \<Rightarrow> Inl (AccountRefused ''invalid account specification''))
   | _ \<Rightarrow> Inl (AccountRefused ''invalid account specification''))"

section \<open>Accounts\<close>

definition v2_binding :: "fields \<Rightarrow> fields" where
  "v2_binding spec = filter (\<lambda>(key, _). key \<noteq> ''artifact_sha256'') spec"

definition spec_settings_differ :: "settings \<Rightarrow> account_spec \<Rightarrow> bool" where
  "spec_settings_differ st spec \<longleftrightarrow> engine st \<noteq> ''account'' \<or> account_type st \<noteq> sp_account_type spec \<or>
     account_price_source st \<noteq> sp_source spec \<or> day_trade_rule st \<noteq> sp_day_trade_rule spec \<or> allow_short st \<noteq> sp_allow_short spec"

definition spec_row_of :: "office \<Rightarrow> string \<Rightarrow> spec_row option" where
  "spec_row_of of1 account = find (\<lambda>r. sr_account r = account) (paper_account_specs of1)"

definition load_spec :: "'w wire_scheme \<Rightarrow> office \<Rightarrow> string \<Rightarrow> account_spec outcome" where
  "load_spec w of1 account = (case spec_row_of of1 account of
     None \<Rightarrow> Inl (AccountRefused ''account has no admitted specification'')
   | Some row \<Rightarrow>
       bindE (validate_spec (sr_payload row)) (\<lambda>spec.
       if canonical_sha256 w (JObj (sp_payload spec)) \<noteq> sr_sha256 row \<or> sp_account spec \<noteq> account
       then Inl (AccountRefused ''account specification identity differs'')
       else (let differs = Inl (AccountRefused ''engine portfolio differs from admitted specification'') in
         case portfolio_row_of (office_book of1) account of
           None \<Rightarrow> differs
         | Some p \<Rightarrow>
             if pf_initial_cash p \<noteq> Some (Fin (of_int (sp_capital spec))) \<or> pf_strategy p \<noteq> ''discretionary'' \<or>
                pf_external_sha256 p \<noteq> Some (sr_sha256 row)
             then differs
             else if sp_version spec = 2
             then bindE (portfolio_account (office_book of1) account) (\<lambda>st. if spec_settings_differ st spec then differs else Inr spec)
             else Inr spec)))"

text \<open>The INSERTs of a new account: the portfolio, its configuration, its settings, its specification and its risk state.\<close>

definition spec_fields :: "account_spec \<Rightarrow> account_fields" where
  "spec_fields spec = (let v2 = (sp_version spec = 2) in
     \<lparr>fd_engine = Some (if v2 then ''account'' else ''league''),
      fd_cost_profile = Some (if v2 then ''ibkr_pro_tiered_v1'' else ''baseline_v1''),
      fd_account_type = Some (sp_account_type spec), fd_visibility = Some (if v2 then ''private'' else ''public''),
      fd_status = Some (Some ''inactive''), fd_price_source = Some (sp_source spec),
      fd_day_trade_rule = Some (sp_day_trade_rule spec), fd_allow_short = Some (sp_allow_short spec)\<rparr>)"

definition session_on_or_before :: "'e tz_scheme \<Rightarrow> datetime \<Rightarrow> date" where
  "session_on_or_before e now = session_upto (date_of (utc_to_ny e now))"

definition fund_account :: "'e tz_scheme \<Rightarrow> account_spec \<Rightarrow> string \<Rightarrow> datetime \<Rightarrow> office \<Rightarrow> office outcome" where
  "fund_account e spec digest now of1 =
     (let account = sp_account spec; capital = Fin (of_int (sp_capital spec)) in
      if \<exists>r\<in>set (coalesce (account_state (o_desk of1)) []). as_portfolio r = account then Inl (ConstraintError ''account_state'')
      else
      let of2 = on_book (\<lambda>bk. bk\<lparr>portfolios := portfolios bk @
            [\<lparr>pf_id = account, pf_active = False, pf_cash = capital, pf_initial_cash = Some capital,
              pf_strategy = ''discretionary'', pf_external_sha256 = Some digest, pf_created = session_on_or_before e now,
              pf_execution_profile = Some ''baseline_v1''\<rparr>]\<rparr>) of1 in
      bindE (set_portfolio_account (office_book of2) account (spec_fields spec)) (\<lambda>bk.
      let of3 = (on_book (\<lambda>_. bk) of2)\<lparr>paper_account_specs := paper_account_specs of2 @
            [\<lparr>sr_account = account, sr_payload = JObj (sp_payload spec), sr_sha256 = digest\<rparr>]\<rparr>
      in Inr (on_desk (\<lambda>dk. dk\<lparr>account_state := Some (coalesce (account_state dk) [] @
           [\<lparr>as_portfolio = account, as_peak_equity = capital, as_prior_close_equity = Some capital, as_drawdown_anchor = Some capital,
             as_halted_at = None, as_halt_reason = None, as_resumed_at = None, as_resumed_by = None, as_pdt_flagged_at = None,
             as_pdt_restricted_until = None, as_retired_at = None, as_updated_at = now\<rparr>])\<rparr>) of3)))"

record created =
  cr_account :: string
  cr_replayed :: bool
  cr_sha256 :: string

definition create_account :: "'w wire_scheme \<Rightarrow> 'e tz_scheme \<Rightarrow> office \<Rightarrow> json \<Rightarrow> stamp \<Rightarrow> (office \<times> created) outcome" where
  "create_account w e of0 request received =
     bindE (validate_spec request) (\<lambda>spec.
     bindE (utc received) (\<lambda>now.
     let account = sp_account spec; digest = canonical_sha256 w (JObj (sp_payload spec)); of1 = init_schema of0 in
     case spec_row_of of1 account of
       Some old \<Rightarrow>
         bindE (validate_spec (sr_payload old)) (\<lambda>stored.
         let same = (if sp_version spec = 2 then jeq (JObj (v2_binding (sp_payload stored))) (JObj (v2_binding (sp_payload spec)))
                     else json_text w (sr_payload old) = json_text w (JObj (sp_payload spec)) \<and> sr_sha256 old = digest) in
         if \<not> same then Inl (AccountRefused ''account identity already bound to a different specification'')
         else bindE (load_spec w of1 account) (\<lambda>_. Inr (of1, \<lparr>cr_account = account, cr_replayed = True, cr_sha256 = sr_sha256 old\<rparr>)))
     | None \<Rightarrow>
         if portfolio_row_of (office_book of1) account \<noteq> None
         then Inl (AccountRefused ''existing portfolio cannot be re-funded or rebound'')
         else bindE (fund_account e spec digest now of1) (\<lambda>of2.
              Inr (of2, \<lparr>cr_account = account, cr_replayed = False, cr_sha256 = digest\<rparr>))))"

section \<open>Intents\<close>

text \<open>\<open>session_close\<close> of \<open>src/engine/free_massive_minute.py\<close>.\<close>

definition minute_session_close :: "date \<Rightarrow> time" where
  "minute_session_close day =
     (if (month_of day, day_of day) \<in> {(7, 3), (12, 24)} \<or> month_of day = 11 \<and> weekday day = 4 \<and> 23 \<le> day_of day \<and> day_of day \<le> 29
      then hm 13 0 else hm 16 0)"

definition parse_date :: "'w wire_scheme \<Rightarrow> json \<Rightarrow> date option" where
  "parse_date w v = (case v of JStr s \<Rightarrow> iso_date w s | _ \<Rightarrow> None)"

text \<open>\<open>_utc(datetime.fromisoformat(value))\<close> where every exception becomes a refusal.\<close>

definition parse_instant :: "'w wire_scheme \<Rightarrow> json \<Rightarrow> datetime option" where
  "parse_instant w v = (case v of
     JStr s \<Rightarrow> (case iso_datetime w s of Some (Aware t _) \<Rightarrow> Some t | _ \<Rightarrow> None)
   | _ \<Rightarrow> None)"

definition require_same :: "fields \<Rightarrow> (string \<times> string) list \<Rightarrow> unit outcome" where
  "require_same d expected =
     bindE (mapE (\<lambda>(name, s). raise_if (field d name \<noteq> JStr s) (AccountRefused (''intent '' @ name @ '' differs from account specification''))) expected)
       (\<lambda>_. Inr ())"

text \<open>The clocks of an intent: the signal session of version 1; the session and the order type of version 2.\<close>

definition v1_clock :: "'w wire_scheme \<Rightarrow> 'e tz_scheme \<Rightarrow> fields \<Rightarrow> datetime \<Rightarrow> date outcome" where
  "v1_clock w e d now = (case (parse_date w (field d ''signal_date''), parse_instant w (field d ''created_at'')) of
     (Some signal_date, Some created) \<Rightarrow>
       (let next_open = ny_to_utc e (combine (next_session signal_date) (hm 9 30));
            close = ny_to_utc e (combine signal_date (minute_session_close signal_date)) in
        if \<not> is_session signal_date \<or> \<not> (close \<le> created \<and> created \<le> now \<and> now < next_open)
        then Inl (AccountRefused ''intent is late, future-dated or not after the signal close'')
        else Inr signal_date)
   | _ \<Rightarrow> Inl (AccountRefused ''invalid intent clock''))"

definition parse_type :: "json \<Rightarrow> OrderType option" where
  "parse_type v = (case v of JStr s \<Rightarrow> (case parse_order_type s of Inr t \<Rightarrow> Some t | Inl _ \<Rightarrow> None) | _ \<Rightarrow> None)"

definition v2_clock :: "'w wire_scheme \<Rightarrow> 'e tz_scheme \<Rightarrow> fields \<Rightarrow> datetime \<Rightarrow> (date \<times> OrderType) outcome" where
  "v2_clock w e d received_at =
     (case (parse_date w (field d ''session_date''), parse_instant w (field d ''created_at''), parse_type (field d ''order_type'')) of
        (Some session_date, Some _, Some order_type) \<Rightarrow>
          (case validate_received_at e order_type session_date (Aware received_at 0) of
             Inl _ \<Rightarrow> Inl (AccountRefused ''invalid intent clock or order type'')
           | Inr _ \<Rightarrow> Inr (session_date, order_type))
      | _ \<Rightarrow> Inl (AccountRefused ''invalid intent clock or order type''))"

definition validate_v1_intent :: "'w wire_scheme \<Rightarrow> 'e tz_scheme \<Rightarrow> fields \<Rightarrow> account_spec \<Rightarrow> datetime \<Rightarrow> (date \<times> float64) outcome" where
  "validate_v1_intent w e d spec now =
     bindE (raise_if (\<not> same_keys d V1_INTENT_FIELDS) (AccountRefused ''invalid trade intent v1'')) (\<lambda>_.
     bindE (identities d [''intent_id'', ''account_id'', ''ticker''] is_identifier) (\<lambda>_.
     bindE (identities d [''source_sha256''] is_sha256) (\<lambda>_.
     bindE (require_same d [(''account_id'', sp_account spec), (''spec_sha256'', sp_spec_sha256 spec),
              (''registration_sha256'', sp_registration_sha256 spec), (''instrument_kind'', hd (sp_kinds spec))]) (\<lambda>_.
     bindE (require_member (field d ''instrument_kind'') V1_INSTRUMENTS ''unsupported execution instrument or side'') (\<lambda>_.
     bindE (require_member (field d ''side'') [''buy'', ''sell''] ''unsupported execution instrument or side'') (\<lambda>_.
     bindE (positive_number (field d ''quantity'') ''quantity'') (\<lambda>quantity.
     bindE (v1_clock w e d now) (\<lambda>signal_date.
     Inr (signal_date, quantity)))))))))"

definition validate_leg :: "json \<Rightarrow> unit outcome" where
  "validate_leg leg = (case leg of
     JObj d \<Rightarrow>
       bindE (raise_if (\<not> same_keys d [''instrument_id'', ''side'', ''ratio'']) (AccountRefused ''invalid multi-leg order'')) (\<lambda>_.
       bindE (identity (field d ''instrument_id'') ''leg instrument_id'' is_identifier) (\<lambda>_.
       bindE (require_member (field d ''side'') [''buy'', ''sell'', ''short'', ''cover''] ''invalid leg side'') (\<lambda>_.
       raise_if (case field d ''ratio'' of JInt n \<Rightarrow> n = 0 | _ \<Rightarrow> True) (AccountRefused ''leg ratio must be a non-zero integer''))))
   | _ \<Rightarrow> Inl (AccountRefused ''invalid multi-leg order''))"

definition is_whole :: "float64 \<Rightarrow> bool" where
  "is_whole x = (case x of Fin a \<Rightarrow> a = of_int \<lfloor>a\<rfloor> | _ \<Rightarrow> False)"

definition validate_legs :: "json \<Rightarrow> unit outcome" where
  "validate_legs v = (case v of
     JList legs \<Rightarrow> bindE (mapE validate_leg legs) (\<lambda>_. Inr ())
   | _ \<Rightarrow> Inl (AccountRefused ''legs must be a list''))"

definition validate_contingent :: "fields \<Rightarrow> unit outcome" where
  "validate_contingent d =
     (if field d ''contingent_on'' = JNull then Inr ()
      else bindE (identity (field d ''contingent_on'') ''contingent_on'' is_identifier) (\<lambda>_.
           raise_if (field d ''contingent_on'' = field d ''intent_id'') (AccountRefused ''an intent cannot be contingent on itself'')))"

definition validate_limit_price :: "fields \<Rightarrow> OrderType \<Rightarrow> unit outcome" where
  "validate_limit_price d order_type =
     (if order_type = LIMIT then bindE (positive_number (field d ''limit_price'') ''limit_price'') (\<lambda>_. Inr ())
      else raise_if (field d ''limit_price'' \<noteq> JNull) (AccountRefused ''limit_price is only valid for limit orders''))"

definition validate_v2_intent :: "'w wire_scheme \<Rightarrow> 'e tz_scheme \<Rightarrow> fields \<Rightarrow> account_spec \<Rightarrow> datetime \<Rightarrow> (date \<times> float64) outcome" where
  "validate_v2_intent w e d spec received_at =
     bindE (raise_if (\<not> same_keys d V2_INTENT_FIELDS) (AccountRefused ''invalid trade intent v2'')) (\<lambda>_.
     bindE (identities d [''intent_id'', ''account_id'', ''instrument_id''] is_identifier) (\<lambda>_.
     bindE (identities d [''source_sha256'', ''spec_sha256'', ''registration_sha256''] is_sha256) (\<lambda>_.
     bindE (require_same d [(''account_id'', sp_account spec), (''spec_sha256'', sp_spec_sha256 spec),
              (''registration_sha256'', sp_registration_sha256 spec)]) (\<lambda>_.
     bindE (raise_if (field d ''instrument_kind'' \<notin> set (map JStr (sp_kinds spec)))
              (AccountRefused ''intent instrument_kind differs from account specification'')) (\<lambda>_.
     bindE (require_member (field d ''side'') [''buy'', ''sell'', ''short'', ''cover''] ''unsupported execution side'') (\<lambda>_.
     bindE (raise_if (field d ''side'' = JStr ''short'' \<and> \<not> sp_allow_short spec) (AccountRefused ''account does not allow short sales'')) (\<lambda>_.
     bindE (positive_number (field d ''quantity'') ''quantity'') (\<lambda>quantity.
     bindE (raise_if (sp_whole_shares spec \<and> \<not> is_whole quantity) (AccountRefused ''account requires whole-share quantity'')) (\<lambda>_.
     bindE (v2_clock w e d received_at) (\<lambda>(session_date, order_type).
     bindE (raise_if (field d ''time_in_force'' \<noteq> JStr ''day'') (AccountRefused ''time_in_force must be day'')) (\<lambda>_.
     bindE (validate_limit_price d order_type) (\<lambda>_.
     bindE (validate_legs (field d ''legs'')) (\<lambda>_.
     bindE (validate_contingent d) (\<lambda>_.
     Inr (session_date, quantity)))))))))))))))"

definition validate_intent :: "'w wire_scheme \<Rightarrow> 'e tz_scheme \<Rightarrow> fields \<Rightarrow> account_spec \<Rightarrow> datetime \<Rightarrow> (date \<times> float64) outcome" where
  "validate_intent w e d spec now =
     (if map_of d ''schema_version'' \<noteq> Some (JInt (sp_version spec)) then Inl (AccountRefused ''invalid trade intent'')
      else if sp_version spec = 1 then validate_v1_intent w e d spec now
      else validate_v2_intent w e d spec now)"

section \<open>Capacity\<close>

definition reference_date :: "account_spec \<Rightarrow> fields \<Rightarrow> date \<Rightarrow> date" where
  "reference_date spec d session_date =
     (if sp_version spec = 1 \<or> field d ''order_type'' = JStr ''next_open'' then session_date else previous_session session_date)"

definition ticker_of :: "fields \<Rightarrow> string" where
  "ticker_of d = text_of (case map_of d ''ticker'' of Some v \<Rightarrow> v | None \<Rightarrow> field d ''instrument_id'')"

definition side_of :: "fields \<Rightarrow> string" where
  "side_of d = text_of (field d ''side'')"

definition marked_values :: "'e env_scheme \<Rightarrow> store \<Rightarrow> account_spec \<Rightarrow> position list \<Rightarrow> date \<Rightarrow> (string \<times> float64) list outcome" where
  "marked_values e st spec held as_of =
     mapE (\<lambda>p. bindE (mark e st (sp_account spec) (pos_ticker p) as_of (Some (sp_source spec)) None None) (\<lambda>m.
        Inr (pos_ticker p, fmul (pos_qty p) (mk_price m)))) held"

definition add_reserved :: "string \<Rightarrow> float64 \<Rightarrow> (string \<times> float64) list \<Rightarrow> (string \<times> float64) list" where
  "add_reserved ticker x acc =
     (if map_of acc ticker = None then acc @ [(ticker, fadd (Fin 0) x)]
      else map (\<lambda>(t, y). if t = ticker then (t, fadd y x) else (t, y)) acc)"

definition reserved_orders :: "'e env_scheme \<Rightarrow> store \<Rightarrow> account_spec \<Rightarrow> order_row list \<Rightarrow> date \<Rightarrow> (string \<times> float64) list outcome" where
  "reserved_orders e st spec pending as_of =
     foldE (\<lambda>acc r. if ord_side r \<in> {''buy'', ''short''}
        then bindE (mark e st (sp_account spec) (ord_ticker r) as_of (Some (sp_source spec)) None None) (\<lambda>m.
             Inr (add_reserved (ord_ticker r) (fabs (fmul (ord_qty r) (mk_price m))) acc))
        else Inr acc) [] pending"

definition phase :: "string \<Rightarrow> int option" where
  "phase order_type = map_of [(''moo'', 0), (''market'', 1), (''limit'', 1), (''moc'', 2), (''next_open'', 3)] order_type"

text \<open>The parent of a contingent order, with the refusals in the order of the code.\<close>

definition contingent_parent :: "office \<Rightarrow> fields \<Rightarrow> date \<Rightarrow> float64 \<Rightarrow> int option outcome" where
  "contingent_parent of1 d session_date quantity =
     (if field d ''contingent_on'' = JNull then Inr None
      else
      let dk = o_desk of1; i = find (\<lambda>i. in_intent i = text_of (field d ''contingent_on'')) (paper_account_intakes of1);
          o1 = Option.bind i (\<lambda>i. find (\<lambda>r. ord_id r = in_order i) (sim_orders dk)) in
      case (i, o1) of
        (Some i, Some r) \<Rightarrow>
          (let det = find (\<lambda>x. od_order x = ord_id r) (sim_order_details dk);
               expected = map_of [(''sell'', ''buy''), (''cover'', ''short'')] (side_of d) in
           if expected = None then Inl (AccountRefused ''only sell or cover may be contingent'')
           else if in_account i \<noteq> text_of (field d ''account_id'') then Inl (AccountRefused ''contingent parent belongs to another account'')
           else if ord_ticker r \<noteq> ticker_of d \<or> ord_signal_date r \<noteq> session_date
           then Inl (AccountRefused ''contingent parent instrument or session differs'')
           else if Some (ord_side r) \<noteq> expected then Inl (AccountRefused ''contingent parent side is incompatible'')
           else if ord_status r \<noteq> ''pending'' \<or> map_option od_state det \<noteq> Some ''queued''
           then Inl (AccountRefused ''contingent parent is not queued'')
           else if flt (ord_qty r) quantity then Inl (AccountRefused ''contingent child exceeds parent quantity'')
           else
           let parent_type = od_order_type (the det); child_type = text_of (field d ''order_type'') in
           if (case (phase parent_type, phase child_type) of (Some a, Some b) \<Rightarrow> b < a | _ \<Rightarrow> True)
           then Inl (AccountRefused ''contingent parent executes later than child'')
           else if parent_type = ''limit'' \<and> child_type = ''market''
           then Inl (AccountRefused ''contingent parent executes later than child'')
           else Inr (Some (ord_id r)))
      | _ \<Rightarrow> Inl (AccountRefused ''contingent parent is unavailable''))"

definition pending_of :: "desk \<Rightarrow> string \<Rightarrow> order_row list" where
  "pending_of dk account = filter (\<lambda>r. ord_portfolio r = account \<and> ord_status r = ''pending'') (sim_orders dk)"

definition held_qty :: "position list \<Rightarrow> string \<Rightarrow> float64" where
  "held_qty held ticker = (case find (\<lambda>p. pos_ticker p = ticker) held of Some p \<Rightarrow> pos_qty p | None \<Rightarrow> Fin 0)"

definition opening_refused ::
    "account_spec \<Rightarrow> string \<Rightarrow> float64 \<Rightarrow> (string \<times> float64) list \<Rightarrow> (string \<times> float64) list \<Rightarrow> float64 \<Rightarrow> bool" where
  "opening_refused spec ticker requested values reserved cash =
     (let equity = fadd cash (py_sum (map snd values)); held = py_sum (map snd reserved);
          gross = fadd (fadd (py_sum (map (\<lambda>(_, v). fabs v) values)) held) requested;
          position_value = fadd (fadd (fabs (coalesce (map_of values ticker) (Fin 0))) (coalesce (map_of reserved ticker) (Fin 0))) requested;
          cash_exceeded = (sp_version spec = 1 \<and> flt cash (fadd requested held))
      in flt requested (sp_min_trade spec) \<or> cash_exceeded \<or> flt (fmul equity (sp_max_gross spec)) gross \<or>
         flt (fmul equity (sp_max_position spec)) position_value)"

definition capacity :: "'e env_scheme \<Rightarrow> office \<Rightarrow> account_spec \<Rightarrow> fields \<Rightarrow> date \<Rightarrow> float64 \<Rightarrow> int option \<Rightarrow> unit outcome" where
  "capacity e of1 spec d session_date quantity parent =
     (let account = sp_account spec; st = d_store (o_desk of1); ticker = ticker_of d; side = side_of d;
          day = reference_date spec d session_date in
      bindE (mark e st account ticker day (Some (sp_source spec)) None None) (\<lambda>m.
      let held = get_positions (ledger st) account; pending = pending_of (o_desk of1) account; qty = held_qty held ticker in
      if \<exists>r\<in>set pending. ord_ticker r = ticker \<and> ord_side r = side
      then Inl (AccountRefused ''same account already has a pending order for this leg'')
      else if parent \<noteq> None then Inr ()
      else if side = ''sell'' \<and> flt (fmax qty (Fin 0)) quantity then Inl (AccountRefused ''sell exceeds this account's holdings'')
      else if side = ''cover'' \<and> flt (fmax (fneg qty) (Fin 0)) quantity then Inl (AccountRefused ''cover exceeds this account's short position'')
      else if side \<in> {''sell'', ''cover''} then Inr ()
      else
      bindE (marked_values e st spec held day) (\<lambda>values.
      bindE (reserved_orders e st spec pending day) (\<lambda>reserved.
      bindE (get_cash (ledger st) account) (\<lambda>cash.
      raise_if (opening_refused spec ticker (fmul quantity (mk_price m)) values reserved cash)
        (AccountRefused ''intent exceeds this account's cash/position/gross/minimum constraints''))))))"

section \<open>Intake\<close>

text \<open>\<open>float(value)\<close> of a JSON value.\<close>

definition float_json :: "'w wire_scheme \<Rightarrow> json \<Rightarrow> float64 outcome" where
  "float_json w v = (case v of
     JInt n \<Rightarrow> of_pyint n | JFloat x \<Rightarrow> Inr x | JBool b \<Rightarrow> Inr (Fin (if b then 1 else 0)) | JStr s \<Rightarrow> float_text w s
   | _ \<Rightarrow> Inl (TypeError ''float''))"

definition validate_replayed_order :: "'w wire_scheme \<Rightarrow> desk \<Rightarrow> int \<Rightarrow> fields \<Rightarrow> unit outcome" where
  "validate_replayed_order w dk order d =
     bindE (float_json w (field d ''quantity'')) (\<lambda>quantity.
     case parse_date w (case map_of d ''signal_date'' of Some v \<Rightarrow> v | None \<Rightarrow> field d ''session_date'') of
       None \<Rightarrow> Inl (ValueError ''Invalid isoformat string'')
     | Some session \<Rightarrow>
         (case find (\<lambda>r. ord_id r = order) (sim_orders dk) of
            None \<Rightarrow> Inl (AccountRefused ''retained intake no longer matches its engine order'')
          | Some r \<Rightarrow> raise_if (\<not> (JStr (ord_portfolio r) = field d ''account_id'' \<and> ord_ticker r = ticker_of d \<and> ord_side r = side_of d \<and>
                 ord_qty r \<noteq> NaN \<and> ord_qty r = quantity \<and> ord_signal_date r = session))
               (AccountRefused ''retained intake no longer matches its engine order'')))"

definition activation_checkpoint :: "store \<Rightarrow> date \<Rightarrow> bool outcome" where
  "activation_checkpoint st signal_date =
     (if sim_equity st = [] then Inr False
      else if \<exists>p\<in>set (portfolios (ledger st)). pf_active p \<and> \<not> (\<exists>r\<in>set (sim_equity st). eq_portfolio r = pf_id p \<and> eq_date r = signal_date)
      then Inl (AccountRefused ''nightly accounting must complete before account intake'')
      else Inr (\<exists>r\<in>set (sim_equity st). eq_date r = signal_date))"

definition latest_price_date :: "market_db \<Rightarrow> date option" where
  "latest_price_date db = (case map dr_date (d_rows (prices db)) of [] \<Rightarrow> None | x # xs \<Rightarrow> Some (fold max xs x))"

text \<open>What must hold before an intent becomes an order: the date and quantity it carries, the account status, the price
  clock, the parent of a contingent order and the capacity. The result adds the parent and whether the
  nightly mark of the session is already complete.\<close>

definition admit ::
    "'w wire_scheme \<Rightarrow> 'e env_scheme \<Rightarrow> office \<Rightarrow> account_spec \<Rightarrow> fields \<Rightarrow> datetime \<Rightarrow> (date \<times> float64 \<times> int option \<times> bool) outcome" where
  "admit w e of1 spec d received_at =
     (let st = d_store (o_desk of1); v2 = (sp_version spec = 2) in
      bindE (validate_intent w e d spec received_at) (\<lambda>(session_date, quantity).
      bindE (portfolio_account (ledger st) (sp_account spec)) (\<lambda>account.
      bindE (raise_if (account_status account \<in> {''halted'', ''retiring'', ''retired''}) (AccountRefused (account_status account))) (\<lambda>_.
      bindE (raise_if (v2 \<and> (text_of (field d ''instrument_kind'') \<notin> set EXECUTABLE_INSTRUMENTS \<or> field d ''legs'' \<noteq> JList []))
               (AccountRefused ''instrument_not_executable'')) (\<lambda>_.
      bindE (if v2
             then bindE (mark e st (sp_account spec) (ticker_of d) (reference_date spec d session_date) (Some (sp_source spec)) None None)
                    (\<lambda>_. Inr False)
             else if latest_price_date (market st) \<noteq> Some session_date
             then Inl (AccountRefused ''intent must use the current stored signal session'')
             else activation_checkpoint st session_date) (\<lambda>completed.
      bindE (if v2 then contingent_parent of1 d session_date quantity else Inr None) (\<lambda>parent.
      bindE (capacity e of1 spec d session_date quantity parent) (\<lambda>_.
      Inr (session_date, quantity, parent, completed)))))))))"

definition limit_of :: "json \<Rightarrow> float64 option" where
  "limit_of v = (case v of JInt n \<Rightarrow> (case of_pyint n of Inr x \<Rightarrow> Some x | Inl _ \<Rightarrow> None) | JFloat x \<Rightarrow> Some x | _ \<Rightarrow> None)"

text \<open>The order row, its details and its receipt.\<close>

definition book_order :: "fields \<Rightarrow> date \<Rightarrow> float64 \<Rightarrow> desk \<Rightarrow> desk \<times> int" where
  "book_order d session_date quantity dk =
     (let (dk1, oid) = next_order_id dk in
      (dk1\<lparr>sim_orders := sim_orders dk1 @ [\<lparr>ord_id = oid, ord_portfolio = text_of (field d ''account_id''), ord_ticker = ticker_of d,
          ord_side = side_of d, ord_qty = quantity, ord_signal_date = session_date, ord_status = ''pending'', ord_reject_reason = None\<rparr>]\<rparr>, oid))"

definition intake_detail :: "fields \<Rightarrow> int \<Rightarrow> date \<Rightarrow> datetime \<Rightarrow> int option \<Rightarrow> order_detail" where
  "intake_detail d oid session_date received_at parent =
     \<lparr>od_order = oid, od_instrument = ticker_of d, od_instrument_kind = text_of (field d ''instrument_kind''),
      od_order_type = text_of (field d ''order_type''), od_side = side_of d, od_limit_px = limit_of (field d ''limit_price''),
      od_contingent_on = parent, od_session_date = session_date, od_received_at = received_at, od_state = ''queued'',
      od_state_reason = None, od_state_at = received_at\<rparr>"

definition receipt_of :: "'e tz_scheme \<Rightarrow> fields \<Rightarrow> int \<Rightarrow> date \<Rightarrow> datetime \<Rightarrow> receipt" where
  "receipt_of e d oid session_date received_at =
     Receipt2 oid received_at (Option.bind (parse_type (field d ''order_type'')) (\<lambda>t. cutoff_at e t session_date))"

definition store_order ::
    "'e tz_scheme \<Rightarrow> account_spec \<Rightarrow> fields \<Rightarrow> date \<Rightarrow> float64 \<Rightarrow> int option \<Rightarrow> datetime \<Rightarrow> office \<Rightarrow> (office \<times> int \<times> receipt) outcome" where
  "store_order e spec d session_date quantity parent received_at of1 =
     (let (dk, oid) = book_order d session_date quantity (o_desk of1) in
      if sp_version spec = 2
      then bindE (ensure (instruments of1) ((plain_instrument (ticker_of d) (text_of (field d ''instrument_kind'')) (Fin 1))
                    \<lparr>i_source := Some ''account_intake'', i_first_seen := Some session_date, i_last_seen := Some session_date\<rparr>)) (\<lambda>rows.
           Inr (of1\<lparr>o_desk := dk\<lparr>sim_order_details := sim_order_details dk @ [intake_detail d oid session_date received_at parent]\<rparr>,
                    instruments := rows\<rparr>, oid, receipt_of e d oid session_date received_at))
      else Inr (of1\<lparr>o_desk := dk\<rparr>, oid, Receipt1 oid False))"

text \<open>A retry of a stored intent, and the rows of a new one.\<close>

definition replay_intent :: "'w wire_scheme \<Rightarrow> office \<Rightarrow> account_spec \<Rightarrow> fields \<Rightarrow> intake_row \<Rightarrow> (office \<times> receipt) outcome" where
  "replay_intent w of1 spec d previous =
     (let digest = canonical_sha256 w (JObj d) in
      if JStr (in_account previous) \<noteq> field d ''account_id'' \<or> in_sha256 previous \<noteq> digest \<or> canonical_sha256 w (in_payload previous) \<noteq> digest
      then Inl (AccountRefused ''intent identifier already bound to different evidence'')
      else bindE (validate_replayed_order w (o_desk of1) (in_order previous) d) (\<lambda>_.
           Inr (of1, if sp_version spec = 1 then Receipt1 (in_order previous) True else in_receipt previous)))"

definition intake_of :: "'w wire_scheme \<Rightarrow> account_spec \<Rightarrow> fields \<Rightarrow> int \<Rightarrow> datetime \<Rightarrow> receipt \<Rightarrow> intake_row" where
  "intake_of w spec d oid received_at receipt =
     \<lparr>in_intent = text_of (field d ''intent_id''), in_account = sp_account spec, in_order = oid, in_payload = JObj d,
      in_sha256 = canonical_sha256 w (JObj d), in_received = received_at, in_receipt = receipt\<rparr>"

definition queue_intent ::
    "'w wire_scheme \<Rightarrow> 'e env_scheme \<Rightarrow> office \<Rightarrow> account_spec \<Rightarrow> fields \<Rightarrow> datetime \<Rightarrow> (office \<times> receipt) outcome" where
  "queue_intent w e of1 spec d received_at =
     bindE (admit w e of1 spec d received_at) (\<lambda>(session_date, quantity, parent, completed).
     bindE (store_order e spec d session_date quantity parent received_at of1) (\<lambda>(of2, oid, receipt).
     let of3 = of2\<lparr>paper_account_intakes := paper_account_intakes of2 @ [intake_of w spec d oid received_at receipt]\<rparr> in
     bindE (set_status (set_active (sp_account spec) True of3) (sp_account spec) ''active'') (\<lambda>of4.
     if completed
     then bindE (mark_to_market (d_store (o_desk of4)) (sp_account spec) session_date) (\<lambda>(st, _).
          Inr (on_desk (\<lambda>dk. dk\<lparr>d_store := st\<rparr>) of4, receipt))
     else Inr (of4, receipt))))"

definition stored_intake :: "office \<Rightarrow> fields \<Rightarrow> intake_row option" where
  "stored_intake of1 d = find (\<lambda>i. JStr (in_intent i) = field d ''intent_id'') (paper_account_intakes of1)"

definition intent_version :: "fields \<Rightarrow> int option" where
  "intent_version d = (case map_of d ''schema_version'' of Some (JInt version) \<Rightarrow> Some version | _ \<Rightarrow> None)"

definition submit_intent ::
    "'w wire_scheme \<Rightarrow> 'e env_scheme \<Rightarrow> office \<Rightarrow> json \<Rightarrow> stamp \<Rightarrow> (office \<times> receipt) outcome" where
  "submit_intent w e of0 intent received =
     bindE (utc received) (\<lambda>received_at.
     case intent of
       JObj d \<Rightarrow> (case intent_version d of
         None \<Rightarrow> Inl (AccountRefused ''invalid trade intent'')
       | Some version \<Rightarrow>
           if \<not> same_keys d (if version = 1 then V1_INTENT_FIELDS else V2_INTENT_FIELDS)
           then Inl (AccountRefused (''invalid trade intent v'' @ (if version < 0 then ''-'' else []) @ str_nat (nat \<bar>version\<bar>)))
           else
           let of1 = init_schema of0 in
           bindE (case field d ''account_id'' of JStr account \<Rightarrow> load_spec w of1 account
                  | _ \<Rightarrow> Inl (AccountRefused ''account has no admitted specification'')) (\<lambda>spec.
           case stored_intake of1 d of
             Some previous \<Rightarrow> replay_intent w of1 spec d previous
           | None \<Rightarrow> queue_intent w e of1 spec d received_at))
     | _ \<Rightarrow> Inl (AccountRefused ''invalid trade intent''))"

end
