(* ===== verification/Contract.thy ===== *)
theory Contract
  imports Intake
begin

text \<open>
  The contract that every operation of the account service honours (\<open>keeps\<close>): pending orders of halted accounts stay
  forced ones, no portfolio disappears, retirement is final, and stored orders, intakes, specifications and account terms
  keep their content. One lemma per operation of \<open>Accounts\<close> and \<open>Intake\<close>, over the lemmas of the helpers they
  are made of.
\<close>

section \<open>What each helper leaves alone\<close>

definition explicit_status :: "office \<Rightarrow> string \<Rightarrow> string option" where
  "explicit_status of1 q = Option.bind (find (\<lambda>a. pa_portfolio_id a = q) (portfolio_accounts (office_book of1))) pa_status"

lemma explicit_status_account:
  "portfolio_account (office_book of1) q = Inr st \<Longrightarrow> explicit_status of1 q = Some s \<Longrightarrow> account_status st = s"
  by (auto simp: portfolio_account_def explicit_status_def coalesce_def Let_def bind_eq_Some_conv split: option.split_asm)

definition account_ids :: "office \<Rightarrow> string set" where
  "account_ids of1 = pf_id ` set (portfolios (office_book of1))"

lemma update_rows_keys: "(\<And>r. k (f r) = k r) \<Longrightarrow> k ` set (update_rows P f rows) = k ` set rows"
  by (induction rows) (auto simp: update_rows_def)

lemma account_ids_row: "q \<in> account_ids of1 \<longleftrightarrow> portfolio_row_of (office_book of1) q \<noteq> None"
  by (auto simp: account_ids_def portfolio_row_of_def find_None_iff)

text \<open>What no operation changes once it is stored: the terms of an order, the terms of an account, the intakes and the
  specifications.\<close>

definition order_terms :: "order_row \<Rightarrow> string \<times> string \<times> string \<times> float64 \<times> date" where
  "order_terms r = (ord_portfolio r, ord_ticker r, ord_side r, ord_qty r, ord_signal_date r)"

definition order_of :: "desk \<Rightarrow> int \<Rightarrow> order_row option" where
  "order_of dk i = find (\<lambda>r. ord_id r = i) (sim_orders dk)"

definition kept_orders :: "desk \<Rightarrow> desk \<Rightarrow> bool" where
  "kept_orders dk dk' \<longleftrightarrow> (\<forall>i r. order_of dk i = Some r \<longrightarrow> (\<exists>r'. order_of dk' i = Some r' \<and> order_terms r' = order_terms r))"

definition setting_terms :: "settings \<Rightarrow> string \<times> string \<times> string \<times> string \<times> bool" where
  "setting_terms st = (engine st, account_type st, account_price_source st, day_trade_rule st, allow_short st)"

definition row_terms :: "portfolio_row \<Rightarrow> portfolio_row \<Rightarrow> bool" where
  "row_terms p p' \<longleftrightarrow> (pf_initial_cash p \<noteq> None \<longrightarrow> pf_initial_cash p' = pf_initial_cash p) \<and> pf_strategy p' = pf_strategy p \<and>
     pf_external_sha256 p' = pf_external_sha256 p"

definition kept_accounts :: "book \<Rightarrow> book \<Rightarrow> bool" where
  "kept_accounts bk bk' \<longleftrightarrow> (\<forall>q p st. portfolio_row_of bk q = Some p \<and> portfolio_account bk q = Inr st \<longrightarrow>
     (\<exists>p' st'. portfolio_row_of bk' q = Some p' \<and> row_terms p p' \<and> portfolio_account bk' q = Inr st' \<and> setting_terms st' = setting_terms st))"

definition retains :: "office \<Rightarrow> office \<Rightarrow> bool" where
  "retains a b \<longleftrightarrow> kept_orders (o_desk a) (o_desk b) \<and> kept_accounts (office_book a) (office_book b) \<and>
     (\<exists>xs. paper_account_intakes b = paper_account_intakes a @ xs) \<and> (\<exists>xs. paper_account_specs b = paper_account_specs a @ xs)"

lemma kept_orders_refl [simp]: "kept_orders dk dk" "sim_orders dk' = sim_orders dk \<Longrightarrow> kept_orders dk dk'"
  by (auto simp: kept_orders_def order_of_def)

lemma kept_orders_trans: "kept_orders a b \<Longrightarrow> kept_orders b c \<Longrightarrow> kept_orders a c"
  unfolding kept_orders_def by metis

lemma kept_orders_append: "sim_orders dk' = sim_orders dk @ rs \<Longrightarrow> kept_orders dk dk'"
  by (simp add: kept_orders_def order_of_def find_append)

lemma kept_orders_queue [simp]: "kept_orders dk (dk1\<lparr>sim_orders := sim_orders dk @ rs, sim_order_details := ds\<rparr>)"
  by (rule kept_orders_append) simp

lemma kept_orders_update:
  assumes "sim_orders dk' = update_rows P f (sim_orders dk)" "\<And>r. ord_id (f r) = ord_id r" "\<And>r. order_terms (f r) = order_terms r"
  shows "kept_orders dk dk'"
  using assms by (auto simp: kept_orders_def order_of_def find_update_rows)

lemma kept_accounts_refl [simp]: "kept_accounts bk bk"
  by (simp add: kept_accounts_def row_terms_def)

lemma kept_accounts_trans:
  assumes "kept_accounts a b" "kept_accounts b c"
  shows "kept_accounts a c"
proof -
  have t: "row_terms p r" if "row_terms p q" "row_terms q r" for p q r using that by (auto simp: row_terms_def)
  show ?thesis
    unfolding kept_accounts_def
  proof (intro allI impI)
    fix q p st
    assume "portfolio_row_of a q = Some p \<and> portfolio_account a q = Inr st"
    then obtain p' st' where b: "portfolio_row_of b q = Some p'" "row_terms p p'" "portfolio_account b q = Inr st'" "setting_terms st' = setting_terms st"
      using assms(1) unfolding kept_accounts_def by blast
    then obtain r rt where "portfolio_row_of c q = Some r" "row_terms p' r" "portfolio_account c q = Inr rt" "setting_terms rt = setting_terms st'"
      using assms(2) unfolding kept_accounts_def by blast
    then show "\<exists>r rt. portfolio_row_of c q = Some r \<and> row_terms p r \<and> portfolio_account c q = Inr rt \<and> setting_terms rt = setting_terms st"
      using t b by auto
  qed
qed

lemma kept_accounts_rows:
  assumes "portfolio_accounts bk' = portfolio_accounts bk"
    and "\<And>q p. portfolio_row_of bk q = Some p \<Longrightarrow> \<exists>p'. portfolio_row_of bk' q = Some p' \<and> row_terms p p'"
  shows "kept_accounts bk bk'"
  unfolding kept_accounts_def
proof (intro allI impI, elim conjE)
  fix q p st
  assume p: "portfolio_row_of bk q = Some p" "portfolio_account bk q = Inr st"
  then obtain p' where "portfolio_row_of bk' q = Some p'" "row_terms p p'" using assms(2) by blast
  then show "\<exists>p' st'. portfolio_row_of bk' q = Some p' \<and> row_terms p p' \<and> portfolio_account bk' q = Inr st' \<and> setting_terms st' = setting_terms st"
    using p assms(1) by (auto simp: portfolio_account_def Let_def setting_terms_def)
qed

lemma kept_accounts_update:
  assumes "portfolio_accounts bk' = portfolio_accounts bk" "portfolios bk' = update_rows P f (portfolios bk)"
    and "\<And>r. pf_id (f r) = pf_id r" "\<And>r. P r \<Longrightarrow> row_terms r (f r)"
  shows "kept_accounts bk bk'"
proof (rule kept_accounts_rows [OF assms(1)])
  fix q p
  assume "portfolio_row_of bk q = Some p"
  moreover have "row_terms p p" by (simp add: row_terms_def)
  ultimately show "\<exists>p'. portfolio_row_of bk' q = Some p' \<and> row_terms p p'"
    using assms(3,4) by (auto simp: portfolio_row_of_def assms(2) find_update_rows)
qed

lemma retains_refl [simp]: "retains a a"
  by (simp add: retains_def)

lemma retains_trans: "retains a b \<Longrightarrow> retains b c \<Longrightarrow> retains a c"
  unfolding retains_def using kept_orders_trans kept_accounts_trans by (metis append.assoc)

text \<open>Same portfolios, orders and details, and the same explicit status of every account.\<close>

definition quiet :: "office \<Rightarrow> office \<Rightarrow> bool" where
  "quiet of1 of2 \<longleftrightarrow> sim_orders (o_desk of2) = sim_orders (o_desk of1) \<and> sim_order_details (o_desk of2) = sim_order_details (o_desk of1) \<and>
     account_ids of2 = account_ids of1 \<and> (\<forall>q. explicit_status of2 q = explicit_status of1 q) \<and> retains of1 of2"

lemma quiet_refl [simp]: "quiet of1 of1"
  by (simp add: quiet_def)

lemma quiet_trans: "quiet a b \<Longrightarrow> quiet b c \<Longrightarrow> quiet a c"
  unfolding quiet_def using retains_trans by metis

lemma bootstrap_desk [simp]:
  "sim_orders (bootstrap_order_sequence dk) = sim_orders dk" "sim_order_details (bootstrap_order_sequence dk) = sim_order_details dk"
  "d_store (bootstrap_order_sequence dk) = d_store dk"
  by (simp_all add: bootstrap_order_sequence_def)

lemma retains_helpers:
  "retains of1 (init_schema of1)" "retains of1 (record_event of1 pid kind body now)" "retains of1 (update_state pid f of1)"
  "retains of1 (set_active pid b of1)" "retains of1 (put_reconciliation r of1)" "retains of1 (of1\<lparr>account_reconciliations := rs\<rparr>)"
proof -
  show "retains of1 (init_schema of1)"
    unfolding retains_def init_schema_def office_book_def on_desk_def on_book_def
    by (auto intro: kept_accounts_update simp: row_terms_def)
  show "retains of1 (set_active pid b of1)"
    unfolding retains_def set_active_def office_book_def on_desk_def on_book_def
    by (auto intro: kept_accounts_update simp: row_terms_def)
qed (simp_all add: retains_def office_book_def record_event_def update_state_def put_reconciliation_def on_desk_def)

lemma quiet_helpers [simp]:
  "quiet of1 (init_schema of1)" "quiet of1 (record_event of1 pid kind body now)" "quiet of1 (update_state pid f of1)"
  "quiet of1 (set_active pid b of1)" "quiet of1 (put_reconciliation r of1)"
  "quiet of1 (of1\<lparr>account_reconciliations := rs\<rparr>)"
  unfolding quiet_def using retains_helpers
  by (simp_all add: account_ids_def explicit_status_def office_book_def init_schema_def record_event_def update_state_def set_active_def
      put_reconciliation_def on_desk_def on_book_def update_rows_keys)

lemma quiet_mark_retired [simp]: "quiet of1 (mark_retired pid now of1)"
  by (simp add: mark_retired_def)

lemma ensure_state_quiet: "ensure_state of1 pid now = Inr of2 \<Longrightarrow> quiet of1 of2"
  by (auto simp: ensure_state_def quiet_def retains_def account_ids_def explicit_status_def office_book_def on_desk_def split: if_splits option.splits)

text \<open>\<open>set_status\<close> moves one account only.\<close>

definition moves :: "string \<Rightarrow> string \<Rightarrow> office \<Rightarrow> office \<Rightarrow> bool" where
  "moves pid s of1 of2 \<longleftrightarrow> sim_orders (o_desk of2) = sim_orders (o_desk of1) \<and> sim_order_details (o_desk of2) = sim_order_details (o_desk of1) \<and>
     account_ids of2 = account_ids of1 \<and> (\<forall>q. explicit_status of2 q = (if q = pid then Some s else explicit_status of1 q)) \<and> retains of1 of2"

lemma find_update_status:
  assumes "\<And>a. pa_portfolio_id (g a) = pa_portfolio_id a"
  shows "find (\<lambda>a. pa_portfolio_id a = q) (update_rows (\<lambda>a. pa_portfolio_id a = pid) g rows) =
    (if q = pid then map_option g (find (\<lambda>a. pa_portfolio_id a = q) rows) else find (\<lambda>a. pa_portfolio_id a = q) rows)"
  using assms by (induction rows) (auto simp: update_rows_def)

lemma set_portfolio_account_rows:
  assumes "set_portfolio_account b0 pid f = Inr bk"
  shows "portfolio_accounts bk = (if \<exists>a\<in>set (portfolio_accounts b0). pa_portfolio_id a = pid
    then update_rows (\<lambda>a. pa_portfolio_id a = pid) (assign_fields f) (portfolio_accounts b0)
    else portfolio_accounts b0 @ [assign_fields f (default_account pid)])"
  using assms unfolding set_portfolio_account_def by (simp only: split: if_split_asm) auto

lemma set_portfolio_account_ids: "set_portfolio_account b0 pid f = Inr bk \<Longrightarrow> portfolios bk = portfolios b0"
  unfolding set_portfolio_account_def by (simp only: split: if_split_asm) auto

lemma set_account_status:
  assumes "set_portfolio_account b0 pid f = Inr bk" "fd_status f = Some (Some s)"
  shows "Option.bind (find (\<lambda>a. pa_portfolio_id a = q) (portfolio_accounts bk)) pa_status =
    (if q = pid then Some s else Option.bind (find (\<lambda>a. pa_portfolio_id a = q) (portfolio_accounts b0)) pa_status)"
proof -
  let ?rows = "portfolio_accounts b0"
  have af: "pa_portfolio_id (assign_fields f a) = pa_portfolio_id a" "pa_status (assign_fields f a) = Some s" for a
    using assms(2) by (simp_all add: assign_fields_def)
  show ?thesis
  proof (cases "\<exists>a\<in>set ?rows. pa_portfolio_id a = pid")
    case True
    then obtain x where "find (\<lambda>a. pa_portfolio_id a = pid) ?rows = Some x"
      by (cases "find (\<lambda>a. pa_portfolio_id a = pid) ?rows") (auto simp: find_None_iff)
    moreover have "portfolio_accounts bk = update_rows (\<lambda>a. pa_portfolio_id a = pid) (assign_fields f) ?rows"
      using set_portfolio_account_rows [OF assms(1)] True by simp
    ultimately show ?thesis by (simp add: find_update_status [OF af(1)] af(2))
  next
    case False
    then have "portfolio_accounts bk = ?rows @ [assign_fields f (default_account pid)]"
      using set_portfolio_account_rows [OF assms(1)] by (simp only: if_False)
    moreover have "find (\<lambda>a. pa_portfolio_id a = pid) ?rows = None" using False by (auto simp: find_None_iff)
    ultimately show ?thesis using af(1) [of "default_account pid"] af(2) [of "default_account pid"]
      by (auto simp: find_append default_account_def split: option.split)
  qed
qed

lemma set_account_terms:
  assumes "set_portfolio_account b0 pid f = Inr bk" "f = no_fields\<lparr>fd_status := x\<rparr> \<or> q \<noteq> pid"
    and "portfolio_account b0 q = Inr st"
  shows "\<exists>st'. portfolio_account bk q = Inr st' \<and> setting_terms st' = setting_terms st"
proof -
  let ?old = "find (\<lambda>a. pa_portfolio_id a = q) (portfolio_accounts b0)" and ?new = "find (\<lambda>a. pa_portfolio_id a = q) (portfolio_accounts bk)"
  let ?terms = "\<lambda>pa. (coalesce (Option.bind pa pa_engine) ''league'', coalesce (Option.bind pa pa_account_type) ''cash_legacy'',
    coalesce (Option.bind pa pa_price_source) ''prices'', coalesce (Option.bind pa pa_day_trade_rule) ''pdt_25k_legacy'',
    coalesce (Option.bind pa pa_allow_short) False)"
  have same: "q \<noteq> pid \<Longrightarrow> ?new = ?old"
    using set_portfolio_account_rows [OF assms(1)]
    by (auto simp: find_update_status assign_fields_def find_append default_account_def split: if_split_asm option.split)
  have "?terms ?new = ?terms ?old"
  proof (cases "q = pid")
    case True
    then have f: "f = no_fields\<lparr>fd_status := x\<rparr>" using assms(2) by simp
    show ?thesis
    proof (cases ?old)
      case None
      then have "\<not> (\<exists>a\<in>set (portfolio_accounts b0). pa_portfolio_id a = pid)" using True by (auto simp: find_None_iff)
      then have "portfolio_accounts bk = portfolio_accounts b0 @ [assign_fields f (default_account pid)]"
        using set_portfolio_account_rows [OF assms(1)] by (simp only: if_False)
      then have "?new = Some (assign_fields f (default_account pid))"
        using None True by (simp add: find_append assign_fields_def default_account_def)
      then show ?thesis using None by (simp add: f assign_fields_def no_fields_def assign_def default_account_def coalesce_def)
    next
      case (Some a)
      then have "?new = Some (assign_fields f a)"
        using set_portfolio_account_rows [OF assms(1)] find_SomeD [OF Some] True
        by (auto simp: find_update_status assign_fields_def split: if_split_asm)
      then show ?thesis using Some by (simp add: f assign_fields_def no_fields_def assign_def)
    qed
  qed (use same in simp)
  moreover have "portfolio_row_of bk q = portfolio_row_of b0 q" using set_portfolio_account_ids [OF assms(1)] by (simp add: portfolio_row_of_def)
  ultimately show ?thesis using assms(3) by (auto simp: portfolio_account_def Let_def setting_terms_def split: option.split_asm)
qed

lemma set_status_moves: "set_status of1 pid s = Inr of2 \<Longrightarrow> moves pid s of1 of2"
proof -
  assume "set_status of1 pid s = Inr of2"
  then obtain bk where bk: "set_portfolio_account (office_book of1) pid (no_fields\<lparr>fd_status := Some (Some s)\<rparr>) = Inr bk"
    and of2: "of2 = on_book (\<lambda>_. bk) of1" by (auto simp: set_status_def bindE_eq_Inr)
  have "kept_accounts (office_book of1) bk"
    using set_account_terms [OF bk] set_portfolio_account_ids [OF bk] by (fastforce simp: kept_accounts_def row_terms_def portfolio_row_of_def)
  then show ?thesis using set_portfolio_account_ids [OF bk] set_account_status [OF bk]
    by (simp add: moves_def retains_def of2 account_ids_def explicit_status_def office_book_def on_book_def on_desk_def)
qed

lemma moves_quiet: "quiet a b \<Longrightarrow> moves pid s b c \<Longrightarrow> moves pid s a c" "moves pid s a b \<Longrightarrow> quiet b c \<Longrightarrow> moves pid s a c"
  using retains_trans by (auto simp: moves_def quiet_def)

section \<open>Forced orders\<close>

text \<open>Every detail row has its order, and every pending order of a halted account is a forced one.\<close>

definition rooted :: "desk \<Rightarrow> bool" where
  "rooted dk \<longleftrightarrow> od_order ` set (sim_order_details dk) \<subseteq> ord_id ` set (sim_orders dk)"

definition forced_only :: "desk \<Rightarrow> string \<Rightarrow> bool" where
  "forced_only dk q \<longleftrightarrow> (\<forall>r\<in>set (sim_orders dk). ord_portfolio r = q \<and> ord_status r = ''pending'' \<longrightarrow> forced_order dk (ord_id r))"

definition calm :: "office \<Rightarrow> bool" where
  "calm of1 \<longleftrightarrow> rooted (o_desk of1) \<and> (\<forall>q. explicit_status of1 q = Some ''halted'' \<longrightarrow> forced_only (o_desk of1) q)"

lemma forced_order_cong: "sim_order_details dk = sim_order_details dk' \<Longrightarrow> forced_order dk i = forced_order dk' i"
  by (simp add: forced_order_def)

lemma find_update_details:
  assumes "i \<notin> set ids" "\<And>d. od_order (g d) = od_order d"
  shows "find (\<lambda>d. od_order d = i) (update_rows (\<lambda>d. od_order d \<in> set ids \<and> P d) g ds) = find (\<lambda>d. od_order d = i) ds"
  using assms by (induction ds) (auto simp: update_rows_def)

lemma cancel_orders_calm:
  "rooted dk \<Longrightarrow> rooted (cancel_orders ids reason now dk)"
  "forced_only dk q \<Longrightarrow> forced_only (cancel_orders ids reason now dk) q"
  "forced_only (cancel_orders (discretionary_orders dk pid) reason now dk) pid"
proof -
  have forced: "forced_order (cancel_orders js reason now dk) i = forced_order dk i" if "i \<notin> set js" for i js
    using that by (simp add: forced_order_def cancel_orders_def find_update_details)
  have pending: "r \<in> set (sim_orders dk) \<and> ord_id r \<notin> set js"
    if "r \<in> set (sim_orders (cancel_orders js reason now dk))" "ord_status r = ''pending''" for r js
    using that by (auto simp: cancel_orders_def update_rows_def split: if_splits)
  have "map ord_id (sim_orders (cancel_orders ids reason now dk)) = map ord_id (sim_orders dk)"
    "map od_order (sim_order_details (cancel_orders ids reason now dk)) = map od_order (sim_order_details dk)"
    by (simp_all add: cancel_orders_def update_rows_def)
  then have "ord_id ` set (sim_orders (cancel_orders ids reason now dk)) = ord_id ` set (sim_orders dk)"
    "od_order ` set (sim_order_details (cancel_orders ids reason now dk)) = od_order ` set (sim_order_details dk)"
    by (metis set_map)+
  then show "rooted dk \<Longrightarrow> rooted (cancel_orders ids reason now dk)" by (simp add: rooted_def)
  show "forced_only dk q \<Longrightarrow> forced_only (cancel_orders ids reason now dk) q"
    unfolding forced_only_def using pending forced by metis
  show "forced_only (cancel_orders (discretionary_orders dk pid) reason now dk) pid"
    unfolding forced_only_def using pending forced by (fastforce simp: discretionary_orders_def)
qed

lemma cancel_orders_kept: "kept_orders dk (cancel_orders ids reason now dk)"
proof (rule kept_orders_update)
  show "sim_orders (cancel_orders ids reason now dk) = update_rows (\<lambda>r. ord_id r \<in> set ids)
    (\<lambda>r. r\<lparr>ord_status := ''cancelled'', ord_reject_reason := Some reason\<rparr>) (sim_orders dk)" by (simp add: cancel_orders_def)
qed (simp_all add: order_terms_def)

lemma cancel_orders_store [simp]: "d_store (cancel_orders ids reason now dk) = d_store dk"
  by (simp add: cancel_orders_def)

text \<open>Appending a forced order with a fresh id.\<close>

lemma append_forced:
  assumes "rooted dk" "sim_orders dk' = sim_orders dk @ [r]" "sim_order_details dk' = sim_order_details dk @ [d]"
    and "od_order d = ord_id r" "ord_id r \<notin> ord_id ` set (sim_orders dk)" "p \<in> set FORCED_CLOSE_REASONS" "like_prefix p (od_state_reason d)"
  shows "rooted dk'" "forced_only dk q \<Longrightarrow> forced_only dk' q"
proof -
  show "rooted dk'" using assms(1-4) by (auto simp: rooted_def)
  have "ord_id r \<notin> od_order ` set (sim_order_details dk)" using assms(1,5) unfolding rooted_def by blast
  then have "find (\<lambda>d. od_order d = ord_id r) (sim_order_details dk) = None" by (force simp: find_None_iff)
  then have new: "forced_order dk' (ord_id r)" using assms(3,4,6,7) by (auto simp: forced_order_def find_append)
  have "forced_order dk i \<Longrightarrow> forced_order dk' i" for i
    by (auto simp: forced_order_def find_append assms(3) split: option.split_asm)
  then show "forced_only dk q \<Longrightarrow> forced_only dk' q" using new assms(2) by (auto simp: forced_only_def)
qed

lemma next_order_fresh:
  assumes "next_order_id dk = (dk', i)"
  shows "i \<notin> ord_id ` set (sim_orders dk)" "sim_orders dk' = sim_orders dk" "sim_order_details dk' = sim_order_details dk"
    "d_store dk' = d_store dk"
  using next_order_id_spec [OF assms] max_order_id_ge [of _ dk] assms
  by (fastforce simp: next_order_id_def bootstrap_order_sequence_def Let_def split: if_splits)+

section \<open>What every operation keeps\<close>

text \<open>The contract shared by the operations: the order invariant survives, no portfolio disappears and a retired account stays
  retired.\<close>

definition keeps :: "office \<Rightarrow> office \<Rightarrow> bool" where
  "keeps of1 of2 \<longleftrightarrow> (calm of1 \<longrightarrow> calm of2) \<and> account_ids of1 \<subseteq> account_ids of2 \<and>
     (\<forall>q\<in>account_ids of1. explicit_status of1 q = Some ''retired'' \<longrightarrow> explicit_status of2 q = Some ''retired'') \<and> retains of1 of2"

lemma keeps_refl [simp]: "keeps of1 of1"
  by (simp add: keeps_def)

lemma keeps_trans [trans]: "keeps a b \<Longrightarrow> keeps b c \<Longrightarrow> keeps a c"
  unfolding keeps_def using retains_trans by blast

lemma calm_cong:
  assumes "sim_orders (o_desk b) = sim_orders (o_desk a)" "sim_order_details (o_desk b) = sim_order_details (o_desk a)"
  shows "rooted (o_desk b) = rooted (o_desk a)" "forced_only (o_desk b) q = forced_only (o_desk a) q"
  using assms forced_order_cong [OF assms(2)] by (simp_all add: rooted_def forced_only_def)

lemma keeps_quiet: "quiet a b \<Longrightarrow> keeps a b"
  using calm_cong [of b a] by (simp add: keeps_def quiet_def calm_def)

lemma keeps_moves: "moves pid s a b \<Longrightarrow> s \<noteq> ''halted'' \<Longrightarrow> explicit_status a pid \<noteq> Some ''retired'' \<or> s = ''retired'' \<Longrightarrow> keeps a b"
  using calm_cong [of b a] by (auto simp: keeps_def moves_def calm_def)

text \<open>A change of the desk that leaves the ledger alone and keeps the order invariant of every account.\<close>

lemma keeps_desk:
  assumes "o_desk b = dk" "d_store dk = d_store (o_desk a)" "rooted (o_desk a) \<Longrightarrow> rooted dk"
    and "\<And>q. rooted (o_desk a) \<Longrightarrow> forced_only (o_desk a) q \<Longrightarrow> forced_only dk q"
    and "kept_orders (o_desk a) dk" "paper_account_intakes b = paper_account_intakes a" "paper_account_specs b = paper_account_specs a"
  shows "keeps a b"
  using assms by (simp add: keeps_def retains_def calm_def account_ids_def explicit_status_def office_book_def)

lemma keeps_cancel: "keeps a (on_desk (cancel_orders ids reason now) a)"
  using cancel_orders_calm(1,2) [of "o_desk a"] cancel_orders_kept [of "o_desk a"]
  by (intro keeps_desk [where dk = "cancel_orders ids reason now (o_desk a)"]) (auto simp: on_desk_def cancel_orders_def)

lemma discretionary_cong:
  assumes "sim_orders dk' = sim_orders dk" "sim_order_details dk' = sim_order_details dk"
  shows "discretionary_orders dk' pid = discretionary_orders dk pid"
  using assms forced_order_cong [OF assms(2)] by (simp add: discretionary_orders_def)

lemma office_account_explicit:
  "office_account of1 pid = Inr st \<Longrightarrow> explicit_status of1 pid = Some s \<Longrightarrow> account_status st = s"
  using explicit_status_account by (auto simp: office_account_def bindE_eq_Inr split: if_split_asm)

lemma init_schema_status [simp]: "explicit_status (init_schema of1) q = explicit_status of1 q"
  using quiet_helpers(1) [of of1] by (simp add: quiet_def)

text \<open>A halt: nothing, or the account moves to halted and its discretionary orders are cancelled.\<close>

definition stamp_halt :: "string \<Rightarrow> string \<Rightarrow> datetime \<Rightarrow> office \<Rightarrow> office" where
  "stamp_halt pid reason now = update_state pid (\<lambda>r. r\<lparr>as_halted_at := Some now, as_halt_reason := Some reason, as_updated_at := now\<rparr>)"

lemma halt_account_cases:
  assumes "halt_account of0 pid reason now detail = Inr (of2, b)"
  obtains (idle) "quiet of0 of2" "b = False"
  | (halted) of4 where "b = True" "moves pid ''halted'' of0 of4" "explicit_status of0 pid \<noteq> Some ''retired''"
      "quiet (on_desk (cancel_orders (discretionary_orders (o_desk of0) pid) reason now) of4) of2"
proof -
  from assms obtain st where a: "office_account (init_schema of0) pid = Inr st" "account_status st \<noteq> ''retired''"
    and rest: "account_status st = ''halted'' \<and> of2 = init_schema of0 \<and> b = False \<or>
      (\<exists>x y. ensure_state (init_schema of0) pid now = Inr x \<and> set_status x pid ''halted'' = Inr y \<and> b = True \<and>
        of2 = (let z = stamp_halt pid reason now y;
                   ids = discretionary_orders (o_desk z) pid
               in record_event (on_desk (cancel_orders ids reason now) z) pid reason (HaltedBy reason ids detail) now))"
    unfolding halt_account_def stamp_halt_def Let_def bindE_eq_Inr by (auto split: if_split_asm simp: bindE_eq_Inr)
  from rest show ?thesis
  proof (elim disjE exE conjE)
    assume "of2 = init_schema of0" "b = False"
    then show ?thesis using idle by simp
  next
    fix x y
    assume e: "ensure_state (init_schema of0) pid now = Inr x" "set_status x pid ''halted'' = Inr y" "b = True"
      and of2: "of2 = (let z = stamp_halt pid reason now y; ids = discretionary_orders (o_desk z) pid
               in record_event (on_desk (cancel_orders ids reason now) z) pid reason (HaltedBy reason ids detail) now)"
    let ?z = "stamp_halt pid reason now y"
    have "quiet of0 x" using quiet_trans [OF quiet_helpers(1) ensure_state_quiet [OF e(1)]] .
    from moves_quiet(1) [OF this set_status_moves [OF e(2)]] have m: "moves pid ''halted'' of0 ?z"
      by (rule moves_quiet(2)) (simp add: stamp_halt_def)
    have "explicit_status of0 pid \<noteq> Some ''retired''" using office_account_explicit [OF a(1)] a(2) by auto
    moreover have "discretionary_orders (o_desk ?z) pid = discretionary_orders (o_desk of0) pid"
      using m by (intro discretionary_cong) (simp_all add: moves_def)
    ultimately show ?thesis using halted [OF e(3) m] of2 by (simp add: Let_def)
  qed
qed

lemma halt_account_keeps:
  assumes "halt_account of0 pid reason now detail = Inr (of2, b)"
  shows "keeps of0 of2"
  using assms
proof (cases rule: halt_account_cases)
  case idle
  then show ?thesis using keeps_quiet by blast
next
  case (halted of4)
  let ?ids = "discretionary_orders (o_desk of0) pid" and ?of5 = "on_desk (cancel_orders (discretionary_orders (o_desk of0) pid) reason now) of4"
  have same: "sim_orders (o_desk of4) = sim_orders (o_desk of0)" "sim_order_details (o_desk of4) = sim_order_details (o_desk of0)"
    using halted(2) by (simp_all add: moves_def)
  have st: "explicit_status ?of5 q = (if q = pid then Some ''halted'' else explicit_status of0 q)" for q
    using halted(2) by (simp add: moves_def explicit_status_def office_book_def on_desk_def cancel_orders_def)
  have accounts: "account_ids ?of5 = account_ids of0"
    using halted(2) by (simp add: moves_def account_ids_def office_book_def on_desk_def cancel_orders_def)
  have "retains of4 ?of5" using cancel_orders_kept by (simp add: retains_def office_book_def on_desk_def)
  then have kept: "retains of0 ?of5" using halted(2) retains_trans by (simp add: moves_def) blast
  have ids: "?ids = discretionary_orders (o_desk of4) pid" using discretionary_cong [OF same] by simp
  have "keeps of0 ?of5"
    unfolding keeps_def calm_def st accounts
    using calm_cong [OF same] cancel_orders_calm(1,2) [of "o_desk of4"] cancel_orders_calm(3) [of "o_desk of4" pid] halted(3)
      kept [unfolded on_desk_def ids]
    by (auto simp: on_desk_def ids)
  then show ?thesis using keeps_quiet [OF halted(4)] keeps_trans by blast
qed

text \<open>Queues that only append forced orders.\<close>

definition queues_forced :: "desk \<Rightarrow> desk \<Rightarrow> bool" where
  "queues_forced dk dk' \<longleftrightarrow> d_store dk' = d_store dk \<and> kept_orders dk dk' \<and>
     (rooted dk \<longrightarrow> rooted dk' \<and> (\<forall>q. forced_only dk q \<longrightarrow> forced_only dk' q))"

lemma queues_forced_refl [simp]: "queues_forced dk dk"
  by (simp add: queues_forced_def)

lemma queues_forced_trans: "queues_forced a b \<Longrightarrow> queues_forced b c \<Longrightarrow> queues_forced a c"
  unfolding queues_forced_def using kept_orders_trans by metis

lemma keeps_queues: "queues_forced (o_desk a) dk \<Longrightarrow> keeps a (a\<lparr>o_desk := dk\<rparr>)"
  by (rule keeps_desk [where dk = dk]) (simp_all add: queues_forced_def)

lemma queue_order_forced:
  assumes "queue_order dk pid t side amount day rc reason = (dk', oid)" "reason \<in> set FORCED_CLOSE_REASONS"
  shows "queues_forced dk dk'"
proof -
  obtain dk1 i where n: "next_order_id dk = (dk1, i)" by (metis surj_pair)
  note f = next_order_fresh [OF n]
  have pre: "like_prefix reason (Some reason)" by simp
  show ?thesis using assms(1) n f append_forced [of dk dk', OF _ _ _ _ _ assms(2)] pre
    by (auto simp: queue_order_def queues_forced_def)
qed

lemma close_step_forced: "queues_forced (fst acc) (fst (close_step pid session_date now r acc))"
proof -
  obtain dk queued where acc: "acc = (dk, queued)" by (metis surj_pair)
  obtain dk1 i where n: "next_order_id dk = (dk1, i)" by (metis surj_pair)
  note f = next_order_fresh [OF n]
  have "''retirement'' \<in> set FORCED_CLOSE_REASONS" "like_prefix ''retirement'' (Some ''retirement'')"
    by (simp_all add: FORCED_CLOSE_REASONS_def)
  then show ?thesis using n f append_forced [of dk "fst (close_step pid session_date now r acc)"]
    by (auto simp: acc close_step_def queues_forced_def Let_def)
qed

lemma fold_forced:
  assumes "\<And>x acc. queues_forced (fst acc) (fst (f x acc))"
  shows "queues_forced (fst acc) (fst (fold f xs acc))"
proof (induction xs arbitrary: acc)
  case (Cons x xs)
  show ?case using queues_forced_trans [OF assms Cons.IH] by simp
qed simp

lemma reduction_step_forced: "queues_forced (fst acc) (fst (reduction_step pid day rc ratio r acc))"
  by (auto simp: reduction_step_def Let_def split_beta FORCED_CLOSE_REASONS_def intro!: queue_order_forced prod_eqI)

lemma buy_in_step_forced: "queues_forced (fst acc) (fst (buy_in_step sdb day rc row acc))"
  by (auto simp: buy_in_step_def Let_def split_beta FORCED_CLOSE_REASONS_def intro!: queue_order_forced prod_eqI)

lemma queue_margin_reductions_forced:
  assumes "queue_margin_reductions e dk now pid day = Inr (dk', ids)"
  shows "queues_forced dk dk'"
proof -
  have m: "queues_forced dk (record_margin_call dk pid day s now)" for s
    using forced_order_cong [of dk "record_margin_call dk pid day s now"]
    by (auto simp: record_margin_call_def queues_forced_def rooted_def forced_only_def forced_order_def Let_def split: option.split)
  from assms consider "dk' = dk" | s ratio held where
    "fold (reduction_step pid day (snd (session_bounds e day)) ratio) held (record_margin_call dk pid day s now, []) = (dk', ids)"
    unfolding queue_margin_reductions_def Let_def bindE_eq_Inr by (auto split: if_split_asm simp: bindE_eq_Inr)
  then show ?thesis
  proof cases
    case (2 s ratio held)
    have "queues_forced (record_margin_call dk pid day s now) dk'"
      using fold_forced [of "reduction_step pid day (snd (session_bounds e day)) ratio" "(record_margin_call dk pid day s now, [])" held]
        reduction_step_forced 2 by (metis fst_conv)
    then show ?thesis using m queues_forced_trans by blast
  qed simp
qed

lemma queue_buy_ins_forced: "queue_buy_ins e dk sdb day sel = Inr (dk', ids) \<Longrightarrow> queues_forced dk dk'"
  using fold_forced [of "buy_in_step sdb day (snd (session_bounds e day))" "(dk, [])"] buy_in_step_forced
  by (auto simp: queue_buy_ins_def bindE_eq_Inr) (metis fst_conv)

section \<open>Every operation of the service\<close>

lemma verify_keeps:
  assumes "verify c e of1 pid d now = Inr (of2, v)"
  shows "keeps of1 of2"
proof -
  have p: "keeps of1 x" if "persist_mismatch c of1 pid w now d = Inr x" for w x
  proof -
    from that obtain r k y b where "halt_account (record_event (put_reconciliation r of1) pid ''verification_mismatch'' k now) pid
        ''halt_reconciliation'' now y = Inr (x, b)"
      unfolding persist_mismatch_def Let_def bindE_eq_Inr by (auto split: prod.split_asm)
    then show ?thesis using halt_account_keeps keeps_quiet [OF quiet_trans [OF quiet_helpers(5) quiet_helpers(2)]] keeps_trans by blast
  qed
  from assms have "of2 = of1 \<or> (\<exists>w. persist_mismatch c of1 pid w now d = Inr of2)"
    unfolding verify_def Let_def bindE_eq_Inr
    by (auto split: sum.split_asm prod.split_asm if_split_asm simp: bindE_eq_Inr)
  then show ?thesis using p by auto
qed

lemma when_verified_keeps:
  assumes "when_verified c e of1 pid now body = (of2, r)" "\<And>x y z. body x = Inr (y, z) \<Longrightarrow> keeps x y"
  shows "keeps of1 of2"
proof (cases "verify c e of1 pid None now")
  case (Inl x)
  then show ?thesis using assms(1) by (simp add: when_verified_def)
next
  case (Inr y)
  then obtain of3 v where v: "verify c e of1 pid None now = Inr (of3, v)" by (metis surj_pair)
  have "keeps of3 of2" using assms v by (auto simp: when_verified_def split: option.split_asm sum.split_asm)
  then show ?thesis using verify_keeps [OF v] keeps_trans by blast
qed

lemma resume_keeps:
  assumes "resume_account of0 pid by note now = Inr (of2, r)"
  shows "keeps of0 of2"
proof -
  let ?of1 = "init_schema of0"
  from assms obtain st equity of3 f body b where a: "office_account ?of1 pid = Inr st" "account_status st = ''halted''"
    "set_status (on_book (\<lambda>bk. bk\<lparr>portfolios := update_rows (\<lambda>p. pf_id p = pid) (\<lambda>p. p\<lparr>pf_active := b\<rparr>) (portfolios bk)\<rparr>) ?of1) pid ''active'' = Inr of3"
    "of2 = record_event (update_state pid f of3) pid ''resumed'' body now"
    unfolding resume_account_def Let_def bindE_eq_Inr by (auto split: if_split_asm simp: bindE_eq_Inr)
  have n: "explicit_status of0 pid \<noteq> Some ''retired''" using office_account_explicit [OF a(1)] a(2) by auto
  have "quiet of0 (set_active pid b ?of1)" using quiet_trans [OF quiet_helpers(1,4)] .
  from moves_quiet(1) [OF this] set_status_moves [OF a(3) [folded set_active_def]]
  have "moves pid ''active'' of0 of3" by blast
  then have "keeps of0 of3" using n by (intro keeps_moves) auto
  moreover have "quiet of3 of2" unfolding a(4) using quiet_trans quiet_helpers(2,3) by blast
  ultimately show ?thesis using keeps_quiet keeps_trans by blast
qed

lemma finalize_keeps:
  assumes "finalize_retirement of1 pid now = Inr (of2, b)"
  shows "keeps of1 of2"
proof -
  from assms consider "of2 = of1" | x where "set_status (set_active pid False of1) pid ''retired'' = Inr x"
    "of2 = record_event (mark_retired pid now x) pid ''retired'' Flat now"
    unfolding finalize_retirement_def bindE_eq_Inr by (auto split: if_split_asm simp: bindE_eq_Inr)
  then show ?thesis
  proof cases
    case 2
    have "moves pid ''retired'' of1 x" using moves_quiet(1) [OF quiet_helpers(4) set_status_moves [OF 2(1)]] .
    then have "keeps of1 x" by (rule keeps_moves) auto
    moreover have "quiet x of2" unfolding 2(2) using quiet_trans [OF quiet_mark_retired quiet_helpers(2)] .
    ultimately show ?thesis using keeps_quiet keeps_trans by blast
  qed simp
qed

lemma retire_keeps:
  assumes "retire z of0 pid now = Inr (of2, r)"
  shows "keeps of0 of2"
proof -
  let ?of1 = "init_schema of0" and ?d = "retirement_session z now"
  let ?c = "on_desk (cancel_orders (opening_orders (o_desk ?of1) pid) ''retired'' now) ?of1"
  let ?held = "held_positions (office_book ?c) pid"
  let ?dk = "fst (fold (close_step pid ?d now) ?held (o_desk ?c, []))"
  have start: "keeps of0 ?of1" by (rule keeps_quiet) simp
  from assms consider "of2 = ?of1" | st s of4 k body where "office_account ?of1 pid = Inr st" "account_status st \<noteq> ''retired''"
    "set_status (set_active pid (?held \<noteq> []) (?c\<lparr>o_desk := ?dk\<rparr>)) pid s = Inr of4" "s \<in> {''retiring'', ''retired''}"
    "of2 = record_event (if ?held = [] then mark_retired pid now of4 else of4) pid k body now"
    unfolding retire_def Let_def split_beta bindE_eq_Inr
    by (auto split: if_split_asm simp: bindE_eq_Inr simp del: fold_simps)
  then show ?thesis
  proof cases
    case 1
    then show ?thesis using start by simp
  next
    case 2
    have "queues_forced (o_desk ?c) ?dk" using fold_forced [of "close_step pid ?d now" "(o_desk ?c, [])"] close_step_forced by (metis fst_conv)
    then have "keeps ?of1 (?c\<lparr>o_desk := ?dk\<rparr>)" using keeps_trans [OF keeps_cancel keeps_queues] by blast
    moreover have "keeps (?c\<lparr>o_desk := ?dk\<rparr>) of4"
    proof (rule keeps_moves [where pid = pid and s = s])
      show "moves pid s (?c\<lparr>o_desk := ?dk\<rparr>) of4" using moves_quiet(1) [OF quiet_helpers(4) set_status_moves [OF 2(3)]] .
      show "s \<noteq> ''halted''" using 2(4) by auto
      have "d_store ?dk = d_store (o_desk ?of1)"
        using \<open>queues_forced (o_desk ?c) ?dk\<close> by (simp add: queues_forced_def on_desk_def cancel_orders_def)
      then have "explicit_status (?c\<lparr>o_desk := ?dk\<rparr>) pid = explicit_status ?of1 pid" by (simp add: explicit_status_def office_book_def)
      then show "explicit_status (?c\<lparr>o_desk := ?dk\<rparr>) pid \<noteq> Some ''retired'' \<or> s = ''retired''"
        using office_account_explicit [OF 2(1)] 2(2) by auto
    qed
    moreover have "quiet of4 of2" unfolding 2(5) using quiet_trans [OF quiet_mark_retired quiet_helpers(2)] by simp
    ultimately show ?thesis using keeps_trans [OF start keeps_trans [OF _ keeps_trans [OF _ keeps_quiet]]] by blast
  qed
qed

lemma reconcile_keeps:
  assumes "reconcile of0 pid rq now = Inr (of2, r)"
  shows "keeps of0 of2"
proof -
  let ?of1 = "init_schema of0"
  have start: "keeps of0 ?of1" by (rule keeps_quiet) simp
  then have rows: "keeps of0 (?of1\<lparr>account_reconciliations := rs\<rparr>)" for rs by (rule keeps_trans [OF _ keeps_quiet]) simp
  have "rq_session rq \<noteq> None" using assms unfolding reconcile_def by (intro notI) simp
  then obtain d where d: "rq_session rq = Some d" by blast
  let ?old = "find (\<lambda>r. rc_portfolio r = pid \<and> rc_session r = d) (account_reconciliations ?of1)"
  show ?thesis
  proof (cases ?old)
    case None
    from assms obtain rs where "of2 = ?of1\<lparr>account_reconciliations := rs\<rparr> \<or>
        (\<exists>y b. halt_account (?of1\<lparr>account_reconciliations := rs\<rparr>) pid ''halt_reconciliation'' now y = Inr (of2, b))"
      unfolding reconcile_def d Let_def option.case None bindE_eq_Inr
      by (simp only: split: if_split_asm) (auto simp: bindE_eq_Inr)
    then show ?thesis using rows [of rs] halt_account_keeps keeps_trans by (elim disjE exE) blast+
  next
    case (Some old)
    from assms have "of2 = ?of1" unfolding reconcile_def d Let_def option.case Some bindE_eq_Inr
      by (simp only: split: if_split_asm) (auto simp: bindE_eq_Inr)
    then show ?thesis using start by simp
  qed
qed

lemma cancel_keeps:
  assumes "cancel z of0 pid i now = Inr (of2, r)"
  shows "keeps of0 of2"
proof -
  let ?of1 = "init_schema of0"
  let ?f = "\<lambda>dk. dk\<lparr>sim_orders := update_rows (\<lambda>r. ord_id r = i)
       (\<lambda>r. r\<lparr>ord_status := ''cancelled'', ord_reject_reason := Some ''cancelled_by_client''\<rparr>) (sim_orders dk),
     sim_order_details := update_rows (\<lambda>d. od_order d = i)
       (\<lambda>d. d\<lparr>od_state := ''cancelled'', od_state_reason := Some ''cancelled_by_client'', od_state_at := now\<rparr>) (sim_order_details dk)\<rparr>"
  have start: "keeps of0 ?of1" by (rule keeps_quiet) simp
  have ids: "map ord_id (sim_orders (?f dk)) = map ord_id (sim_orders dk)"
    "map od_order (sim_order_details (?f dk)) = map od_order (sim_order_details dk)" for dk
    by (simp_all add: update_rows_def)
  have root: "rooted dk \<Longrightarrow> rooted (?f dk)" for dk
    using ids [of dk] unfolding rooted_def by (metis set_map)
  have forced: "forced_order (?f dk) j = forced_order dk j" if "j \<noteq> i" for dk j
    using find_update_details [of j "[i]" "\<lambda>d. d\<lparr>od_state := ''cancelled'', od_state_reason := Some ''cancelled_by_client'', od_state_at := now\<rparr>"
        "\<lambda>_. True" "sim_order_details dk"] that by (simp add: forced_order_def)
  have only: "forced_only dk q \<Longrightarrow> forced_only (?f dk) q" for dk q
    unfolding forced_only_def using forced by (auto simp: update_rows_def split: if_split_asm)
  have kept: "kept_orders dk (?f dk)" for dk
  proof (rule kept_orders_update)
    show "sim_orders (?f dk) = update_rows (\<lambda>r. ord_id r = i)
      (\<lambda>r. r\<lparr>ord_status := ''cancelled'', ord_reject_reason := Some ''cancelled_by_client''\<rparr>) (sim_orders dk)" by simp
  qed (simp_all add: order_terms_def)
  have "keeps ?of1 (on_desk ?f ?of1)"
    by (rule keeps_desk [where dk = "?f (o_desk ?of1)"]) (use root only kept in \<open>auto simp: on_desk_def\<close>)
  moreover from assms have "of2 = ?of1 \<or> (\<exists>k y. of2 = record_event (on_desk ?f ?of1) pid k y now)"
    unfolding cancel_def Let_def by (auto split: option.split_asm if_split_asm simp: bindE_eq_Inr)
  ultimately show ?thesis using start keeps_quiet [OF quiet_helpers(2)] keeps_trans by (elim disjE exE) blast+
qed

lemma check_keeps:
  assumes "check of0 pid d now = Inr (of2, r)"
  shows "keeps of0 of2"
proof -
  let ?of1 = "init_schema of0"
  have start: "keeps of0 ?of1" by (rule keeps_quiet) simp
  from assms consider "of2 = ?of1" | x f g where "ensure_state ?of1 pid now = Inr x" "of2 = update_state pid g (update_state pid f x)"
    | x f g k y b where "ensure_state ?of1 pid now = Inr x" "halt_account (update_state pid g (update_state pid f x)) pid k now y = Inr (of2, b)"
    unfolding check_def Let_def by (auto split: option.split_asm if_split_asm simp: bindE_eq_Inr)
  then show ?thesis
  proof cases
    case (2 x f g)
    have "quiet ?of1 of2" unfolding 2(2)
      by (rule quiet_trans [OF ensure_state_quiet [OF 2(1)] quiet_trans [OF quiet_helpers(3) quiet_helpers(3)]])
    then show ?thesis using start keeps_quiet keeps_trans by blast
  next
    case (3 x f g k y b)
    have "quiet ?of1 (update_state pid g (update_state pid f x))"
      by (rule quiet_trans [OF ensure_state_quiet [OF 3(1)] quiet_trans [OF quiet_helpers(3) quiet_helpers(3)]])
    then show ?thesis using start keeps_quiet halt_account_keeps [OF 3(2)] keeps_trans by blast
  qed (use start in simp)
qed

text \<open>The intake: a new order belongs to an account that is not halted, and its detail row has its order.\<close>

definition appends :: "string \<Rightarrow> desk \<Rightarrow> desk \<Rightarrow> bool" where
  "appends account dk dk' \<longleftrightarrow> d_store dk' = d_store dk \<and> (\<exists>r ds. ord_portfolio r = account \<and> ord_id r \<notin> ord_id ` set (sim_orders dk) \<and>
     sim_orders dk' = sim_orders dk @ [r] \<and> sim_order_details dk' = sim_order_details dk @ ds \<and> (\<forall>d\<in>set ds. od_order d = ord_id r))"

lemma appends_rooted: "appends account dk dk' \<Longrightarrow> rooted dk \<Longrightarrow> rooted dk'"
  unfolding appends_def rooted_def by fastforce

lemma appends_forced:
  assumes "appends account dk dk'" "q \<noteq> account" "forced_only dk q"
  shows "forced_only dk' q"
proof -
  from assms(1) obtain r ds where r: "ord_portfolio r = account" "sim_orders dk' = sim_orders dk @ [r]" "sim_order_details dk' = sim_order_details dk @ ds"
    unfolding appends_def by blast
  have "forced_order dk i \<Longrightarrow> forced_order dk' i" for i
    by (auto simp: forced_order_def find_append r(3) split: option.split_asm)
  then show ?thesis using assms(2,3) r by (auto simp: forced_only_def)
qed

lemma store_order_appends:
  assumes "store_order e spec d day q parent now of1 = Inr (of2, oid, rc)"
  shows "appends (text_of (field d ''account_id'')) (o_desk of1) (o_desk of2)"
proof -
  obtain dk1 i where n: "next_order_id (o_desk of1) = (dk1, i)" by (metis surj_pair)
  note f = next_order_fresh [OF n]
  show ?thesis using assms n f
    by (auto simp: store_order_def book_order_def appends_def intake_detail_def bindE_eq_Inr Let_def split: if_split_asm)
qed

lemma store_order_rows:
  assumes "store_order e spec d day q parent now of1 = Inr (of2, oid, rc)"
  shows "paper_account_intakes of2 = paper_account_intakes of1" "paper_account_specs of2 = paper_account_specs of1"
  using assms by (auto simp: store_order_def bindE_eq_Inr Let_def split: if_split_asm prod.split_asm)

lemma keeps_intake:
  assumes "appends account (o_desk a) (o_desk b)" "explicit_status a account \<noteq> Some ''retired''"
    and "paper_account_intakes b = paper_account_intakes a @ xs" "paper_account_specs b = paper_account_specs a"
    and "moves account ''active'' b c"
  shows "keeps a c"
proof -
  have "d_store (o_desk b) = d_store (o_desk a)" using assms(1) by (simp add: appends_def)
  then have same: "account_ids b = account_ids a" "explicit_status b q = explicit_status a q" for q
    by (simp_all add: account_ids_def explicit_status_def office_book_def)
  have c: "explicit_status c q = (if q = account then Some ''active'' else explicit_status a q)" for q
    using assms(5) same by (simp add: moves_def)
  have calm: "calm a \<Longrightarrow> calm c"
    using appends_rooted [OF assms(1)] appends_forced [OF assms(1)] calm_cong [of c b] assms(5)
    by (auto simp: calm_def c moves_def split: if_split_asm)
  have "kept_orders (o_desk a) (o_desk b)" using assms(1) kept_orders_append unfolding appends_def by blast
  then have "retains a b" using assms(3,4) \<open>d_store (o_desk b) = d_store (o_desk a)\<close> by (simp add: retains_def office_book_def)
  then have "retains a c" using assms(5) retains_trans unfolding moves_def by blast
  then show ?thesis using calm assms(2,5) same by (auto simp: keeps_def moves_def c)
qed

lemma mark_to_market_ledger: "mark_to_market st pid d = Inr (st', r) \<Longrightarrow> ledger st' = ledger st"
  by (auto simp: mark_to_market_def put_equity_def bindE_eq_Inr Let_def split_beta)

lemma load_spec_account: "load_spec w of1 account = Inr spec \<Longrightarrow> sp_account spec = account"
  by (auto simp: load_spec_def bindE_eq_Inr Let_def split: option.split_asm if_split_asm)

lemma admit_status:
  assumes "admit w e of1 spec d now = Inr x"
  shows "explicit_status of1 (sp_account spec) \<notin> {Some ''halted'', Some ''retiring'', Some ''retired''}"
proof -
  from assms obtain st where "portfolio_account (office_book of1) (sp_account spec) = Inr st" "account_status st \<notin> {''halted'', ''retiring'', ''retired''}"
    by (auto simp: admit_def Let_def bindE_eq_Inr office_book_def)
  then show ?thesis using explicit_status_account by force
qed

text \<open>An accepted intent: the retry of a stored one or a new order.\<close>

definition intent_form :: "fields \<Rightarrow> int \<Rightarrow> bool" where
  "intent_form d v \<longleftrightarrow> intent_version d = Some v \<and> same_keys d (if v = 1 then V1_INTENT_FIELDS else V2_INTENT_FIELDS)"

lemma submit_cases:
  assumes "submit_intent w e of0 intent received = Inr (of9, receipt)"
  obtains (replayed) d v spec previous where "intent = JObj d" "intent_form d v" "field d ''account_id'' = JStr (sp_account spec)"
      "load_spec w (init_schema of0) (sp_account spec) = Inr spec" "stored_intake (init_schema of0) d = Some previous"
      "replay_intent w (init_schema of0) spec d previous = Inr (of9, receipt)"
  | (queued) d v spec now where "intent = JObj d" "intent_form d v" "field d ''account_id'' = JStr (sp_account spec)"
      "load_spec w (init_schema of0) (sp_account spec) = Inr spec" "stored_intake (init_schema of0) d = None"
      "queue_intent w e (init_schema of0) spec d now = Inr (of9, receipt)"
proof -
  from assms obtain now d v where in1: "utc received = Inr now" "intent = JObj d" "intent_version d = Some v"
    unfolding submit_intent_def by (cases intent) (auto simp: bindE_eq_Inr split: option.split_asm)
  then have form: "intent_form d v" using assms unfolding submit_intent_def intent_form_def by (auto split: if_split_asm)
  then obtain account spec where a: "field d ''account_id'' = JStr account" and spec: "load_spec w (init_schema of0) account = Inr spec"
    and rest: "(case stored_intake (init_schema of0) d of Some previous \<Rightarrow> replay_intent w (init_schema of0) spec d previous
       | None \<Rightarrow> queue_intent w e (init_schema of0) spec d now) = Inr (of9, receipt)"
    using assms in1 unfolding submit_intent_def Let_def intent_form_def
    by (cases "field d ''account_id''") (auto simp: bindE_eq_Inr split: if_split_asm)
  show ?thesis
    using replayed [of d v spec] queued [of d v spec now] in1(2) form a spec rest load_spec_account [OF spec]
    by (cases "stored_intake (init_schema of0) d") auto
qed

lemma queue_intent_cases:
  assumes "queue_intent w e of1 spec d now = Inr (of9, receipt)"
  obtains day q parent fin of2 oid of4 where "admit w e of1 spec d now = Inr (day, q, parent, fin)"
      "store_order e spec d day q parent now of1 = Inr (of2, oid, receipt)"
      "set_status (set_active (sp_account spec) True
         (of2\<lparr>paper_account_intakes := paper_account_intakes of2 @ [intake_of w spec d oid now receipt]\<rparr>)) (sp_account spec) ''active'' = Inr of4"
      "of9 = of4 \<or> (\<exists>st r. mark_to_market (d_store (o_desk of4)) (sp_account spec) day = Inr (st, r) \<and> of9 = on_desk (\<lambda>dk. dk\<lparr>d_store := st\<rparr>) of4)"
  using assms unfolding queue_intent_def Let_def bindE_eq_Inr by (auto simp: bindE_eq_Inr split: if_split_asm)

lemma replay_intent_same: "replay_intent w of1 spec d previous = Inr (of9, receipt) \<Longrightarrow> of9 = of1"
  by (auto simp: replay_intent_def Let_def bindE_eq_Inr split: if_split_asm)

lemma queue_intent_keeps:
  assumes "queue_intent w e of1 spec d now = Inr (of9, receipt)" "field d ''account_id'' = JStr (sp_account spec)"
  shows "keeps of1 of9"
proof -
  from queue_intent_cases [OF assms(1)] obtain day q parent fin of2 oid of4 where b: "admit w e of1 spec d now = Inr (day, q, parent, fin)"
      "store_order e spec d day q parent now of1 = Inr (of2, oid, receipt)"
      "set_status (set_active (sp_account spec) True
         (of2\<lparr>paper_account_intakes := paper_account_intakes of2 @ [intake_of w spec d oid now receipt]\<rparr>)) (sp_account spec) ''active'' = Inr of4"
      "of9 = of4 \<or> (\<exists>st r. mark_to_market (d_store (o_desk of4)) (sp_account spec) day = Inr (st, r) \<and> of9 = on_desk (\<lambda>dk. dk\<lparr>d_store := st\<rparr>) of4)" .
  let ?of3 = "of2\<lparr>paper_account_intakes := paper_account_intakes of2 @ [intake_of w spec d oid now receipt]\<rparr>"
  have "appends (sp_account spec) (o_desk of1) (o_desk ?of3)" using store_order_appends [OF b(2)] assms(2) by (simp add: text_of_def)
  moreover have "explicit_status of1 (sp_account spec) \<noteq> Some ''retired''" using admit_status [OF b(1)] by simp
  moreover have "paper_account_intakes ?of3 = paper_account_intakes of1 @ [intake_of w spec d oid now receipt]"
    "paper_account_specs ?of3 = paper_account_specs of1" using store_order_rows [OF b(2)] by simp_all
  moreover have "moves (sp_account spec) ''active'' ?of3 of4" using moves_quiet(1) [OF quiet_helpers(4) set_status_moves [OF b(3)]] .
  ultimately have "keeps of1 of4" by (rule keeps_intake)
  moreover have "quiet of4 of9" using b(4) mark_to_market_ledger
    by (auto simp: quiet_def retains_def account_ids_def explicit_status_def office_book_def on_desk_def)
  ultimately show ?thesis using keeps_trans [OF _ keeps_quiet] by blast
qed

lemma submit_keeps:
  assumes "submit_intent w e of0 intent received = Inr (of9, receipt)"
  shows "keeps of0 of9"
  using assms
proof (cases rule: submit_cases)
  case replayed
  then show ?thesis using keeps_quiet [OF quiet_helpers(1)] replay_intent_same by blast
next
  case (queued d v spec now)
  then show ?thesis using keeps_trans [OF keeps_quiet [OF quiet_helpers(1)] queue_intent_keeps] by blast
qed

text \<open>A new account moves no other account.\<close>

lemma fund_account_keeps:
  assumes "fund_account e spec digest now of1 = Inr of2" "portfolio_row_of (office_book of1) (sp_account spec) = None"
  shows "keeps of1 of2"
proof -
  let ?a = "sp_account spec"
  from assms(1) obtain p bk where bk: "set_portfolio_account ((office_book of1)\<lparr>portfolios := portfolios (office_book of1) @ [p]\<rparr>) ?a (spec_fields spec) = Inr bk"
    and p: "pf_id p = ?a" and of2: "office_book of2 = bk" "sim_orders (o_desk of2) = sim_orders (o_desk of1)"
      "sim_order_details (o_desk of2) = sim_order_details (o_desk of1)" "paper_account_intakes of2 = paper_account_intakes of1"
      "\<exists>xs. paper_account_specs of2 = paper_account_specs of1 @ xs"
    unfolding fund_account_def Let_def by (auto simp: bindE_eq_Inr on_book_def on_desk_def office_book_def split: if_split_asm)
  note rows = set_portfolio_account_rows [OF bk]
  have ids: "account_ids of2 = insert ?a (account_ids of1)"
    using set_portfolio_account_ids [OF bk] p by (auto simp: account_ids_def of2)
  have st: "explicit_status of2 q = (if q = ?a then Some ''inactive'' else explicit_status of1 q)" for q
    using set_account_status [OF bk] by (simp add: explicit_status_def of2 spec_fields_def Let_def)
  have "calm of1 \<Longrightarrow> calm of2" using calm_cong [of of2 of1] of2(2,3) by (auto simp: calm_def st split: if_split_asm)
  moreover have "?a \<notin> account_ids of1" using assms(2) account_ids_row by blast
  moreover have "kept_accounts (office_book of1) bk"
    unfolding kept_accounts_def
  proof (intro allI impI, elim conjE)
    fix q r st
    let ?b0 = "(office_book of1)\<lparr>portfolios := portfolios (office_book of1) @ [p]\<rparr>"
    assume r: "portfolio_row_of (office_book of1) q = Some r" "portfolio_account (office_book of1) q = Inr st"
    then have "portfolio_row_of ?b0 q = Some r" by (simp add: portfolio_row_of_def find_append)
    then have "portfolio_row_of bk q = Some r" "portfolio_account ?b0 q = Inr st"
      using r set_portfolio_account_ids [OF bk] by (simp_all add: portfolio_row_of_def portfolio_account_def)
    then show "\<exists>p' st'. portfolio_row_of bk q = Some p' \<and> row_terms r p' \<and> portfolio_account bk q = Inr st' \<and> setting_terms st' = setting_terms st"
      using set_account_terms [OF bk, of None q st] r(1) assms(2) by (cases "q = sp_account spec") (auto simp: row_terms_def)
  qed
  ultimately show ?thesis unfolding keeps_def ids st retains_def of2(1) using of2 by auto
qed

lemma create_account_keeps:
  assumes "create_account w e of0 request received = Inr (of2, r)"
  shows "keeps of0 of2"
proof -
  let ?of1 = "init_schema of0"
  have start: "keeps of0 ?of1" by (rule keeps_quiet) simp
  from assms consider "of2 = ?of1" | spec digest now where "fund_account e spec digest now ?of1 = Inr of2"
      "portfolio_row_of (office_book ?of1) (sp_account spec) = None"
    unfolding create_account_def Let_def by (auto simp: bindE_eq_Inr split: option.split_asm if_split_asm)
  then show ?thesis using start fund_account_keeps keeps_trans by cases blast+
qed

end
