(* ===== verification/Lifecycle.thy ===== *)
theory Lifecycle
  imports Contract
begin

text \<open>
  The account service as a state machine. One rule of \<open>account_step\<close> per operation that can change an account
  between two settlements (opening an account, submitting an intent, client cancellation, halt, resume, retirement and
  its end, reconciliation, verification, the nightly halt check, margin calls and buy-ins); the invariants hold in every
  state the operations reach.
\<close>

section \<open>The machine\<close>


inductive account_step :: "codec \<Rightarrow> 'e env_scheme \<Rightarrow> office \<Rightarrow> office \<Rightarrow> bool" for c e where
  create: "create_account c e of1 request received = Inr (of2, rk) \<Longrightarrow> account_step c e of1 of2"
| submit: "submit_intent c e of1 intent received = Inr (of2, receipt) \<Longrightarrow> account_step c e of1 of2"
| cancel: "cancel e of1 pid i now = Inr (of2, r) \<Longrightarrow> account_step c e of1 of2"
| halt: "halt c e of1 pid msg now = (of2, rh) \<Longrightarrow> account_step c e of1 of2"
| resume: "resume c e of1 pid who msg now = (of2, ro) \<Longrightarrow> account_step c e of1 of2"
| retire: "retire e of1 pid now = Inr (of2, rt) \<Longrightarrow> account_step c e of1 of2"
| finalize: "finalize_retirement of1 pid now = Inr (of2, rf) \<Longrightarrow> account_step c e of1 of2"
| reconcile: "reconcile of1 pid rq now = Inr (of2, rc) \<Longrightarrow> account_step c e of1 of2"
| verify: "verify c e of1 pid d now = Inr (of2, rv) \<Longrightarrow> account_step c e of1 of2"
| check: "check of1 pid day now = Inr (of2, why) \<Longrightarrow> account_step c e of1 of2"
| margin_call: "queue_margin_reductions e (o_desk of1) now pid day = Inr (dk, ids) \<Longrightarrow> account_step c e of1 (of1\<lparr>o_desk := dk\<rparr>)"
| buy_in: "queue_buy_ins e (o_desk of1) sdb day sel = Inr (dk, ids) \<Longrightarrow> account_step c e of1 (of1\<lparr>o_desk := dk\<rparr>)"

lemma account_step_keeps: "account_step c e of1 of2 \<Longrightarrow> keeps of1 of2"
proof (induction rule: account_step.induct)
  case (halt of1 pid msg now of2 rh)
  show ?case using when_verified_keeps [OF halt [unfolded halt_def]] halt_account_keeps by blast
next
  case (resume of1 pid who msg now of2 ro)
  then consider "of2 = of1" | "when_verified c e of1 pid now (\<lambda>x. resume_account x pid who msg now) = (of2, ro)"
    unfolding resume_def by (auto split: if_split_asm)
  then show ?case using when_verified_keeps resume_keeps by cases (simp, blast)
next
  case (margin_call of1 now pid day dk ids)
  then show ?case using queue_margin_reductions_forced keeps_queues by blast
next
  case (buy_in of1 sdb day sel dk ids)
  then show ?case using queue_buy_ins_forced keeps_queues by blast
qed (blast intro: create_account_keeps submit_keeps cancel_keeps retire_keeps finalize_keeps reconcile_keeps verify_keeps check_keeps)+

text \<open>A relation that every step of a machine respects is respected by its runs.\<close>

locale machine =
  fixes step :: "'s \<Rightarrow> 's \<Rightarrow> bool" and rel :: "'s \<Rightarrow> 's \<Rightarrow> bool"
  assumes step_rel: "step s t \<Longrightarrow> rel s t"
    and rel_refl: "rel s s"
    and rel_trans: "rel s t \<Longrightarrow> rel t u \<Longrightarrow> rel s u"
begin

lemma run_rel: "step\<^sup>*\<^sup>* s t \<Longrightarrow> rel s t"
  by (induction rule: rtranclp_induct) (blast intro: rel_refl rel_trans step_rel)+

end

interpretation service: machine "account_step c e" keeps for c e
  by unfold_locales (rule account_step_keeps, assumption, simp, blast intro: keeps_trans)

section \<open>The drawdown check\<close>

lemma py_max_ge: "\<forall>y\<in>insert x (set xs). isfinite y \<Longrightarrow> v \<in> insert x (set xs) \<Longrightarrow> fle v (py_max x xs)"
proof (induction xs arbitrary: x v)
  case (Cons y xs)
  have fin: "isfinite x" "isfinite y" using Cons.prems(1) by auto
  then have m: "isfinite (fmax x y)" "fle x (fmax x y)" "fle y (fmax x y)" by (auto simp: fmax_def elim!: isfiniteE)
  have up: "fle (fmax x y) (py_max (fmax x y) xs)" and rest: "u \<in> set xs \<Longrightarrow> fle u (py_max (fmax x y) xs)" for u
    using Cons.IH [of "fmax x y"] Cons.prems(1) m(1) by auto
  from Cons.prems(2) consider "v = x" | "v = y" | "v \<in> set xs" by auto
  then have "fle v (py_max (fmax x y) xs)"
    by cases (use m up rest fle_trans in \<open>blast+\<close>)
  then show ?case by (simp add: py_max_def)
qed (auto simp: py_max_def elim!: isfiniteE)

lemma py_max_in: "py_max x xs \<in> insert x (set xs)"
  by (induction xs arbitrary: x) (auto simp: py_max_def fmax_def)

lemma drawdown_factor: obtains k where "fadd (Fin 1) DRAWDOWN_LIMIT = Fin k" "0 \<le> k"
proof -
  have "case fadd (Fin 1) DRAWDOWN_LIMIT of Fin k \<Rightarrow> 0 \<le> k | _ \<Rightarrow> False" by code_simp
  then show ?thesis using that by (auto split: float64.split_asm)
qed

lemma breach_line:
  assumes "\<forall>y\<in>insert x (set xs). isfinite y" "v \<in> insert x (set xs)" "fle equity (fmul v (fadd (Fin 1) DRAWDOWN_LIMIT))"
  shows "fle equity (fmul (py_max x xs) (fadd (Fin 1) DRAWDOWN_LIMIT))"
proof -
  obtain k where k: "fadd (Fin 1) DRAWDOWN_LIMIT = Fin k" "0 \<le> k" by (rule drawdown_factor)
  obtain a b where ab: "v = Fin a" "py_max x xs = Fin b" using assms(1,2) py_max_in [of x xs] by (metis isfiniteE)
  then have "a \<le> b" using py_max_ge [OF assms(1,2)] by simp
  then have "fle (rnd (a * k)) (rnd (b * k))" using k(2) by (intro fle_rnd_mono) (simp add: mult_right_mono)
  then show ?thesis using assms(3) ab k(1) fle_trans by auto
qed

lemma ensure_state_desk:
  assumes "ensure_state of1 pid now = Inr of2"
  shows "d_store (o_desk of2) = d_store (o_desk of1)" "account_events (o_desk of2) = account_events (o_desk of1)"
  using assms by (auto simp: ensure_state_def on_desk_def split: if_splits option.splits)

lemma init_schema_desk [simp]:
  "sim_equity (d_store (o_desk (init_schema of1))) = sim_equity (d_store (o_desk of1))"
  "coalesce (account_events (o_desk (init_schema of1))) [] = coalesce (account_events (o_desk of1)) []"
  by (simp_all add: init_schema_def on_desk_def on_book_def coalesce_def)

lemma latest_resume_cong:
  "coalesce (account_events dk) [] = coalesce (account_events dk') [] \<Longrightarrow> latest_resume dk pid = latest_resume dk' pid"
  by (simp add: latest_resume_def)

lemma equity_curve_cong: "sim_equity st = sim_equity st' \<Longrightarrow> equity_curve st pid d = equity_curve st' pid d"
  by (simp add: equity_curve_def)

definition filled_cash :: "portfolio_row \<Rightarrow> portfolio_row" where
  "filled_cash p = (if pf_initial_cash p = None then p\<lparr>pf_initial_cash := Some INITIAL_CASH\<rparr> else p)"

lemma portfolio_row_schema [simp]:
  "portfolio_row_of (office_book (init_schema of1)) pid = map_option filled_cash (portfolio_row_of (office_book of1) pid)"
proof -
  have "find (\<lambda>p. pf_id p = pid) (update_rows (\<lambda>p. pf_initial_cash p = None) (\<lambda>p. p\<lparr>pf_initial_cash := Some INITIAL_CASH\<rparr>) rows) =
      map_option filled_cash (find (\<lambda>p. pf_id p = pid) rows)" for rows
    by (induction rows) (auto simp: update_rows_def filled_cash_def)
  then show ?thesis by (simp add: portfolio_row_of_def office_book_def init_schema_def on_desk_def on_book_def)
qed

lemma filled_cash_simps [simp]:
  "pf_active (filled_cash p) = pf_active p" "pf_initial_cash (filled_cash p) = Some (coalesce (pf_initial_cash p) INITIAL_CASH)"
  by (auto simp: filled_cash_def coalesce_def)

text \<open>What the check computes, over the office it is called on.\<close>

definition risk_initial :: "office \<Rightarrow> string \<Rightarrow> float64" where
  "risk_initial of0 pid = coalesce (Option.bind (portfolio_row_of (office_book of0) pid) pf_initial_cash) INITIAL_CASH"

definition risk_curve :: "office \<Rightarrow> string \<Rightarrow> date \<Rightarrow> (date \<times> float64) list" where
  "risk_curve of0 pid day = equity_curve (d_store (o_desk of0)) pid day"

definition risk_anchor :: "office \<Rightarrow> string \<Rightarrow> date \<Rightarrow> float64" where
  "risk_anchor of0 pid day = anchor_equity (o_desk of0) pid (risk_initial of0 pid) (risk_curve of0 pid day)"

definition risk_window :: "office \<Rightarrow> string \<Rightarrow> date \<Rightarrow> float64 list" where
  "risk_window of0 pid day = map snd (subsequent (anchor_day (o_desk of0) pid) (risk_curve of0 pid day))"

lemma status_is_explicit:
  assumes "office_account of1 pid = Inr st" "account_status st \<notin> {''active'', ''inactive''}"
  shows "explicit_status of1 pid = Some (account_status st)"
proof (cases "explicit_status of1 pid")
  case None
  obtain p where p: "portfolio_account (office_book of1) pid = Inr st" "portfolio_row_of (office_book of1) pid = Some p"
    using assms(1) by (auto simp: office_account_def bindE_eq_Inr split: if_split_asm)
  then have "account_status st = (if pf_active p then ''active'' else ''inactive'')"
    using None by (auto simp: portfolio_account_def explicit_status_def coalesce_def Let_def)
  then show ?thesis using assms(2) by (simp split: if_split_asm)
qed (use office_account_explicit [OF assms(1)] in simp)

lemma halt_account_halts:
  assumes "halt_account of0 pid reason now detail = Inr (of2, b)"
  shows "explicit_status of2 pid = Some ''halted''"
  using assms
proof (cases rule: halt_account_cases)
  case idle
  obtain st where st: "office_account (init_schema of0) pid = Inr st"
    using assms by (auto simp: halt_account_def Let_def bindE_eq_Inr split: if_split_asm)
  have "account_status st = ''halted'' \<and> of2 = init_schema of0"
    using assms idle(2) by (auto simp: halt_account_def Let_def bindE_eq_Inr st split: if_split_asm)
  then show ?thesis using status_is_explicit [OF st] by simp
next
  case (halted of4)
  then show ?thesis by (simp add: quiet_def moves_def explicit_status_def office_book_def on_desk_def cancel_orders_def)
qed

lemma check_unfold:
  assumes "check of0 pid day now = Inr (of1, why)" "office_account (init_schema of0) pid = Inr st"
    and "account_status st \<notin> {''halted'', ''retired''}"
    and "find (\<lambda>r. eq_portfolio r = pid \<and> eq_date r = day) (sim_equity (d_store (o_desk of0))) = Some row"
  obtains x f reason prior where "quiet of0 x" "breach x pid day (eq_equity row) (py_max (risk_anchor of0 pid day) (risk_window of0 pid day)) prior = Inr reason"
    "case reason of None \<Rightarrow> why = None
     | Some (k, detail) \<Rightarrow> why = Some k \<and> (\<exists>b. halt_account (update_state pid f x) pid k now detail = Inr (of1, b))"
proof -
  let ?of = "init_schema of0"
  have acc: "portfolio_row_of (office_book ?of) pid \<noteq> None" using assms(2) by (auto simp: office_account_def split: if_split_asm)
  then obtain p0 where p0: "portfolio_row_of (office_book of0) pid = Some p0" by auto
  then have p: "portfolio_row_of (office_book ?of) pid = Some (filled_cash p0)" by simp
  from assms obtain y where y: "ensure_state ?of pid now = Inr y" unfolding check_def Let_def
    by (auto simp: bindE_eq_Inr split: if_split_asm)
  have row: "portfolio_row_of (office_book y) pid = Some (filled_cash p0)"
    using p ensure_state_desk(1) [OF y] by (simp add: office_book_def)
  have init: "coalesce (Option.bind (portfolio_row_of (office_book y) pid) pf_initial_cash) INITIAL_CASH = risk_initial of0 pid"
    using row p0 by (simp add: risk_initial_def coalesce_def)
  have ev: "latest_resume (o_desk y) pid = latest_resume (o_desk of0) pid"
    using ensure_state_desk(2) [OF y] init_schema_desk(2) [of of0] by (intro latest_resume_cong) simp
  have cur: "equity_curve (d_store (o_desk y)) pid day = risk_curve of0 pid day"
    unfolding risk_curve_def using ensure_state_desk(1) [OF y] by (intro equity_curve_cong) simp
  have win: "anchor_equity (o_desk y) pid (risk_initial of0 pid) (risk_curve of0 pid day) = risk_anchor of0 pid day"
    "map snd (subsequent (anchor_day (o_desk y) pid) (risk_curve of0 pid day)) = risk_window of0 pid day"
    by (simp_all add: anchor_equity_def anchor_day_def risk_anchor_def risk_window_def ev)
  let ?x = "update_state pid (\<lambda>r. r\<lparr>as_drawdown_anchor := Some (risk_anchor of0 pid day)\<rparr>) y"
  let ?f = "\<lambda>r. r\<lparr>as_peak_equity := py_max (risk_initial of0 pid) (map snd (risk_curve of0 pid day)),
      as_prior_close_equity := Some (eq_equity row), as_updated_at := now\<rparr>"
  obtain prior reason where br: "breach ?x pid day (eq_equity row) (py_max (risk_anchor of0 pid day) (risk_window of0 pid day)) prior = Inr reason"
    and after: "(case reason of None \<Rightarrow> Inr (update_state pid ?f ?x, None)
      | Some (k, detail) \<Rightarrow> bindE (halt_account (update_state pid ?f ?x) pid k now detail) (\<lambda>(z, _). Inr (z, Some k))) = Inr (of1, why)"
    using assms(1) unfolding check_def Let_def assms(2) bindE_simps if_not_P [OF assms(3)] init_schema_desk(1) assms(4) option.case y init cur win
      bindE_eq_Inr by blast
  have "case reason of None \<Rightarrow> why = None
     | Some (k, detail) \<Rightarrow> why = Some k \<and> (\<exists>b. halt_account (update_state pid ?f ?x) pid k now detail = Inr (of1, b))"
    using after by (cases reason) (simp, cases "the reason", auto simp: bindE_eq_Inr)
  moreover have "quiet of0 ?x"
    by (rule quiet_trans [OF quiet_helpers(1) quiet_trans [OF ensure_state_quiet [OF y] quiet_helpers(3)]])
  ultimately show ?thesis using that [OF _ br] by blast
qed


section \<open>A failed verification\<close>

lemma portfolio_account_init [simp]:
  "portfolio_account (office_book (init_schema of1)) pid = portfolio_account (office_book of1) pid"
proof -
  have "portfolio_accounts (office_book (init_schema of1)) = portfolio_accounts (office_book of1)"
    by (simp add: office_book_def init_schema_def on_desk_def on_book_def)
  then show ?thesis by (cases "portfolio_row_of (office_book of1) pid") (simp_all add: portfolio_account_def)
qed

lemma office_account_init: "office_account of1 pid = Inr st \<Longrightarrow> office_account (init_schema of1) pid = Inr st"
  by (cases "portfolio_row_of (office_book of1) pid") (simp_all add: office_account_def)

lemma ensure_state_total:
  assumes "office_account of1 pid = Inr st"
  obtains of2 where "ensure_state (init_schema of1) pid now = Inr of2"
proof -
  obtain p where "portfolio_row_of (office_book of1) pid = Some p"
    using assms by (auto simp: office_account_def split: if_split_asm)
  then show ?thesis using that by (fastforce simp: ensure_state_def)
qed

lemma halt_account_total:
  assumes "office_account of1 pid = Inr st" "account_status st \<noteq> ''retired''" "reason \<in> set HALT_REASONS"
  obtains of2 b where "halt_account of1 pid reason now detail = Inr (of2, b)"
proof (cases "account_status st = ''halted''")
  case True
  then show ?thesis using assms by (intro that [of "init_schema of1" False]) (simp add: halt_account_def Let_def office_account_init)
next
  case False
  obtain x where x: "ensure_state (init_schema of1) pid now = Inr x" by (rule ensure_state_total [OF assms(1)])
  have "portfolio_row_of (office_book x) pid \<noteq> None"
    using office_account_init [OF assms(1)] ensure_state_desk(1) [OF x] by (auto simp: office_account_def office_book_def split: if_split_asm)
  moreover have "\<not> invalid_fields (no_fields\<lparr>fd_status := Some (Some ''halted'')\<rparr>)" by code_simp
  ultimately have "\<exists>bk. set_portfolio_account (office_book x) pid (no_fields\<lparr>fd_status := Some (Some ''halted'')\<rparr>) = Inr bk"
    by (simp add: set_portfolio_account_def)
  then obtain y where "set_status x pid ''halted'' = Inr y" by (auto simp: set_status_def)
  then show ?thesis using that x False assms by (simp add: halt_account_def Let_def office_account_init)
qed

lemma halt_account_reconciliations:
  assumes "halt_account of1 pid reason now detail = Inr (of2, b)"
  shows "account_reconciliations of2 = account_reconciliations of1"
proof -
  have i: "account_reconciliations (init_schema x) = account_reconciliations x" for x by (simp add: init_schema_def on_desk_def on_book_def)
  have e: "ensure_state x pid now = Inr y \<Longrightarrow> account_reconciliations y = account_reconciliations x" for x y
    by (auto simp: ensure_state_def on_desk_def split: if_split_asm option.split_asm)
  have s: "set_status x pid k = Inr y \<Longrightarrow> account_reconciliations y = account_reconciliations x" for x y k
    by (auto simp: set_status_def bindE_eq_Inr on_desk_def on_book_def)
  show ?thesis using assms unfolding halt_account_def Let_def
    by (auto simp: bindE_eq_Inr i record_event_def update_state_def on_desk_def dest!: e s split: if_split_asm)
qed

lemma halt_account_row:
  assumes "halt_account of1 pid reason now detail = Inr (of2, b)"
  shows "portfolio_row_of (office_book of2) q = map_option filled_cash (portfolio_row_of (office_book of1) q)"
proof -
  have e: "ensure_state x pid now = Inr y \<Longrightarrow> portfolios (office_book y) = portfolios (office_book x)" for x y
    by (auto simp: ensure_state_def on_desk_def office_book_def split: if_split_asm option.split_asm)
  have s: "set_status x pid k = Inr y \<Longrightarrow> portfolios (office_book y) = portfolios (office_book x)" for x y k
    by (auto simp: set_status_def bindE_eq_Inr on_desk_def on_book_def office_book_def set_portfolio_account_def split: if_split_asm)
  have "portfolios (office_book of2) = portfolios (office_book (init_schema of1))"
    using assms unfolding halt_account_def Let_def
    by (auto simp: bindE_eq_Inr record_event_def update_state_def on_desk_def office_book_def cancel_orders_def dest!: e s split: if_split_asm)
  then show ?thesis using portfolio_row_schema [of of1 q] by (simp add: portfolio_row_of_def)
qed

lemma put_reconciliation_in: "r \<in> set (account_reconciliations (put_reconciliation r of1))"
  by (auto simp: put_reconciliation_def update_rows_def)

lemma office_account_quiet [simp]:
  "office_account (record_event of1 q k y now) pid = office_account of1 pid" "office_account (put_reconciliation r of1) pid = office_account of1 pid"
  by (simp_all add: office_account_def office_book_def record_event_def put_reconciliation_def on_desk_def)

text \<open>The evidence of a mismatch is stored and the account halted, unless it is retired: then the halt is refused and nothing is stored.\<close>

lemma persist_mismatch_halts:
  assumes "office_account of1 pid = Inr st"
  shows "if account_status st = ''retired'' then persist_mismatch c of1 pid v now d = Inl (AccountRefused ''retired'')
    else \<exists>of2 r. persist_mismatch c of1 pid v now d = Inr of2 \<and> explicit_status of2 pid = Some ''halted'' \<and>
      r \<in> set (account_reconciliations of2) \<and> rc_portfolio r = pid \<and> rc_status r = ''mismatch'' \<and> rc_created r = now"
proof -
  obtain r y where p: "persist_mismatch c of1 pid v now d =
      bindE (halt_account (record_event (put_reconciliation r of1) pid ''verification_mismatch'' (Evidence (evidence_json c v)) now) pid
        ''halt_reconciliation'' now y) (\<lambda>(of4, _). Inr of4)" and r: "rc_portfolio r = pid" "rc_status r = ''mismatch''" "rc_created r = now"
    by (auto simp: persist_mismatch_def Let_def)
  let ?x = "record_event (put_reconciliation r of1) pid ''verification_mismatch'' (Evidence (evidence_json c v)) now"
  have acc: "office_account ?x pid = Inr st" using assms(1) by simp
  show ?thesis
  proof (cases "account_status st = ''retired''")
    case True
    have "halt_account ?x pid ''halt_reconciliation'' now y = Inl (AccountRefused ''retired'')"
      using True office_account_init [OF acc] by (simp add: halt_account_def Let_def HALT_REASONS_def)
    then show ?thesis using True p by simp
  next
    case False
    have "''halt_reconciliation'' \<in> set HALT_REASONS" by code_simp
    then obtain of2 b where h: "halt_account ?x pid ''halt_reconciliation'' now y = Inr (of2, b)"
      by (rule halt_account_total [OF acc False])
    have "r \<in> set (account_reconciliations of2)"
      using halt_account_reconciliations [OF h] put_reconciliation_in [of r of1] by (simp add: record_event_def on_desk_def)
    then show ?thesis using False p h r halt_account_halts [OF h] by auto
  qed
qed

text \<open>C34: A failed verification halts the account and keeps its evidence, unless the account is retired. When the replay
  of the journal raises or differs from the stored state or a stored close, \<open>verify\<close> returns the verdict, leaves the
  account halted and stores a mismatch reconciliation made at that moment; on a retired account it raises
  instead, so that neither the reconciliation nor the event of the mismatch is stored.\<close>

theorem failed_verification_halts:
  assumes "office_account of1 pid = Inr st"
    and "case verify_run e (o_desk of1) pid d now of Inl _ \<Rightarrow> True | Inr (expected, actual) \<Rightarrow> \<not> states_match expected actual"
  shows "if account_status st = ''retired'' then verify c e of1 pid d now = Inl (AccountRefused ''retired'')
    else \<exists>of2 v r. verify c e of1 pid d now = Inr (of2, Some v) \<and> explicit_status of2 pid = Some ''halted'' \<and>
      r \<in> set (account_reconciliations of2) \<and> rc_portfolio r = pid \<and> rc_status r = ''mismatch'' \<and> rc_created r = now"
proof -
  obtain v where v: "verify c e of1 pid d now = bindE (persist_mismatch c of1 pid v now d) (\<lambda>of2. Inr (of2, Some v))"
    using assms by (auto simp: verify_def Let_def split: sum.split_asm)
  show ?thesis using persist_mismatch_halts [OF assms(1), of c v now d] by (auto simp: v split: if_split_asm)
qed

text \<open>A halt ends a retirement that is under way: the account leaves \<open>retiring\<close>, and \<open>finalize_retirement\<close> does nothing
  for a halted account, flat or not.\<close>

lemma halt_ends_retirement:
  assumes "office_account of1 pid = Inr st" "account_status st = ''retiring''" "reason \<in> set HALT_REASONS"
  shows "\<exists>of2. halt_account of1 pid reason now detail = Inr (of2, True) \<and> finalize_retirement of2 pid later = Inr (of2, False)"
proof -
  obtain of2 b where h: "halt_account of1 pid reason now detail = Inr (of2, b)"
    by (rule halt_account_total [OF assms(1) _ assms(3)]) (simp add: assms(2))
  note s = halt_account_halts [OF h]
  have r: "explicit_status of1 pid = Some ''retiring''" using status_is_explicit [OF assms(1)] assms(2) by simp
  have b: "b = True" by (rule halt_account_cases [OF h]) (use r s in \<open>auto simp: quiet_def\<close>)
  have "portfolio_row_of (office_book of2) pid \<noteq> None"
    using halt_account_row [OF h] assms(1) by (auto simp: office_account_def split: if_split_asm)
  then obtain x where x: "portfolio_account (office_book of2) pid = Inr x" by (auto simp: portfolio_account_def Let_def)
  have "account_status x = ''halted''" using explicit_status_account [OF x s] .
  then show ?thesis using h b x by (auto simp: finalize_retirement_def)
qed

text \<open>C14: A drawdown of 20 % halts the account. If the nightly check of an account that is neither halted nor retired
  returns, and the close it examines is at or below 0.8 times its resume anchor or any close since then (all in
  binary64), the check reports a halt, the account is halted afterwards and none of its discretionary orders is
  still pending.\<close>

theorem drawdown_halts:
  assumes "check of0 pid day now = Inr (of1, why)" "office_account (init_schema of0) pid = Inr st"
    and "account_status st \<notin> {''halted'', ''retired''}"
    and "find (\<lambda>r. eq_portfolio r = pid \<and> eq_date r = day) (sim_equity (d_store (o_desk of0))) = Some row"
    and "\<forall>x\<in>insert (risk_anchor of0 pid day) (set (risk_window of0 pid day)). isfinite x"
    and "v \<in> insert (risk_anchor of0 pid day) (set (risk_window of0 pid day))"
    and "fle (eq_equity row) (fmul v (fadd (Fin 1) DRAWDOWN_LIMIT))"
  shows "why \<in> {Some ''halt_reconciliation'', Some ''halt_drawdown''} \<and> explicit_status of1 pid = Some ''halted'' \<and>
    discretionary_orders (o_desk of1) pid = []"
proof -
  obtain x f reason prior where q: "quiet of0 x"
    and b: "breach x pid day (eq_equity row) (py_max (risk_anchor of0 pid day) (risk_window of0 pid day)) prior = Inr reason"
    and r: "case reason of None \<Rightarrow> why = None
      | Some (k, detail) \<Rightarrow> why = Some k \<and> (\<exists>b. halt_account (update_state pid f x) pid k now detail = Inr (of1, b))"
    by (rule check_unfold [OF assms(1-4)])
  have line: "fle (eq_equity row) (fmul (py_max (risk_anchor of0 pid day) (risk_window of0 pid day)) (fadd (Fin 1) DRAWDOWN_LIMIT))"
    using breach_line [OF assms(5-7)] .
  obtain k detail where k: "reason = Some (k, detail)" "k \<in> {''halt_reconciliation'', ''halt_drawdown''}"
    using b line unfolding breach_def Let_def by (auto simp: bindE_eq_Inr split: if_split_asm option.split_asm)
  then obtain b where h: "halt_account (update_state pid f x) pid k now detail = Inr (of1, b)" and why: "why = Some k" using r by auto
  have st: "explicit_status of0 pid \<noteq> Some ''halted''" using office_account_explicit [OF assms(2)] assms(3) by auto
  have "discretionary_orders (o_desk of1) pid = []"
    using h
  proof (cases rule: halt_account_cases)
    case idle
    have "explicit_status of0 pid = explicit_status of1 pid"
      using quiet_trans [OF q quiet_trans [OF quiet_helpers(3) idle(1)]] by (simp add: quiet_def)
    then show ?thesis using halt_account_halts [OF h] st by simp
  next
    case (halted of4)
    let ?dk = "o_desk (update_state pid f x)"
    have same: "sim_orders (o_desk of4) = sim_orders ?dk" "sim_order_details (o_desk of4) = sim_order_details ?dk"
      using halted(2) by (simp_all add: moves_def)
    have "forced_only (o_desk of1) pid"
      using cancel_orders_calm(3) [of "o_desk of4" pid k now] halted(4) calm_cong(2) [of of1 "on_desk (cancel_orders (discretionary_orders ?dk pid) k now) of4"]
      by (simp add: quiet_def on_desk_def discretionary_cong [OF same])
    then show ?thesis by (auto simp: discretionary_orders_def forced_only_def filter_empty_conv)
  qed
  then show ?thesis using halt_account_halts [OF h] why k(2) by auto
qed

text \<open>C6: Halted accounts trade only what the engine forces, and retirement is final. Start from an office in which
  every order detail has its order and the pending orders of halted accounts are forced ones, and apply any
  sequence of account openings, order submissions, cancellations, halts, resumes, retirements, reconciliations,
  verifications, nightly checks, margin calls and buy-ins: afterwards every pending order of a halted account is still a margin call, a buy-in or a
  retirement close, and every account that was retired is retired.\<close>

theorem lifecycle_invariant:
  assumes "(account_step c e)\<^sup>*\<^sup>* of0 of1" "calm of0"
  shows "(\<forall>r\<in>set (sim_orders (o_desk of1)). ord_status r = ''pending'' \<and> explicit_status of1 (ord_portfolio r) = Some ''halted'' \<longrightarrow>
      forced_order (o_desk of1) (ord_id r)) \<and>
    (\<forall>q\<in>account_ids of0. explicit_status of0 q = Some ''retired'' \<longrightarrow> explicit_status of1 q = Some ''retired'')"
  using service.run_rel [OF assms(1)] assms(2) by (auto simp: keeps_def calm_def forced_only_def)

section \<open>Witnesses\<close>

text \<open>Account A opens at 1000 and closes at 700 on its second session, with one pending buy; account B is retired.\<close>

definition example_codec :: codec where
  "example_codec = \<lparr>canonical_sha256 = (\<lambda>_. []), json_text = (\<lambda>_. []), iso_date = (\<lambda>_. None), iso_datetime = (\<lambda>_. None),
     float_text = (\<lambda>_. Inl (ValueError ''float'')), evidence_digests = (\<lambda>_. ([], [])), evidence_json = (\<lambda>_. ''evidence'')\<rparr>"

definition example_office :: office where
  "example_office =
     (let close = (\<lambda>d x. \<lparr>eq_portfolio = ''A'', eq_date = d, eq_equity = x, eq_cash = x, eq_positions = 0\<rparr>);
          st = (d_store example_desk)\<lparr>ledger := (desk_book example_desk)\<lparr>portfolio_accounts :=
                  update_rows (\<lambda>a. pa_portfolio_id a = ''B'') (\<lambda>a. a\<lparr>pa_status := Some ''retired''\<rparr>)
                    (portfolio_accounts (desk_book example_desk))\<rparr>,
                 sim_equity := [close (ymd 2026 10 5) (Fin 1000), close (ymd 2026 10 6) (Fin 700)]\<rparr>
      in \<lparr>o_desk = example_desk\<lparr>d_store := st,
            sim_orders := [\<lparr>ord_id = 1, ord_portfolio = ''A'', ord_ticker = ''SPY'', ord_side = ''buy'', ord_qty = Fin 1,
                            ord_signal_date = ymd 2026 10 6, ord_status = ''pending'', ord_reject_reason = None\<rparr>],
            sim_order_details := [\<lparr>od_order = 1, od_instrument = ''SPY'', od_instrument_kind = ''stock'', od_order_type = ''moc'',
                            od_side = ''buy'', od_limit_px = None, od_contingent_on = None, od_session_date = ymd 2026 10 6, od_received_at = 0, od_state = ''queued'',
                            od_state_reason = None, od_state_at = 0\<rparr>]\<rparr>,
          account_reconciliations = [], paper_account_intakes = [], paper_account_specs = [],
          instruments = []\<rparr>)"

theorem drawdown_halts_witness:
  "\<exists>of1 why. check example_office ''A'' (ymd 2026 10 6) 0 = Inr (of1, why) \<and>
     discretionary_orders (o_desk example_office) ''A'' = [1] \<and> discretionary_orders (o_desk of1) ''A'' = []"
proof -
  have "case check example_office ''A'' (ymd 2026 10 6) 0 of Inr _ \<Rightarrow> True | Inl _ \<Rightarrow> False" by code_simp
  then obtain of1 why where c: "check example_office ''A'' (ymd 2026 10 6) 0 = Inr (of1, why)" by (auto split: sum.split_asm)
  have "case office_account (init_schema example_office) ''A'' of Inr st \<Rightarrow> account_status st = ''active'' | Inl _ \<Rightarrow> False" by code_simp
  then obtain st where s: "office_account (init_schema example_office) ''A'' = Inr st" "account_status st = ''active''"
    by (auto split: sum.split_asm)
  then have n: "account_status st \<notin> {''halted'', ''retired''}" by simp
  have "case find (\<lambda>r. eq_portfolio r = ''A'' \<and> eq_date r = ymd 2026 10 6) (sim_equity (d_store (o_desk example_office))) of
      Some row \<Rightarrow> eq_equity row = Fin 700 | None \<Rightarrow> False" by code_simp
  then obtain row where r: "find (\<lambda>r. eq_portfolio r = ''A'' \<and> eq_date r = ymd 2026 10 6) (sim_equity (d_store (o_desk example_office))) = Some row"
    "eq_equity row = Fin 700" by (auto split: option.split_asm)
  have w: "risk_window example_office ''A'' (ymd 2026 10 6) = [Fin 1000, Fin 700]" "risk_anchor example_office ''A'' (ymd 2026 10 6) = Fin 39000"
    by code_simp+
  have "fle (Fin 700) (fmul (Fin 1000) (fadd (Fin 1) DRAWDOWN_LIMIT))" by code_simp
  with drawdown_halts [OF c s(1) n r(1), of "Fin 1000"] r(2) have "discretionary_orders (o_desk of1) ''A'' = []" by (simp add: w)
  moreover have "discretionary_orders (o_desk example_office) ''A'' = [1]" by code_simp
  ultimately show ?thesis using c by blast
qed

theorem lifecycle_invariant_witness:
  "\<exists>of1. (account_step example_codec example_env)\<^sup>*\<^sup>* example_office of1 \<and> explicit_status of1 ''A'' = Some ''halted'' \<and>
     explicit_status of1 ''B'' = Some ''retired''"
proof -
  have "case check example_office ''A'' (ymd 2026 10 6) 0 of Inr (of1, _) \<Rightarrow> explicit_status of1 ''A'' = Some ''halted'' | Inl _ \<Rightarrow> False" by code_simp
  then obtain of1 why where c: "check example_office ''A'' (ymd 2026 10 6) 0 = Inr (of1, why)" "explicit_status of1 ''A'' = Some ''halted''"
    by (auto split: sum.split_asm)
  have run: "(account_step example_codec example_env)\<^sup>*\<^sup>* example_office of1" using account_step.check [OF c(1)] by blast
  have "sim_orders (o_desk example_office) \<noteq> [] \<and> rooted (o_desk example_office)" by code_simp
  moreover have "explicit_status example_office q = Some ''halted'' \<Longrightarrow> False" for q
    by (simp add: example_office_def explicit_status_def office_book_def example_desk_def desk_book_def update_rows_def Let_def split: if_split_asm)
  ultimately have "calm example_office" by (auto simp: calm_def)
  moreover have "explicit_status example_office ''B'' = Some ''retired'' \<and> ''B'' \<in> account_ids example_office" by code_simp
  ultimately show ?thesis using lifecycle_invariant [OF run] run c(2) by blast
qed

theorem failed_verification_witness:
  "\<exists>of2 v r. verify example_codec example_env example_office ''A'' None 0 = Inr (of2, Some v) \<and>
     explicit_status of2 ''A'' = Some ''halted'' \<and> rc_status r = ''mismatch'' \<and> r \<in> set (account_reconciliations of2)"
proof -
  have "case office_account example_office ''A'' of Inr st \<Rightarrow> account_status st = ''active'' | Inl _ \<Rightarrow> False" by code_simp
  then obtain st where s: "office_account example_office ''A'' = Inr st" "account_status st = ''active''" by (auto split: sum.split_asm)
  have "case verify_run example_env (o_desk example_office) ''A'' None 0 of Inl _ \<Rightarrow> True | Inr (x, y) \<Rightarrow> \<not> states_match x y" by code_simp
  from failed_verification_halts [OF s(1) this, of example_codec] s(2) show ?thesis by auto
qed

end
