(* ===== verification/IntakeLaws.thy ===== *)
theory IntakeLaws
  imports Lifecycle
begin

text \<open>
  The laws of the account boundary: an intent becomes one order however often and whenever it is retried, a created
  account loads with the specification it was created from, and the two closing times the engine uses agree.
\<close>

section \<open>What survives a run of the service\<close>

lemma find_intake_append:
  "stored_intake a d = Some i \<Longrightarrow> paper_account_intakes b = paper_account_intakes a @ xs \<Longrightarrow> stored_intake b d = Some i"
  by (simp add: stored_intake_def find_append)

lemma load_spec_retained:
  assumes "retains a b" "load_spec w a account = Inr spec"
  shows "load_spec w b account = Inr spec"
proof -
  from assms(2) obtain row where row: "spec_row_of a account = Some row" unfolding load_spec_def by (cases "spec_row_of a account") auto
  then have row': "spec_row_of b account = Some row" using assms(1) by (auto simp: retains_def spec_row_of_def find_append)
  from assms(2) row obtain p where v: "validate_spec (sr_payload row) = Inr spec"
      "canonical_sha256 w (JObj (sp_payload spec)) = sr_sha256 row" "sp_account spec = account"
    and p: "portfolio_row_of (office_book a) account = Some p" "pf_initial_cash p = Some (Fin (of_int (sp_capital spec)))"
      "pf_strategy p = ''discretionary''" "pf_external_sha256 p = Some (sr_sha256 row)"
    unfolding load_spec_def Let_def by (auto simp: bindE_eq_Inr split: if_split_asm option.split_asm)
  obtain st where st: "portfolio_account (office_book a) account = Inr st" using p(1) by (auto simp: portfolio_account_def Let_def)
  then obtain p' st' where b: "portfolio_row_of (office_book b) account = Some p'" "row_terms p p'"
      "portfolio_account (office_book b) account = Inr st'" "setting_terms st' = setting_terms st"
    using assms(1) p(1) unfolding retains_def kept_accounts_def by blast
  have "sp_version spec = 2 \<Longrightarrow> \<not> spec_settings_differ st spec"
    using assms(2) row v p st unfolding load_spec_def Let_def by (auto simp: bindE_eq_Inr split: if_split_asm)
  moreover have "spec_settings_differ st' spec = spec_settings_differ st spec"
    using b(4) by (simp add: spec_settings_differ_def setting_terms_def)
  ultimately show ?thesis using row' v p b by (simp add: load_spec_def Let_def row_terms_def)
qed

lemma replayed_order_retained:
  assumes "kept_orders dk dk'" "validate_replayed_order w dk i d = Inr u"
  shows "validate_replayed_order w dk' i d = Inr u"
proof -
  from assms(2) obtain r where r: "order_of dk i = Some r" unfolding validate_replayed_order_def order_of_def
    by (auto simp: bindE_eq_Inr split: option.split_asm)
  then obtain r' where "order_of dk' i = Some r'" "order_terms r' = order_terms r" using assms(1) unfolding kept_orders_def by blast
  then show ?thesis using assms(2) r
    by (auto simp: validate_replayed_order_def order_of_def order_terms_def bindE_eq_Inr split: option.split_asm)
qed

lemma replay_intent_retained:
  assumes "retains a b" "replay_intent w a spec d previous = Inr (x, receipt)"
  shows "replay_intent w b spec d previous = Inr (b, receipt)"
proof -
  have "kept_orders (o_desk a) (o_desk b)" using assms(1) by (simp add: retains_def)
  moreover obtain u where "validate_replayed_order w (o_desk a) (in_order previous) d = Inr u"
    using assms(2) by (auto simp: replay_intent_def Let_def bindE_eq_Inr split: if_split_asm)
  ultimately have "validate_replayed_order w (o_desk b) (in_order previous) d = Inr u" by (rule replayed_order_retained)
  then show ?thesis using assms(2) by (auto simp: replay_intent_def Let_def bindE_eq_Inr split: if_split_asm)
qed

section \<open>A new intake replays\<close>

lemma positive_number_float: "positive_number v name = Inr x \<Longrightarrow> float_json w v = Inr x \<and> x \<noteq> NaN"
  by (cases v) (auto simp: positive_number_def float_json_def Let_def bindE_eq_Inr isfinite_def split: if_split_asm)

lemma identities_member: "identities d names p = Inr u \<Longrightarrow> name \<in> set names \<Longrightarrow> \<exists>s. field d name = JStr s"
  by (auto simp: identities_def bindE_eq_Inr identity_def dest!: mapE_member split: json.split_asm if_split_asm)

definition intent_day :: "'w wire_scheme \<Rightarrow> fields \<Rightarrow> date option" where
  "intent_day w d = parse_date w (case map_of d ''signal_date'' of Some v \<Rightarrow> v | None \<Rightarrow> field d ''session_date'')"

lemma v1_intent_facts:
  assumes "validate_v1_intent w e d spec now = Inr (day, q)"
  shows "\<exists>s. field d ''intent_id'' = JStr s" "float_json w (field d ''quantity'') = Inr q \<and> q \<noteq> NaN" "intent_day w d = Some day"
proof -
  from assms have k: "same_keys d V1_INTENT_FIELDS" and i: "\<exists>u. identities d [''intent_id'', ''account_id'', ''ticker''] is_identifier = Inr u"
    and q: "positive_number (field d ''quantity'') ''quantity'' = Inr q" and c: "v1_clock w e d now = Inr day"
    unfolding validate_v1_intent_def bindE_eq_Inr raise_if_eq_Inr by auto
  from c have day: "parse_date w (field d ''signal_date'') = Some day"
    by (auto simp: v1_clock_def Let_def split: option.split_asm if_split_asm)
  show "\<exists>s. field d ''intent_id'' = JStr s" using i identities_member by force
  show "float_json w (field d ''quantity'') = Inr q \<and> q \<noteq> NaN" using positive_number_float [OF q] .
  have "''signal_date'' \<in> set (map fst d)" using k by (simp add: same_keys_def keys_of_def V1_INTENT_FIELDS_def)
  then have "map_of d ''signal_date'' \<noteq> None" by (simp add: map_of_eq_None_iff)
  then show "intent_day w d = Some day" using day by (auto simp: intent_day_def field_def)
qed

lemma v2_intent_facts:
  assumes "validate_v2_intent w e d spec now = Inr (day, q)"
  shows "\<exists>s. field d ''intent_id'' = JStr s" "float_json w (field d ''quantity'') = Inr q \<and> q \<noteq> NaN" "intent_day w d = Some day"
proof -
  from assms have k: "same_keys d V2_INTENT_FIELDS" and i: "\<exists>u. identities d [''intent_id'', ''account_id'', ''instrument_id''] is_identifier = Inr u"
    and q: "positive_number (field d ''quantity'') ''quantity'' = Inr q" and c: "\<exists>t. v2_clock w e d now = Inr (day, t)"
    unfolding validate_v2_intent_def bindE_eq_Inr raise_if_eq_Inr by (auto simp: bindE_eq_Inr)
  from c have day: "parse_date w (field d ''session_date'') = Some day"
    by (auto simp: v2_clock_def split: option.split_asm sum.split_asm)
  show "\<exists>s. field d ''intent_id'' = JStr s" using i identities_member by force
  show "float_json w (field d ''quantity'') = Inr q \<and> q \<noteq> NaN" using positive_number_float [OF q] .
  have "''signal_date'' \<notin> set (map fst d)" using k by (simp add: same_keys_def keys_of_def V2_INTENT_FIELDS_def)
  then have "map_of d ''signal_date'' = None" by (simp add: map_of_eq_None_iff)
  then show "intent_day w d = Some day" using day by (simp add: intent_day_def)
qed

lemma intent_facts:
  assumes "validate_intent w e d spec now = Inr (day, q)"
  shows "\<exists>s. field d ''intent_id'' = JStr s" "float_json w (field d ''quantity'') = Inr q \<and> q \<noteq> NaN" "intent_day w d = Some day"
proof -
  consider "validate_v1_intent w e d spec now = Inr (day, q)" | "validate_v2_intent w e d spec now = Inr (day, q)"
    using assms by (auto simp: validate_intent_def split: if_split_asm)
  then have "(\<exists>s. field d ''intent_id'' = JStr s) \<and> (float_json w (field d ''quantity'') = Inr q \<and> q \<noteq> NaN) \<and> intent_day w d = Some day"
    by cases (simp_all only: v1_intent_facts v2_intent_facts simp_thms)
  then show "\<exists>s. field d ''intent_id'' = JStr s" "float_json w (field d ''quantity'') = Inr q \<and> q \<noteq> NaN" "intent_day w d = Some day"
    by blast+
qed

lemma queued_replays:
  assumes "queue_intent w e of1 spec d now = Inr (of9, receipt)" "field d ''account_id'' = JStr (sp_account spec)"
    and "stored_intake of1 d = None"
  shows "\<exists>i. stored_intake of9 d = Some i \<and> replay_intent w of9 spec d i =
    Inr (of9, if sp_version spec = 1 then Receipt1 (in_order i) True else receipt) \<and> (sp_version spec = 1 \<longrightarrow> receipt = Receipt1 (in_order i) False)"
proof -
  from queue_intent_cases [OF assms(1)] obtain day q parent fin of2 oid of4 where b: "admit w e of1 spec d now = Inr (day, q, parent, fin)"
      "store_order e spec d day q parent now of1 = Inr (of2, oid, receipt)"
      "set_status (set_active (sp_account spec) True
         (of2\<lparr>paper_account_intakes := paper_account_intakes of2 @ [intake_of w spec d oid now receipt]\<rparr>)) (sp_account spec) ''active'' = Inr of4"
      "of9 = of4 \<or> (\<exists>st r. mark_to_market (d_store (o_desk of4)) (sp_account spec) day = Inr (st, r) \<and> of9 = on_desk (\<lambda>dk. dk\<lparr>d_store := st\<rparr>) of4)" .
  let ?i = "intake_of w spec d oid now receipt"
  let ?of3 = "of2\<lparr>paper_account_intakes := paper_account_intakes of2 @ [?i]\<rparr>"
  have "validate_intent w e d spec now = Inr (day, q)" using b(1) by (auto simp: admit_def Let_def bindE_eq_Inr)
  note f = intent_facts [OF this]
  have m: "moves (sp_account spec) ''active'' ?of3 of4" using moves_quiet(1) [OF quiet_helpers(4) set_status_moves [OF b(3)]] .
  have orders: "sim_orders (o_desk of9) = sim_orders (o_desk of2)" using m b(4) by (auto simp: moves_def on_desk_def)
  have "paper_account_intakes of4 = paper_account_intakes of1 @ [?i]"
    using b(3) store_order_rows [OF b(2)] by (auto simp: set_status_def bindE_eq_Inr set_active_def on_book_def on_desk_def)
  then have "paper_account_intakes of9 = paper_account_intakes of1 @ [?i]" using b(4) by (auto simp: on_desk_def)
  then have i: "stored_intake of9 d = Some ?i" using assms(3) f(1) by (auto simp: stored_intake_def find_append intake_of_def text_of_def)
  obtain dk1 where n: "next_order_id (o_desk of1) = (dk1, oid)"
    using b(2) by (auto simp: store_order_def book_order_def bindE_eq_Inr Let_def split: if_split_asm prod.split_asm)
  note fresh = next_order_fresh [OF n]
  have "find (\<lambda>r. ord_id r = oid) (sim_orders (o_desk of1)) = None" using fresh(1) by (auto simp: find_None_iff)
  then have "find (\<lambda>r. ord_id r = oid) (sim_orders (o_desk of9)) = Some \<lparr>ord_id = oid, ord_portfolio = text_of (field d ''account_id''), ord_ticker = ticker_of d,
      ord_side = side_of d, ord_qty = q, ord_signal_date = day, ord_status = ''pending'', ord_reject_reason = None\<rparr>"
    using b(2) n fresh by (auto simp: orders store_order_def book_order_def bindE_eq_Inr find_append split: if_split_asm)
  then have "validate_replayed_order w (o_desk of9) oid d = Inr ()"
    using f(2,3) assms(2) by (simp add: validate_replayed_order_def intent_day_def text_of_def)
  then have "replay_intent w of9 spec d ?i = Inr (of9, if sp_version spec = 1 then Receipt1 (in_order ?i) True else receipt)"
    using assms(2) by (simp add: replay_intent_def Let_def intake_of_def)
  moreover have "sp_version spec = 1 \<Longrightarrow> receipt = Receipt1 (in_order ?i) False"
    using b(2) by (auto simp: store_order_def Let_def intake_of_def split: prod.split_asm)
  ultimately show ?thesis using i by blast
qed

section \<open>Exactly once\<close>

lemma submit_unfold:
  assumes "intent_form d v" "field d ''account_id'' = JStr account" "load_spec w (init_schema of0) account = Inr spec"
    and "stored_intake (init_schema of0) d = Some previous"
  shows "submit_intent w e of0 (JObj d) (Aware now z) = replay_intent w (init_schema of0) spec d previous"
  using assms by (simp add: submit_intent_def utc_def intent_form_def Let_def)

lemma later_retry:
  assumes "retains a (init_schema of2)" "intent_form d v" "field d ''account_id'' = JStr (sp_account spec)"
    and "load_spec w a (sp_account spec) = Inr spec" "stored_intake a d = Some i" "replay_intent w a spec d i = Inr (x, receipt)"
  shows "submit_intent w e of2 (JObj d) (Aware now z) = Inr (init_schema of2, receipt)"
proof -
  have "stored_intake (init_schema of2) d = Some i"
    using assms(1,5) find_intake_append unfolding retains_def by blast
  then have "submit_intent w e of2 (JObj d) (Aware now z) = replay_intent w (init_schema of2) spec d i"
    using submit_unfold [OF assms(2,3) load_spec_retained [OF assms(1,4)]] by blast
  then show ?thesis using replay_intent_retained [OF assms(1,6)] by simp
qed

text \<open>C5: An intent becomes one order, however often it is sent. Once an intent has been accepted, sending the same JSON
  object again at any later moment, after any sequence of operations of the service (cancellations, halts, resumes, retirements,
  other submissions), is answered with the receipt of the first acceptance, and nothing is stored: the office only gets the
  tables a call may create. A version 1 receipt additionally says that it is a repetition.\<close>

theorem intent_accepted_once:
  assumes "submit_intent c e of0 intent received = Inr (of1, receipt)" "(account_step c e)\<^sup>*\<^sup>* of1 of2"
  shows "\<exists>again. submit_intent c e of2 intent (Aware later z) = Inr (init_schema of2, again) \<and>
    (again = receipt \<or> (\<exists>i b. receipt = Receipt1 i b \<and> again = Receipt1 i True))"
proof -
  have run: "retains of1 (init_schema of2)"
    using service.run_rel [OF assms(2)] retains_trans [OF _ retains_helpers(1)] unfolding keeps_def by blast
  from assms(1) show ?thesis
  proof (cases rule: submit_cases)
    case (replayed d v spec previous)
    have "of1 = init_schema of0" using replay_intent_same [OF replayed(6)] .
    then show ?thesis using later_retry [OF run [unfolded \<open>of1 = init_schema of0\<close>] replayed(2-6)] replayed(1) by blast
  next
    case (queued d v spec now)
    obtain i where i: "stored_intake of1 d = Some i"
      "replay_intent c of1 spec d i = Inr (of1, if sp_version spec = 1 then Receipt1 (in_order i) True else receipt)"
      "sp_version spec = 1 \<longrightarrow> receipt = Receipt1 (in_order i) False"
      using queued_replays [OF queued(6,3,5)] by blast
    have "retains (init_schema of0) of1" using queue_intent_keeps [OF queued(6,3)] by (simp add: keeps_def)
    from load_spec_retained [OF this queued(4)] have "load_spec c of1 (sp_account spec) = Inr spec" .
    from later_retry [OF run queued(2,3) this i(1,2), of e later z] show ?thesis using queued(1) i(3) by auto
  qed
qed

section \<open>The terms of an account\<close>

lemma with_default_idem: "with_default k v (with_default k v d) = with_default k v d"
  by (simp add: with_default_def map_add_Some_iff)

lemma with_default_keys: "set (keys_of (with_default k v d)) = insert k (set (keys_of d))"
  by (auto simp: with_default_def keys_of_def map_of_eq_None_iff image_iff)

lemma with_default_other: "k' \<noteq> k \<Longrightarrow> map_of (with_default k v d) k' = map_of d k'"
  by (auto simp: with_default_def map_add_def split: option.split)

text \<open>A validated specification validates again, to itself.\<close>

lemma validate_spec_stable:
  assumes "validate_spec request = Inr spec"
  shows "validate_spec (JObj (sp_payload spec)) = Inr spec"
proof -
  from assms obtain d v where r: "request = JObj d" "map_of d ''schema_version'' = Some (JInt v)" "v = 1 \<or> v = 2"
    and s: "(if v = 1 then validate_spec_v1 d else validate_spec_v2 d) = Inr spec"
    unfolding validate_spec_def by (cases request) (auto split: option.split_asm json.split_asm if_split_asm)
  show ?thesis
  proof (cases "v = 1")
    case True
    then have "sp_payload spec = d" using s unfolding validate_spec_v1_def by (auto simp: bindE_eq_Inr)
    then show ?thesis using assms r by simp
  next
    case False
    let ?d = "with_default ''day_trade_rule'' (JStr ''pdt_25k_legacy'') d"
    have v: "validate_spec_v2 d = Inr spec" "v = 2" using s r False by auto
    then have p: "sp_payload spec = ?d" and k: "set V2_SPEC_REQUIRED \<subseteq> set (keys_of d) \<and> set (keys_of d) \<subseteq> set V2_SPEC_FIELDS"
      unfolding validate_spec_v2_def Let_def by (auto simp: bindE_eq_Inr)
    have "set V2_SPEC_REQUIRED \<subseteq> set (keys_of ?d) \<and> set (keys_of ?d) \<subseteq> set V2_SPEC_FIELDS"
      using k by (auto simp: with_default_keys V2_SPEC_FIELDS_def V2_SPEC_OPTIONAL_FIELDS_def)
    then have "validate_spec_v2 ?d = Inr spec" using v(1) k unfolding validate_spec_v2_def Let_def with_default_idem by simp
    moreover have "map_of ?d ''schema_version'' = Some (JInt 2)" using r(2) v(2) with_default_other by simp
    ultimately show ?thesis unfolding p validate_spec_def by simp
  qed
qed

text \<open>The account row a new account is opened with.\<close>

lemma account_row_ids [simp]: "pa_portfolio_id (assign_fields f a) = pa_portfolio_id a" "pa_portfolio_id (default_account pid) = pid"
  by (simp_all add: assign_fields_def default_account_def)

lemma opened_settings:
  assumes "set_portfolio_account b0 pid f = Inr bk" "portfolio_row_of b0 pid = Some p"
    and "fd_engine f = Some x1" "fd_account_type f = Some x2" "fd_price_source f = Some x3" "fd_day_trade_rule f = Some x4" "fd_allow_short f = Some x5"
  shows "\<exists>st. portfolio_account bk pid = Inr st \<and> setting_terms st = (x1, x2, x3, x4, x5)"
proof -
  let ?rows = "portfolio_accounts b0"
  have "\<exists>a. find (\<lambda>a. pa_portfolio_id a = pid) (portfolio_accounts bk) = Some (assign_fields f a)"
  proof (cases "find (\<lambda>a. pa_portfolio_id a = pid) ?rows")
    case None
    then have "\<not> (\<exists>a\<in>set ?rows. pa_portfolio_id a = pid)" by (auto simp: find_None_iff)
    then have "portfolio_accounts bk = ?rows @ [assign_fields f (default_account pid)]"
      using set_portfolio_account_rows [OF assms(1)] by (simp only: if_False)
    then show ?thesis using None by (auto simp: find_append)
  next
    case (Some a)
    have "portfolio_accounts bk = update_rows (\<lambda>a. pa_portfolio_id a = pid) (assign_fields f) ?rows"
      using set_portfolio_account_rows [OF assms(1)] find_SomeD [OF Some] by auto
    then show ?thesis using Some by (auto simp: find_update_status)
  qed
  then show ?thesis using assms(2-7) set_portfolio_account_ids [OF assms(1)]
    by (auto simp: portfolio_account_def portfolio_row_of_def Let_def setting_terms_def assign_fields_def assign_def coalesce_def)
qed

lemma funded_account_loads:
  assumes "fund_account e spec (canonical_sha256 w (JObj (sp_payload spec))) now of1 = Inr of2"
    and "validate_spec request = Inr spec" "portfolio_row_of (office_book of1) (sp_account spec) = None" "spec_row_of of1 (sp_account spec) = None"
  shows "load_spec w of2 (sp_account spec) = Inr spec"
    and "\<exists>p. portfolio_row_of (office_book of2) (sp_account spec) = Some p \<and> pf_cash p = Fin (of_int (sp_capital spec)) \<and> \<not> pf_active p"
proof -
  let ?a = "sp_account spec" and ?digest = "canonical_sha256 w (JObj (sp_payload spec))" and ?c = "Fin (of_int (sp_capital spec))"
  let ?row = "\<lparr>sr_account = ?a, sr_payload = JObj (sp_payload spec), sr_sha256 = ?digest\<rparr>"
  from assms(1) obtain p bk where bk: "set_portfolio_account ((office_book of1)\<lparr>portfolios := portfolios (office_book of1) @ [p]\<rparr>) ?a (spec_fields spec) = Inr bk"
    and p: "pf_id p = ?a" "pf_initial_cash p = Some ?c" "pf_strategy p = ''discretionary''" "pf_external_sha256 p = Some ?digest" "pf_cash p = ?c" "\<not> pf_active p"
    and of2: "office_book of2 = bk" "paper_account_specs of2 = paper_account_specs of1 @ [?row]"
    unfolding fund_account_def Let_def by (auto simp: bindE_eq_Inr on_book_def on_desk_def office_book_def split: if_split_asm)
  let ?b0 = "(office_book of1)\<lparr>portfolios := portfolios (office_book of1) @ [p]\<rparr>"
  have p0: "portfolio_row_of ?b0 ?a = Some p" using assms(3) p(1) by (simp add: portfolio_row_of_def find_append)
  then have row: "portfolio_row_of bk ?a = Some p" using set_portfolio_account_ids [OF bk] by (simp add: portfolio_row_of_def)
  then show "\<exists>p. portfolio_row_of (office_book of2) ?a = Some p \<and> pf_cash p = ?c \<and> \<not> pf_active p" using p of2 by simp
  have "spec_row_of of2 ?a = Some ?row" using assms(4) by (simp add: spec_row_of_def of2 find_append)
  moreover obtain st where "portfolio_account bk ?a = Inr st" "setting_terms st =
      (if sp_version spec = 2 then ''account'' else ''league'', sp_account_type spec, sp_source spec, sp_day_trade_rule spec, sp_allow_short spec)"
    using opened_settings [OF bk p0, of "if sp_version spec = 2 then ''account'' else ''league''" "sp_account_type spec" "sp_source spec"
        "sp_day_trade_rule spec" "sp_allow_short spec"] by (auto simp: spec_fields_def Let_def)
  ultimately show "load_spec w of2 ?a = Inr spec"
    using validate_spec_stable [OF assms(2)] row p of2(1) by (simp add: load_spec_def Let_def spec_settings_differ_def setting_terms_def)
qed

text \<open>C16: The terms of an account are fixed when it is opened. After a successful \<open>create_account\<close> and any sequence of operations
  of the service, the account still loads with one and the same specification: the engine settings, the funded capital and
  the stored digest agree with it. When the account was new, that specification is the validated request and
  the portfolio starts inactive with the capital as its cash.\<close>

theorem account_terms_bound:
  assumes "create_account c e of0 request received = Inr (of1, r)" "(account_step c e)\<^sup>*\<^sup>* of1 of2"
  shows "\<exists>spec. load_spec c of2 (cr_account r) = Inr spec \<and> load_spec c of1 (cr_account r) = Inr spec \<and>
    (cr_replayed r \<or> validate_spec request = Inr spec \<and>
      (\<exists>p. portfolio_row_of (office_book of1) (cr_account r) = Some p \<and> pf_cash p = Fin (of_int (sp_capital spec)) \<and> \<not> pf_active p))"
proof -
  from assms(1) consider stored where "load_spec c of1 (cr_account r) = Inr stored" "cr_replayed r"
    | spec now where "fund_account e spec (canonical_sha256 c (JObj (sp_payload spec))) now (init_schema of0) = Inr of1"
        "validate_spec request = Inr spec" "portfolio_row_of (office_book (init_schema of0)) (sp_account spec) = None"
        "spec_row_of (init_schema of0) (sp_account spec) = None" "cr_account r = sp_account spec"
    unfolding create_account_def Let_def by (auto simp: bindE_eq_Inr split: option.split_asm if_split_asm)
  then obtain stored where l: "load_spec c of1 (cr_account r) = Inr stored" and n: "cr_replayed r \<or> validate_spec request = Inr stored \<and>
      (\<exists>p. portfolio_row_of (office_book of1) (cr_account r) = Some p \<and> pf_cash p = Fin (of_int (sp_capital stored)) \<and> \<not> pf_active p)"
  proof cases
    case (2 spec now)
    then show ?thesis using funded_account_loads [OF 2(1-4)] that [of spec] by simp
  qed (use that in blast)
  have "retains of1 of2" using service.run_rel [OF assms(2)] by (simp add: keeps_def)
  then show ?thesis using load_spec_retained l n by blast
qed

section \<open>Closing times\<close>

lemma same_weekday: "weekday a = weekday b \<Longrightarrow> a - b < 7 \<Longrightarrow> b - a < 7 \<Longrightarrow> a = (b :: int)"
  unfolding weekday_def by presburger

lemma fourth_thursday: obtains k where "nth_weekday y 11 3 4 + 1 = ymd y 11 k" "23 \<le> k" "k \<le> 29"
  by (rule that [of "23 + (3 - weekday (ymd y 11 1)) mod 7"]) (simp_all add: nth_weekday_def Let_def ymd_def)

lemma thanksgiving_friday:
  "d = nth_weekday (year_of d) 11 3 4 + 1 \<longleftrightarrow> month_of d = 11 \<and> weekday d = 4 \<and> 23 \<le> day_of d \<and> day_of d \<le> 29"
proof -
  define y where "y = year_of d"
  obtain k where f: "nth_weekday y 11 3 4 + 1 = ymd y 11 k" and k: "23 \<le> k" "k \<le> 29" by (rule fourth_thursday)
  have w: "weekday (ymd y 11 k) = 4" using nth_weekday_weekday [of 3 y 11 4] unfolding f [symmetric] by (simp add: weekday_add)
  have "k \<le> days_in_month y 11" using k by (simp add: days_in_month_def ymd_def days_before_month_def)
  then have parts: "month_of (ymd y 11 k) = 11" "day_of (ymd y 11 k) = k" using k by (auto intro: ymd_parts)
  have "d = ymd y 11 k" if a: "month_of d = 11" "weekday d = 4" "23 \<le> day_of d" "day_of d \<le> 29"
  proof -
    have "d = ymd y 11 (day_of d)" using a(1) by (simp add: ymd_def day_of_def y_def)
    moreover have "ymd y 11 (day_of d) - ymd y 11 k = day_of d - k" by (simp add: ymd_def)
    ultimately have diff: "d - ymd y 11 k = day_of d - k" by linarith
    show ?thesis by (rule same_weekday) (use a w k diff in linarith)+
  qed
  then show ?thesis using parts w k unfolding f y_def [symmetric] by auto
qed

text \<open>The two closing times agree. On every session of the exchange calendar the closing time that the intake compares a
  signal with (\<open>session_close\<close> of the minute collector: 3 July, 24 December and a Friday from 23 to 29 November)
  is the closing time of the calendar itself (the early closes of its year, each only when it is a session).\<close>

theorem session_closes_agree:
  assumes "is_session d"
  shows "minute_session_close d = session_close_time d"
proof -
  let ?y = "year_of d"
  have d: "d = ymd ?y (month_of d) (day_of d)" by (simp add: ymd_def day_of_def)
  have early: "session_close_time d = (if d \<in> {nth_weekday ?y 11 3 4 + 1, ymd ?y 7 3, ymd ?y 12 24} then hm 13 0 else hm 16 0)"
    using assms by (auto simp: session_close_time_def early_closes_def)
  have fixed: "d = ymd ?y m k \<longleftrightarrow> month_of d = m \<and> day_of d = k" if "1 \<le> m" "m \<le> 12" "1 \<le> k" "k \<le> days_in_month ?y m" for m k
    using ymd_parts [OF that] d by metis
  have "d = ymd ?y 7 3 \<longleftrightarrow> month_of d = 7 \<and> day_of d = 3" "d = ymd ?y 12 24 \<longleftrightarrow> month_of d = 12 \<and> day_of d = 24"
    using days_before_year_Suc [of ?y] by (intro fixed; simp add: days_in_month_def ymd_def days_before_month_def)+
  moreover have "d = nth_weekday ?y 11 3 4 + 1 \<longleftrightarrow> month_of d = 11 \<and> weekday d = 4 \<and> 23 \<le> day_of d \<and> day_of d \<le> 29"
    by (rule thanksgiving_friday)
  ultimately show ?thesis by (auto simp: early minute_session_close_def)
qed

section \<open>Witnesses\<close>

text \<open>Evaluation looks into the continuation of a step only after the step has its value.\<close>

declare bindE_def [code_unfold]

text \<open>An account of 10000 dollars opened on 6 October 2026 buys fifty shares at the next open.\<close>

definition example_sha :: string where
  "example_sha = replicate 64 CHR ''0''"

definition example_wire :: codec where
  "example_wire = example_codec\<lparr>canonical_sha256 := (\<lambda>_. example_sha), iso_date := (\<lambda>s. if s = ''2026-10-07'' then Some (ymd 2026 10 7) else None),
     iso_datetime := (\<lambda>s. if s = ''2026-10-06T21:00:00+00:00'' then Some (Aware (combine (ymd 2026 10 6) (hm 21 0)) 0) else None)\<rparr>"

definition example_request :: json where
  "example_request = JObj [(''schema_version'', JInt 2), (''strategy_ref'', JStr ''trend''), (''strategy_version'', JStr ''1''),
     (''spec_sha256'', JStr example_sha), (''artifact_sha256'', JStr example_sha), (''registration_sha256'', JStr example_sha),
     (''instrument_kinds'', JList [JStr ''etf'']), (''capital_usd'', JInt 10000), (''account_id'', JStr ''acct''), (''account_type'', JStr ''margin''),
     (''max_position_fraction'', JFloat (Fin (1 / 2))), (''max_gross_fraction'', JInt 1), (''min_trade_usd'', JInt 100), (''allow_short'', JBool False),
     (''price_source'', JStr ''prices''), (''benchmark'', JStr ''SPY''), (''day_trades_per_week_expected'', JInt 0)]"

definition example_intent :: json where
  "example_intent = JObj [(''schema_version'', JInt 2), (''intent_id'', JStr ''i-1''), (''account_id'', JStr ''acct''), (''spec_sha256'', JStr example_sha),
     (''registration_sha256'', JStr example_sha), (''instrument_id'', JStr ''SPY''), (''instrument_kind'', JStr ''etf''), (''side'', JStr ''buy''),
     (''quantity'', JInt 50), (''order_type'', JStr ''moo''), (''limit_price'', JNull), (''time_in_force'', JStr ''day''),
     (''session_date'', JStr ''2026-10-07''), (''contingent_on'', JNull), (''legs'', JList []), (''created_at'', JStr ''2026-10-06T21:00:00+00:00''),
     (''source_sha256'', JStr example_sha)]"

definition example_received :: stamp where
  "example_received = Aware (combine (ymd 2026 10 6) (hm 22 0)) 0"

lemma example_account_opens:
  obtains of1 r where "create_account example_wire example_env example_office example_request example_received = Inr (of1, r)"
    "cr_account r = ''acct''" "\<not> cr_replayed r"
    "case submit_intent example_wire example_env of1 example_intent example_received of
       Inr (of2, receipt) \<Rightarrow> receipt = Receipt2 2 (combine (ymd 2026 10 6) (hm 22 0)) (Some (combine (ymd 2026 10 7) (hm 13 28))) | Inl _ \<Rightarrow> False"
proof -
  have "case create_account example_wire example_env example_office example_request example_received of
      Inr (of1, r) \<Rightarrow> cr_account r = ''acct'' \<and> \<not> cr_replayed r \<and>
        (case submit_intent example_wire example_env of1 example_intent example_received of
           Inr (of2, receipt) \<Rightarrow> receipt = Receipt2 2 (combine (ymd 2026 10 6) (hm 22 0)) (Some (combine (ymd 2026 10 7) (hm 13 28))) | Inl _ \<Rightarrow> False)
    | Inl _ \<Rightarrow> False" by code_simp
  then show ?thesis using that by (auto split: sum.split_asm)
qed

theorem intent_accepted_once_witness:
  "\<exists>of1 of2 receipt. submit_intent example_wire example_env of1 example_intent example_received = Inr (of2, receipt) \<and>
     receipt \<noteq> Receipt1 2 False \<and> submit_intent example_wire example_env of2 example_intent (Aware 0 0) = Inr (init_schema of2, receipt)"
proof -
  obtain of1 r where c: "case submit_intent example_wire example_env of1 example_intent example_received of
       Inr (of2, receipt) \<Rightarrow> receipt = Receipt2 2 (combine (ymd 2026 10 6) (hm 22 0)) (Some (combine (ymd 2026 10 7) (hm 13 28))) | Inl _ \<Rightarrow> False"
    by (rule example_account_opens)
  then obtain of2 receipt where s: "submit_intent example_wire example_env of1 example_intent example_received = Inr (of2, receipt)"
    "receipt = Receipt2 2 (combine (ymd 2026 10 6) (hm 22 0)) (Some (combine (ymd 2026 10 7) (hm 13 28)))" by (auto split: sum.split_asm)
  from intent_accepted_once [OF s(1) rtranclp.rtrancl_refl, of 0 0] s show ?thesis by auto
qed

theorem account_terms_bound_witness:
  "\<exists>of1 spec. load_spec example_wire of1 ''acct'' = Inr spec \<and> validate_spec example_request = Inr spec"
proof -
  obtain of1 r where c: "create_account example_wire example_env example_office example_request example_received = Inr (of1, r)"
    "cr_account r = ''acct''" "\<not> cr_replayed r" by (rule example_account_opens)
  from account_terms_bound [OF c(1) rtranclp.rtrancl_refl] c(2,3) show ?thesis by auto
qed

theorem session_closes_agree_witness:
  "minute_session_close (ymd 2026 11 27) = session_close_time (ymd 2026 11 27) \<and> session_close_time (ymd 2026 11 27) = hm 13 0"
proof -
  have "is_session (ymd 2026 11 27)" "session_close_time (ymd 2026 11 27) = hm 13 0" by code_simp+
  then show ?thesis using session_closes_agree [of "ymd 2026 11 27"] by simp
qed

end
