(* ===== verification/Session.thy ===== *)
theory Session
  imports Intake "HOL-Library.AList"
begin

text \<open>
  The settlement of one account order (\<open>src/engine/accounts/settle.py\<close>): the rows that are due, the fill attempt of each
  order type, the liquidity budget that all accounts share, the gates of \<open>_settle_order\<close> (malformed or unsupported orders, halted
  accounts, contingent parents, holdings, locates, liquidity, day-trade and margin rules), the persisted fill and
  the source-aware mark of an account. No code writes the leg columns of an order, so they are not part of the
  model and their gate never fires; the audit columns of a fill are left out.
\<close>

section \<open>Orders to settle\<close>

record session_run =
  sx_day :: date
  sx_now :: datetime
  sx_clock :: datetime
  sx_short :: "short_db option"
  sx_liquidity :: liquidity_db
  sx_reason :: "reason \<Rightarrow> string"
  sx_error :: "verdict \<Rightarrow> string \<times> string"
  sx_source_errors :: "(string \<times> string) list option"

text \<open>The wall clock, the short data of the run, the text of a rejection reason, the class name and text of an exception and
  the source stores that could not be read are parameters of a run.\<close>

record pending_row =
  pr_order :: int
  pr_portfolio :: string
  pr_ticker :: string
  pr_side :: string
  pr_qty :: float64
  pr_signal_date :: date
  pr_order_type :: string
  pr_kind :: string
  pr_limit :: "float64 option"
  pr_session :: date
  pr_received :: datetime
  pr_contingent :: "int option"
  pr_reason :: "string option"
  pr_profile :: "string option"

definition BUY_IN_PENALTY_BPS :: float64 where "BUY_IN_PENALTY_BPS = Fin 50"
definition MARGIN_CALL_PENALTY_BPS :: float64 where "MARGIN_CALL_PENALTY_BPS = Fin 25"

text \<open>\<open>str.split("|")\<close>.\<close>

fun split_bar :: "string \<Rightarrow> string list" where
  "split_bar [] = [[]]"
| "split_bar (c # cs) = (if c = CHR ''|'' then [] # split_bar cs
     else case split_bar cs of [] \<Rightarrow> [[c]] | s # ss \<Rightarrow> (c # s) # ss)"

definition join_bar :: "string list \<Rightarrow> string" where
  "join_bar parts = (case parts of [] \<Rightarrow> [] | s # ss \<Rightarrow> s @ concat (map (\<lambda>x. CHR ''|'' # x) ss))"

definition special_reason :: "string option \<Rightarrow> string \<Rightarrow> bool" where
  "special_reason v reason \<longleftrightarrow> reason \<in> set (split_bar (coalesce v []))"

definition is_forced :: "pending_row \<Rightarrow> bool" where
  "is_forced row \<longleftrightarrow> (\<exists>reason\<in>set [''buy_in'', ''margin_call'', ''retirement'']. special_reason (pr_reason row) reason)"

definition coarse_of :: "string \<Rightarrow> string" where
  "coarse_of target = (if target = ''filled'' then ''filled'' else if target = ''queued'' then ''pending''
     else if target = ''cancelled'' then ''cancelled'' else ''rejected'')"

definition set_state :: "int \<Rightarrow> string \<Rightarrow> string option \<Rightarrow> datetime \<Rightarrow> desk \<Rightarrow> desk" where
  "set_state order target reason stamp dk =
     (let coarse = coarse_of target in
      dk\<lparr>sim_orders := update_rows (\<lambda>r. ord_id r = order)
           (\<lambda>r. r\<lparr>ord_status := coarse, ord_reject_reason := (if coarse = ''rejected'' then reason else None)\<rparr>) (sim_orders dk),
         sim_order_details := update_rows (\<lambda>d. od_order d = order)
           (\<lambda>d. d\<lparr>od_state := target, od_state_reason := reason, od_state_at := stamp\<rparr>) (sim_order_details dk)\<rparr>)"

definition missing_bar :: "int \<Rightarrow> string option \<Rightarrow> datetime \<Rightarrow> desk \<Rightarrow> desk" where
  "missing_bar order old_reason stamp dk =
     (let reasons = filter (\<lambda>part. part \<noteq> []) (split_bar (coalesce old_reason []));
          reasons' = (if ''bar_missing'' \<notin> set reasons then reasons @ [''bar_missing''] else reasons)
      in set_state order ''queued'' (Some (join_bar reasons')) stamp dk)"

definition pending_rows :: "desk \<Rightarrow> pending_row list" where
  "pending_rows dk = List.map_filter (\<lambda>r.
     if ord_status r \<noteq> ''pending'' then None
     else case (find (\<lambda>d. od_order d = ord_id r) (sim_order_details dk), portfolio_row_of (desk_book dk) (ord_portfolio r)) of
       (Some d, Some p) \<Rightarrow> if od_state d \<noteq> ''queued'' then None
         else Some \<lparr>pr_order = ord_id r, pr_portfolio = ord_portfolio r, pr_ticker = ord_ticker r, pr_side = ord_side r, pr_qty = ord_qty r,
           pr_signal_date = ord_signal_date r, pr_order_type = od_order_type d, pr_kind = od_instrument_kind d, pr_limit = od_limit_px d,
           pr_session = od_session_date d, pr_received = od_received_at d, pr_contingent = od_contingent_on d,
           pr_reason = od_state_reason d, pr_profile = pf_execution_profile p\<rparr>
     | _ \<Rightarrow> None) (sort_key ord_id (sim_orders dk))"

definition due :: "pending_row \<Rightarrow> date \<Rightarrow> bool" where
  "due row day = (if pr_order_type row = ''next_open'' then next_session (pr_signal_date row) = day else pr_session row = day)"

text \<open>\<open>prepare_order\<close> of \<open>src/engine/accounts/actions.py\<close>: the receipt units are converted over the splits captured by now.\<close>

definition split_rows :: "store \<Rightarrow> string \<Rightarrow> date \<Rightarrow> datetime \<Rightarrow> (date \<times> float64) list" where
  "split_rows st ticker day now = (case corporate_actions st of
     None \<Rightarrow> []
   | Some actions \<Rightarrow> sort_key fst (List.map_filter (\<lambda>a.
       case ca_value a of
         Some v \<Rightarrow> if ca_ticker a = ticker \<and> ca_kind a = ''split'' \<and> ca_ex_date a \<le> day \<and> flt (Fin 0) v \<and> isfinite v \<and>
              (case ca_fetched_at a of None \<Rightarrow> True | Some f \<Rightarrow> f \<le> now) then Some (ca_ex_date a, v) else None
       | None \<Rightarrow> None) actions))"

definition prepare_step :: "'e tz_scheme \<Rightarrow> pending_row \<Rightarrow> date \<times> float64 \<Rightarrow> pending_row outcome" where
  "prepare_step e row s = (case s of (ex, ratio) \<Rightarrow>
     if pr_received row < fst (session_bounds e ex)
     then bindE (case pr_limit row of None \<Rightarrow> Inr None | Some x \<Rightarrow> bindE (fdiv x ratio) (\<lambda>y. Inr (Some y))) (\<lambda>limit.
          Inr (row\<lparr>pr_qty := fmul (pr_qty row) ratio, pr_limit := limit\<rparr>))
     else Inr row)"

definition prepare_order :: "'e tz_scheme \<Rightarrow> store \<Rightarrow> pending_row \<Rightarrow> date \<Rightarrow> datetime \<Rightarrow> pending_row outcome" where
  "prepare_order e st row day now = foldE (prepare_step e) row (split_rows st (pr_ticker row) day now)"

section \<open>Fill attempts\<close>

definition limit_arg :: "pending_row \<Rightarrow> (string \<times> pyval) list" where
  "limit_arg row = [(''limit_price'', case pr_limit row of None \<Rightarrow> PNone | Some x \<Rightarrow> PFloat x)]"

definition malformed :: "pending_row \<Rightarrow> string option" where
  "malformed row = order_refusal (pr_side row) (PFloat (pr_qty row)) default_sides (limit_arg row)"

text \<open>A limit order without a price is refused by the intake; here its arithmetic would raise.\<close>

definition fill_attempt :: "'e env_scheme \<Rightarrow> market_db \<Rightarrow> pending_row \<Rightarrow> settings \<Rightarrow> date \<Rightarrow> datetime \<Rightarrow> FillResult outcome" where
  "fill_attempt e db row st day now = (case malformed row of
     Some refusal \<Rightarrow> Inr (fill_status ''rejected'' (Some (Because refusal)))
   | None \<Rightarrow>
     let received = Aware (pr_received row) 0; available = Some (Aware now 0); source = account_price_source st;
         profile = ProfileId (case pr_profile row of None \<Rightarrow> ''baseline_v1'' | Some p \<Rightarrow> if p = [] then ''baseline_v1'' else p);
         penalty = (if special_reason (pr_reason row) ''buy_in'' then BUY_IN_PENALTY_BPS
                    else if special_reason (pr_reason row) ''margin_call'' then MARGIN_CALL_PENALTY_BPS else Fin 0);
         minute_source = (if source = ''massive_daily'' then ''massive_minute'' else ''intraday_prices'')
     in if pr_order_type row = ''next_open''
        then attempt_next_open_fill e db (pr_ticker row) (pr_side row) (pr_qty row) (pr_signal_date row) day profile source available penalty
        else if pr_order_type row \<in> {''moo'', ''moc''}
        then attempt_auction_fill e db (pr_ticker row) (pr_side row) (pr_qty row) day received (pr_order_type row) profile source available penalty
        else if pr_order_type row = ''market''
        then attempt_intraday_market_fill e db (pr_ticker row) (pr_side row) (pr_qty row) day received profile minute_source source available
        else if pr_order_type row = ''limit''
        then (case pr_limit row of
                None \<Rightarrow> Inl (TypeError ''limit_price'')
              | Some x \<Rightarrow> attempt_intraday_limit_fill e db (pr_ticker row) (pr_side row) (pr_qty row) day received x profile minute_source source available)
        else Inr (fill_status ''rejected'' (Some (Because ''unsupported_order_type''))))"

definition execution_key :: "'e tz_scheme \<Rightarrow> pending_row \<Rightarrow> FillResult \<Rightarrow> date \<Rightarrow> datetime \<times> datetime \<times> int" where
  "execution_key e row result day =
     ((case fr_fill_ts result of
         Some t \<Rightarrow> t
       | None \<Rightarrow> if pr_order_type row \<in> {''next_open'', ''moo''} then fst (session_bounds e day)
           else if pr_order_type row = ''moc'' then snd (session_bounds e day)
           else pr_received row + minute), pr_received row, pr_order row)"

section \<open>The shared liquidity budget\<close>

definition direction :: "string \<Rightarrow> string" where
  "direction side = (if side \<in> {''buy'', ''cover''} then ''buy'' else ''sell'')"

type_synonym budget = "((string \<times> string) \<times> float64) list"

definition spent :: "budget \<Rightarrow> string \<times> string \<Rightarrow> float64" where
  "spent used key = coalesce (map_of used key) (Fin 0)"

definition spend :: "string \<times> string \<Rightarrow> float64 \<Rightarrow> budget \<Rightarrow> budget" where
  "spend key x used = AList.update key (fadd (spent used key) x) used"

definition existing_notional :: "book \<Rightarrow> date \<Rightarrow> budget" where
  "existing_notional bk day = fold (\<lambda>f. spend (fl_ticker f, direction (fl_side f)) (fabs (fmul (fl_qty f) (fl_open_px f))))
     (filter (\<lambda>f. fl_date f = day) (sim_fills bk)) []"

text \<open>One order of the sweep: it spends its notional, or is refused and spends nothing.\<close>

definition liquidity_step :: "pending_row \<times> FillResult \<Rightarrow> budget \<times> int list \<Rightarrow> budget \<times> int list" where
  "liquidity_step item acc = (case (item, acc) of ((row, result), (used, denied)) \<Rightarrow>
     if fr_status result \<noteq> ''filled'' then (used, denied)
     else case fr_reference_px result of
       None \<Rightarrow> (used, denied)
     | Some px \<Rightarrow>
         (let key = (pr_ticker row, direction (pr_side row)); notional = fmul (pr_qty row) px in
          case fr_median_dollar_vol result of
            Some m \<Rightarrow> if flt (fadd (fmul m (lit (1 / 100))) TOL9) (fadd (spent used key) notional)
                      then (used, denied @ [pr_order row]) else (spend key notional used, denied)
          | None \<Rightarrow> (spend key notional used, denied)))"

definition receipt_order :: "pending_row \<times> FillResult \<Rightarrow> datetime \<times> int" where
  "receipt_order item = (pr_received (fst item), pr_order (fst item))"

definition liquidity_refusals :: "book \<Rightarrow> date \<Rightarrow> (pending_row \<times> FillResult) list \<Rightarrow> int list" where
  "liquidity_refusals bk day prepared = snd (fold liquidity_step (sort_key receipt_order prepared) (existing_notional bk day, []))"

section \<open>Gates\<close>

datatype contingent = Independent | ParentFilled float64 | ParentFailed | ParentPending

definition contingent_quantity :: "desk \<Rightarrow> int option \<Rightarrow> contingent" where
  "contingent_quantity dk parent = (case parent of
     None \<Rightarrow> Independent
   | Some order \<Rightarrow> (case find (\<lambda>f. fl_order f = order) (sim_fills (desk_book dk)) of
       Some f \<Rightarrow> ParentFilled (fl_qty f)
     | None \<Rightarrow> (case find (\<lambda>r. ord_id r = order) (sim_orders dk) of
         None \<Rightarrow> ParentFailed
       | Some r \<Rightarrow> if ord_status r \<in> {''rejected'', ''cancelled''} then ParentFailed else ParentPending)))"

definition available_close_quantity :: "book \<Rightarrow> string \<Rightarrow> string \<Rightarrow> string \<Rightarrow> float64 \<Rightarrow> float64" where
  "available_close_quantity bk pid ticker side requested =
     (if side \<notin> {''sell'', ''cover''} then requested
      else let held = (case position_of bk pid ticker of Some p \<Rightarrow> pos_qty p | None \<Rightarrow> Fin 0);
               available = (if side = ''sell'' then fmax held (Fin 0) else fabs (fmin held (Fin 0)))
           in fmin requested available)"

definition cash_quantity :: "book \<Rightarrow> settings \<Rightarrow> string \<Rightarrow> string \<Rightarrow> float64 \<Rightarrow> float64 \<Rightarrow> float64 \<Rightarrow> float64 outcome" where
  "cash_quantity bk st pid side requested price fee =
     (if account_type st \<noteq> ''cash_legacy'' \<or> side \<noteq> ''buy'' then Inr requested
      else bindE (get_cash bk pid) (\<lambda>cash.
           bindE (fdiv (fmax (fsub cash fee) (Fin 0)) price) (\<lambda>x.
           Inr (fmin requested (fmul x (fsub (Fin 1) (lit (1 / 10 ^ 12))))))))"

definition max_gross_fraction :: "'w wire_scheme \<Rightarrow> office \<Rightarrow> string \<Rightarrow> float64 outcome" where
  "max_gross_fraction w of1 pid = (case spec_row_of of1 pid of
     None \<Rightarrow> Inr (Fin 1)
   | Some row \<Rightarrow> (case sr_payload row of
       JObj d \<Rightarrow>
         (case float_json w (case map_of d ''max_gross_fraction'' of Some v \<Rightarrow> v | None \<Rightarrow> JFloat (Fin 1)) of
            Inr x \<Rightarrow> Inr (fmin (fmax x (Fin 0)) (lit (3 / 2)))
          | Inl (TypeError _) \<Rightarrow> Inr (Fin 1)
          | Inl (ValueError _) \<Rightarrow> Inr (Fin 1)
          | Inl x \<Rightarrow> Inl x)
     | _ \<Rightarrow> Inl (TypeError ''payload'')))"

text \<open>\<open>_record_account_event\<close>: the same event is stored once.\<close>

definition note_event :: "string \<Rightarrow> string \<Rightarrow> payload \<Rightarrow> datetime \<Rightarrow> desk \<Rightarrow> desk" where
  "note_event pid kind body stamp dk = (case account_events dk of
     None \<Rightarrow> dk
   | Some evs \<Rightarrow> if \<exists>v\<in>set evs. ae_portfolio v = pid \<and> ae_kind v = kind \<and> ae_payload v = body then dk
       else dk\<lparr>account_events := Some (add_account_event evs pid kind body stamp)\<rparr>)"

text \<open>The gate of a short sale: the refusal, if any, and the desk with the events it recorded.\<close>

definition short_gate :: "'e env_scheme \<Rightarrow> session_run \<Rightarrow> settings \<Rightarrow> pending_row \<Rightarrow> desk \<Rightarrow> (desk \<times> string option) outcome" where
  "short_gate e run st row dk =
     (if pr_side row \<noteq> ''short'' then Inr (dk, None)
      else if \<not> allow_short st then Inr (dk, Some ''short_not_allowed'')
      else case sx_short run of
        None \<Rightarrow> Inr (note_event (pr_portfolio row) ''locate_unavailable'' (LocateNote (pr_ticker row) (sx_day run)) (sx_now run) dk,
                    Some ''locate_unavailable'')
      | Some sdb \<Rightarrow>
          if \<not> short_data_available (Some sdb)
          then Inr (note_event (pr_portfolio row) ''locate_unavailable'' (LocateNote (pr_ticker row) (sx_day run)) (sx_now run) dk,
                    Some ''locate_unavailable'')
          else bindE (locate e sdb (market (d_store dk)) (sx_liquidity run) (pr_ticker row) (sx_day run) (account_price_source st)
                        (Some (Aware (sx_now run) 0))) (\<lambda>l.
               let dk1 = (if lr_data_stale l
                          then note_event (pr_portfolio row) ''locate_data_stale'' (LocateNote (pr_ticker row) (sx_day run)) (sx_now run) dk
                          else dk)
               in Inr (dk1, if lr_available l then None else Some ''no_locate'')))"

definition order_fee :: "settings \<Rightarrow> pending_row \<Rightarrow> float64 \<Rightarrow> FillResult \<Rightarrow> float64 \<Rightarrow> date \<Rightarrow> FeeBreakdown outcome" where
  "order_fee st row qty result px day =
     charge (ProfileId (cost_profile st)) (One (pr_side row)) (One qty) (One px) (coalesce (fr_fill_kind result) [])
       (One (KindDict (Some (pr_kind row)) (Some (Fin 1)))) day"

section \<open>Settling one order\<close>

text \<open>The ledger fill and the rows of the fill.\<close>

definition persist_fill :: "'e env_scheme \<Rightarrow> book \<Rightarrow> pending_row \<Rightarrow> float64 \<Rightarrow> FillResult \<Rightarrow> float64 \<Rightarrow> FeeBreakdown \<Rightarrow> date \<Rightarrow> (book \<times> float64) outcome" where
  "persist_fill e bk row qty result px fee day =
     bindE (apply_fill e bk \<lparr>f_portfolio = pr_portfolio row, f_instrument = pr_ticker row, f_side = pr_side row, f_qty = PFloat qty,
              f_px = PFloat px, f_multiplier = PFloat (Fin 1), f_order = Some (pr_order row), f_session = Some day\<rparr> (Some fee) True) (\<lambda>(bk1, applied, _).
     if fle applied (Fin 0) then Inr (bk1, Fin 0)
     else if \<exists>d\<in>set (sim_fill_details bk1). dl_order d = pr_order row then Inl (ConstraintError ''sim_fill_details'')
     else Inr (bk1\<lparr>sim_fills := sim_fills bk1 @ [\<lparr>fl_order = pr_order row, fl_portfolio = pr_portfolio row, fl_ticker = pr_ticker row,
                 fl_side = pr_side row, fl_qty = applied, fl_px = px, fl_open_px = coalesce (fr_reference_px result) px, fl_date = day\<rparr>],
               sim_fill_details := sim_fill_details bk1 @ [\<lparr>dl_order = pr_order row, dl_fill_ts = fr_fill_ts result, dl_multiplier = Some (Fin 1)\<rparr>]\<rparr>,
               applied))"

definition TOL12 :: float64 where "TOL12 = lit (1 / 10 ^ 12)"

definition stop :: "pending_row \<Rightarrow> string \<Rightarrow> string option \<Rightarrow> datetime \<Rightarrow> string \<Rightarrow> office \<Rightarrow> (office \<times> string) outcome" where
  "stop row target reason now status of1 = Inr (on_desk (set_state (pr_order row) target reason now) of1, status)"

text \<open>The last leg: the prevalidated quantity is booked, and the ledger must not change it.\<close>

definition book_fill ::
    "'e env_scheme \<Rightarrow> session_run \<Rightarrow> pending_row \<Rightarrow> float64 \<Rightarrow> FillResult \<Rightarrow> float64 \<Rightarrow> FeeBreakdown \<Rightarrow> office \<Rightarrow> (office \<times> string) outcome" where
  "book_fill e run row qty result px fee of1 =
     bindE (persist_fill e (office_book of1) row qty result px fee (sx_day run)) (\<lambda>(bk1, applied).
     if \<not> isclose applied qty TOL12 TOL12 then Inl (RuntimeError ''ledger changed the prevalidated account fill quantity'')
     else bindE (if special_reason (pr_reason row) ''buy_in''
                 then bindE (apply_cash_event bk1 (sx_clock run) \<lparr>c_portfolio = pr_portfolio row, c_date = sx_day run, c_kind = ''buy_in_penalty'',
                        c_amount = PFloat (Fin 0), c_seq = None, c_instrument = Some (pr_ticker row), c_ref_order = Some (pr_order row),
                        c_note = Some ''50 bp in fill price'', c_created = None\<rparr>) (\<lambda>(bk2, _). Inr bk2)
                 else Inr bk1) (\<lambda>bk2.
          Inr (on_desk (set_state (pr_order row) ''filled'' (pr_reason row) (sx_now run)) (on_book (\<lambda>_. bk2) of1), ''filled'')))"

text \<open>The margin gates of an opening order that the engine does not force.\<close>

definition margin_refusal :: "pending_row \<Rightarrow> MarginState \<Rightarrow> float64 \<Rightarrow> string option" where
  "margin_refusal row projected gross_cap =
     (if is_forced row \<or> pr_side row \<notin> {''buy'', ''short''} then None
      else if flt (ms_initial_excess projected) (fneg TOL9) then Some ''reg_t_initial''
      else if flt (fadd (fmul (ms_equity projected) gross_cap) TOL9) (fadd (ms_long_market_value projected) (ms_short_market_value projected))
      then Some ''gross_cap'' else None)"

definition execute_order ::
    "'w wire_scheme \<Rightarrow> 'e env_scheme \<Rightarrow> session_run \<Rightarrow> settings \<Rightarrow> pending_row \<Rightarrow> float64 \<Rightarrow> FillResult \<Rightarrow> float64 \<Rightarrow> office \<Rightarrow> (office \<times> string) outcome" where
  "execute_order w e run st row qty result px of1 =
     (let now = sx_now run; day = sx_day run; as_of = map_option Naive (fr_fill_ts result); available = Some (Aware now 0) in
      bindE (pdt_check e (o_desk of1) (sx_clock run) (pr_portfolio row) (pr_ticker row) (pr_side row) qty day (Some px)
               (Some (account_price_source st)) as_of available) (\<lambda>(dk, pdt).
      let of2 = of1\<lparr>o_desk := dk\<rparr> in
      if \<not> is_forced row \<and> \<not> pdt_allowed pdt then stop row ''rejected'' (pdt_reason pdt) now ''rejected'' of2
      else
      bindE (order_fee st row qty result px day) (\<lambda>fee0.
      bindE (cash_quantity (office_book of2) st (pr_portfolio row) (pr_side row) qty px (total_usd fee0)) (\<lambda>applied_qty.
      if flt (fmul applied_qty px) MIN_FILL_USD then stop row ''rejected'' (Some ''ledger_refused'') now ''rejected'' of2
      else
      let exact = isclose applied_qty qty TOL12 TOL12; qty' = (if exact then qty else applied_qty) in
      bindE (if exact then Inr fee0 else order_fee st row qty' result px day) (\<lambda>fee.
      bindE (margin_state e (d_store (o_desk of2)) (pr_portfolio row) day (Some (pr_ticker row, pr_side row, qty', px)) (total_usd fee)
               (account_price_source st) as_of available) (\<lambda>projected.
      bindE (max_gross_fraction w of2 (pr_portfolio row)) (\<lambda>gross_cap.
      case margin_refusal row projected gross_cap of
        Some reason \<Rightarrow> stop row ''rejected'' (Some reason) now ''rejected'' of2
      | None \<Rightarrow> book_fill e run row qty' result px fee of2)))))))"

text \<open>What the result of the attempt says, once the order may trade.\<close>

definition settle_result ::
    "'w wire_scheme \<Rightarrow> 'e env_scheme \<Rightarrow> session_run \<Rightarrow> settings \<Rightarrow> int list \<Rightarrow> pending_row \<Rightarrow> float64 \<Rightarrow> FillResult \<Rightarrow> office \<Rightarrow> (office \<times> string) outcome" where
  "settle_result w e run st refusals row qty result of1 =
     (let now = sx_now run in
      if fr_status result = ''pending'' then Inr (on_desk (missing_bar (pr_order row) (pr_reason row) now) of1, ''pending'')
      else if fr_status result \<in> {''rejected'', ''expired''}
      then stop row (fr_status result) (map_option (sx_reason run) (fr_reject_reason result)) now (fr_status result) of1
      else if pr_order row \<in> set refusals then stop row ''rejected'' (Some ''illiquid_aggregate'') now ''rejected'' of1
      else case fr_fill_px result of
        None \<Rightarrow> Inl (TypeError ''fill_px'')
      | Some px \<Rightarrow> execute_order w e run st row qty result px of1)"

text \<open>The holding, the locate and the result, for the quantity left by the contingent parent.\<close>

definition trade_order ::
    "'w wire_scheme \<Rightarrow> 'e env_scheme \<Rightarrow> session_run \<Rightarrow> settings \<Rightarrow> int list \<Rightarrow> pending_row \<Rightarrow> FillResult \<Rightarrow> float64 \<Rightarrow> office
     \<Rightarrow> (office \<times> string) outcome" where
  "trade_order w e run st refusals row result limit of1 =
     (let qty = available_close_quantity (office_book of1) (pr_portfolio row) (pr_ticker row) (pr_side row) limit in
      if fle qty (Fin 0) then stop row ''rejected'' (Some ''no_position'') (sx_now run) ''rejected'' of1
      else bindE (short_gate e run st row (o_desk of1)) (\<lambda>(dk, refusal).
           case refusal of
             Some reason \<Rightarrow> stop row ''rejected'' (Some reason) (sx_now run) ''rejected'' (of1\<lparr>o_desk := dk\<rparr>)
           | None \<Rightarrow> settle_result w e run st refusals row qty result (of1\<lparr>o_desk := dk\<rparr>)))"

text \<open>The contingent parent: its execution key decides between a parent that trades later and one still to come.\<close>

type_synonym execution_keys = "(int \<times> datetime \<times> datetime \<times> int) list"

definition parent_later :: "execution_keys \<Rightarrow> pending_row \<Rightarrow> bool" where
  "parent_later keys row = (case (Option.bind (pr_contingent row) (map_of keys), map_of keys (pr_order row)) of
     (Some parent, Some own) \<Rightarrow> own < parent | _ \<Rightarrow> False)"

definition follow_parent ::
    "'w wire_scheme \<Rightarrow> 'e env_scheme \<Rightarrow> session_run \<Rightarrow> settings \<Rightarrow> int list \<Rightarrow> execution_keys \<Rightarrow> pending_row \<Rightarrow> FillResult \<Rightarrow> office
     \<Rightarrow> (office \<times> string) outcome" where
  "follow_parent w e run st refusals keys row result of1 = (case contingent_quantity (o_desk of1) (pr_contingent row) of
     ParentFailed \<Rightarrow> stop row ''rejected'' (Some ''contingent_not_filled'') (sx_now run) ''rejected'' of1
   | ParentPending \<Rightarrow>
       if parent_later keys row then stop row ''rejected'' (Some ''contingent_parent_later'') (sx_now run) ''rejected'' of1
       else Inr (on_desk (missing_bar (pr_order row) (pr_reason row) (sx_now run)) of1, ''pending'')
   | Independent \<Rightarrow> trade_order w e run st refusals row result (pr_qty row) of1
   | ParentFilled q \<Rightarrow> trade_order w e run st refusals row result (fmin (pr_qty row) q) of1)"

definition settle_order ::
    "'w wire_scheme \<Rightarrow> 'e env_scheme \<Rightarrow> session_run \<Rightarrow> settings \<Rightarrow> int list \<Rightarrow> execution_keys \<Rightarrow> pending_row \<Rightarrow> FillResult \<Rightarrow> office
     \<Rightarrow> (office \<times> string) outcome" where
  "settle_order w e run st refusals keys row result of1 = (case malformed row of
     Some refusal \<Rightarrow> stop row ''rejected'' (Some refusal) (sx_now run) ''rejected'' of1
   | None \<Rightarrow>
     if pr_kind row \<notin> {''stock'', ''etf''} then stop row ''rejected'' (Some ''instrument_not_executable'') (sx_now run) ''rejected'' of1
     else if account_status st \<in> {''halted'', ''retiring''} \<and> \<not> is_forced row
     then stop row ''cancelled'' (Some (account_status st)) (sx_now run) ''rejected'' of1
     else follow_parent w e run st refusals keys row result of1)"

section \<open>The mark of an account\<close>

definition mark_step ::
    "'e env_scheme \<Rightarrow> string \<Rightarrow> date \<Rightarrow> string \<Rightarrow> datetime \<Rightarrow> desk \<times> float64 \<times> string list \<times> (string \<times> float64) list \<Rightarrow> position
     \<Rightarrow> (desk \<times> float64 \<times> string list \<times> (string \<times> float64) list) outcome" where
  "mark_step e pid day source now acc p = (case acc of (dk, mkt, carried, marks) \<Rightarrow>
     bindE (mark e (d_store dk) pid (pos_ticker p) day (Some source) None (Some (Aware now 0))) (\<lambda>m.
     let dk1 = (if mk_stale m
                then note_event pid ''stale_mark'' (StaleMark (pos_ticker p) day source (mk_price m) (mk_observed_at m)) now dk else dk)
     in Inr (dk1, fadd mkt (fmul (pos_qty p) (mk_price m)), if mk_stale m then carried @ [pos_ticker p] else carried,
             marks @ [(pos_ticker p, mk_price m)])))"

definition mark_account ::
    "'e env_scheme \<Rightarrow> office \<Rightarrow> string \<Rightarrow> date \<Rightarrow> string \<Rightarrow> datetime \<Rightarrow> (office \<times> float64 \<times> float64 \<times> string list) outcome" where
  "mark_account e of1 pid day source now =
     bindE (get_cash (office_book of1) pid) (\<lambda>cash.
     let held = get_positions (office_book of1) pid in
     bindE (foldE (mark_step e pid day source now) (o_desk of1, Fin 0, [], []) held) (\<lambda>(dk, mkt, carried, marks).
     let equity = fadd cash mkt;
         dk1 = dk\<lparr>d_store := put_equity (d_store dk)
                 \<lparr>eq_portfolio = pid, eq_date = day, eq_equity = equity, eq_cash = cash, eq_positions = int (length held)\<rparr>\<rparr>;
         of2 = record_event (of1\<lparr>o_desk := dk1\<rparr>) pid ''equity_checkpoint'' (EquityCheckpoint day marks) now
     in Inr (of2, equity, cash, sort carried)))"

end
