(* ===== verification/Delisting.thy ===== *)
theory Delisting
  imports Session
begin

text \<open>
  Settlement terms and the delisting close-out (\<open>src/sim/settle.py\<close>): the validation of terms against the stored bars, the
  books they concern, the evidence that a held name is delisted (the exchange directory dropped it and it has printed no
  traded bar for five sessions), the terms booked for it, and the plan of every book. The notes of the terms and the
  fields of a plan that only the command line prints are left out.
\<close>

section \<open>Terms\<close>

definition KINDS :: "string list" where "KINDS = [''cash'', ''worthless'', ''stock'']"
definition DELISTED_AFTER_SESSIONS :: nat where "DELISTED_AFTER_SESSIONS = 5"
definition AUTO_SOURCE_PREFIX :: string where "AUTO_SOURCE_PREFIX = ''delisting close-out:''"

record Terms =
  tm_ticker :: string
  tm_kind :: string
  tm_effective :: date
  tm_source :: string
  tm_price :: float64
  tm_into :: "string option"
  tm_ratio :: "float64 option"
  tm_portfolios :: "string list option"

record BookPlan =
  bp_portfolio :: string
  bp_qty :: float64
  bp_pending :: "int list"

text \<open>The dates of the traded bars of a name that a \<open>prices\<close> query selects.\<close>

definition traded_dates :: "store \<Rightarrow> string \<Rightarrow> (date \<Rightarrow> bool) \<Rightarrow> date list" where
  "traded_dates st ticker P = map dr_date (filter (\<lambda>r. dr_ticker r = ticker \<and> P (dr_date r) \<and> trusted_bar_sql (dr_bar r)) (d_rows (prices (market st))))"

definition validate :: "store \<Rightarrow> Terms \<Rightarrow> unit outcome" where
  "validate st t =
     (let no_acquirer = (case tm_into t of None \<Rightarrow> True | Some s \<Rightarrow> s = []) in
      bindE (numeric_terms (tm_kind t) (tm_price t) (tm_ratio t)) (\<lambda>_.
      bindE (raise_if (tm_kind t \<notin> set KINDS) SettlementRefused) (\<lambda>_.
      bindE (raise_if (strip (tm_source t) = []) SettlementRefused) (\<lambda>_.
      bindE (raise_if (tm_kind t = ''worthless'' \<and> tm_price t \<noteq> Fin 0) SettlementRefused) (\<lambda>_.
      bindE (raise_if (tm_kind t = ''cash'' \<and> \<not> flt (Fin 0) (tm_price t)) SettlementRefused) (\<lambda>_.
      bindE (raise_if (flt (tm_price t) (Fin 0)) SettlementRefused) (\<lambda>_.
      bindE (if tm_kind t = ''stock''
             then bindE (raise_if (no_acquirer \<or> (case tm_ratio t of None \<Rightarrow> True | Some r \<Rightarrow> \<not> flt (Fin 0) r)) SettlementRefused) (\<lambda>_.
                  bindE (raise_if (tm_into t = Some (tm_ticker t)) SettlementRefused) (\<lambda>_.
                  raise_if (traded_dates st (coalesce (tm_into t) []) (\<lambda>d. tm_effective t \<le> d) = []) SettlementRefused))
             else raise_if (\<not> no_acquirer \<or> tm_ratio t \<noteq> None) SettlementRefused) (\<lambda>_.
      raise_if (traded_dates st (tm_ticker t) (\<lambda>d. tm_effective t \<le> d) \<noteq> []) SettlementRefused))))))))"

definition is_active :: "book \<Rightarrow> string \<Rightarrow> bool" where
  "is_active bk pid = (case portfolio_row_of bk pid of Some p \<Rightarrow> pf_active p | None \<Rightarrow> False)"

definition holders :: "book \<Rightarrow> Terms \<Rightarrow> position list outcome" where
  "holders bk t =
     (let rows = sort_key pos_portfolio (filter (\<lambda>r. pos_ticker r = tm_ticker t \<and> pos_qty r \<noteq> Fin 0 \<and> is_active bk (pos_portfolio r)) (sim_positions bk));
          wanted = (\<lambda>r. case tm_portfolios t of None \<Rightarrow> True | Some want \<Rightarrow> pos_portfolio r \<in> set want) in
      bindE (raise_if (case tm_portfolios t of None \<Rightarrow> False | Some want \<Rightarrow> \<not> set want \<subseteq> set (map pos_portfolio rows)) SettlementRefused) (\<lambda>_.
      bindE (raise_if (filter wanted rows = []) SettlementRefused) (\<lambda>_. Inr (filter wanted rows))))"

definition pending_of :: "desk \<Rightarrow> string \<Rightarrow> string \<Rightarrow> int list" where
  "pending_of dk pid ticker = sort (map ord_id (filter (\<lambda>r. ord_portfolio r = pid \<and> ord_ticker r = ticker \<and> ord_status r = ''pending'') (sim_orders dk)))"

definition plan_book :: "desk \<Rightarrow> Terms \<Rightarrow> position \<Rightarrow> BookPlan outcome" where
  "plan_book dk t p =
     bindE (check_application (desk_book dk) (pos_portfolio p) (tm_ticker t) (tm_kind t) (pos_qty p) (tm_price t) (tm_into t) (tm_ratio t)) (\<lambda>_.
     Inr \<lparr>bp_portfolio = pos_portfolio p, bp_qty = pos_qty p, bp_pending = pending_of dk (pos_portfolio p) (tm_ticker t)\<rparr>)"

definition plan_settlement :: "desk \<Rightarrow> Terms \<Rightarrow> BookPlan list outcome" where
  "plan_settlement dk t =
     bindE (validate (d_store dk) t) (\<lambda>_. bindE (holders (desk_book dk) t) (mapE (plan_book dk t)))"

section \<open>Delistings\<close>

record Delisting =
  dx_ticker :: string
  dx_last_traded :: date
  dx_close :: float64
  dx_dropped_on :: date
  dx_silent :: nat

definition delisting_effective :: "Delisting \<Rightarrow> date" where
  "delisting_effective x = next_session (dx_last_traded x)"

text \<open>The loop over the sessions from \<open>day\<close> through the check date.\<close>

function silent_from :: "date \<Rightarrow> date \<Rightarrow> nat" where
  "silent_from day d = (if day \<le> d then Suc (silent_from (next_session day) d) else 0)"
  by pat_completeness auto

termination silent_from
proof (relation "measure (\<lambda>(day, d). nat (d - day + 1))")
  fix day d :: date
  assume "day \<le> d"
  then show "((next_session day, d), (day, d)) \<in> measure (\<lambda>(day, d). nat (d - day + 1))"
    using next_session_spec(2) [of day] by simp
qed simp

declare silent_from.simps [simp del]

definition latest_date :: "date list \<Rightarrow> date option" where
  "latest_date ds = (case ds of [] \<Rightarrow> None | x # xs \<Rightarrow> Some (fold max xs x))"

definition earliest_date :: "date list \<Rightarrow> date option" where
  "earliest_date ds = (case ds of [] \<Rightarrow> None | x # xs \<Rightarrow> Some (fold min xs x))"

text \<open>The start of the current omission from the directory: the first inactive snapshot after the last active one, when
  the latest snapshot is later than that.\<close>

definition dropped_on :: "liquidity_row list \<Rightarrow> date \<Rightarrow> string \<Rightarrow> date option" where
  "dropped_on rows d ticker =
     (let snap = filter (\<lambda>r. lq_ticker r = ticker \<and> lq_snapshot r \<le> d) rows;
          listed = latest_date (map lq_snapshot (filter lq_active snap));
          latest = latest_date (map lq_snapshot snap);
          omitted = filter (\<lambda>r. \<not> lq_active r \<and> coalesce listed (ymd 1 1 1) < lq_snapshot r) snap
      in if (case (listed, latest) of (Some a, Some b) \<Rightarrow> a < b | _ \<Rightarrow> True) then earliest_date (map lq_snapshot omitted) else None)"

definition delisting_of :: "liquidity_row list \<Rightarrow> store \<Rightarrow> date \<Rightarrow> string \<Rightarrow> Delisting list" where
  "delisting_of rows st d ticker = (case (dropped_on rows d ticker, latest_date (traded_dates st ticker (\<lambda>x. x \<le> d))) of
     (Some dropped, Some last_traded) \<Rightarrow>
       if dropped < last_traded then []
       else List.map_filter (\<lambda>r.
         let silent = silent_from (next_session last_traded) d in
         case cell_float (b_close (dr_bar r)) of
           Some close \<Rightarrow> if DELISTED_AFTER_SESSIONS \<le> silent \<and> flt (Fin 0) close
             then Some \<lparr>dx_ticker = ticker, dx_last_traded = last_traded, dx_close = close, dx_dropped_on = dropped, dx_silent = silent\<rparr> else None
         | None \<Rightarrow> None) (filter (\<lambda>r. dr_ticker r = ticker \<and> dr_date r = last_traded) (d_rows (prices (market st))))
   | _ \<Rightarrow> [])"

definition delistings :: "liquidity_row list option \<Rightarrow> store \<Rightarrow> date \<Rightarrow> string list \<Rightarrow> Delisting list" where
  "delistings snapshots st d tickers = (case snapshots of
     None \<Rightarrow> []
   | Some rows \<Rightarrow>
       if \<not> (\<exists>r\<in>set rows. lq_ticker r \<in> set tickers \<and> lq_snapshot r \<le> d \<and> \<not> lq_active r) then []
       else concat (map (delisting_of rows st d) (sort (remdups tickers))))"

section \<open>Terms of a delisting\<close>

definition iso_text :: "date \<Rightarrow> string" where
  "iso_text d = padded 4 (year_of d) @ ''-'' @ padded 2 (month_of d) @ ''-'' @ padded 2 (day_of d)"

definition sourced_terms :: "book \<Rightarrow> Delisting \<Rightarrow> settlement_row option" where
  "sourced_terms bk x = first_by (\<lambda>a b. st_created b < st_created a)
     (filter (\<lambda>r. st_ticker r = dx_ticker x \<and> dx_last_traded x < st_effective r \<and> take (length AUTO_SOURCE_PREFIX) (st_source r) \<noteq> AUTO_SOURCE_PREFIX)
        (sim_settlements bk))"

definition terms_of :: "book \<Rightarrow> date \<Rightarrow> Delisting \<Rightarrow> Terms" where
  "terms_of bk d x = (case sourced_terms bk x of
     Some r \<Rightarrow> \<lparr>tm_ticker = dx_ticker x, tm_kind = st_kind r, tm_effective = st_effective r, tm_source = st_source r, tm_price = st_price r,
       tm_into = st_into r, tm_ratio = st_ratio r, tm_portfolios = None\<rparr>
   | None \<Rightarrow> \<lparr>tm_ticker = dx_ticker x, tm_kind = ''cash'', tm_effective = delisting_effective x,
       tm_source = AUTO_SOURCE_PREFIX @ '' dropped from the exchange directory from '' @ iso_text (dx_dropped_on x) @ ''; last traded '' @
         iso_text (dx_last_traded x) @ '', no traded bar in the '' @ str_nat (dx_silent x) @ '' sessions through '' @ iso_text d,
       tm_price = dx_close x, tm_into = None, tm_ratio = None, tm_portfolios = None\<rparr>)"

definition held_names :: "book \<Rightarrow> string list \<Rightarrow> (string \<times> string) list" where
  "held_names bk ids = sort (map (\<lambda>r. (pos_ticker r, pos_portfolio r)) (filter (\<lambda>r. is_active bk (pos_portfolio r) \<and> pos_qty r \<noteq> Fin 0 \<and> pos_portfolio r \<in> set ids)
     (sim_positions bk)))"

definition delisting_terms :: "liquidity_row list option \<Rightarrow> store \<Rightarrow> date \<Rightarrow> string list \<Rightarrow> Terms list" where
  "delisting_terms snapshots st d ids =
     (let bk = ledger st; held = held_names bk ids in
      if ids = [] then []
      else List.map_filter (\<lambda>x.
        let t = terms_of bk d x;
            booked = map st_portfolio (filter (\<lambda>r. st_ticker r = tm_ticker t \<and> st_effective r = tm_effective t) (sim_settlements bk));
            books = filter (\<lambda>pid. pid \<notin> set booked) (map snd (filter (\<lambda>h. fst h = dx_ticker x) held))
        in if books = [] then None else Some (t\<lparr>tm_portfolios := Some books\<rparr>))
        (delistings snapshots st d (map fst held)))"

section \<open>Laws\<close>

lemma latest_date_Some:
  assumes "latest_date ds = Some m"
  shows "m \<in> set ds" "x \<in> set ds \<Longrightarrow> x \<le> m"
proof -
  obtain y ys where ds: "ds = y # ys" "m = fold max ys y" using assms by (cases ds) (auto simp: latest_date_def)
  then have m: "m = Max (set ds)" using Max.set_eq_fold [of y ys] by simp
  show "m \<in> set ds" unfolding m by (rule Max_in) (use ds(1) in auto)
  show "x \<in> set ds \<Longrightarrow> x \<le> m" unfolding m by (rule Max_ge) auto
qed

lemma latest_date_None: "latest_date ds = None \<longleftrightarrow> ds = []"
  by (cases ds) (simp_all add: latest_date_def)

lemma earliest_date_Some: "earliest_date ds = Some m \<Longrightarrow> m \<in> set ds"
proof (cases ds)
  case (Cons x xs)
  assume "earliest_date ds = Some m"
  then have "m = Min (set ds)" using Cons Min.set_eq_fold [of x xs] by (simp add: earliest_date_def)
  then show ?thesis using Min_in [of "set ds"] Cons by simp
qed (simp add: earliest_date_def)

lemma session_gap: "is_session s \<Longrightarrow> a < s \<Longrightarrow> next_session a \<le> s"
  using next_session_spec(3) [of a s] by fastforce

lemma silent_from_counts: "is_session day \<Longrightarrow> silent_from day d = card {s. is_session s \<and> day \<le> s \<and> s \<le> d}"
proof (induction day d rule: silent_from.induct)
  case (1 day d)
  show ?case
  proof (cases "day \<le> d")
    case True
    let ?later = "{s. is_session s \<and> next_session day \<le> s \<and> s \<le> d}"
    have fin: "finite ?later" by (rule finite_subset [of _ "{next_session day..d}"]) auto
    have "{s. is_session s \<and> day \<le> s \<and> s \<le> d} = insert day ?later"
      using "1.prems" True session_gap [of _ day] next_session_spec(2) [of day] by fastforce
    moreover have "day \<notin> ?later" using next_session_spec(2) [of day] by auto
    ultimately show ?thesis
      using "1.IH" [OF True] next_session_spec(1) fin True by (subst silent_from.simps) simp
  next
    case False
    then have "{s. is_session s \<and> day \<le> s \<and> s \<le> d} = {}" by auto
    then show ?thesis using False by (subst silent_from.simps) simp
  qed
qed

lemma silent_sessions: "silent_from (next_session a) d = card {s. is_session s \<and> a < s \<and> s \<le> d}"
proof -
  have "{s. is_session s \<and> next_session a \<le> s \<and> s \<le> d} = {s. is_session s \<and> a < s \<and> s \<le> d}"
    using session_gap [of _ a] next_session_spec(2) [of a] by fastforce
  then show ?thesis using silent_from_counts [OF next_session_spec(1), of a d] by simp
qed

lemma dropped_on_Some:
  assumes "dropped_on rows d ticker = Some x"
  shows "\<exists>r\<in>set rows. lq_ticker r = ticker \<and> lq_snapshot r = x \<and> x \<le> d \<and> \<not> lq_active r"
    and "r \<in> set rows \<Longrightarrow> lq_ticker r = ticker \<Longrightarrow> lq_snapshot r \<le> d \<Longrightarrow> lq_active r \<Longrightarrow> lq_snapshot r < x"
proof -
  let ?snap = "filter (\<lambda>r. lq_ticker r = ticker \<and> lq_snapshot r \<le> d) rows"
  let ?listed = "latest_date (map lq_snapshot (filter lq_active ?snap))"
  have e: "earliest_date (map lq_snapshot (filter (\<lambda>r. \<not> lq_active r \<and> coalesce ?listed (ymd 1 1 1) < lq_snapshot r) ?snap)) = Some x"
    using assms by (simp add: dropped_on_def Let_def split: if_splits)
  from earliest_date_Some [OF this] obtain r0 where r0: "r0 \<in> set rows" "lq_ticker r0 = ticker" "lq_snapshot r0 \<le> d" "\<not> lq_active r0"
    "coalesce ?listed (ymd 1 1 1) < lq_snapshot r0" "lq_snapshot r0 = x" by auto
  then show "\<exists>r\<in>set rows. lq_ticker r = ticker \<and> lq_snapshot r = x \<and> x \<le> d \<and> \<not> lq_active r" by auto
  assume r: "r \<in> set rows" "lq_ticker r = ticker" "lq_snapshot r \<le> d" "lq_active r"
  then obtain m where m: "?listed = Some m" using latest_date_None by (cases ?listed) (auto simp: filter_empty_conv)
  have "lq_snapshot r \<le> m" by (rule latest_date_Some(2) [OF m]) (use r in auto)
  then show "lq_snapshot r < x" using r0(5,6) m by (simp add: coalesce_def)
qed

lemma delistings_member:
  assumes "x \<in> set (delistings snapshots st d tickers)"
  obtains rows r where "snapshots = Some rows" "dx_ticker x \<in> set tickers" "dropped_on rows d (dx_ticker x) = Some (dx_dropped_on x)"
    "latest_date (traded_dates st (dx_ticker x) (\<lambda>y. y \<le> d)) = Some (dx_last_traded x)" "dx_last_traded x \<le> dx_dropped_on x"
    "r \<in> set (d_rows (prices (market st)))" "dr_ticker r = dx_ticker x" "dr_date r = dx_last_traded x"
    "cell_float (b_close (dr_bar r)) = Some (dx_close x)" "flt (Fin 0) (dx_close x)" "DELISTED_AFTER_SESSIONS \<le> dx_silent x"
    "dx_silent x = silent_from (next_session (dx_last_traded x)) d"
proof -
  obtain rows t where t: "snapshots = Some rows" "t \<in> set tickers" "x \<in> set (delisting_of rows st d t)"
    using assms by (auto simp: delistings_def split: option.splits if_splits)
  show ?thesis
    using t that by (auto simp: delisting_of_def in_map_filter Let_def not_less split: option.splits if_splits)
qed

text \<open>C24: A name is closed out only on evidence. Every delisting that \<open>delistings\<close> finds on a day is of a held name whose last
  traded bar up to that day is the reported one, with at least five sessions after it and none of them traded; the close-out
  price is the positive close stored for that session; and the exchange directory omits the name from a snapshot that is
  not before the last traded session and follows every snapshot up to the day that lists it.\<close>

theorem delisting_evidence:
  assumes "x \<in> set (delistings (Some rows) st d tickers)"
  shows "dx_ticker x \<in> set tickers \<and> dx_last_traded x \<in> set (traded_dates st (dx_ticker x) (\<lambda>y. y \<le> d)) \<and>
    (\<forall>y\<in>set (traded_dates st (dx_ticker x) (\<lambda>y. y \<le> d)). y \<le> dx_last_traded x) \<and>
    5 \<le> card {s. is_session s \<and> dx_last_traded x < s \<and> s \<le> d} \<and>
    (\<exists>r\<in>set (d_rows (prices (market st))). dr_ticker r = dx_ticker x \<and> dr_date r = dx_last_traded x \<and>
       cell_float (b_close (dr_bar r)) = Some (dx_close x)) \<and> flt (Fin 0) (dx_close x) \<and>
    dx_last_traded x \<le> dx_dropped_on x \<and>
    (\<exists>r\<in>set rows. lq_ticker r = dx_ticker x \<and> lq_snapshot r = dx_dropped_on x \<and> dx_dropped_on x \<le> d \<and> \<not> lq_active r) \<and>
    (\<forall>r\<in>set rows. lq_ticker r = dx_ticker x \<and> lq_snapshot r \<le> d \<and> lq_active r \<longrightarrow> lq_snapshot r < dx_dropped_on x)"
  using assms
proof (rule delistings_member)
  fix rows' r
  assume a: "Some rows = Some rows'" "dx_ticker x \<in> set tickers" "dropped_on rows' d (dx_ticker x) = Some (dx_dropped_on x)"
    "latest_date (traded_dates st (dx_ticker x) (\<lambda>y. y \<le> d)) = Some (dx_last_traded x)" "dx_last_traded x \<le> dx_dropped_on x"
    "r \<in> set (d_rows (prices (market st)))" "dr_ticker r = dx_ticker x" "dr_date r = dx_last_traded x"
    "cell_float (b_close (dr_bar r)) = Some (dx_close x)" "flt (Fin 0) (dx_close x)" "DELISTED_AFTER_SESSIONS \<le> dx_silent x"
    "dx_silent x = silent_from (next_session (dx_last_traded x)) d"
  have d: "dropped_on rows d (dx_ticker x) = Some (dx_dropped_on x)" using a(1,3) by simp
  have "5 \<le> card {s. is_session s \<and> dx_last_traded x < s \<and> s \<le> d}"
    using a(11,12) by (simp add: DELISTED_AFTER_SESSIONS_def silent_sessions)
  then show ?thesis
    using a(2,5-10) latest_date_Some [OF a(4)] dropped_on_Some [OF d] by blast
qed

text \<open>A delisting is detected from what was known by its day: snapshots of the directory and bars dated later cannot change
  what \<open>delistings\<close> finds.\<close>

theorem delistings_point_in_time:
  "delistings (Some rows) st d tickers = delistings (Some (filter (\<lambda>r. lq_snapshot r \<le> d) rows))
     (st\<lparr>market := (market st)\<lparr>prices := (prices (market st))\<lparr>d_rows := filter (\<lambda>r. dr_date r \<le> d) (d_rows (prices (market st)))\<rparr>\<rparr>\<rparr>) d tickers"
  (is "_ = delistings (Some ?rows) ?st d tickers")
proof -
  have dropped: "dropped_on ?rows d t = dropped_on rows d t" for t
    by (simp add: dropped_on_def conj_commute conj_left_commute cong: conj_cong)
  have traded: "traded_dates ?st t (\<lambda>x. x \<le> d) = traded_dates st t (\<lambda>x. x \<le> d)" for t
    by (simp add: traded_dates_def conj_commute conj_left_commute cong: conj_cong)
  have same: "filter (\<lambda>r. dr_ticker r = t \<and> dr_date r = m) (filter (\<lambda>r. dr_date r \<le> d) xs) = filter (\<lambda>r. dr_ticker r = t \<and> dr_date r = m) xs"
    if "latest_date (traded_dates st t (\<lambda>x. x \<le> d)) = Some m" for t m and xs :: "daily_row list"
  proof -
    have "m \<le> d" using latest_date_Some(1) [OF that] by (auto simp: traded_dates_def)
    then show ?thesis by (auto intro!: filter_cong)
  qed
  have f: "delisting_of ?rows ?st d = delisting_of rows st d"
    unfolding delisting_of_def dropped traded by (rule ext) (auto simp del: filter_filter simp: same split: option.split)
  have c: "(\<exists>r\<in>set ?rows. lq_ticker r \<in> set tickers \<and> lq_snapshot r \<le> d \<and> \<not> lq_active r) \<longleftrightarrow>
      (\<exists>r\<in>set rows. lq_ticker r \<in> set tickers \<and> lq_snapshot r \<le> d \<and> \<not> lq_active r)" by auto
  show ?thesis unfolding delistings_def option.case c f ..
qed

section \<open>Witnesses\<close>

text \<open>The directory omits SPY from 9 October 2026 on; by the end of the month it is delisted.\<close>

definition example_omission :: "liquidity_row list" where
  "example_omission = [\<lparr>lq_ticker = ''SPY'', lq_snapshot = ymd 2026 10 5, lq_liquid = True, lq_active = True\<rparr>,
     \<lparr>lq_ticker = ''SPY'', lq_snapshot = ymd 2026 10 9, lq_liquid = False, lq_active = False\<rparr>]"

theorem delisting_evidence_witness:
  "\<exists>x. x \<in> set (delistings (Some example_omission) example_store (ymd 2026 10 30) [''SPY'']) \<and>
     5 \<le> card {s. is_session s \<and> dx_last_traded x < s \<and> s \<le> ymd 2026 10 30} \<and> flt (Fin 0) (dx_close x)"
proof -
  have "delistings (Some example_omission) example_store (ymd 2026 10 30) [''SPY''] \<noteq> []" by code_simp
  then obtain x where x: "x \<in> set (delistings (Some example_omission) example_store (ymd 2026 10 30) [''SPY''])"
    by (metis list.set_sel(1))
  then show ?thesis using delisting_evidence [OF x] by blast
qed

end
