(* ===== verification/AccountDay.thy ===== *)
theory AccountDay
  imports Delisting
begin

text \<open>
  The day of an account (\<open>src/engine/accounts/settle.py\<close>, \<open>src/engine/accounts/actions.py\<close>): splits are captured, the account is
  reset and folded from its inception (recorded events and new executions of every session in effective-time order, then the
  mark), verified before and after, checked against its limits and, when flat, retired. \<open>settle_session\<close> folds every account
  and halts one that fails; \<open>settle\<close> and \<open>close_out_delisted\<close> (\<open>src/sim/settle.py\<close>) book settlements, and the concentration
  alerts (\<open>src/engine/money/alerts.py\<close>) compare the accounts. A run that fails returns the evidence of its failure (a diverged
  verification, or the exception) and no state: the transaction rolls back. The discretionary tickets and the audit
  log are other components' tables and are left out.
\<close>

section \<open>Attempts\<close>

type_synonym 'a attempt = "verdict + 'a"

definition bindV :: "'a attempt \<Rightarrow> ('a \<Rightarrow> 'b attempt) \<Rightarrow> 'b attempt" where
  "bindV m f = (case m of Inl v \<Rightarrow> Inl v | Inr x \<Rightarrow> f x)"

definition raised :: "'a outcome \<Rightarrow> 'a attempt" where
  "raised m = (case m of Inl x \<Rightarrow> Inl (Raised x) | Inr v \<Rightarrow> Inr v)"

primrec foldV :: "('s \<Rightarrow> 'x \<Rightarrow> 's attempt) \<Rightarrow> 's \<Rightarrow> 'x list \<Rightarrow> 's attempt" where
  "foldV f s [] = Inr s"
| "foldV f s (x # xs) = bindV (f s x) (\<lambda>s'. foldV f s' xs)"

text \<open>\<open>require_verified\<close> inside a transaction: nothing is stored, the evidence is raised.\<close>

definition require_verified :: "'e env_scheme \<Rightarrow> office \<Rightarrow> string \<Rightarrow> datetime \<Rightarrow> unit attempt" where
  "require_verified e of1 pid now =
     bindV (raised (office_account of1 pid)) (\<lambda>_.
     bindV (raised (verify_run e (o_desk of1) pid None now)) (\<lambda>(expected, actual).
     if states_match expected actual then Inr () else Inl (Diverged expected actual)))"

section \<open>Corporate actions\<close>

definition known_by :: "datetime \<Rightarrow> corporate_action \<Rightarrow> bool" where
  "known_by now a = (case ca_fetched_at a of None \<Rightarrow> True | Some f \<Rightarrow> f \<le> now)"

text \<open>A captured split is an account event; the ledger reads it back as a split of the account.\<close>

definition record_split :: "string \<Rightarrow> datetime \<Rightarrow> string \<times> date \<times> float64 \<Rightarrow> desk \<Rightarrow> desk" where
  "record_split pid now s dk = (case s of (ticker, ex, ratio) \<Rightarrow> (case account_events dk of
     None \<Rightarrow> dk
   | Some evs \<Rightarrow> if \<exists>v\<in>set evs. ae_portfolio v = pid \<and> ae_kind v = ''split'' \<and> ae_payload v = SplitNote ticker ex ratio then dk
       else (note_event pid ''split'' (SplitNote ticker ex ratio) now dk)\<lparr>d_store := (d_store dk)\<lparr>ledger := (desk_book dk)\<lparr>sim_splits :=
              sim_splits (desk_book dk) @ [\<lparr>sp_portfolio = Some pid, sp_ticker = ticker, sp_ex_date = ex, sp_ratio = ratio\<rparr>]\<rparr>\<rparr>\<rparr>))"

definition account_tickers :: "desk \<Rightarrow> string \<Rightarrow> string list" where
  "account_tickers dk pid = map fl_ticker (filter (\<lambda>f. fl_portfolio f = pid) (sim_fills (desk_book dk))) @
     map ord_ticker (filter (\<lambda>r. ord_portfolio r = pid) (sim_orders dk))"

definition captured_splits :: "desk \<Rightarrow> string \<Rightarrow> date \<Rightarrow> datetime \<Rightarrow> (string \<times> date \<times> float64) list" where
  "captured_splits dk pid day now = (case corporate_actions (d_store dk) of
     None \<Rightarrow> []
   | Some actions \<Rightarrow> sort_key (\<lambda>(t, ex, _). (ex, t)) (List.map_filter (\<lambda>a. case ca_value a of
       Some v \<Rightarrow> if ca_kind a = ''split'' \<and> ca_ex_date a \<le> day \<and> flt (Fin 0) v \<and> isfinite v \<and> known_by now a \<and>
            ca_ticker a \<in> set (account_tickers dk pid) then Some (ca_ticker a, ca_ex_date a, v) else None
     | None \<Rightarrow> None) actions))"

definition capture_splits :: "string \<Rightarrow> date \<Rightarrow> datetime \<Rightarrow> desk \<Rightarrow> desk" where
  "capture_splits pid day now dk =
     (let applied = map (\<lambda>s. (sp_ticker s, sp_ex_date s)) (recorded_splits (desk_book dk) pid None) in
      fold (record_split pid now) (filter (\<lambda>(t, ex, _). (t, ex) \<notin> set applied) (captured_splits dk pid day now)) dk)"

text \<open>The entitlement of one dividend: quantity, amount and the cash planned so far.\<close>

definition entitlement_step ::
    "ledger_state \<Rightarrow> float64 \<times> (string \<times> float64 \<times> float64 \<times> float64) list \<Rightarrow> corporate_action
     \<Rightarrow> (float64 \<times> (string \<times> float64 \<times> float64 \<times> float64) list) outcome" where
  "entitlement_step s acc a =
     (let qty = position_qty s (ca_ticker a); dps = coalesce (ca_value a) (Fin 0) in
      bindE (finite_number (PFloat (fmul qty dps)) ''dividend amount'' False False) (\<lambda>amount.
      bindE (finite_number (PFloat (fadd (fst acc) amount)) ''cash after dividend'' False False) (\<lambda>planned.
      Inr (planned, snd acc @ [(ca_ticker a, dps, qty, amount)]))))"

definition CORRECTION :: string where "CORRECTION = ''historical dividend entitlement correction''"

definition pay_entitlement ::
    "'e env_scheme \<Rightarrow> datetime \<Rightarrow> string \<Rightarrow> date \<Rightarrow> book \<Rightarrow> string \<times> float64 \<times> float64 \<times> float64 \<Rightarrow> book outcome" where
  "pay_entitlement e clock pid day bk payment = (case payment of (ticker, dps, qty, amount) \<Rightarrow>
     (case find (\<lambda>r. dv_portfolio r = pid \<and> dv_ticker r = ticker \<and> dv_ex_date r = day) (sim_dividends bk) of
        None \<Rightarrow> if qty = Fin 0 then Inr bk
          else book_dividend bk \<lparr>dv_portfolio = pid, dv_ticker = ticker, dv_ex_date = day, dv_qty = qty, dv_dps = dps, dv_amount = amount\<rparr>
      | Some old \<Rightarrow>
          (let corrections = map ce_amount (filter (\<lambda>r. ce_portfolio r = pid \<and> ce_date r = day \<and> ce_instrument r = Some ticker \<and>
                 ce_kind r = ''adjustment'' \<and> ce_note r = Some CORRECTION) (sim_cash_events bk));
               correction = (if corrections = [] then Fin 0 else sql_sum e corrections);
               delta = fsub (fsub amount (dv_amount old)) correction
           in if flt (lit (1 / 10 ^ 10)) (fabs delta)
              then bindE (apply_cash_event bk clock \<lparr>c_portfolio = pid, c_date = day, c_kind = ''adjustment'', c_amount = PFloat delta, c_seq = None,
                     c_instrument = Some ticker, c_ref_order = None, c_note = Some CORRECTION, c_created = Some (fst (session_bounds e day))\<rparr>) (\<lambda>(b, _). Inr b)
              else Inr bk)))"

definition account_dividends :: "'e env_scheme \<Rightarrow> datetime \<Rightarrow> string \<Rightarrow> date \<Rightarrow> datetime \<Rightarrow> store \<Rightarrow> store outcome" where
  "account_dividends e clock pid day now st = (case corporate_actions st of
     None \<Rightarrow> Inr st
   | Some actions \<Rightarrow>
       (let rows = filter (\<lambda>a. ca_kind a = ''dividend'' \<and> ca_ex_date a = day \<and> known_by now a) actions in
        if rows = [] then Inr st
        else
        bindE (mapE (\<lambda>a. finite_number (opt_float (ca_value a)) ''dividend per share'' True False) rows) (\<lambda>_.
        bindE (projected_state e (ledger st) pid (Some (day - 1)) None) (\<lambda>prefix. case prefix of
          None \<Rightarrow> Inl (TypeError ''prefix'')
        | Some s \<Rightarrow>
            bindE (foldE (entitlement_step s) (ls_cash s, []) rows) (\<lambda>(_, payments).
            bindE (foldE (pay_entitlement e clock pid day) (ledger st) payments) (\<lambda>bk.
            Inr (st\<lparr>ledger := bk\<rparr>)))))))"

section \<open>One session\<close>

text \<open>\<open>require_sources\<close> of \<open>src/engine/accounts/sources.py\<close>.\<close>

definition needed_sources :: "book \<Rightarrow> settings \<Rightarrow> string \<Rightarrow> pending_row list \<Rightarrow> string list" where
  "needed_sources bk st pid rows =
     (if account_price_source st = ''massive_daily''
      then ''account_daily'' # (if \<exists>r\<in>set rows. pr_order_type r \<in> {''market'', ''limit''} then [''account_minute''] else []) else []) @
     (if (\<exists>p\<in>set (sim_positions bk). pos_portfolio p = pid \<and> flt (pos_qty p) (Fin 0)) \<or> (\<exists>r\<in>set rows. pr_side r = ''short'')
      then [''account_short''] else [])"

definition require_sources :: "session_run \<Rightarrow> book \<Rightarrow> settings \<Rightarrow> string \<Rightarrow> pending_row list \<Rightarrow> unit outcome" where
  "require_sources run bk st pid rows = (case sx_source_errors run of
     None \<Rightarrow> Inr ()
   | Some errors \<Rightarrow> raise_if (\<exists>x\<in>set errors. fst x \<in> set (needed_sources bk st pid rows)) (RuntimeError ''source_unavailable''))"

definition prepare_attempt :: "'e env_scheme \<Rightarrow> session_run \<Rightarrow> desk \<Rightarrow> pending_row \<Rightarrow> (pending_row \<times> FillResult) outcome" where
  "prepare_attempt e run dk row0 =
     bindE (prepare_order e (d_store dk) row0 (sx_day run) (sx_now run)) (\<lambda>row.
     bindE (portfolio_account (desk_book dk) (pr_portfolio row)) (\<lambda>st.
     bindE (fill_attempt e (market (d_store dk)) row st (sx_day run) (sx_now run)) (\<lambda>result.
     Inr (row, result))))"

datatype day_item = Recorded LedgerEvent | CreditDividends | AccrueBorrow | AccrueInterest | Execute pending_row FillResult

type_synonym item_key = "datetime \<times> int \<times> string \<times> int \<times> string \<times> int"

definition is_accrual :: "LedgerEvent \<Rightarrow> bool" where
  "is_accrual ev = (case ev_body ev of CashBody r \<Rightarrow> ce_kind r \<in> {''borrow_fee'', ''margin_interest''} | _ \<Rightarrow> False)"

definition run_item ::
    "'w wire_scheme \<Rightarrow> 'e env_scheme \<Rightarrow> session_run \<Rightarrow> settings \<Rightarrow> string \<Rightarrow> int list \<Rightarrow> execution_keys \<Rightarrow> office \<times> string list \<Rightarrow> item_key \<times> day_item
     \<Rightarrow> (office \<times> string list) outcome" where
  "run_item w e run st pid refusals keys acc item = (case acc of (of1, counts) \<Rightarrow>
     let dk = o_desk of1; with_store = (\<lambda>s. (of1\<lparr>o_desk := dk\<lparr>d_store := s\<rparr>\<rparr>, counts)) in
     (case snd item of
        Recorded ev \<Rightarrow> bindE (apply_event e (office_book of1) ev) (\<lambda>bk. Inr (on_book (\<lambda>_. bk) of1, counts))
      | CreditDividends \<Rightarrow> bindE (account_dividends e (sx_clock run) pid (sx_day run) (sx_now run) (d_store dk)) (\<lambda>s. Inr (with_store s))
      | AccrueBorrow \<Rightarrow> bindE (accrue_borrow e (d_store dk) (sx_clock run) (sx_day run) None (Some pid) True) (\<lambda>(s, _, _). Inr (with_store s))
      | AccrueInterest \<Rightarrow> bindE (accrue_interest e (office_book of1) (sx_clock run) (sx_day run) None (Some pid) True)
                           (\<lambda>(bk, _, _). Inr (on_book (\<lambda>_. bk) of1, counts))
      | Execute row result \<Rightarrow> bindE (settle_order w e run st refusals keys row result of1) (\<lambda>(of2, s). Inr (of2, counts @ [s]))))"

definition day_items :: "'e tz_scheme \<Rightarrow> string \<Rightarrow> date \<Rightarrow> LedgerEvent list \<Rightarrow> execution_keys \<Rightarrow> (pending_row \<times> FillResult) list \<Rightarrow> (item_key \<times> day_item) list" where
  "day_items e pid day recorded keys local =
     (let opened = fst (session_bounds e day) in
      sort_key fst (map (\<lambda>ev. (ev_key ev, Recorded ev)) (filter (\<lambda>ev. \<not> is_accrual ev) recorded) @
        [((opened, 1, pid, 0, [], -1), CreditDividends), ((opened, 3, pid, 0, [], 0), AccrueBorrow), ((opened, -1, pid, 0, [], 1), AccrueInterest)] @
        map (\<lambda>(row, result). ((fst (coalesce (map_of keys (pr_order row)) (0, 0, 0)), 4, pid, 0, [], pr_order row), Execute row result)) local))"

definition fold_session ::
    "'w wire_scheme \<Rightarrow> 'e env_scheme \<Rightarrow> session_run \<Rightarrow> settings \<Rightarrow> string \<Rightarrow> office \<times> string list \<Rightarrow> (office \<times> string list) outcome" where
  "fold_session w e run st pid acc = (case acc of (of1, counts) \<Rightarrow>
     let dk = o_desk of1; day = sx_day run in
     bindE (mapE (prepare_attempt e run dk) (filter (\<lambda>row. due row day) (pending_rows dk))) (\<lambda>prepared.
     let keys = map (\<lambda>(row, result). (pr_order row, execution_key e row result day)) prepared;
         refusals = liquidity_refusals (office_book of1) day prepared;
         local = filter (\<lambda>(row, _). pr_portfolio row = pid) prepared in
     bindE (require_sources run (office_book of1) st pid (map fst local)) (\<lambda>_.
     bindE (events e (office_book of1) [pid] (Some day) (Some day)) (\<lambda>recorded.
     foldE (run_item w e run st pid refusals keys) (of1, counts) (day_items e pid day recorded keys local)))))"

section \<open>Concentration alerts\<close>

definition ACCOUNT_COUNT_THRESHOLD :: nat where "ACCOUNT_COUNT_THRESHOLD = 3"
definition MDV60_FRACTION :: float64 where "MDV60_FRACTION = lit (2 / 100)"

text \<open>The relation of a source with the price and dollar volume of a row; a missing table has no columns and no rows. SQL
  leaves the order of two rows of one date open, the model takes the stored one.\<close>

definition relation_of :: "market_db \<Rightarrow> string \<Rightarrow> daily_table" where
  "relation_of db source = (if source = ''massive_daily'' then free_daily_bars db else prices db)"

definition row_notional :: "string \<Rightarrow> daily_row \<Rightarrow> float64 option" where
  "row_notional source r =
     (let close = cell_float (b_close (dr_bar r));
          price = (if source = ''massive_daily'' then (case cell_float (dr_vwap r) of Some x \<Rightarrow> Some x | None \<Rightarrow> close) else close)
      in case (price, cell_float (b_volume (dr_bar r))) of (Some p, Some v) \<Rightarrow> Some (fmul p v) | _ \<Rightarrow> None)"

definition alert_close :: "market_db \<Rightarrow> string \<Rightarrow> date \<Rightarrow> string \<Rightarrow> float64 option" where
  "alert_close db ticker day source =
     Option.bind (first_by (\<lambda>a b. dr_date b < dr_date a) (filter (\<lambda>r. dr_ticker r = ticker \<and> dr_date r \<le> day) (d_rows (relation_of db source))))
       (\<lambda>r. cell_float (b_close (dr_bar r)))"

definition newest_first :: "daily_row list \<Rightarrow> daily_row list" where
  "newest_first rows = sort_key (\<lambda>r. - dr_date r) rows"

text \<open>\<open>sorted\<close> on floats: Python compares with \<open><\<close> only.\<close>

primrec insert_float :: "float64 \<Rightarrow> float64 list \<Rightarrow> float64 list" where
  "insert_float x [] = [x]"
| "insert_float x (y # ys) = (if flt x y then x # y # ys else y # insert_float x ys)"

definition sort_floats :: "float64 list \<Rightarrow> float64 list" where
  "sort_floats xs = fold insert_float xs []"

definition middle_of :: "float64 list \<Rightarrow> float64" where
  "middle_of values = (let m = length values div 2 in
     if odd (length values) then values ! m else fquot (fadd (values ! (m - 1)) (values ! m)) (Fin 2))"

definition mdv60 :: "market_db \<Rightarrow> string \<Rightarrow> date \<Rightarrow> string \<Rightarrow> float64 option" where
  "mdv60 db ticker day source =
     (let values = List.map_filter (row_notional source)
            (take 60 (newest_first (filter (\<lambda>r. dr_ticker r = ticker \<and> dr_date r < day \<and> row_notional source r \<noteq> None) (d_rows (relation_of db source)))))
      in if values = [] then None else Some (middle_of (sort_floats values)))"

definition already_alerted :: "desk \<Rightarrow> string \<Rightarrow> date \<Rightarrow> string \<Rightarrow> bool" where
  "already_alerted dk pid day ticker \<longleftrightarrow> (\<exists>v\<in>set (coalesce (account_events dk) []). ae_portfolio v = pid \<and> ae_kind v = ''alert'' \<and>
     (case ae_payload v of Alert d t _ _ _ _ \<Rightarrow> d = day \<and> t = ticker | _ \<Rightarrow> False))"

text \<open>The accounts that hold one name: the triggers and, for the selected accounts, the alert of the day.\<close>

definition alert_triggers :: "nat \<Rightarrow> float64 \<Rightarrow> float64 option \<Rightarrow> string list" where
  "alert_triggers count notional mdv = (if ACCOUNT_COUNT_THRESHOLD \<le> count then [''account_count''] else []) @
     (case mdv of Some m \<Rightarrow> if flt (fmul MDV60_FRACTION m) notional then [''mdv60_fraction''] else [] | None \<Rightarrow> [])"

definition alert_ticker :: "date \<Rightarrow> datetime \<Rightarrow> string option \<Rightarrow> string \<times> (string \<times> float64 \<times> string) list \<Rightarrow> office \<Rightarrow> office" where
  "alert_ticker day now selected entry of1 = (case entry of (ticker, holdings) \<Rightarrow>
     let db = market (d_store (o_desk of1));
         notional = py_sum (List.map_filter (\<lambda>(_, q, source). map_option (\<lambda>c. fabs (fmul q c)) (alert_close db ticker day source)) holdings);
         mdvs = List.map_filter (mdv60 db ticker day) (sort (remdups (map (snd \<circ> snd) holdings)));
         mdv = (case mdvs of [] \<Rightarrow> None | x # xs \<Rightarrow> Some (fold (\<lambda>y m. fmin m y) xs x));
         reasons = alert_triggers (length holdings) notional mdv
     in if reasons = [] then of1
        else fold (\<lambda>(pid, _, _) o1.
          if (case selected of Some s \<Rightarrow> pid \<noteq> s | None \<Rightarrow> False) \<or> already_alerted (o_desk o1) pid day ticker then o1
          else record_event o1 pid ''alert'' (Alert day ticker (length holdings) notional mdv reasons) now) holdings of1)"

definition account_holdings :: "book \<Rightarrow> (string \<times> settings) list \<Rightarrow> (string \<times> string \<times> float64 \<times> string) list" where
  "account_holdings bk accounts = concat (map (\<lambda>(pid, st).
     if account_status st \<notin> {''active'', ''halted''} then []
     else map (\<lambda>p. (pos_ticker p, pid, pos_qty p, account_price_source st)) (get_positions bk pid)) accounts)"

definition concentration :: "office \<Rightarrow> date \<Rightarrow> datetime \<Rightarrow> string option \<Rightarrow> office outcome" where
  "concentration of0 day now selected =
     (let of1 = init_schema of0; bk = office_book of1 in
      bindE (account_portfolios bk False) (\<lambda>accounts.
      let rows = account_holdings bk accounts; tickers = sort (remdups (map fst rows)) in
      Inr (fold (alert_ticker day now selected) (map (\<lambda>t. (t, map snd (filter (\<lambda>h. fst h = t) rows))) tickers) of1)))"

section \<open>The fold of an account\<close>

text \<open>One calendar day: a session is folded and, from the creation of the account on, marked.\<close>

definition fold_day ::
    "'w wire_scheme \<Rightarrow> 'e env_scheme \<Rightarrow> session_run \<Rightarrow> settings \<Rightarrow> string \<Rightarrow> date \<Rightarrow> date list \<Rightarrow> office \<times> string list \<times> string list \<Rightarrow> date
     \<Rightarrow> (office \<times> string list \<times> string list) outcome" where
  "fold_day w e run st pid created equity_days acc day = (case acc of (of1, counts, carried) \<Rightarrow>
     if \<not> is_session day then Inr acc
     else
     bindE (fold_session w e (run\<lparr>sx_day := day\<rparr>) st pid (of1, counts)) (\<lambda>(of2, counts').
     if day < created \<and> day \<notin> set equity_days then Inr (of2, counts', carried)
     else
     bindE (mark_account e of2 pid day (account_price_source st) (sx_now run)) (\<lambda>(of3, _, _, carried').
     let of4 = (if carried' = [] then on_desk (note_event pid ''late_reconciled'' (MarkedSession day) (sx_now run)) of3 else of3)
     in Inr (of4, counts', carried'))))"

definition fold_days ::
    "'w wire_scheme \<Rightarrow> 'e env_scheme \<Rightarrow> session_run \<Rightarrow> string \<Rightarrow> date \<Rightarrow> office \<Rightarrow> (office \<times> string list \<times> string list) outcome" where
  "fold_days w e run pid end0 of1 =
     (case portfolio_row_of (office_book of1) pid of
        None \<Rightarrow> Inl (TypeError ''NoneType'')
      | Some p \<Rightarrow>
      let created = pf_created p;
          equity_days = map eq_date (filter (\<lambda>r. eq_portfolio r = pid) (sim_equity (d_store (o_desk of1)))) in
      bindE (events e (office_book of1) [pid] None None) (\<lambda>evs.
      let event_days = map (\<lambda>ev. date_of (ev_stamp ev)) evs;
          finish = fold max (equity_days @ event_days) end0;
          start = fold min event_days created;
          of2 = on_desk (capture_splits pid finish (sx_now run)) of1 in
      bindE (rebuild_state e (office_book of2) (Some [pid]) (Some (start - 1))) (\<lambda>bk.
      let of3 = on_book (\<lambda>_. bk) of2 in
      bindE (portfolio_account (office_book of3) pid) (\<lambda>st.
      foldE (fold_day w e run st pid created equity_days) (of3, [], []) [start..finish]))))"

text \<open>The checks after the fold, for the latest marked close.\<close>

definition latest_marked :: "office \<Rightarrow> string \<Rightarrow> date option" where
  "latest_marked of1 pid = latest_date (map eq_date (filter (\<lambda>r. eq_portfolio r = pid) (sim_equity (d_store (o_desk of1)))))"

definition after_fold :: "'e env_scheme \<Rightarrow> session_run \<Rightarrow> string \<Rightarrow> office \<Rightarrow> office outcome" where
  "after_fold e run pid of1 =
     bindE (case latest_marked of1 pid of
        None \<Rightarrow> Inr of1
      | Some day \<Rightarrow>
          bindE (check of1 pid day (sx_now run)) (\<lambda>(of2, _).
          bindE (check_maintenance e (o_desk of2) (sx_clock run) day (Some pid)) (\<lambda>(dk3, _).
          bindE (case sx_short run of None \<Rightarrow> Inr (dk3, []) | Some sdb \<Rightarrow> queue_buy_ins e dk3 sdb day (Some pid)) (\<lambda>(dk4, _).
          concentration (of2\<lparr>o_desk := dk4\<rparr>) day (sx_now run) (Some pid))))) (\<lambda>of5.
     bindE (finalize_retirement of5 pid (sx_now run)) (\<lambda>(of6, _). Inr of6))"

record fold_result =
  fo_counts :: "string list"
  fo_carried :: "string list"

definition fold_account ::
    "'w wire_scheme \<Rightarrow> 'e env_scheme \<Rightarrow> session_run \<Rightarrow> string \<Rightarrow> date \<Rightarrow> (office \<Rightarrow> office attempt) \<Rightarrow> office \<Rightarrow> (office \<times> fold_result) attempt" where
  "fold_account w e run pid end0 mutation of1 =
     bindV (require_verified e of1 pid (sx_now run)) (\<lambda>_.
     bindV (mutation of1) (\<lambda>of2.
     bindV (raised (fold_days w e run pid end0 of2)) (\<lambda>(of3, counts, carried).
     bindV (require_verified e of3 pid (sx_now run)) (\<lambda>_.
     bindV (raised (after_fold e run pid of3)) (\<lambda>of4.
     Inr (of4, \<lparr>fo_counts = counts, fo_carried = carried\<rparr>))))))"

end
