(* ===== verification/Nightly.thy ===== *)
theory Nightly
  imports AccountDay "HOL-Library.Multiset"
begin

text \<open>
  The nightly run over all accounts (\<open>settle_session\<close> of \<open>src/engine/accounts/settle.py\<close>) and the booking of settlements
  (\<open>settle\<close>, \<open>close_out_delisted\<close> and the repair of stale orders of \<open>src/sim/settle.py\<close>).
\<close>

section \<open>Booking settlements\<close>

definition record_settlement :: "Terms \<Rightarrow> datetime \<Rightarrow> BookPlan \<Rightarrow> book \<Rightarrow> book outcome" where
  "record_settlement t ts p bk =
     (if \<exists>r\<in>set (sim_settlements bk). st_portfolio r = bp_portfolio p \<and> st_ticker r = tm_ticker t \<and> st_effective r = tm_effective t
      then Inl (ConstraintError ''sim_settlements'')
      else Inr (bk\<lparr>sim_settlements := sim_settlements bk @ [\<lparr>st_portfolio = bp_portfolio p, st_ticker = tm_ticker t, st_kind = tm_kind t, st_qty = bp_qty p,
             st_price = tm_price t, st_into = tm_into t, st_ratio = tm_ratio t, st_effective = tm_effective t, st_source = tm_source t, st_created = ts\<rparr>]\<rparr>))"

definition cancel_pending :: "Terms \<Rightarrow> datetime \<Rightarrow> BookPlan \<Rightarrow> desk \<Rightarrow> desk" where
  "cancel_pending t ts p dk =
     (let reason = ''cancelled by settlement effective '' @ iso_text (tm_effective t) in
      if bp_pending p = [] then dk
      else dk\<lparr>sim_orders := update_rows (\<lambda>r. ord_portfolio r = bp_portfolio p \<and> ord_ticker r = tm_ticker t \<and> ord_status r = ''pending'')
                (\<lambda>r. r\<lparr>ord_status := ''cancelled'', ord_reject_reason := Some reason\<rparr>) (sim_orders dk),
              sim_order_details := update_rows (\<lambda>d. od_order d \<in> set (bp_pending p) \<and> od_state d = ''queued'')
                (\<lambda>d. d\<lparr>od_state := ''cancelled'', od_state_reason := Some reason, od_state_at := ts\<rparr>) (sim_order_details dk)\<rparr>)"

text \<open>A failed fold is raised again as \<open>VerificationError\<close>, which is not a refusal of the terms.\<close>

definition verification_failure :: "'a attempt \<Rightarrow> 'a attempt" where
  "verification_failure m = (case m of Inl (Raised _) \<Rightarrow> Inl (Raised VerificationError) | _ \<Rightarrow> m)"

definition settle_book ::
    "'w wire_scheme \<Rightarrow> 'e env_scheme \<Rightarrow> session_run \<Rightarrow> bool \<Rightarrow> Terms \<Rightarrow> office \<Rightarrow> BookPlan \<Rightarrow> office attempt" where
  "settle_book w e run refold t of1 p =
     (let ts = sx_now run; pid = bp_portfolio p;
          book_row = (\<lambda>o1. bindV (raised (record_settlement t ts p (office_book o1))) (\<lambda>bk. Inr (on_book (\<lambda>_. bk) o1))) in
      bindV (raised (portfolio_account (office_book of1) pid)) (\<lambda>st.
      let account = (engine st = ''account'') in
      bindV (if account \<and> refold
             then bindV (verification_failure (require_verified e of1 pid ts)) (\<lambda>_.
                  bindV (verification_failure (fold_account w e (run\<lparr>sx_short := None\<rparr>) pid (tm_effective t) book_row of1)) (\<lambda>(o1, _). Inr o1))
             else bindV (book_row of1) (\<lambda>o1. if account then Inr o1
                  else bindV (raised (apply_settlement_event e (office_book o1) pid (tm_ticker t) (tm_kind t) (bp_qty p) (tm_price t) (tm_into t) (tm_ratio t)))
                         (\<lambda>(bk, _). Inr (on_book (\<lambda>_. bk) o1)))) (\<lambda>of2.
      Inr (on_desk (cancel_pending t ts p) of2))))"

definition settle ::
    "'w wire_scheme \<Rightarrow> 'e env_scheme \<Rightarrow> session_run \<Rightarrow> bool \<Rightarrow> bool \<Rightarrow> Terms \<Rightarrow> office \<Rightarrow> (office \<times> BookPlan list) attempt" where
  "settle w e run apply_terms refold t of1 =
     bindV (raised (plan_settlement (o_desk of1) t)) (\<lambda>plans.
     if \<not> apply_terms then Inr (of1, plans)
     else bindV (foldV (settle_book w e run refold t) of1 plans) (\<lambda>of2. Inr (of2, plans)))"

text \<open>Terms that are refused leave the holding carried; any other failure ends the run.\<close>

definition close_out_step ::
    "'w wire_scheme \<Rightarrow> 'e env_scheme \<Rightarrow> session_run \<Rightarrow> bool \<Rightarrow> office \<times> (Terms \<times> BookPlan list) list \<Rightarrow> Terms \<Rightarrow> (office \<times> (Terms \<times> BookPlan list) list) attempt" where
  "close_out_step w e run refold acc t = (case settle w e run True refold t (fst acc) of
     Inr (of2, plans) \<Rightarrow> Inr (of2, snd acc @ [(t, plans)])
   | Inl (Raised SettlementRefused) \<Rightarrow> Inr acc
   | Inl v \<Rightarrow> Inl v)"

definition close_out_delisted ::
    "'w wire_scheme \<Rightarrow> 'e env_scheme \<Rightarrow> session_run \<Rightarrow> bool \<Rightarrow> date \<Rightarrow> string list \<Rightarrow> office \<Rightarrow> (office \<times> (Terms \<times> BookPlan list) list) attempt" where
  "close_out_delisted w e run refold d ids of1 =
     foldV (close_out_step w e run refold) (of1, []) (delisting_terms (universe_snapshot (sx_liquidity run)) (d_store (o_desk of1)) d ids)"

section \<open>Stale orders of a booked settlement\<close>

definition settlement_of_order :: "book \<Rightarrow> order_row \<Rightarrow> settlement_row option" where
  "settlement_of_order bk r = first_by (\<lambda>a b. st_created b < st_created a)
     (filter (\<lambda>s. st_portfolio s = ord_portfolio r \<and> st_ticker s = ord_ticker r \<and> ord_signal_date r < date_of (st_created s)) (sim_settlements bk))"

definition settled_pending_orders :: "desk \<Rightarrow> string option \<Rightarrow> (order_row \<times> settlement_row) list" where
  "settled_pending_orders dk ticker = List.map_filter (\<lambda>r.
     if ord_status r = ''pending'' \<and> (case ticker of None \<Rightarrow> True | Some t \<Rightarrow> ord_ticker r = upper t)
     then map_option (Pair r) (settlement_of_order (desk_book dk) r) else None) (sort_key ord_id (sim_orders dk))"

definition reconcile_settled_pending_orders :: "desk \<Rightarrow> bool \<Rightarrow> string option \<Rightarrow> desk \<times> (order_row \<times> settlement_row) list" where
  "reconcile_settled_pending_orders dk apply_plan ticker =
     (let plans = settled_pending_orders dk ticker in
      if \<not> apply_plan then (dk, plans)
      else (fold (\<lambda>(o1, s) d. d\<lparr>sim_orders := update_rows (\<lambda>r. ord_id r = ord_id o1 \<and> ord_status r = ''pending'')
               (\<lambda>r. r\<lparr>ord_status := ''cancelled'', ord_reject_reason := Some (''cancelled by booked settlement effective '' @ iso_text (st_effective s))\<rparr>)
               (sim_orders d)\<rparr>) plans dk, plans))"

section \<open>The nightly run\<close>

record session_out =
  so_counts :: "string list"
  so_late_settled :: nat
  so_affected :: "string list"
  so_recovered :: "string list"
  so_completed :: "string list"
  so_errors :: "(string \<times> string \<times> string) list"
  so_carried :: "(string \<times> string list) list"

definition empty_out :: session_out where
  "empty_out = \<lparr>so_counts = [], so_late_settled = 0, so_affected = [], so_recovered = [], so_completed = [], so_errors = [], so_carried = []\<rparr>"

definition add_result :: "string \<Rightarrow> bool \<Rightarrow> fold_result \<Rightarrow> session_out \<Rightarrow> session_out" where
  "add_result pid late r out =
     (let filled = length (filter (\<lambda>s. s = ''filled'') (fo_counts r)) in
      out\<lparr>so_counts := so_counts out @ fo_counts r, so_late_settled := so_late_settled out + (if late then filled else 0),
          so_affected := so_affected out @ (if filled = 0 then [] else [pid]), so_recovered := so_recovered out @ (if filled = 0 then [pid] else []),
          so_completed := so_completed out @ [pid], so_carried := so_carried out @ (if fo_carried r = [] then [] else [(pid, fo_carried r)])\<rparr>)"

text \<open>One account of the run: its delisted holdings are closed out inside its own fold; a failure rolls the fold back and is
  stored as a mismatch, which halts the account.\<close>

definition close_out_account :: "'w wire_scheme \<Rightarrow> 'e env_scheme \<Rightarrow> session_run \<Rightarrow> string \<Rightarrow> office \<Rightarrow> office attempt" where
  "close_out_account w e run pid of1 = bindV (close_out_delisted w e run False (sx_day run) [pid] of1) (\<lambda>(of2, _). Inr of2)"

definition store_failure :: "codec \<Rightarrow> session_run \<Rightarrow> string \<Rightarrow> verdict \<Rightarrow> office \<Rightarrow> office outcome" where
  "store_failure c run pid v of1 =
     bindE (persist_mismatch c of1 pid v (sx_now run) None) (\<lambda>of2.
     Inr (on_desk (note_event pid ''settlement_error'' (ErrorNote (sx_day run) (fst (sx_error run v)) (take 1000 (snd (sx_error run v)))) (sx_now run)) of2))"

definition settle_account ::
    "codec \<Rightarrow> 'e env_scheme \<Rightarrow> session_run \<Rightarrow> bool \<Rightarrow> bool \<Rightarrow> office \<times> session_out \<Rightarrow> string \<times> settings \<Rightarrow> (office \<times> session_out) attempt" where
  "settle_account c e run late manage acc account = (case (acc, account) of ((of1, out), (pid, st)) \<Rightarrow>
     if account_status st \<notin> {''active'', ''halted'', ''retiring''} then Inr acc
     else case fold_account c e run pid (sx_day run) (close_out_account c e run pid) of1 of
       Inr (of2, r) \<Rightarrow> Inr (of2, add_result pid late r out)
     | Inl v \<Rightarrow> if \<not> manage then Inl v
         else bindV (raised (store_failure c run pid v of1)) (\<lambda>of2.
              Inr (of2, out\<lparr>so_errors := so_errors out @ [(pid, fst (sx_error run v), take 1000 (snd (sx_error run v)))]\<rparr>)))"

text \<open>The accounts in the order of their first pending receipt; an account without one comes last.\<close>

definition first_receipt :: "desk \<Rightarrow> string \<Rightarrow> int \<times> datetime \<times> int" where
  "first_receipt dk pid = (case find (\<lambda>r. pr_portfolio r = pid) (pending_rows dk) of
     Some r \<Rightarrow> (0, pr_received r, pr_order r) | None \<Rightarrow> (1, 0, 0))"

definition settle_session ::
    "codec \<Rightarrow> 'e env_scheme \<Rightarrow> session_run \<Rightarrow> bool \<Rightarrow> bool \<Rightarrow> office \<Rightarrow> (office \<times> session_out) attempt" where
  "settle_session c e run late manage of1 =
     bindV (raised (account_portfolios (office_book of1) False)) (\<lambda>accounts.
     foldV (settle_account c e run late manage) (of1, empty_out) (sort_key (\<lambda>a. first_receipt (o_desk of1) (fst a)) accounts))"

end
