(* ===== verification/SessionLaws.thy ===== *)
theory SessionLaws
  imports Session Lifecycle
begin

text \<open>
  Laws of the settlement of one order (\<open>Session\<close>): a settlement either books exactly one fill or leaves the store as it
  was, a booked fill has passed every gate, and the shared liquidity budget is served in receipt order.
\<close>

section \<open>Shape of a settlement\<close>

text \<open>Everything before the booking works on the side tables of the desk: the store and the orders stay.\<close>

definition noted :: "office \<Rightarrow> office \<Rightarrow> bool" where
  "noted of1 of2 \<longleftrightarrow> d_store (o_desk of2) = d_store (o_desk of1) \<and> sim_orders (o_desk of2) = sim_orders (o_desk of1) \<and>
     sim_order_details (o_desk of2) = sim_order_details (o_desk of1) \<and> paper_account_specs of2 = paper_account_specs of1"

lemma noted_refl [simp]: "noted of1 of1" "d_store dk = d_store (o_desk of1) \<Longrightarrow> sim_orders dk = sim_orders (o_desk of1) \<Longrightarrow>
    sim_order_details dk = sim_order_details (o_desk of1) \<Longrightarrow> noted of1 (of1\<lparr>o_desk := dk\<rparr>)"
  by (simp_all add: noted_def)

lemma noted_trans: "noted a b \<Longrightarrow> noted b c \<Longrightarrow> noted a c"
  by (simp add: noted_def)

lemma note_event_tables [simp]:
  "d_store (note_event pid k body t dk) = d_store dk" "sim_orders (note_event pid k body t dk) = sim_orders dk"
  "sim_order_details (note_event pid k body t dk) = sim_order_details dk"
  by (simp_all add: note_event_def split: option.split)

lemma set_state_tables [simp]: "d_store (set_state i target r t dk) = d_store dk"
  by (simp add: set_state_def Let_def)

lemma missing_bar_tables [simp]: "d_store (missing_bar i r t dk) = d_store dk"
  by (simp add: missing_bar_def Let_def)

lemma pdt_check_noted:
  assumes "pdt_check e dk now pid i side q day px ps ao av = Inr (dk', r)"
  shows "d_store dk' = d_store dk \<and> sim_orders dk' = sim_orders dk \<and> sim_order_details dk' = sim_order_details dk"
proof -
  have "dk' = dk \<or> dk' = flag_pdt dk pid day now"
    using assms by (auto simp: pdt_check_def Let_def bindE_eq_Inr split: if_splits option.splits)
  then show ?thesis by (auto simp: flag_pdt_def Let_def split: option.split)
qed

lemma short_gate_cases:
  assumes "short_gate e run st row dk = Inr (dk', refusal)"
  shows "d_store dk' = d_store dk \<and> sim_orders dk' = sim_orders dk \<and> sim_order_details dk' = sim_order_details dk \<and>
    (refusal = None \<and> pr_side row = ''short'' \<longrightarrow> allow_short st \<and>
      (\<exists>sdb l. sx_short run = Some sdb \<and> short_data_available (Some sdb) \<and> lr_available l \<and>
         locate e sdb (market (d_store dk)) (sx_liquidity run) (pr_ticker row) (sx_day run) (account_price_source st)
           (Some (Aware (sx_now run) 0)) = Inr l))"
  using assms by (auto simp: short_gate_def Let_def bindE_eq_Inr split: if_splits option.splits)

text \<open>A settlement that books nothing: the store is untouched, only the state of the order moves.\<close>

definition parked :: "pending_row \<Rightarrow> office \<Rightarrow> office \<Rightarrow> string \<Rightarrow> bool" where
  "parked row of1 of9 s \<longleftrightarrow> (\<exists>of2 target reason now. noted of1 of2 \<and> of9 = on_desk (set_state (pr_order row) target reason now) of2 \<and>
     s \<in> {''rejected'', ''expired'', ''pending''} \<and> (target = ''queued'' \<longleftrightarrow> s = ''pending'') \<and> target \<noteq> ''filled'')"

lemma parked_stop:
  "stop row target reason now s of2 = Inr (of9, s') \<Longrightarrow> noted of1 of2 \<Longrightarrow> target \<noteq> ''queued'' \<Longrightarrow> target \<noteq> ''filled'' \<Longrightarrow>
     s \<in> {''rejected'', ''expired''} \<Longrightarrow> parked row of1 of9 s'"
  unfolding parked_def stop_def by (rule exI [of _ of2]) auto

lemma parked_missing: "noted of1 of2 \<Longrightarrow> parked row of1 (on_desk (missing_bar (pr_order row) reason now) of2) ''pending''"
  unfolding parked_def missing_bar_def Let_def by blast

lemma parked_noted: "noted a b \<Longrightarrow> parked row b c s \<Longrightarrow> parked row a c s"
  unfolding parked_def by (blast intro: noted_trans)

text \<open>A booking: the checks of \<open>execute_order\<close> passed on the office it started from.\<close>

definition booked ::
    "'w wire_scheme \<Rightarrow> 'e env_scheme \<Rightarrow> session_run \<Rightarrow> settings \<Rightarrow> pending_row \<Rightarrow> float64 \<Rightarrow> FillResult \<Rightarrow> office \<Rightarrow> office \<Rightarrow> bool" where
  "booked w e run st row qty result of1 of9 \<longleftrightarrow> (\<exists>of2 qty' px fee projected cap.
     noted of1 of2 \<and> fr_fill_px result = Some px \<and> book_fill e run row qty' result px fee of2 = Inr (of9, ''filled'') \<and>
     \<not> flt qty qty' \<and>
     margin_state e (d_store (o_desk of1)) (pr_portfolio row) (sx_day run) (Some (pr_ticker row, pr_side row, qty', px)) (total_usd fee)
       (account_price_source st) (map_option Naive (fr_fill_ts result)) (Some (Aware (sx_now run) 0)) = Inr projected \<and>
     max_gross_fraction w of2 (pr_portfolio row) = Inr cap \<and> margin_refusal row projected cap = None)"

lemma flt_asym: "flt x y \<Longrightarrow> \<not> flt y x"
  by (cases x; cases y) (simp_all add: flt_def)

lemma fmin_bounds: "\<not> flt a (fmin a b)" "\<not> flt b (fmin a b)"
  by (simp_all add: fmin_def flt_asym)

lemma cash_quantity_bound: "cash_quantity bk st pid side q px fee = Inr q' \<Longrightarrow> \<not> flt q q'"
  by (auto simp: cash_quantity_def bindE_eq_Inr fmin_bounds split: if_splits)

lemma book_fill_status: "book_fill e run row q result px fee of1 = Inr (of9, s) \<Longrightarrow> s = ''filled''"
  by (auto simp: book_fill_def bindE_eq_Inr split: if_splits)

lemma execute_order_cases:
  assumes "execute_order w e run st row qty result px of1 = Inr (of9, s)" "fr_fill_px result = Some px"
  shows "parked row of1 of9 s \<or> s = ''filled'' \<and> booked w e run st row qty result of1 of9"
proof -
  let ?ao = "map_option Naive (fr_fill_ts result)" and ?av = "Some (Aware (sx_now run) 0)"
  obtain dk pdt where p: "pdt_check e (o_desk of1) (sx_clock run) (pr_portfolio row) (pr_ticker row) (pr_side row) qty (sx_day run) (Some px)
      (Some (account_price_source st)) ?ao ?av = Inr (dk, pdt)"
    using assms(1) by (auto simp: execute_order_def Let_def bindE_eq_Inr)
  let ?of2 = "of1\<lparr>o_desk := dk\<rparr>"
  have n: "noted of1 ?of2" using pdt_check_noted [OF p] by simp
  have st: "d_store (o_desk ?of2) = d_store (o_desk of1)" using n by (simp add: noted_def)
  show ?thesis
  proof (cases "\<not> is_forced row \<and> \<not> pdt_allowed pdt")
    case True
    then have "stop row ''rejected'' (pdt_reason pdt) (sx_now run) ''rejected'' ?of2 = Inr (of9, s)"
      using assms(1) by (simp add: execute_order_def Let_def p)
    then show ?thesis using parked_stop [OF _ n] by simp
  next
    case False
    obtain fee0 aq where f: "order_fee st row qty result px (sx_day run) = Inr fee0"
      "cash_quantity (office_book ?of2) st (pr_portfolio row) (pr_side row) qty px (total_usd fee0) = Inr aq"
      using assms(1) False by (auto simp: execute_order_def Let_def p bindE_eq_Inr split: if_splits)
    show ?thesis
    proof (cases "flt (fmul aq px) MIN_FILL_USD")
      case True
      then have "stop row ''rejected'' (Some ''ledger_refused'') (sx_now run) ''rejected'' ?of2 = Inr (of9, s)"
        using assms(1) False f by (simp add: execute_order_def Let_def p)
      then show ?thesis using parked_stop [OF _ n] by simp
    next
      case big: False
      let ?q = "if isclose aq qty TOL12 TOL12 then qty else aq"
      obtain fee projected cap where m:
        "margin_state e (d_store (o_desk ?of2)) (pr_portfolio row) (sx_day run) (Some (pr_ticker row, pr_side row, ?q, px)) (total_usd fee)
           (account_price_source st) ?ao ?av = Inr projected"
        "max_gross_fraction w ?of2 (pr_portfolio row) = Inr cap"
        "(case margin_refusal row projected cap of Some reason \<Rightarrow> stop row ''rejected'' (Some reason) (sx_now run) ''rejected'' ?of2
          | None \<Rightarrow> book_fill e run row ?q result px fee ?of2) = Inr (of9, s)"
        using assms(1) False f big unfolding execute_order_def Let_def p by (simp add: bindE_eq_Inr) blast
      have q: "\<not> flt qty ?q" using cash_quantity_bound [OF f(2)] by simp
      show ?thesis
      proof (cases "margin_refusal row projected cap")
        case (Some r)
        then have "stop row ''rejected'' (Some r) (sx_now run) ''rejected'' ?of2 = Inr (of9, s)" using m(3) by simp
        then show ?thesis using parked_stop [OF _ n] by simp
      next
        case None
        then have b: "book_fill e run row ?q result px fee ?of2 = Inr (of9, s)" using m(3) by simp
        then have "s = ''filled''" by (rule book_fill_status)
        have "booked w e run st row qty result of1 of9"
          unfolding booked_def
          using n assms(2) b [unfolded \<open>s = ''filled''\<close>] q m(1,2) None unfolding st by blast
        then show ?thesis using \<open>s = ''filled''\<close> by simp
      qed
    qed
  qed
qed

lemma settle_result_cases:
  assumes "settle_result w e run st refusals row qty result of1 = Inr (of9, s)"
  shows "parked row of1 of9 s \<or> s = ''filled'' \<and> pr_order row \<notin> set refusals \<and>
    fr_status result \<notin> {''pending'', ''rejected'', ''expired''} \<and> booked w e run st row qty result of1 of9"
proof -
  show ?thesis
  proof (cases "fr_status result \<in> {''pending'', ''rejected'', ''expired''} \<or> pr_order row \<in> set refusals")
    case False
    then obtain px where "fr_fill_px result = Some px" "execute_order w e run st row qty result px of1 = Inr (of9, s)"
      using assms by (auto simp: settle_result_def Let_def split: option.splits)
    from execute_order_cases [OF this(2,1)] False show ?thesis by blast
  next
    case True
    then consider "fr_status result = ''pending''" | "fr_status result \<in> {''rejected'', ''expired''}"
      | "fr_status result \<notin> {''pending'', ''rejected'', ''expired''}" "pr_order row \<in> set refusals" by blast
    then have "parked row of1 of9 s"
    proof cases
      case 1
      then have "of9 = on_desk (missing_bar (pr_order row) (pr_reason row) (sx_now run)) of1" "s = ''pending''"
        using assms by (simp_all add: settle_result_def Let_def)
      then show ?thesis using parked_missing [of of1 of1] by simp
    next
      case 2
      then have "stop row (fr_status result) (map_option (sx_reason run) (fr_reject_reason result)) (sx_now run) (fr_status result) of1 = Inr (of9, s)"
        using assms by (auto simp: settle_result_def Let_def)
      then show ?thesis by (rule parked_stop) (use 2 in auto)
    next
      case 3
      then have "stop row ''rejected'' (Some ''illiquid_aggregate'') (sx_now run) ''rejected'' of1 = Inr (of9, s)"
        using assms by (simp add: settle_result_def Let_def)
      then show ?thesis by (rule parked_stop) auto
    qed
    then show ?thesis ..
  qed
qed

text \<open>The largest quantity an order may trade: what it asks for, what its parent filled and what is held.\<close>

definition trade_limit :: "pending_row \<Rightarrow> office \<Rightarrow> float64 option" where
  "trade_limit row of1 = (case contingent_quantity (o_desk of1) (pr_contingent row) of
     Independent \<Rightarrow> Some (pr_qty row) | ParentFilled q \<Rightarrow> Some (fmin (pr_qty row) q) | _ \<Rightarrow> None)"

definition passed ::
    "'w wire_scheme \<Rightarrow> 'e env_scheme \<Rightarrow> session_run \<Rightarrow> settings \<Rightarrow> int list \<Rightarrow> pending_row \<Rightarrow> FillResult \<Rightarrow> float64 \<Rightarrow> office \<Rightarrow> office \<Rightarrow> bool" where
  "passed w e run st refusals row result limit of1 of9 \<longleftrightarrow> (\<exists>qty dk.
     qty = available_close_quantity (office_book of1) (pr_portfolio row) (pr_ticker row) (pr_side row) limit \<and> \<not> fle qty (Fin 0) \<and>
     short_gate e run st row (o_desk of1) = Inr (dk, None) \<and> noted of1 (of1\<lparr>o_desk := dk\<rparr>) \<and> pr_order row \<notin> set refusals \<and>
     fr_status result \<notin> {''pending'', ''rejected'', ''expired''} \<and> booked w e run st row qty result (of1\<lparr>o_desk := dk\<rparr>) of9)"

lemma parked_reject:
  "stop row target reason now ''rejected'' of2 = Inr (of9, s) \<Longrightarrow> target \<in> {''rejected'', ''cancelled''} \<Longrightarrow> noted of1 of2 \<Longrightarrow> parked row of1 of9 s"
  by (rule parked_stop) auto

lemma trade_order_cases:
  assumes "trade_order w e run st refusals row result limit of1 = Inr (of9, s)"
  shows "parked row of1 of9 s \<or> s = ''filled'' \<and> passed w e run st refusals row result limit of1 of9"
proof -
  let ?q = "available_close_quantity (office_book of1) (pr_portfolio row) (pr_ticker row) (pr_side row) limit"
  show ?thesis
  proof (cases "fle ?q (Fin 0)")
    case True
    then have "stop row ''rejected'' (Some ''no_position'') (sx_now run) ''rejected'' of1 = Inr (of9, s)"
      using assms by (simp add: trade_order_def Let_def)
    then have "parked row of1 of9 s" by (rule parked_reject) simp_all
    then show ?thesis ..
  next
    case False
    then obtain dk refusal where g: "short_gate e run st row (o_desk of1) = Inr (dk, refusal)"
      "(case refusal of Some reason \<Rightarrow> stop row ''rejected'' (Some reason) (sx_now run) ''rejected'' (of1\<lparr>o_desk := dk\<rparr>)
        | None \<Rightarrow> settle_result w e run st refusals row ?q result (of1\<lparr>o_desk := dk\<rparr>)) = Inr (of9, s)"
      using assms by (auto simp: trade_order_def Let_def bindE_eq_Inr)
    have n: "noted of1 (of1\<lparr>o_desk := dk\<rparr>)" using short_gate_cases [OF g(1)] by simp
    show ?thesis
    proof (cases refusal)
      case (Some r)
      then have "stop row ''rejected'' (Some r) (sx_now run) ''rejected'' (of1\<lparr>o_desk := dk\<rparr>) = Inr (of9, s)" using g(2) by simp
      then have "parked row of1 of9 s" by (rule parked_reject) (simp_all add: n)
      then show ?thesis ..
    next
      case None
      then have "settle_result w e run st refusals row ?q result (of1\<lparr>o_desk := dk\<rparr>) = Inr (of9, s)" using g(2) by simp
      from settle_result_cases [OF this] show ?thesis
        using parked_noted [OF n] g(1) None n False unfolding passed_def by blast
    qed
  qed
qed

lemma follow_parent_cases:
  assumes "follow_parent w e run st refusals keys row result of1 = Inr (of9, s)"
  shows "parked row of1 of9 s \<or> s = ''filled'' \<and> (\<exists>limit. trade_limit row of1 = Some limit \<and> passed w e run st refusals row result limit of1 of9)"
proof (cases "contingent_quantity (o_desk of1) (pr_contingent row)")
  case ParentFailed
  then have "stop row ''rejected'' (Some ''contingent_not_filled'') (sx_now run) ''rejected'' of1 = Inr (of9, s)"
    using assms by (simp add: follow_parent_def)
  then have "parked row of1 of9 s" by (rule parked_reject) simp_all
  then show ?thesis ..
next
  case ParentPending
  have "parked row of1 of9 s"
  proof (cases "parent_later keys row")
    case True
    then have "stop row ''rejected'' (Some ''contingent_parent_later'') (sx_now run) ''rejected'' of1 = Inr (of9, s)"
      using assms ParentPending by (simp add: follow_parent_def)
    then show ?thesis by (rule parked_reject) simp_all
  next
    case False
    then have "of9 = on_desk (missing_bar (pr_order row) (pr_reason row) (sx_now run)) of1" "s = ''pending''"
      using assms ParentPending by (simp_all add: follow_parent_def)
    then show ?thesis using parked_missing [of of1 of1] by simp
  qed
  then show ?thesis ..
qed (use assms trade_order_cases in \<open>fastforce simp: follow_parent_def trade_limit_def\<close>)+

lemma settle_order_cases:
  assumes "settle_order w e run st refusals keys row result of1 = Inr (of9, s)"
  obtains "parked row of1 of9 s"
  | limit where "s = ''filled''" "malformed row = None" "pr_kind row \<in> {''stock'', ''etf''}"
    "account_status st \<in> {''halted'', ''retiring''} \<Longrightarrow> is_forced row" "trade_limit row of1 = Some limit"
    "passed w e run st refusals row result limit of1 of9"
proof -
  let ?k = "pr_kind row \<in> {''stock'', ''etf''}" and ?h = "account_status st \<in> {''halted'', ''retiring''} \<and> \<not> is_forced row"
  note reject = that(1) [OF parked_reject [of row _ _ "sx_now run" of1, OF _ _ noted_refl(1)]]
  show ?thesis
  proof (cases "malformed row")
    case (Some r)
    show ?thesis by (rule reject [of "''rejected''" "Some r"]) (use assms Some in \<open>simp_all add: settle_order_def\<close>)
  next
    case m: None
    show ?thesis
    proof (cases ?k)
      case False
      show ?thesis by (rule reject [of "''rejected''" "Some ''instrument_not_executable''"])
          (use assms m False in \<open>simp_all add: settle_order_def\<close>)
    next
      case k: True
      have f: "(if ?h then stop row ''cancelled'' (Some (account_status st)) (sx_now run) ''rejected'' of1
          else follow_parent w e run st refusals keys row result of1) = Inr (of9, s)"
        using assms unfolding settle_order_def m by (simp only: option.case k not_True_eq_False if_False)
      show ?thesis
      proof (cases ?h)
        case True
        show ?thesis by (rule reject [of "''cancelled''" "Some (account_status st)"]) (use f in \<open>simp_all only: True if_True, simp_all\<close>)
      next
        case False
        have "follow_parent w e run st refusals keys row result of1 = Inr (of9, s)" using f unfolding if_not_P [OF False] .
        from follow_parent_cases [OF this] show ?thesis using that m k False by blast
      qed
    qed
  qed
qed

section \<open>One order, one fill\<close>

lemma set_state_orders:
  "sim_orders (set_state i target reason now dk) = map (\<lambda>r. if ord_id r = i then r\<lparr>ord_status := coarse_of target,
     ord_reject_reason := (if coarse_of target = ''rejected'' then reason else None)\<rparr> else r) (sim_orders dk)"
  by (simp add: set_state_def Let_def update_rows_def)

lemma coarse_of_iff: "coarse_of target = ''filled'' \<longleftrightarrow> target = ''filled''" "coarse_of target = ''pending'' \<longleftrightarrow> target = ''queued''"
  by (simp_all add: coarse_of_def)

lemma book_fill_steps:
  assumes "book_fill e run row q result px fee of1 = Inr (of9, s)"
  obtains bk1 applied bk2 where "persist_fill e (office_book of1) row q result px fee (sx_day run) = Inr (bk1, applied)"
    "isclose applied q TOL12 TOL12" "bk2 = bk1 \<or> (\<exists>ev u. apply_cash_event bk1 (sx_clock run) ev = Inr (bk2, u) \<and> c_portfolio ev = pr_portfolio row)"
    "of9 = on_desk (set_state (pr_order row) ''filled'' (pr_reason row) (sx_now run)) (on_book (\<lambda>_. bk2) of1)"
proof -
  obtain bk1 applied where p: "persist_fill e (office_book of1) row q result px fee (sx_day run) = Inr (bk1, applied)" "isclose applied q TOL12 TOL12"
    using assms by (auto simp: book_fill_def bindE_eq_Inr split: if_split_asm)
  show ?thesis
  proof (cases "special_reason (pr_reason row) ''buy_in''")
    case False
    then show ?thesis using assms p that [OF p] by (auto simp: book_fill_def)
  next
    case True
    then obtain ev bk2 u where "apply_cash_event bk1 (sx_clock run) ev = Inr (bk2, u)" "c_portfolio ev = pr_portfolio row"
      "of9 = on_desk (set_state (pr_order row) ''filled'' (pr_reason row) (sx_now run)) (on_book (\<lambda>_. bk2) of1)"
      using assms p by (fastforce simp: book_fill_def bindE_eq_Inr)
    then show ?thesis using that [OF p] by blast
  qed
qed

lemma book_fill_cases:
  assumes "book_fill e run row q result px fee of1 = Inr (of9, s)"
  obtains applied bk2 where "of9 = on_desk (set_state (pr_order row) ''filled'' (pr_reason row) (sx_now run)) (on_book (\<lambda>_. bk2) of1)"
    "isclose applied q TOL12 TOL12"
    "if fle applied (Fin 0) then applied = Fin 0 \<and> sim_fills bk2 = sim_fills (office_book of1)
     else \<exists>f. sim_fills bk2 = sim_fills (office_book of1) @ [f] \<and> fl_order f = pr_order row \<and> fl_portfolio f = pr_portfolio row \<and>
       fl_ticker f = pr_ticker row \<and> fl_side f = pr_side row \<and> fl_qty f = applied \<and> fl_px f = px \<and> fl_date f = sx_day run"
proof -
  obtain bk1 applied bk2 where b: "persist_fill e (office_book of1) row q result px fee (sx_day run) = Inr (bk1, applied)"
    "isclose applied q TOL12 TOL12" "bk2 = bk1 \<or> (\<exists>ev u. apply_cash_event bk1 (sx_clock run) ev = Inr (bk2, u) \<and> c_portfolio ev = pr_portfolio row)"
    "of9 = on_desk (set_state (pr_order row) ''filled'' (pr_reason row) (sx_now run)) (on_book (\<lambda>_. bk2) of1)"
    by (rule book_fill_steps [OF assms])
  have same: "sim_fills bk2 = sim_fills bk1"
    using b(3) by (auto elim!: apply_cash_event_Inr simp: add_cash_def)
  obtain bk0 ap ms where p: "apply_fill e (office_book of1) \<lparr>f_portfolio = pr_portfolio row, f_instrument = pr_ticker row, f_side = pr_side row,
      f_qty = PFloat q, f_px = PFloat px, f_multiplier = PFloat (Fin 1), f_order = Some (pr_order row), f_session = Some (sx_day run)\<rparr>
      (Some fee) True = Inr (bk0, ap, ms)"
    "if fle ap (Fin 0) then bk1 = bk0 \<and> applied = Fin 0
     else applied = ap \<and> (\<exists>f. sim_fills bk1 = sim_fills bk0 @ [f] \<and> fl_order f = pr_order row \<and> fl_portfolio f = pr_portfolio row \<and>
       fl_ticker f = pr_ticker row \<and> fl_side f = pr_side row \<and> fl_qty f = ap \<and> fl_px f = px \<and> fl_date f = sx_day run)"
    using b(1) by (auto simp: persist_fill_def bindE_eq_Inr split: if_splits)
  have "sim_fills bk0 = sim_fills (office_book of1)" using fill_frame [OF p(1)] by simp
  then have "if fle applied (Fin 0) then applied = Fin 0 \<and> sim_fills bk2 = sim_fills (office_book of1)
     else \<exists>f. sim_fills bk2 = sim_fills (office_book of1) @ [f] \<and> fl_order f = pr_order row \<and> fl_portfolio f = pr_portfolio row \<and>
       fl_ticker f = pr_ticker row \<and> fl_side f = pr_side row \<and> fl_qty f = applied \<and> fl_px f = px \<and> fl_date f = sx_day run"
    using p(2) same by (auto simp: fle_def split: if_splits)
  then show ?thesis using that b by blast
qed

lemma flt_le_trans: "flt a c \<Longrightarrow> b \<noteq> NaN \<Longrightarrow> \<not> flt b c \<Longrightarrow> flt a b"
  by (cases a; cases b; cases c) (auto simp: flt_def)

lemma fmin_number: "a \<noteq> NaN \<Longrightarrow> fmin a b \<noteq> NaN"
  by (auto simp: fmin_def flt_def split: float64.splits)

lemma malformed_number: "malformed row = None \<Longrightarrow> pr_qty row \<noteq> NaN"
  using order_refusal_None(1) [of "pr_side row" "pr_qty row"] by (auto simp: malformed_def)

lemma close_quantity_bound: "\<not> flt limit (available_close_quantity bk pid t side limit)"
  by (simp add: available_close_quantity_def Let_def fmin_bounds)

lemma close_quantity_number: "limit \<noteq> NaN \<Longrightarrow> available_close_quantity bk pid t side limit \<noteq> NaN"
  by (simp add: available_close_quantity_def Let_def fmin_number)

lemma trade_limit_bound: "trade_limit row of1 = Some limit \<Longrightarrow> \<not> flt (pr_qty row) limit"
  by (auto simp: trade_limit_def fmin_bounds split: contingent.splits)

lemma trade_limit_number: "trade_limit row of1 = Some limit \<Longrightarrow> malformed row = None \<Longrightarrow> limit \<noteq> NaN"
  using malformed_number [of row] by (auto simp: trade_limit_def fmin_number split: contingent.splits)

text \<open>A quantity no larger than the available one is no larger than the limit and the order.\<close>

lemma traded_bound:
  assumes "malformed row = None" "trade_limit row of1 = Some limit"
    and "\<not> flt (available_close_quantity bk pid t side limit) q"
  shows "\<not> flt limit q" "\<not> flt (pr_qty row) q"
proof -
  have n: "limit \<noteq> NaN" "available_close_quantity bk pid t side limit \<noteq> NaN"
    using assms trade_limit_number close_quantity_number by blast+
  show l: "\<not> flt limit q" using flt_le_trans [OF _ n(2) assms(3)] close_quantity_bound by blast
  show "\<not> flt (pr_qty row) q" using flt_le_trans [OF _ n(1) l] trade_limit_bound [OF assms(2)] by blast
qed

text \<open>C4: The settlement of an order is all or nothing. Whatever \<open>settle_order\<close> returns, the order ends filled, rejected,
  expired or still pending, its row says which, and no other order moves. When it is not filled, the whole store
  (cash, positions, lots, fills, fees, cash events and equity) is as before. When it is filled, exactly one fill row is
  appended, for this order, account, instrument, side and session, with a positive quantity no larger than ordered up to
  the 1e-12 tolerance of the code; the one exception is a traded quantity within 1e-12 of zero, which adds no row.\<close>

theorem settle_order_atomic:
  assumes "settle_order w e run st refusals keys row result of1 = Inr (of9, s)"
  shows "s \<in> {''filled'', ''rejected'', ''expired'', ''pending''} \<and>
    (\<exists>status reason. sim_orders (o_desk of9) = map (\<lambda>r. if ord_id r = pr_order row
        then r\<lparr>ord_status := status, ord_reject_reason := reason\<rparr> else r) (sim_orders (o_desk of1)) \<and>
      (s = ''filled'' \<longleftrightarrow> status = ''filled'') \<and> (s = ''pending'' \<longleftrightarrow> status = ''pending'')) \<and>
    (s \<noteq> ''filled'' \<longrightarrow> d_store (o_desk of9) = d_store (o_desk of1)) \<and>
    (s = ''filled'' \<longrightarrow> (\<exists>q. \<not> flt (pr_qty row) q \<and>
      ((\<exists>f. sim_fills (office_book of9) = sim_fills (office_book of1) @ [f] \<and> fl_order f = pr_order row \<and>
          fl_portfolio f = pr_portfolio row \<and> fl_ticker f = pr_ticker row \<and> fl_side f = pr_side row \<and> fl_date f = sx_day run \<and>
          \<not> fle (fl_qty f) (Fin 0) \<and> isclose (fl_qty f) q TOL12 TOL12) \<or>
       sim_fills (office_book of9) = sim_fills (office_book of1) \<and> isclose (Fin 0) q TOL12 TOL12)))"
proof (cases rule: settle_order_cases [OF assms])
  case 1
  then obtain of2 target reason now where p: "noted of1 of2" "of9 = on_desk (set_state (pr_order row) target reason now) of2"
    "s \<in> {''rejected'', ''expired'', ''pending''}" "target = ''queued'' \<longleftrightarrow> s = ''pending''" "target \<noteq> ''filled''"
    unfolding parked_def by blast
  have o: "sim_orders (o_desk of9) = map (\<lambda>r. if ord_id r = pr_order row then r\<lparr>ord_status := coarse_of target,
      ord_reject_reason := (if coarse_of target = ''rejected'' then reason else None)\<rparr> else r) (sim_orders (o_desk of1))"
    using p(1) by (simp add: p(2) on_desk_def set_state_orders noted_def)
  have "s \<noteq> ''filled''" "s = ''pending'' \<longleftrightarrow> coarse_of target = ''pending''" "coarse_of target \<noteq> ''filled''"
    using p(3-5) by (auto simp: coarse_of_iff)
  moreover have "d_store (o_desk of9) = d_store (o_desk of1)" using p(1) by (simp add: p(2) on_desk_def noted_def)
  ultimately show ?thesis using o p(3) by blast
next
  case a: (2 limit)
  obtain qty of2 where k: "qty = available_close_quantity (office_book of1) (pr_portfolio row) (pr_ticker row) (pr_side row) limit"
    "noted of1 of2" "booked w e run st row qty result of2 of9" using a(6) unfolding passed_def by blast
  obtain of3 q px fee where b: "noted of2 of3" "book_fill e run row q result px fee of3 = Inr (of9, ''filled'')" "\<not> flt qty q"
    using k(3) unfolding booked_def by blast
  from b(1) k(2) have n: "noted of1 of3" by (rule noted_trans [rotated])
  then have bk: "office_book of3 = office_book of1" by (simp add: noted_def office_book_def)
  have q: "\<not> flt (pr_qty row) q"
    using traded_bound(2) [OF a(2,5)] b(3) unfolding k(1) by blast
  from b(2) obtain applied bk2 where f: "of9 = on_desk (set_state (pr_order row) ''filled'' (pr_reason row) (sx_now run)) (on_book (\<lambda>_. bk2) of3)"
    "isclose applied q TOL12 TOL12"
    "if fle applied (Fin 0) then applied = Fin 0 \<and> sim_fills bk2 = sim_fills (office_book of3)
     else \<exists>f. sim_fills bk2 = sim_fills (office_book of3) @ [f] \<and> fl_order f = pr_order row \<and> fl_portfolio f = pr_portfolio row \<and>
       fl_ticker f = pr_ticker row \<and> fl_side f = pr_side row \<and> fl_qty f = applied \<and> fl_px f = px \<and> fl_date f = sx_day run"
    by (rule book_fill_cases)
  have bk9: "office_book of9 = bk2" by (simp add: f(1) office_book_def on_desk_def on_book_def)
  have o: "sim_orders (o_desk of9) = map (\<lambda>r. if ord_id r = pr_order row then r\<lparr>ord_status := ''filled'', ord_reject_reason := None\<rparr> else r)
      (sim_orders (o_desk of1))"
    using n by (simp add: f(1) on_desk_def on_book_def set_state_orders noted_def coarse_of_def)
  have "\<exists>q. \<not> flt (pr_qty row) q \<and>
      ((\<exists>f. sim_fills (office_book of9) = sim_fills (office_book of1) @ [f] \<and> fl_order f = pr_order row \<and>
          fl_portfolio f = pr_portfolio row \<and> fl_ticker f = pr_ticker row \<and> fl_side f = pr_side row \<and> fl_date f = sx_day run \<and>
          \<not> fle (fl_qty f) (Fin 0) \<and> isclose (fl_qty f) q TOL12 TOL12) \<or>
       sim_fills (office_book of9) = sim_fills (office_book of1) \<and> isclose (Fin 0) q TOL12 TOL12)"
    using q f(2,3) unfolding bk9 bk by (auto split: if_splits)
  then show ?thesis using o a(1) by blast
qed

section \<open>What a filled order has passed\<close>

lemma close_quantity_held:
  assumes "side \<in> {''sell'', ''cover''}"
  shows "\<not> flt (if side = ''sell'' then fmax (fst (holding bk pid t)) (Fin 0) else fabs (fmin (fst (holding bk pid t)) (Fin 0)))
    (available_close_quantity bk pid t side limit)"
  using assms by (auto simp: available_close_quantity_def Let_def holding_def fmin_bounds split: option.split)

lemma margin_refusal_None:
  assumes "margin_refusal row m cap = None" "\<not> is_forced row" "pr_side row \<in> {''buy'', ''short''}"
  shows "\<not> flt (ms_initial_excess m) (fneg TOL9) \<and>
    \<not> flt (fadd (fmul (ms_equity m) cap) TOL9) (fadd (ms_long_market_value m) (ms_short_market_value m))"
  using assms unfolding margin_refusal_def by (simp only: simp_thms split: if_split_asm) simp_all

text \<open>What caps the quantity of an order: the fill of its contingent parent, and for a sale or cover what is held.\<close>

definition quantity_cap :: "office \<Rightarrow> pending_row \<Rightarrow> float64 \<Rightarrow> bool" where
  "quantity_cap of1 row c \<longleftrightarrow>
     (\<exists>p f. pr_contingent row = Some p \<and> find (\<lambda>f. fl_order f = p) (sim_fills (office_book of1)) = Some f \<and> c = fl_qty f) \<or>
     pr_side row = ''sell'' \<and> c = fmax (fst (holding (office_book of1) (pr_portfolio row) (pr_ticker row))) (Fin 0) \<or>
     pr_side row = ''cover'' \<and> c = fabs (fmin (fst (holding (office_book of1) (pr_portfolio row) (pr_ticker row))) (Fin 0))"

lemma trade_limit_parent_cap:
  assumes "trade_limit row of1 = Some limit" "pr_contingent row = Some p" "find (\<lambda>f. fl_order f = p) (sim_fills (office_book of1)) = Some f"
  shows "limit = fmin (pr_qty row) (fl_qty f)"
  using assms by (simp add: trade_limit_def contingent_quantity_def desk_book_def office_book_def)

lemma traded_within_caps:
  assumes "malformed row = None" "trade_limit row of1 = Some limit" "quantity_cap of1 row c"
    and "\<not> flt (available_close_quantity (office_book of1) (pr_portfolio row) (pr_ticker row) (pr_side row) limit) q"
  shows "\<not> flt c q"
proof -
  let ?qty = "available_close_quantity (office_book of1) (pr_portfolio row) (pr_ticker row) (pr_side row) limit"
  have num: "?qty \<noteq> NaN" "limit \<noteq> NaN" using trade_limit_number [OF assms(2,1)] close_quantity_number by blast+
  have "\<not> flt c limit \<or> \<not> flt c ?qty"
    using assms(3) trade_limit_parent_cap [OF assms(2)] close_quantity_held [of "pr_side row" "office_book of1" "pr_portfolio row" "pr_ticker row" limit]
    by (auto simp: quantity_cap_def fmin_bounds)
  moreover have "\<not> flt limit q" using traded_bound(1) [OF assms(1,2,4)] .
  ultimately show ?thesis using flt_le_trans [OF _ num(1) assms(4)] flt_le_trans [OF _ num(2)] by blast
qed

text \<open>After the quantity is known, the settlement reads the other columns of the row only.\<close>

lemma trade_order_qty: "trade_order w e run st refusals (row\<lparr>pr_qty := n\<rparr>) result limit of1 = trade_order w e run st refusals row result limit of1"
proof -
  have f: "is_forced (row\<lparr>pr_qty := n\<rparr>) = is_forced row" by (simp add: is_forced_def)
  have b: "book_fill e run (row\<lparr>pr_qty := n\<rparr>) = book_fill e run row" by (cases row) (simp add: book_fill_def persist_fill_def fun_eq_iff cong: if_cong)
  have m: "margin_refusal (row\<lparr>pr_qty := n\<rparr>) = margin_refusal row" by (intro ext) (simp add: margin_refusal_def f)
  have s: "stop (row\<lparr>pr_qty := n\<rparr>) = stop row" by (intro ext) (simp add: stop_def)
  have o: "order_fee st (row\<lparr>pr_qty := n\<rparr>) = order_fee st row" by (intro ext) (simp add: order_fee_def)
  have x: "execute_order w e run st (row\<lparr>pr_qty := n\<rparr>) = execute_order w e run st row" by (intro ext) (simp add: execute_order_def b m s o f cong: if_cong option.case_cong)
  have r: "settle_result w e run st refusals (row\<lparr>pr_qty := n\<rparr>) = settle_result w e run st refusals row" by (intro ext) (simp add: settle_result_def x s cong: if_cong option.case_cong)
  have g: "short_gate e run st (row\<lparr>pr_qty := n\<rparr>) = short_gate e run st row" by (intro ext) (simp add: short_gate_def cong: if_cong option.case_cong)
  show ?thesis by (simp add: trade_order_def r g s cong: if_cong option.case_cong)
qed

lemma flt_irrefl_min: "\<not> flt (a::float64) a"
  by (cases a) (simp_all add: flt_def)

lemma fmin_absorb: "fmin (fmin a b) b = fmin a b"
  by (simp add: fmin_def flt_irrefl_min)

lemma fmin_swap: "a \<noteq> NaN \<Longrightarrow> b \<noteq> NaN \<Longrightarrow> fmin (fmin (fmin a b) c) b = fmin (fmin a c) b"
  by (cases a; cases b; cases c) (auto simp: fmin_def flt_def)

lemma capped_quantity:
  assumes "malformed row = None" "flt (Fin 0) c"
  shows "malformed (row\<lparr>pr_qty := fmin (pr_qty row) c\<rparr>) = None"
proof -
  obtain v where v: "pr_qty row = Fin v" "0 < v" using order_refusal_None(1) assms(1) unfolding malformed_def by blast
  then have "\<exists>u. fmin (Fin v) c = Fin u \<and> 0 < u" using assms(2) by (cases c) (auto simp: fmin_def flt_def)
  then obtain u where u: "fmin (Fin v) c = Fin u" "0 < u" by blast
  have "finite_number (PFloat (Fin x)) ''quantity'' True False = Inr (Fin x)" if "0 < x" for x
    using that by (simp add: finite_number_def py_float_def is_bool_def is_real_def isfinite_def fle_def)
  then show ?thesis using assms(1) v(2) u(2) by (simp add: malformed_def limit_arg_def order_refusal_def v(1) u(1) split: if_split_asm)
qed

lemma settle_order_capped:
  assumes "malformed row = None" "quantity_cap of1 row c" "flt (Fin 0) c"
  shows "settle_order w e run st refusals keys row result of1 =
    settle_order w e run st refusals keys (row\<lparr>pr_qty := fmin (pr_qty row) c\<rparr>) result of1"
proof -
  let ?n = "fmin (pr_qty row) c"
  have num: "pr_qty row \<noteq> NaN" "c \<noteq> NaN" using malformed_number [OF assms(1)] assms(3) by (auto simp: flt_def)
  have k: "trade_order w e run st refusals row result ?n of1 = trade_order w e run st refusals row result (pr_qty row) of1"
    if "contingent_quantity (o_desk of1) (pr_contingent row) = Independent"
  proof -
    have "pr_contingent row = None" using that by (auto simp: contingent_quantity_def split: option.split_asm if_split_asm)
    then have "available_close_quantity (office_book of1) (pr_portfolio row) (pr_ticker row) (pr_side row) ?n =
        available_close_quantity (office_book of1) (pr_portfolio row) (pr_ticker row) (pr_side row) (pr_qty row)"
      using assms(2) by (auto simp: quantity_cap_def available_close_quantity_def holding_def fmin_absorb split: option.split)
    then show ?thesis by (simp add: trade_order_def)
  qed
  have p: "trade_order w e run st refusals row result (fmin ?n q) of1 = trade_order w e run st refusals row result (fmin (pr_qty row) q) of1"
    if "contingent_quantity (o_desk of1) (pr_contingent row) = ParentFilled q" for q
  proof -
    have parent: "q = fl_qty f" if "pr_contingent row = Some par" "find (\<lambda>f. fl_order f = par) (sim_fills (office_book of1)) = Some f" for par f
      using that \<open>contingent_quantity (o_desk of1) (pr_contingent row) = ParentFilled q\<close>
      by (simp add: contingent_quantity_def desk_book_def office_book_def)
    have "fmin ?n q = fmin (pr_qty row) q \<or> available_close_quantity (office_book of1) (pr_portfolio row) (pr_ticker row) (pr_side row) (fmin ?n q) =
        available_close_quantity (office_book of1) (pr_portfolio row) (pr_ticker row) (pr_side row) (fmin (pr_qty row) q)"
      using assms(2) parent fmin_swap [OF num]
      by (auto simp: quantity_cap_def available_close_quantity_def holding_def fmin_absorb split: option.split)
    then show ?thesis by (auto simp: trade_order_def)
  qed
  have "follow_parent w e run st refusals keys (row\<lparr>pr_qty := ?n\<rparr>) result of1 = follow_parent w e run st refusals keys row result of1"
    using k p by (simp add: follow_parent_def trade_order_qty stop_def parent_later_def split: contingent.split)
  then show ?thesis using assms(1) capped_quantity [OF assms(1,3)]
    by (simp add: settle_order_def stop_def is_forced_def)
qed

text \<open>C10: An order fills only through every gate. When \<open>settle_order\<close> fills an order, the instrument is a stock or a fund; a
  halted or retiring account trades only forced orders; the order was not refused by the liquidity sweep; a short sale is
  allowed by the account and located; and the appended fill is at the price of the attempt for a quantity that passed
  the remaining gates, up to the 1e-12 tolerance of the code (a quantity within 1e-12 of zero adds no row): it is no more than was
  ordered and no more than each cap, which are the fill of a contingent parent and, for a sale or cover, the holding; and a purchase or
  short sale of that quantity that the engine did not force leaves the account with its initial margin and within its
  gross-exposure cap, each up to the 1e-9 tolerance of the code. A cap cuts an order and does not fail it: a well-formed order settles,
  whatever the outcome, exactly as the same order for no more than a positive cap.\<close>

theorem filled_order_passed_gates:
  "(settle_order w e run st refusals keys row result of1 = Inr (of9, ''filled'') \<longrightarrow>
    pr_kind row \<in> {''stock'', ''etf''} \<and> (account_status st \<in> {''halted'', ''retiring''} \<longrightarrow> is_forced row) \<and>
    pr_order row \<notin> set refusals \<and>
    (pr_side row = ''short'' \<longrightarrow> allow_short st \<and> (\<exists>sdb l. sx_short run = Some sdb \<and> lr_available l \<and>
       locate e sdb (market (d_store (o_desk of1))) (sx_liquidity run) (pr_ticker row) (sx_day run) (account_price_source st)
         (Some (Aware (sx_now run) 0)) = Inr l)) \<and>
    (\<exists>q px. fr_fill_px result = Some px \<and>
      ((\<exists>f. sim_fills (office_book of9) = sim_fills (office_book of1) @ [f] \<and> fl_order f = pr_order row \<and> fl_portfolio f = pr_portfolio row \<and>
          fl_ticker f = pr_ticker row \<and> fl_side f = pr_side row \<and> fl_px f = px \<and> \<not> fle (fl_qty f) (Fin 0) \<and> isclose (fl_qty f) q TOL12 TOL12) \<or>
       sim_fills (office_book of9) = sim_fills (office_book of1) \<and> isclose (Fin 0) q TOL12 TOL12) \<and>
      \<not> flt (pr_qty row) q \<and> (\<forall>c. quantity_cap of1 row c \<longrightarrow> \<not> flt c q) \<and>
      (\<not> is_forced row \<and> pr_side row \<in> {''buy'', ''short''} \<longrightarrow> (\<exists>fee m cap.
         margin_state e (d_store (o_desk of1)) (pr_portfolio row) (sx_day run) (Some (pr_ticker row, pr_side row, q, px)) fee
           (account_price_source st) (map_option Naive (fr_fill_ts result)) (Some (Aware (sx_now run) 0)) = Inr m \<and>
         max_gross_fraction w of1 (pr_portfolio row) = Inr cap \<and> \<not> flt (ms_initial_excess m) (fneg TOL9) \<and>
         \<not> flt (fadd (fmul (ms_equity m) cap) TOL9) (fadd (ms_long_market_value m) (ms_short_market_value m)))))) \<and>
   (malformed row = None \<longrightarrow> (\<forall>c. quantity_cap of1 row c \<and> flt (Fin 0) c \<longrightarrow>
      settle_order w e run st refusals keys row result of1 =
      settle_order w e run st refusals keys (row\<lparr>pr_qty := fmin (pr_qty row) c\<rparr>) result of1))"
  (is "(?filled \<longrightarrow> ?gates) \<and> ?cut")
proof (rule conjI; rule impI)
  assume ?filled
  then show ?gates
  proof (cases rule: settle_order_cases)
    case 1
    then show ?thesis by (simp add: parked_def)
  next
    case g: (2 limit)
    let ?bk = "office_book of1" and ?pid = "pr_portfolio row" and ?t = "pr_ticker row"
    let ?qty = "available_close_quantity ?bk ?pid ?t (pr_side row) limit"
    obtain dk where p: "short_gate e run st row (o_desk of1) = Inr (dk, None)" "noted of1 (of1\<lparr>o_desk := dk\<rparr>)" "pr_order row \<notin> set refusals"
      "booked w e run st row ?qty result (of1\<lparr>o_desk := dk\<rparr>) of9" using g(6) unfolding passed_def by blast
    obtain of2 q px fee m cap where b: "noted (of1\<lparr>o_desk := dk\<rparr>) of2" "fr_fill_px result = Some px" "\<not> flt ?qty q"
      "margin_state e (d_store (o_desk (of1\<lparr>o_desk := dk\<rparr>))) ?pid (sx_day run) (Some (?t, pr_side row, q, px)) (total_usd fee)
         (account_price_source st) (map_option Naive (fr_fill_ts result)) (Some (Aware (sx_now run) 0)) = Inr m"
      "max_gross_fraction w of2 ?pid = Inr cap" "margin_refusal row m cap = None"
      "book_fill e run row q result px fee of2 = Inr (of9, ''filled'')"
      using p(4) unfolding booked_def by blast
    have st: "d_store dk = d_store (o_desk of1)" "max_gross_fraction w of1 ?pid = Inr cap" "office_book of2 = ?bk"
      using p(2) b(1,5) by (auto simp: noted_def max_gross_fraction_def spec_row_of_def office_book_def)
    have row: "(\<exists>f. sim_fills (office_book of9) = sim_fills ?bk @ [f] \<and> fl_order f = pr_order row \<and> fl_portfolio f = ?pid \<and>
          fl_ticker f = ?t \<and> fl_side f = pr_side row \<and> fl_px f = px \<and> \<not> fle (fl_qty f) (Fin 0) \<and> isclose (fl_qty f) q TOL12 TOL12) \<or>
       sim_fills (office_book of9) = sim_fills ?bk \<and> isclose (Fin 0) q TOL12 TOL12"
      using b(7)
    proof (rule book_fill_cases)
      fix applied bk2
      assume f: "of9 = on_desk (set_state (pr_order row) ''filled'' (pr_reason row) (sx_now run)) (on_book (\<lambda>_. bk2) of2)"
        "isclose applied q TOL12 TOL12"
        "if fle applied (Fin 0) then applied = Fin 0 \<and> sim_fills bk2 = sim_fills (office_book of2)
         else \<exists>f. sim_fills bk2 = sim_fills (office_book of2) @ [f] \<and> fl_order f = pr_order row \<and> fl_portfolio f = ?pid \<and>
           fl_ticker f = ?t \<and> fl_side f = pr_side row \<and> fl_qty f = applied \<and> fl_px f = px \<and> fl_date f = sx_day run"
      have "office_book of9 = bk2" by (simp add: f(1) office_book_def on_desk_def on_book_def)
      then show ?thesis using f(2,3) unfolding st(3) by (auto split: if_splits)
    qed
    have "\<not> is_forced row \<and> pr_side row \<in> {''buy'', ''short''} \<longrightarrow> (\<exists>fee m cap.
         margin_state e (d_store (o_desk of1)) ?pid (sx_day run) (Some (?t, pr_side row, q, px)) fee
           (account_price_source st) (map_option Naive (fr_fill_ts result)) (Some (Aware (sx_now run) 0)) = Inr m \<and>
         max_gross_fraction w of1 ?pid = Inr cap \<and> \<not> flt (ms_initial_excess m) (fneg TOL9) \<and>
         \<not> flt (fadd (fmul (ms_equity m) cap) TOL9) (fadd (ms_long_market_value m) (ms_short_market_value m)))"
      using b(4) st margin_refusal_None [OF b(6)] by auto
    then show ?thesis
      using g(3,4) p(3) short_gate_cases [OF p(1)] b(2) row traded_bound(2) [OF g(2,5) b(3)] traded_within_caps [OF g(2,5) _ b(3)] by blast
  qed
next
  assume m: "malformed row = None"
  show "\<forall>c. quantity_cap of1 row c \<and> flt (Fin 0) c \<longrightarrow> settle_order w e run st refusals keys row result of1 =
      settle_order w e run st refusals keys (row\<lparr>pr_qty := fmin (pr_qty row) c\<rparr>) result of1"
    using settle_order_capped [OF m] by blast
qed

section \<open>The shared liquidity budget\<close>

lemma sorted_split_below:
  fixes c :: "'b::linorder"
  assumes "sorted (map f xs)"
  shows "xs = filter (\<lambda>x. f x < c) xs @ filter (\<lambda>x. \<not> f x < c) xs"
  using assms
proof (induction xs)
  case (Cons a xs)
  then have "filter (\<lambda>x. f x < c) xs = []" if "\<not> f a < c" using that by (auto simp: filter_empty_conv)
  then show ?case using Cons by (cases "f a < c") auto
qed simp

lemma liquidity_refused:
  "\<exists>more. snd (fold liquidity_step items (used, denied)) = denied @ more \<and> set more \<subseteq> (pr_order \<circ> fst) ` set items"
proof (induction items arbitrary: used denied)
  case (Cons item items)
  obtain row result where i: "item = (row, result)" by (cases item)
  have "\<exists>used' extra. liquidity_step item (used, denied) = (used', denied @ extra) \<and> set extra \<subseteq> {pr_order row}"
    unfolding i liquidity_step_def by (auto simp: Let_def split: option.split)
  then obtain used' extra where "liquidity_step item (used, denied) = (used', denied @ extra)" "set extra \<subseteq> {pr_order row}" by blast
  then show ?case using Cons.IH [of used' "denied @ extra"] i by auto
qed simp

text \<open>C23: Liquidity is served in receipt order. Cut the orders of a session at any receipt time and order number: the
  refusals among the earlier orders are exactly what they would be if the later orders did not exist, and every further
  refusal is of a later order.\<close>

theorem liquidity_first_come:
  "\<exists>more. liquidity_refusals bk day prepared =
      liquidity_refusals bk day (filter (\<lambda>x. receipt_order x < bound) prepared) @ more \<and>
    set more \<subseteq> (pr_order \<circ> fst) ` set (filter (\<lambda>x. \<not> receipt_order x < bound) prepared)"
proof -
  let ?s = "sort_key receipt_order prepared" and ?P = "\<lambda>x. receipt_order x < bound"
  have split: "?s = sort_key receipt_order (filter ?P prepared) @ sort_key receipt_order (filter (\<lambda>x. \<not> ?P x) prepared)"
    using sorted_split_below [of receipt_order ?s bound] by (simp add: filter_sort)
  obtain used denied where u: "fold liquidity_step (sort_key receipt_order (filter ?P prepared)) (existing_notional bk day, []) = (used, denied)"
    by (metis surj_pair)
  have "liquidity_refusals bk day prepared = snd (fold liquidity_step (sort_key receipt_order (filter (\<lambda>x. \<not> ?P x) prepared)) (used, denied))"
    unfolding liquidity_refusals_def split by (simp add: u)
  moreover have "liquidity_refusals bk day (filter ?P prepared) = denied" by (simp add: liquidity_refusals_def u)
  ultimately show ?thesis
    using liquidity_refused [of "sort_key receipt_order (filter (\<lambda>x. \<not> ?P x) prepared)" used denied] by auto
qed

section \<open>The coarse status\<close>

text \<open>The status that \<open>_state\<close> stores agrees with \<open>coarse_status\<close> on the queued, filled, cancelled and rejected states. An
  expired day limit is stored as rejected, where \<open>coarse_status\<close> says expired.\<close>

lemma coarse_of_agrees: "coarse_status s = Inr (coarse_of (order_state_value s)) \<longleftrightarrow> s \<in> {QUEUED, FILLED, CANCELLED, REJECTED}"
  by (cases s) (simp_all add: coarse_status_def coarse_of_def order_state_value_def)

text \<open>A filled attempt carries its reference price, so a stored fill has the price it was filled against.\<close>

lemma fill_attempt_reference:
  assumes "fill_attempt e db row st day now = Inr r" "fr_status r = ''filled''"
  shows "\<exists>x. fr_reference_px r = Some x"
proof -
  have v: "\<exists>x. fr_reference_px r = Some x" if "v2_result e side qty ref mdv pr kind source bref ts profile = Inr r"
    for side qty ref mdv pr kind source bref ts profile using that assms(2) by (auto elim: v2_result_filled)
  have "\<exists>x. fr_reference_px r = Some x" if "attempt_next_open_fill e db t side q sd d p s a pen = Inr r" for t side q sd d p s a pen
    using that assms(2) v by (auto simp: attempt_next_open_fill_def Let_def bindE_eq_Inr fill_status_def split: option.splits if_splits)
  moreover have "\<exists>x. fr_reference_px r = Some x" if "attempt_auction_fill e db t side q d rc k p s a pen = Inr r" for t side q d rc k p s a pen
    using that assms(2) v
    by (cases "session_bounds e d") (auto simp: attempt_auction_fill_def Let_def bindE_eq_Inr fill_status_def split: option.splits if_splits)
  moreover have "\<exists>x. fr_reference_px r = Some x" if "attempt_intraday_market_fill e db t side q d rc p s ds a = Inr r" for t side q d rc p s ds a
    using that by (rule market_fill_filled) (use assms(2) v in blast)+
  moreover have "\<exists>x. fr_reference_px r = Some x" if "attempt_intraday_limit_fill e db t side q d rc l p s ds a = Inr r" for t side q d rc l p s ds a
    using that by (rule limit_fill_filled) (use assms(2) v in blast)+
  ultimately show ?thesis
    using assms by (auto simp: fill_attempt_def Let_def fill_status_def split: option.splits if_splits)
qed

section \<open>Witnesses\<close>

declare bindE_def [code_unfold]

text \<open>Account A sells forty of its hundred shares at ten dollars.\<close>

definition example_run :: session_run where
  "example_run = \<lparr>sx_day = ymd 2026 10 8, sx_now = combine (ymd 2026 10 8) (hm 22 0), sx_clock = 0, sx_short = None,
     sx_liquidity = \<lparr>universe_snapshot = None, universe = None\<rparr>, sx_reason = (\<lambda>_. []), sx_error = (\<lambda>_. ([], [])), sx_source_errors = None\<rparr>"

definition example_row :: pending_row where
  "example_row = \<lparr>pr_order = 1, pr_portfolio = ''A'', pr_ticker = ''SPY'', pr_side = ''sell'', pr_qty = Fin 40, pr_signal_date = ymd 2026 10 7,
     pr_order_type = ''moo'', pr_kind = ''stock'', pr_limit = None, pr_session = ymd 2026 10 8, pr_received = combine (ymd 2026 10 8) (hm 12 0),
     pr_contingent = None, pr_reason = None, pr_profile = None\<rparr>"

definition example_result :: FillResult where
  "example_result = (fill_status ''filled'' None)\<lparr>fr_fill_px := Some (Fin 10), fr_reference_px := Some (Fin 10), fr_fill_kind := Some ''auction'',
     fr_fill_ts := Some (combine (ymd 2026 10 8) (hm 13 30))\<rparr>"

lemma example_settles:
  obtains st of9 where "portfolio_account (office_book example_office) ''A'' = Inr st"
    "settle_order example_codec example_env example_run st [] [] example_row example_result example_office = Inr (of9, ''filled'')"
    "length (sim_fills (office_book of9)) = 1"
proof -
  have "case portfolio_account (office_book example_office) ''A'' of Inl _ \<Rightarrow> False | Inr st \<Rightarrow>
      (case settle_order example_codec example_env example_run st [] [] example_row example_result example_office of
         Inr (of9, s) \<Rightarrow> s = ''filled'' \<and> length (sim_fills (office_book of9)) = 1 | Inl _ \<Rightarrow> False)" by code_simp
  then show ?thesis using that by (auto split: sum.split_asm)
qed

theorem settle_order_atomic_witness:
  "\<exists>st of9 f. settle_order example_codec example_env example_run st [] [] example_row example_result example_office = Inr (of9, ''filled'') \<and>
     sim_fills (office_book of9) = [f] \<and> fl_order f = 1 \<and> fl_side f = ''sell''"
proof -
  obtain st of9 where s: "settle_order example_codec example_env example_run st [] [] example_row example_result example_office = Inr (of9, ''filled'')"
    "length (sim_fills (office_book of9)) = 1" by (rule example_settles)
  have none: "sim_fills (office_book example_office) = []" by code_simp
  from settle_order_atomic [OF s(1)] s(2) none obtain f where "sim_fills (office_book of9) = [f]" "fl_order f = 1" "fl_side f = ''sell''"
    by (auto simp: example_row_def)
  then show ?thesis using s(1) by blast
qed

theorem filled_order_passed_gates_witness:
  "\<exists>st of9 f q. settle_order example_codec example_env example_run st [] [] example_row example_result example_office = Inr (of9, ''filled'') \<and>
     sim_fills (office_book of9) = [f] \<and> isclose (fl_qty f) q TOL12 TOL12 \<and> \<not> flt (Fin 100) q \<and> \<not> flt (Fin 40) q \<and>
     settle_order example_codec example_env example_run st [] [] (example_row\<lparr>pr_qty := Fin 200\<rparr>) example_result example_office =
     settle_order example_codec example_env example_run st [] [] (example_row\<lparr>pr_qty := Fin 100\<rparr>) example_result example_office"
proof -
  obtain st of9 where s: "settle_order example_codec example_env example_run st [] [] example_row example_result example_office = Inr (of9, ''filled'')"
    "length (sim_fills (office_book of9)) = 1" by (rule example_settles)
  have "fmax (fst (holding (office_book example_office) ''A'' ''SPY'')) (Fin 0) = Fin 100" by code_simp
  then have cap: "quantity_cap example_office example_row (Fin 100)" "quantity_cap example_office (example_row\<lparr>pr_qty := Fin 200\<rparr>) (Fin 100)"
    by (simp_all add: quantity_cap_def example_row_def)
  have none: "sim_fills (office_book example_office) = []" by code_simp
  obtain q where q: "(\<exists>f. sim_fills (office_book of9) = [f] \<and> isclose (fl_qty f) q TOL12 TOL12)" "\<not> flt (pr_qty example_row) q" "\<not> flt (Fin 100) q"
    using filled_order_passed_gates [of example_codec example_env example_run st "[]" "[]" example_row example_result example_office of9] s cap(1) none by auto
  have big: "malformed (example_row\<lparr>pr_qty := Fin 200\<rparr>) = None" "flt (Fin 0) (Fin 100)" "fmin (Fin 200) (Fin 100) = Fin 100" by code_simp+
  let ?big = "example_row\<lparr>pr_qty := Fin 200\<rparr>"
  have "settle_order example_codec example_env example_run st [] [] ?big example_result example_office =
     settle_order example_codec example_env example_run st [] [] (?big\<lparr>pr_qty := fmin (pr_qty ?big) (Fin 100)\<rparr>) example_result example_office"
    by (rule filled_order_passed_gates [THEN conjunct2, rule_format, OF big(1) conjI [OF cap(2) big(2)]])
  then have "settle_order example_codec example_env example_run st [] [] ?big example_result example_office =
     settle_order example_codec example_env example_run st [] [] (example_row\<lparr>pr_qty := Fin 100\<rparr>) example_result example_office"
    by (simp add: big(3))
  then show ?thesis using s(1) q by (auto simp: example_row_def)
qed

end
