(* ===== verification/Isolation.thy ===== *)
theory Isolation
  imports Nightly SessionLaws
begin

text \<open>
  Accounts do not touch each other. Every operation of the day of an account (\<open>AccountDay\<close>) leaves the money of every
  other account as it was: its cash, positions, lots, day trades, fills, cash events, dividends, settlements, splits and
  stored closes. The locale \<open>isolated\<close> states this contract for one step and gives it for a sequence of steps; it is
  interpreted by the recorded events, the financing steps, the items of a session, the days of a fold and the holdings of a mark.
\<close>

section \<open>What belongs to the other accounts\<close>

type_synonym account_rows =
  "(string \<times> float64) list \<times> position list \<times> lot list \<times> day_trade list \<times> fill_row list \<times> cash_event_row list \<times> dividend_row list \<times>
   settlement_row list \<times> split_row list"

definition others :: "string \<Rightarrow> book \<Rightarrow> account_rows" where
  "others pid bk = (map (\<lambda>p. (pf_id p, pf_cash p)) (filter (\<lambda>p. pf_id p \<noteq> pid) (portfolios bk)),
     filter (\<lambda>r. pos_portfolio r \<noteq> pid) (sim_positions bk), filter (\<lambda>l. lot_portfolio l \<noteq> pid) (sim_position_lots bk),
     filter (\<lambda>r. dt_portfolio r \<noteq> pid) (sim_day_trades bk), filter (\<lambda>f. fl_portfolio f \<noteq> pid) (sim_fills bk),
     filter (\<lambda>r. ce_portfolio r \<noteq> pid) (sim_cash_events bk), filter (\<lambda>r. dv_portfolio r \<noteq> pid) (sim_dividends bk),
     filter (\<lambda>r. st_portfolio r \<noteq> pid) (sim_settlements bk), filter (\<lambda>s. sp_portfolio s \<noteq> Some pid) (sim_splits bk))"

definition view :: "string \<Rightarrow> office \<Rightarrow> account_rows \<times> equity_row list" where
  "view pid of1 = (others pid (office_book of1), filter (\<lambda>r. eq_portfolio r \<noteq> pid) (sim_equity (d_store (o_desk of1))))"

lemma filter_update_rows:
  "(\<And>r. Q r \<Longrightarrow> \<not> P r \<and> \<not> P (f r)) \<Longrightarrow> filter P (update_rows Q f rows) = filter P rows"
  by (induction rows) (auto simp: update_rows_def)

lemma others_reset: "others pid (reset [pid] bk) = others pid bk"
  by (simp add: others_def reset_def delete_rows_def filter_update_rows)

lemma others_determined: "reset [pid] bk' = reset [pid] bk \<Longrightarrow> others pid bk' = others pid bk"
  by (metis others_reset)

lemma others_add_cash [simp]: "others pid (add_cash bk pid x) = others pid bk"
  by (rule others_determined) (simp add: reset_add_cash)

lemma others_fees [simp]: "others pid (bk\<lparr>sim_fill_fees := x\<rparr>) = others pid bk"
  by (simp add: others_def)

section \<open>The contract\<close>

locale isolated =
  fixes step :: "'s \<Rightarrow> 'x \<Rightarrow> 's outcome" and look :: "'s \<Rightarrow> 'v" and mine :: "'x \<Rightarrow> bool"
  assumes step_view: "step s x = Inr s' \<Longrightarrow> mine x \<Longrightarrow> look s' = look s"
begin

lemma run_view:
  assumes "foldE step s xs = Inr s'" "\<And>x. x \<in> set xs \<Longrightarrow> mine x"
  shows "look s' = look s"
  by (rule foldE_frame [OF assms(1)]) (use step_view assms(2) in blast)

end

section \<open>The ledger\<close>

interpretation ev: isolated "apply_event e" "others pid" "\<lambda>ev. ev_account ev = pid"
  by unfold_locales (rule others_determined, rule reset_apply_event, auto)

lemma others_apply_fill:
  assumes "apply_fill e bk fl fees persist = Inr (bk', q, ms)" "f_portfolio fl = pid"
  shows "others pid bk' = others pid bk"
  using assms(1)
proof (cases rule: apply_fill_cases)
  case (effect q p m pf st hq hc fee ef)
  have "reset [pid] (ef_book ef) = reset [pid] bk" by (rule reset_side_effect [OF effect(11)]) (simp add: assms(2))
  moreover have "\<exists>x. bk' = (put_position (add_cash (ef_book ef) pid (ef_cash ef)) pid (f_instrument fl) (ef_qty ef) (ef_cost ef))\<lparr>sim_fill_fees := x\<rparr>"
    using effect(12) assms(2)
    by (auto simp: finish_fill_def persist_fees_def Let_def bindE_eq_Inr split: option.splits if_splits
        intro: exI [of _ "sim_fill_fees (put_position (add_cash (ef_book ef) pid (ef_cash ef)) pid (f_instrument fl) (ef_qty ef) (ef_cost ef))"])
  ultimately show ?thesis
    using others_determined [of pid "put_position (add_cash (ef_book ef) pid (ef_cash ef)) pid (f_instrument fl) (ef_qty ef) (ef_cost ef)" bk]
    by (auto simp: reset_put_position reset_add_cash)
qed simp

lemma others_cash_event:
  assumes "apply_cash_event bk now ev = Inr (bk', s)" "c_portfolio ev = pid"
  shows "others pid bk' = others pid bk"
  using assms(1) by (rule apply_cash_event_Inr) (use assms(2) in \<open>auto simp: others_def add_cash_def filter_update_rows cash_row_def\<close>)

lemma others_accrual:
  assumes "post_accrual e bk now ev replay = Inr (bk', b)" "c_portfolio ev = pid"
  shows "others pid bk' = others pid bk"
proof -
  have c: "others pid y = others pid (if replay then add_cash bk pid x else bk)"
    if "apply_cash_event (if replay then add_cash bk pid x else bk) now (ev\<lparr>c_amount := z\<rparr>) = Inr (y, s)" for x y z s
    using others_cash_event [OF that] assms(2) by simp
  show ?thesis
    using assms c by (auto simp: post_accrual_def Let_def bindE_eq_Inr split: if_split_asm)
qed

lemma others_book_dividend: "book_dividend bk r = Inr bk' \<Longrightarrow> dv_portfolio r = pid \<Longrightarrow> others pid bk' = others pid bk"
  by (auto simp: book_dividend_def others_def add_cash_def filter_update_rows split: if_splits)

interpretation entitlement: isolated "pay_entitlement e clock pid day" "others pid" "\<lambda>_. True"
proof
  fix bk x bk'
  assume "pay_entitlement e clock pid day bk x = Inr bk'"
  then show "others pid bk' = others pid bk"
    by (auto simp: pay_entitlement_def Let_def bindE_eq_Inr others_book_dividend split: prod.splits option.splits if_splits
        dest: others_cash_event)
qed

text \<open>A financing step does nothing, or posts one accrual of its account.\<close>

lemma interest_step_posts:
  assumes "interest_step e now day days replay (bk, n, x) (pid, st) = Inr s'"
  obtains "s' = (bk, n, x)" | ev b where "post_accrual e bk now ev replay = Inr (fst s', b)" "c_portfolio ev = pid"
proof (cases "(\<exists>r\<in>set (sim_cash_events bk). ce_portfolio r = pid \<and> ce_date r = day \<and> ce_kind r = ''margin_interest'') \<and> \<not> replay")
  case True
  then show ?thesis using assms that(1) unfolding interest_step_def Let_def prod.case if_P [OF True] by (auto simp: bindE_eq_Inr)
next
  case False
  obtain fee k bk' b where "post_accrual e bk now (interest_event e pid day fee k) replay = Inr (bk', b)" "fst s' = bk'"
    using assms unfolding interest_step_def Let_def prod.case if_not_P [OF False] by (auto simp: bindE_eq_Inr)
  then show ?thesis using that(2) by (simp add: interest_event_def)
qed

lemma borrow_step_posts:
  assumes "borrow_step e now day days replay (st, n, x) ((pid, acct), ticker, qty) = Inr s'"
  obtains "s' = (st, n, x)" | ev b where "post_accrual e (ledger st) now ev replay = Inr (ledger (fst s'), b)" "c_portfolio ev = pid"
    "sim_equity (fst s') = sim_equity st"
proof (cases "(\<exists>r\<in>set (sim_cash_events (ledger st)). ce_portfolio r = pid \<and> ce_date r = day \<and> ce_kind r = ''borrow_fee'' \<and>
    ce_instrument r = Some ticker) \<and> \<not> replay")
  case True
  then show ?thesis using assms that(1) unfolding borrow_step_def Let_def prod.case if_P [OF True] by simp
next
  case False
  obtain fee k bk' b where "post_accrual e (ledger st) now (borrow_event e pid day ticker fee k) replay = Inr (bk', b)" "fst s' = st\<lparr>ledger := bk'\<rparr>"
    using assms unfolding borrow_step_def Let_def prod.case if_not_P [OF False] bindE_eq_Inr by (elim exE conjE) auto
  then show ?thesis using that(2) by (simp add: borrow_event_def)
qed

interpretation interest: isolated "interest_step e now day days replay" "\<lambda>s. others pid (fst s)" "\<lambda>p. fst p = pid"
proof
  fix s p s'
  assume "interest_step e now day days replay s p = Inr s'" "fst p = pid"
  then show "others pid (fst s') = others pid (fst s)"
    by (cases s; cases p) (auto elim!: interest_step_posts dest: others_accrual)
qed

interpretation borrow: isolated "borrow_step e now day days replay" "\<lambda>s. (others pid (ledger (fst s)), sim_equity (fst s))" "\<lambda>p. fst (fst p) = pid"
proof
  fix s p s'
  assume "borrow_step e now day days replay s p = Inr s'" "fst (fst p) = pid"
  then show "(others pid (ledger (fst s')), sim_equity (fst s')) = (others pid (ledger (fst s)), sim_equity (fst s))"
    by (cases s; cases p; cases "fst p"; cases "snd p") (auto elim!: borrow_step_posts dest: others_accrual)
qed

lemma others_rebuild:
  assumes "rebuild_state e bk (Some [pid]) through = Inr bk'"
  shows "others pid bk' = others pid bk"
  using rebuild_reset [OF assms] by (intro others_determined) (simp add: rebuild_ids_def)

section \<open>A session\<close>

lemma view_cong: "office_book of2 = office_book of1 \<Longrightarrow> sim_equity (d_store (o_desk of2)) = sim_equity (d_store (o_desk of1)) \<Longrightarrow> view pid of2 = view pid of1"
  by (simp add: view_def)

lemma view_on_book: "others pid bk = others pid (office_book of1) \<Longrightarrow> view pid (on_book (\<lambda>_. bk) of1) = view pid of1"
  by (simp add: view_def office_book_def on_book_def on_desk_def)

lemma view_on_desk: "d_store (f (o_desk of1)) = d_store (o_desk of1) \<Longrightarrow> view pid (on_desk f of1) = view pid of1"
  by (simp add: view_def office_book_def on_desk_def)

lemma view_noted: "noted of1 of2 \<Longrightarrow> view pid of2 = view pid of1"
  by (simp add: noted_def view_def office_book_def)

lemma dividends_isolated:
  assumes "account_dividends e clock pid day now st = Inr st'"
  shows "others pid (ledger st') = others pid (ledger st) \<and> sim_equity st' = sim_equity st"
proof -
  have "st' = st \<or> (\<exists>bk payments. foldE (pay_entitlement e clock pid day) (ledger st) payments = Inr bk \<and> st' = st\<lparr>ledger := bk\<rparr>)"
  proof (cases "corporate_actions st")
    case (Some actions)
    let ?rows = "filter (\<lambda>a. ca_kind a = ''dividend'' \<and> ca_ex_date a = day \<and> known_by now a) actions"
    show ?thesis
    proof (cases "?rows = []")
      case False
      then show ?thesis using assms Some unfolding account_dividends_def Let_def option.case if_not_P [OF False]
        by (auto simp: bindE_eq_Inr split: option.split_asm)
    qed (use assms Some in \<open>simp add: account_dividends_def\<close>)
  qed (use assms in \<open>simp add: account_dividends_def\<close>)
  then show ?thesis by (auto dest: entitlement.run_view)
qed

lemma interest_isolated: "accrue_interest e bk now day days (Some pid) replay = Inr (bk', n, x) \<Longrightarrow> others pid bk' = others pid bk"
  by (auto simp: accrue_interest_def bindE_eq_Inr dest!: interest.run_view [where pid = pid])

lemma borrow_isolated:
  "accrue_borrow e st now day days (Some pid) replay = Inr (st', n, x) \<Longrightarrow> others pid (ledger st') = others pid (ledger st) \<and> sim_equity st' = sim_equity st"
  by (auto simp: accrue_borrow_def Let_def bindE_eq_Inr dest!: borrow.run_view [where pid = pid])

lemma book_fill_isolated:
  assumes "book_fill e run row q result px fee of1 = Inr (of9, s)"
  shows "view (pr_portfolio row) of9 = view (pr_portfolio row) of1"
proof -
  let ?pid = "pr_portfolio row"
  obtain bk1 applied bk2 where b: "persist_fill e (office_book of1) row q result px fee (sx_day run) = Inr (bk1, applied)"
    "bk2 = bk1 \<or> (\<exists>ev u. apply_cash_event bk1 (sx_clock run) ev = Inr (bk2, u) \<and> c_portfolio ev = ?pid)"
    "of9 = on_desk (set_state (pr_order row) ''filled'' (pr_reason row) (sx_now run)) (on_book (\<lambda>_. bk2) of1)"
    by (rule book_fill_steps [OF assms])
  obtain bk0 fl ap ms where p: "apply_fill e (office_book of1) fl (Some fee) True = Inr (bk0, ap, ms)" "f_portfolio fl = ?pid"
    "others ?pid bk1 = others ?pid bk0"
    using b(1) by (auto simp: persist_fill_def bindE_eq_Inr others_def split: if_splits)
  have "others ?pid bk2 = others ?pid (office_book of1)"
    using b(2) p(3) others_apply_fill [OF p(1,2)] others_cash_event by metis
  then show ?thesis
    unfolding b(3) by (simp add: view_on_desk view_on_book)
qed

lemma settle_order_isolated:
  assumes "settle_order w e run st refusals keys row result of1 = Inr (of9, s)"
  shows "view (pr_portfolio row) of9 = view (pr_portfolio row) of1"
proof (cases rule: settle_order_cases [OF assms])
  case 1
  then obtain of2 target reason now where "noted of1 of2" "of9 = on_desk (set_state (pr_order row) target reason now) of2"
    unfolding parked_def by blast
  then show ?thesis by (simp add: view_on_desk view_noted)
next
  case (2 limit)
  then obtain dk qty where d: "noted of1 (of1\<lparr>o_desk := dk\<rparr>)" "booked w e run st row qty result (of1\<lparr>o_desk := dk\<rparr>) of9"
    unfolding passed_def by blast
  then obtain of2 q px fee where b: "noted (of1\<lparr>o_desk := dk\<rparr>) of2" "book_fill e run row q result px fee of2 = Inr (of9, ''filled'')"
    unfolding booked_def by blast
  show ?thesis using book_fill_isolated [OF b(2)] view_noted [OF b(1)] view_noted [OF d(1)] by simp
qed

text \<open>An item of a session belongs to the account: a recorded event of it, one of its orders, or its financing and dividends.\<close>

definition own_item :: "string \<Rightarrow> item_key \<times> day_item \<Rightarrow> bool" where
  "own_item pid item = (case snd item of Recorded ev \<Rightarrow> ev_account ev = pid | Execute row _ \<Rightarrow> pr_portfolio row = pid | _ \<Rightarrow> True)"

interpretation items: isolated "run_item w e run st pid refusals keys" "\<lambda>acc. view pid (fst acc)" "own_item pid"
proof
  fix acc item acc'
  assume r: "run_item w e run st pid refusals keys acc item = Inr acc'" and o: "own_item pid item"
  obtain of1 counts where acc: "acc = (of1, counts)" by (cases acc)
  have store: "view pid (of1\<lparr>o_desk := (o_desk of1)\<lparr>d_store := s\<rparr>\<rparr>) = view pid of1"
    if "others pid (ledger s) = others pid (office_book of1) \<and> sim_equity s = sim_equity (d_store (o_desk of1))" for s
    using that by (simp add: view_def office_book_def)
  show "view pid (fst acc') = view pid (fst acc)"
  proof (cases "snd item")
    case (Recorded ev)
    then show ?thesis using r o ev.step_view [of e _ ev] view_on_book by (auto simp: run_item_def acc own_item_def bindE_eq_Inr)
  next
    case CreditDividends
    then show ?thesis using r by (auto simp: run_item_def acc Let_def bindE_eq_Inr office_book_def intro!: store dest!: dividends_isolated)
  next
    case AccrueBorrow
    then show ?thesis using r by (auto simp: run_item_def acc Let_def bindE_eq_Inr office_book_def intro!: store dest!: borrow_isolated)
  next
    case AccrueInterest
    then show ?thesis using r by (auto simp: run_item_def acc Let_def bindE_eq_Inr intro!: view_on_book dest!: interest_isolated)
  next
    case (Execute row result)
    then show ?thesis using r o settle_order_isolated by (auto simp: run_item_def acc own_item_def Let_def bindE_eq_Inr)
  qed
qed

lemma fold_session_isolated:
  assumes "fold_session w e run st pid acc = Inr acc'"
  shows "view pid (fst acc') = view pid (fst acc)"
proof -
  obtain of1 counts where acc: "acc = (of1, counts)" by (cases acc)
  obtain recorded keys prepared refusals where f: "events e (office_book of1) [pid] (Some (sx_day run)) (Some (sx_day run)) = Inr recorded"
    "foldE (run_item w e run st pid refusals keys) (of1, counts)
       (day_items e pid (sx_day run) recorded keys (filter (\<lambda>(row, _). pr_portfolio row = pid) prepared)) = Inr acc'"
    using assms by (auto simp: fold_session_def acc Let_def bindE_eq_Inr)
  have "own_item pid item" if "item \<in> set (day_items e pid (sx_day run) recorded keys (filter (\<lambda>(row, _). pr_portfolio row = pid) prepared))" for item
    using that events_account [OF f(1)] by (auto simp: day_items_def Let_def own_item_def)
  from items.run_view [OF f(2) this] show ?thesis by (simp add: acc)
qed

section \<open>The fold\<close>

interpretation marks: isolated "mark_step e pid day source now" "\<lambda>acc. d_store (fst acc)" "\<lambda>_. True"
proof
  fix acc p acc'
  assume "mark_step e pid day source now acc p = Inr acc'"
  then show "d_store (fst acc') = d_store (fst acc)"
    by (cases acc) (auto simp: mark_step_def Let_def bindE_eq_Inr)
qed

lemma mark_account_isolated:
  assumes "mark_account e of1 pid day source now = Inr (of2, r)"
  shows "view pid of2 = view pid of1"
proof -
  obtain dk x row body where m: "foldE (mark_step e pid day source now) (o_desk of1, Fin 0, [], []) (get_positions (office_book of1) pid) = Inr (dk, x)"
    "of2 = record_event (of1\<lparr>o_desk := dk\<lparr>d_store := put_equity (d_store dk) row\<rparr>\<rparr>) pid ''equity_checkpoint'' body now" "eq_portfolio row = pid"
    using assms by (auto simp: mark_account_def Let_def bindE_eq_Inr)
  have "d_store dk = d_store (o_desk of1)" using marks.run_view [OF m(1)] by simp
  then show ?thesis using m(3) by (simp add: m(2) view_def office_book_def record_event_def on_desk_def put_equity_def filter_id_conv) (metis (mono_tags, lifting) filter_cong)
qed

interpretation days: isolated "fold_day w e run st pid created equity_days" "\<lambda>acc. view pid (fst acc)" "\<lambda>_. True"
proof
  fix acc day acc'
  assume d: "fold_day w e run st pid created equity_days acc day = Inr acc'"
  obtain of1 counts carried where acc: "acc = (of1, counts, carried)" by (metis prod_cases3)
  show "view pid (fst acc') = view pid (fst acc)"
  proof (cases "is_session day")
    case True
    obtain of2 counts' where f: "fold_session w e (run\<lparr>sx_day := day\<rparr>) st pid (of1, counts) = Inr (of2, counts')"
      using d True by (auto simp: fold_day_def acc bindE_eq_Inr)
    have v: "view pid of2 = view pid of1" using fold_session_isolated [OF f] by simp
    show ?thesis
    proof (cases "day < created \<and> day \<notin> set equity_days")
      case early: True
      then show ?thesis using d True f v by (auto simp: fold_day_def acc)
    next
      case False
      obtain of3 r where m: "mark_account e of2 pid day (account_price_source st) (sx_now run) = Inr (of3, r)"
        "fst acc' = of3 \<or> fst acc' = on_desk (note_event pid ''late_reconciled'' (MarkedSession day) (sx_now run)) of3"
        using d True f False unfolding fold_day_def acc by (auto simp: bindE_eq_Inr Let_def)
      then show ?thesis using mark_account_isolated [OF m(1)] v by (auto simp: acc view_on_desk)
    qed
  qed (use d in \<open>simp add: fold_day_def acc\<close>)
qed

lemma record_split_isolated:
  "others pid (desk_book (record_split pid now s dk)) = others pid (desk_book dk)" "sim_equity (d_store (record_split pid now s dk)) = sim_equity (d_store dk)"
  by (simp_all add: record_split_def others_def desk_book_def split: prod.split option.split)

lemma capture_splits_isolated: "view pid (on_desk (capture_splits pid day now) of1) = view pid of1"
proof -
  have "others pid (desk_book (fold (record_split pid now) xs dk)) = others pid (desk_book dk) \<and>
      sim_equity (d_store (fold (record_split pid now) xs dk)) = sim_equity (d_store dk)" for xs dk
    by (induction xs arbitrary: dk) (simp_all add: record_split_isolated)
  then show ?thesis by (simp add: view_def office_book_def desk_book_def on_desk_def capture_splits_def Let_def)
qed

lemma fold_days_isolated:
  assumes "fold_days w e run pid end0 of1 = Inr acc"
  shows "view pid (fst acc) = view pid of1"
proof -
  obtain p evs where p: "portfolio_row_of (office_book of1) pid = Some p" "events e (office_book of1) [pid] None None = Inr evs"
    using assms by (auto simp: fold_days_def Let_def bindE_eq_Inr split: option.split_asm)
  obtain finish xs bk where f: "rebuild_state e (office_book (on_desk (capture_splits pid finish (sx_now run)) of1)) (Some [pid]) xs = Inr bk"
    and rest: "\<exists>st created equity_days ys. foldE (fold_day w e run st pid created equity_days)
      (on_book (\<lambda>_. bk) (on_desk (capture_splits pid finish (sx_now run)) of1), [], []) ys = Inr acc"
    using assms unfolding fold_days_def p option.case Let_def bindE_simps bindE_eq_Inr by blast
  from rest obtain st created equity_days ys where y: "foldE (fold_day w e run st pid created equity_days)
      (on_book (\<lambda>_. bk) (on_desk (capture_splits pid finish (sx_now run)) of1), [], []) ys = Inr acc" by blast
  have "view pid (fst acc) = view pid (on_book (\<lambda>_. bk) (on_desk (capture_splits pid finish (sx_now run)) of1))"
    using days.run_view [OF y] by simp
  then show ?thesis by (simp add: view_on_book [OF others_rebuild [OF f]] capture_splits_isolated)
qed

section \<open>Operations that move no money\<close>

text \<open>The money of all accounts: what the views of the accounts are cut from.\<close>

definition money :: "office \<Rightarrow> account_rows \<times> equity_row list" where
  "money of1 = ((map (\<lambda>p. (pf_id p, pf_cash p)) (portfolios (office_book of1)), sim_positions (office_book of1), sim_position_lots (office_book of1),
     sim_day_trades (office_book of1), sim_fills (office_book of1), sim_cash_events (office_book of1), sim_dividends (office_book of1),
     sim_settlements (office_book of1), sim_splits (office_book of1)), sim_equity (d_store (o_desk of1)))"

lemma view_money:
  assumes "money of2 = money of1"
  shows "view pid of2 = view pid of1"
proof -
  define row where "row = (\<lambda>p::portfolio_row. (pf_id p, pf_cash p))"
  have f: "map row (filter (\<lambda>p. pf_id p \<noteq> pid) rows) = filter (\<lambda>x. fst x \<noteq> pid) (map row rows)" for rows
    by (induction rows) (auto simp: row_def)
  have "map row (portfolios (office_book of2)) = map row (portfolios (office_book of1))" using assms by (simp add: money_def Let_def row_def)
  then have "map row (filter (\<lambda>p. pf_id p \<noteq> pid) (portfolios (office_book of2))) = map row (filter (\<lambda>p. pf_id p \<noteq> pid) (portfolios (office_book of1)))"
    by (simp only: f)
  then show ?thesis using assms by (simp add: view_def others_def money_def Let_def row_def)
qed

lemma money_on_desk: "d_store (f (o_desk of1)) = d_store (o_desk of1) \<Longrightarrow> money (on_desk f of1) = money of1"
  by (simp add: money_def office_book_def on_desk_def)

lemma money_desk: "d_store dk = d_store (o_desk of1) \<Longrightarrow> money (of1\<lparr>o_desk := dk\<rparr>) = money of1"
  by (simp add: money_def office_book_def)

lemma money_rows: "(\<And>p. pf_id (f p) = pf_id p \<and> pf_cash (f p) = pf_cash p) \<Longrightarrow>
    money (on_book (\<lambda>bk. bk\<lparr>portfolios := update_rows P f (portfolios bk)\<rparr>) of1) = money of1"
  by (simp add: money_def office_book_def on_book_def on_desk_def update_rows_def Let_def)

lemma money_helpers [simp]:
  "money (record_event of1 pid k body now) = money of1" "money (update_state pid g of1) = money of1" "money (put_reconciliation r of1) = money of1"
  "money (set_active pid a of1) = money of1" "money (init_schema of1) = money of1" "money (mark_retired pid now of1) = money of1"
proof -
  show "money (record_event of1 pid k body now) = money of1" unfolding record_event_def by (rule money_on_desk) simp
  show u: "money (update_state pid g of1) = money of1" for g unfolding update_state_def by (rule money_on_desk) simp
  show "money (put_reconciliation r of1) = money of1" by (simp add: put_reconciliation_def money_def office_book_def)
  show "money (set_active pid a of1) = money of1" unfolding set_active_def by (rule money_rows) simp
  show "money (mark_retired pid now of1) = money of1" unfolding mark_retired_def by (rule u)
  have "money (on_book (\<lambda>bk. bk\<lparr>portfolios := update_rows (\<lambda>p. pf_initial_cash p = None) (\<lambda>p. p\<lparr>pf_initial_cash := Some INITIAL_CASH\<rparr>)
      (portfolios bk)\<rparr>) of1) = money of1" by (rule money_rows) simp
  then show "money (init_schema of1) = money of1" unfolding init_schema_def by (rule trans [OF money_on_desk, rotated]) (simp add: bootstrap_order_sequence_def)
qed

lemma money_set_status: "set_status of1 pid s = Inr of2 \<Longrightarrow> money of2 = money of1"
  by (auto simp: set_status_def bindE_eq_Inr set_portfolio_account_def money_def office_book_def on_book_def on_desk_def split: if_split_asm)

lemma money_ensure_state: "ensure_state of1 pid now = Inr of2 \<Longrightarrow> money of2 = money of1"
  by (auto simp: ensure_state_def money_on_desk split: if_split_asm option.split_asm)

lemma money_halt:
  assumes "halt_account of1 pid reason now detail = Inr (of2, b)"
  shows "money of2 = money of1"
proof -
  have c: "money (on_desk (cancel_orders ids why now) x) = money x" for ids why x by (rule money_on_desk) simp
  show ?thesis using assms unfolding halt_account_def Let_def
    by (auto simp: bindE_eq_Inr c dest!: money_set_status money_ensure_state split: if_split_asm)
qed

lemma money_check:
  assumes "check of0 pid d now = Inr (of2, r)"
  shows "money of2 = money of0"
proof -
  from assms consider "of2 = init_schema of0" | x f g where "ensure_state (init_schema of0) pid now = Inr x" "of2 = update_state pid g (update_state pid f x)"
    | x f g k y b where "ensure_state (init_schema of0) pid now = Inr x" "halt_account (update_state pid g (update_state pid f x)) pid k now y = Inr (of2, b)"
    unfolding check_def Let_def by (auto split: option.split_asm if_split_asm simp: bindE_eq_Inr)
  then show ?thesis by cases (auto dest!: money_ensure_state money_halt)
qed

lemma money_finalize:
  assumes "finalize_retirement of1 pid now = Inr (of2, b)"
  shows "money of2 = money of1"
  using assms unfolding finalize_retirement_def
  by (auto simp: bindE_eq_Inr dest!: money_set_status split: if_split_asm)

lemma maintenance_store:
  assumes "check_maintenance e dk now day sel = Inr (dk', out)"
  shows "d_store dk' = d_store dk"
proof -
  have step: "d_store (fst acc') = d_store (fst acc)" if "maintenance_step e now day acc p = Inr acc'" for acc p acc'
    using that by (cases acc; cases p) (auto simp: maintenance_step_def Let_def bindE_eq_Inr queues_forced_def
        dest!: queue_margin_reductions_forced split: if_split_asm)
  show ?thesis
    using assms foldE_frame [where p = "\<lambda>acc. d_store (fst acc)" and f = "maintenance_step e now day"] step
    by (auto simp: check_maintenance_def bindE_eq_Inr)
qed

lemma money_concentration:
  assumes "concentration of1 day now sel = Inr of2"
  shows "money of2 = money of1"
proof -
  have "money (alert_ticker day now sel entry x) = money x" for entry x
  proof -
    have "money (fold (\<lambda>(pid, _, _) o1. if P o1 pid then o1 else record_event o1 pid k body now) hs x) = money x" for P k body and hs :: "(string \<times> float64 \<times> string) list"
      by (induction hs arbitrary: x) (simp_all add: split_beta)
    then show ?thesis by (cases entry) (simp add: alert_ticker_def Let_def)
  qed
  then have "money (fold (alert_ticker day now sel) xs x) = money x" for xs x by (induction xs arbitrary: x) simp_all
  then show ?thesis using assms by (auto simp: concentration_def Let_def bindE_eq_Inr)
qed

lemma money_after_fold:
  assumes "after_fold e run pid of1 = Inr of2"
  shows "money of2 = money of1"
proof -
  obtain of5 b where f: "finalize_retirement of5 pid (sx_now run) = Inr (of2, b)" and
    m: "of5 = of1 \<or> (\<exists>day x dk3 dk4 r out ids. check of1 pid day (sx_now run) = Inr (x, r) \<and> check_maintenance e (o_desk x) (sx_clock run) day (Some pid) = Inr (dk3, out) \<and>
       (dk4 = dk3 \<or> (\<exists>sdb. queue_buy_ins e dk3 sdb day (Some pid) = Inr (dk4, ids))) \<and> concentration (x\<lparr>o_desk := dk4\<rparr>) day (sx_now run) (Some pid) = Inr of5)"
    using assms unfolding after_fold_def by (auto simp: bindE_eq_Inr split: option.split_asm) blast+
  have "money of5 = money of1"
    using m
  proof (elim disjE exE conjE)
    fix day x dk3 dk4 r out ids
    assume a: "check of1 pid day (sx_now run) = Inr (x, r)" "check_maintenance e (o_desk x) (sx_clock run) day (Some pid) = Inr (dk3, out)"
      "concentration (x\<lparr>o_desk := dk4\<rparr>) day (sx_now run) (Some pid) = Inr of5" and d: "dk4 = dk3"
    show ?thesis using money_check [OF a(1)] maintenance_store [OF a(2)] money_concentration [OF a(3)] d by (simp add: money_desk)
  next
    fix day x dk3 dk4 r out ids sdb
    assume a: "check of1 pid day (sx_now run) = Inr (x, r)" "check_maintenance e (o_desk x) (sx_clock run) day (Some pid) = Inr (dk3, out)"
      "concentration (x\<lparr>o_desk := dk4\<rparr>) day (sx_now run) (Some pid) = Inr of5" "queue_buy_ins e dk3 sdb day (Some pid) = Inr (dk4, ids)"
    have "d_store dk4 = d_store dk3" using queue_buy_ins_forced [OF a(4)] by (simp add: queues_forced_def)
    then show ?thesis using money_check [OF a(1)] maintenance_store [OF a(2)] money_concentration [OF a(3)] by (simp add: money_desk)
  qed simp
  then show ?thesis using money_finalize [OF f] by simp
qed

section \<open>Settlements of delisted holdings\<close>

lemma bindV_eq_Inr: "bindV m f = Inr y \<longleftrightarrow> (\<exists>x. m = Inr x \<and> f x = Inr y)"
  by (simp add: bindV_def split: sum.split)

lemma raised_eq_Inr [simp]: "raised m = Inr y \<longleftrightarrow> m = Inr y"
  by (simp add: raised_def split: sum.split)

lemma foldV_frame:
  assumes "foldV f s xs = Inr s'" "\<And>t x t'. x \<in> set xs \<Longrightarrow> f t x = Inr t' \<Longrightarrow> p t' = p t"
  shows "p s' = p s"
  using assms
proof (induction xs arbitrary: s)
  case (Cons x xs)
  then obtain t where t: "f s x = Inr t" "foldV f t xs = Inr s'" by (auto simp: bindV_eq_Inr)
  have "p s' = p t" by (rule Cons.IH [OF t(2)]) (use Cons.prems(2) in auto)
  then show ?case using Cons.prems(2) [OF _ t(1)] by simp
qed simp

lemma others_record_settlement:
  "record_settlement t ts p bk = Inr bk' \<Longrightarrow> others (bp_portfolio p) bk' = others (bp_portfolio p) bk"
  by (auto simp: record_settlement_def others_def split: if_split_asm)

lemma others_settlement_event:
  "apply_settlement_event e bk pid t k q p into r = Inr (bk', ms) \<Longrightarrow> others pid bk' = others pid bk"
  by (rule others_determined, erule reset_settlement) simp

lemma settle_book_isolated:
  assumes "settle_book w e run False t of1 p = Inr of2"
  shows "view (bp_portfolio p) of2 = view (bp_portfolio p) of1"
proof -
  have c: "view pid (on_desk (cancel_pending t ts p) x) = view pid x" for pid ts x
    by (rule view_on_desk) (simp add: cancel_pending_def Let_def)
  obtain bk o1 where bk: "record_settlement t (sx_now run) p (office_book of1) = Inr bk" and
    o1: "o1 = on_book (\<lambda>_. bk) of1 \<or> (\<exists>bk' ms. apply_settlement_event e (office_book (on_book (\<lambda>_. bk) of1)) (bp_portfolio p) (tm_ticker t) (tm_kind t) (bp_qty p) (tm_price t)
        (tm_into t) (tm_ratio t) = Inr (bk', ms) \<and> o1 = on_book (\<lambda>_. bk') (on_book (\<lambda>_. bk) of1))"
    and of2: "of2 = on_desk (cancel_pending t (sx_now run) p) o1"
    using assms unfolding settle_book_def Let_def by (auto simp: bindV_eq_Inr split: if_split_asm)
  have v: "view (bp_portfolio p) (on_book (\<lambda>_. bk) of1) = view (bp_portfolio p) of1"
    by (rule view_on_book) (rule others_record_settlement [OF bk])
  from o1 have "view (bp_portfolio p) o1 = view (bp_portfolio p) of1"
    by (auto simp: v view_on_book [OF others_settlement_event])
  then show ?thesis by (simp add: of2 c)
qed

lemma plans_of_account:
  assumes "plan_settlement dk t = Inr plans" "tm_portfolios t = Some books" "set books \<subseteq> {pid}" "p \<in> set plans"
  shows "bp_portfolio p = pid"
proof -
  obtain rows where rows: "holders (desk_book dk) t = Inr rows" "mapE (plan_book dk t) rows = Inr plans"
    using assms(1) by (auto simp: plan_settlement_def bindE_eq_Inr)
  obtain r where r: "r \<in> set rows" "plan_book dk t r = Inr p" using mapE_set [OF rows(2)] assms(4) by blast
  have "pos_portfolio r \<in> set books" using rows(1) r(1) assms(2) by (auto simp: holders_def Let_def bindE_eq_Inr)
  then show ?thesis using assms(3) r(2) by (auto simp: plan_book_def bindE_eq_Inr)
qed

lemma delisting_terms_books:
  assumes "t \<in> set (delisting_terms snapshots st d [pid])"
  shows "\<exists>books. tm_portfolios t = Some books \<and> set books \<subseteq> {pid}"
proof -
  define B where "B x = filter (\<lambda>q. q \<notin> set (map st_portfolio (filter (\<lambda>r. st_ticker r = tm_ticker (terms_of (ledger st) d x) \<and>
      st_effective r = tm_effective (terms_of (ledger st) d x)) (sim_settlements (ledger st)))))
    (map snd (filter (\<lambda>h. fst h = dx_ticker x) (held_names (ledger st) [pid])))" for x
  have "delisting_terms snapshots st d [pid] = List.map_filter (\<lambda>x. if B x = [] then None else Some (terms_of (ledger st) d x\<lparr>tm_portfolios := Some (B x)\<rparr>))
      (delistings snapshots st d (map fst (held_names (ledger st) [pid])))"
    by (simp only: delisting_terms_def Let_def B_def list.distinct if_False)
  then obtain x where "tm_portfolios t = Some (B x)" using assms by (auto simp: map_filter_def split: if_split_asm)
  moreover have "set (B x) \<subseteq> {pid}" for x by (auto simp: B_def held_names_def)
  ultimately show ?thesis by blast
qed

lemma close_out_isolated:
  assumes "close_out_account w e run pid of1 = Inr of2"
  shows "view pid of2 = view pid of1"
proof -
  define terms where "terms = delisting_terms (universe_snapshot (sx_liquidity run)) (d_store (o_desk of1)) (sx_day run) [pid]"
  obtain done1 where f: "foldV (close_out_step w e run False) (of1, []) terms = Inr (of2, done1)"
    using assms by (auto simp: close_out_account_def close_out_delisted_def bindV_eq_Inr terms_def)
  have mine: "\<exists>books. tm_portfolios t = Some books \<and> set books \<subseteq> {pid}" if "t \<in> set terms" for t
    using delisting_terms_books that unfolding terms_def .
  have "view pid (fst acc') = view pid (fst acc)" if t: "t \<in> set terms" and a: "close_out_step w e run False acc t = Inr acc'" for acc t acc'
  proof (cases "settle w e run True False t (fst acc)")
    case (Inr r)
    obtain of3 plans where r: "r = (of3, plans)" by (cases r)
    have p: "plan_settlement (o_desk (fst acc)) t = Inr plans" "foldV (settle_book w e run False t) (fst acc) plans = Inr of3"
      using Inr by (auto simp: r settle_def bindV_eq_Inr)
    obtain books where b: "tm_portfolios t = Some books" "set books \<subseteq> {pid}" using mine [OF t] by blast
    have "view pid of3 = view pid (fst acc)"
      by (rule foldV_frame [OF p(2)]) (use plans_of_account [OF p(1) b] settle_book_isolated in blast)
    then show ?thesis using a by (auto simp: close_out_step_def Inr r)
  next
    case (Inl v)
    then show ?thesis using a by (auto simp: close_out_step_def split: verdict.split_asm exc.split_asm)
  qed
  then show ?thesis using foldV_frame [OF f, of "\<lambda>acc. view pid (fst acc)"] by simp
qed

section \<open>The nightly run\<close>

lemma fold_account_isolated:
  assumes "fold_account w e run pid end0 mutation of1 = Inr (of2, r)" "\<And>o2. mutation of1 = Inr o2 \<Longrightarrow> view pid o2 = view pid of1"
  shows "view pid of2 = view pid of1"
proof -
  obtain o2 o3 counts carried where m: "mutation of1 = Inr o2" and d: "fold_days w e run pid end0 o2 = Inr (o3, counts, carried)"
    and a: "after_fold e run pid o3 = Inr of2"
    using assms(1) by (auto simp: fold_account_def bindV_eq_Inr)
  show ?thesis using assms(2) [OF m] fold_days_isolated [OF d] view_money [OF money_after_fold [OF a], of pid] by simp
qed

lemma store_failure_money:
  assumes "store_failure c run pid v of1 = Inr of2"
  shows "money of2 = money of1"
proof -
  obtain of3 where p: "persist_mismatch c of1 pid v (sx_now run) None = Inr of3"
    and of2: "of2 = on_desk (note_event pid ''settlement_error'' (ErrorNote (sx_day run) (fst (sx_error run v)) (take 1000 (snd (sx_error run v)))) (sx_now run)) of3"
    using assms by (auto simp: store_failure_def bindE_eq_Inr)
  have "money of2 = money of3" unfolding of2 by (rule money_on_desk) simp
  moreover have "money of3 = money of1" using p by (auto simp: persist_mismatch_def Let_def bindE_eq_Inr dest!: money_halt)
  ultimately show ?thesis by simp
qed

end
