(* ===== verification/NightlyLaws.thy ===== *)
theory NightlyLaws
  imports Isolation
begin

text \<open>
  What the nightly run over the accounts (\<open>settle_session\<close> of \<open>src/engine/accounts/settle.py\<close>) promises: an account never moves the
  money of another, an account whose fold fails is halted with its evidence and moves no money, a fold that returns has been
  verified before and after, every account is completed or reported exactly once, and splits are captured once.
\<close>

section \<open>The run\<close>

text \<open>C3: Accounts are isolated. When the nightly run has processed one account, successfully or not, the money of every other
  account is what it was: its cash, positions, lots, day trades, fills, cash events, dividends, settlements, splits and stored closes.\<close>

theorem account_isolated:
  assumes "settle_account c e run late manage (of1, out) (pid, st) = Inr (of9, out9)"
  shows "view pid of9 = view pid of1"
proof (cases "account_status st \<in> {''active'', ''halted'', ''retiring''}")
  case True
  let ?f = "fold_account c e run pid (sx_day run) (close_out_account c e run pid) of1"
  show ?thesis
  proof (cases ?f)
    case (Inr r)
    then have "?f = Inr (of9, snd r)" using assms True by (cases r) (auto simp: settle_account_def)
    then show ?thesis by (rule fold_account_isolated) (rule close_out_isolated)
  next
    case (Inl v)
    then have "store_failure c run pid v of1 = Inr of9" using assms True by (auto simp: settle_account_def bindV_eq_Inr split: if_split_asm)
    then show ?thesis by (intro view_money) (rule store_failure_money)
  qed
next
  case False
  then show ?thesis using assms by (simp add: settle_account_def)
qed

text \<open>C13: A failing account is halted and the run goes on. When the fold of an active, halted or retiring account fails, the
  managed run moves no money: it leaves the account halted, stores a mismatch reconciliation of that moment and reports the error.\<close>

theorem failed_account_halts:
  assumes "office_account of1 pid = Inr st" "account_status st \<in> {''active'', ''halted'', ''retiring''}"
    and "fold_account c e run pid (sx_day run) (close_out_account c e run pid) of1 = Inl v"
  shows "\<exists>of2 r x y. settle_account c e run late True (of1, out) (pid, st) = Inr (of2, out\<lparr>so_errors := so_errors out @ [(pid, x, y)]\<rparr>) \<and>
    money of2 = money of1 \<and> explicit_status of2 pid = Some ''halted'' \<and>
    r \<in> set (account_reconciliations of2) \<and> rc_portfolio r = pid \<and> rc_status r = ''mismatch'' \<and> rc_created r = sx_now run"
proof -
  let ?n = "note_event pid ''settlement_error'' (ErrorNote (sx_day run) (fst (sx_error run v)) (take 1000 (snd (sx_error run v)))) (sx_now run)"
  have "account_status st \<noteq> ''retired''" using assms(2) by auto
  then obtain of2 r where p: "persist_mismatch c of1 pid v (sx_now run) None = Inr of2" "explicit_status of2 pid = Some ''halted''"
    and r: "r \<in> set (account_reconciliations of2)" "rc_portfolio r = pid" "rc_status r = ''mismatch''" "rc_created r = sx_now run"
    using persist_mismatch_halts [OF assms(1), of c v "sx_now run" None] by auto
  have f: "store_failure c run pid v of1 = Inr (on_desk ?n of2)" by (simp add: store_failure_def p)
  have s: "settle_account c e run late True (of1, out) (pid, st) =
      Inr (on_desk ?n of2, out\<lparr>so_errors := so_errors out @ [(pid, fst (sx_error run v), take 1000 (snd (sx_error run v)))]\<rparr>)"
    by (simp only: settle_account_def prod.case assms(2,3) f sum.case raised_def bindV_def not_True_eq_False if_False)
  have "explicit_status (on_desk ?n of2) pid = Some ''halted''" using p(2) by (simp add: explicit_status_def office_book_def on_desk_def)
  moreover have "r \<in> set (account_reconciliations (on_desk ?n of2))" using r(1) by (simp add: on_desk_def)
  ultimately show ?thesis using s store_failure_money [OF f] r by blast
qed

text \<open>C21: A verified fold. A fold of an account that returns started from a state its journal verifies, and the money it leaves
  is that of a state its journal verifies: the checks after the fold move none.\<close>

theorem fold_account_verified:
  assumes "fold_account w e run pid end0 mutation of1 = Inr (of9, r)"
  shows "require_verified e of1 pid (sx_now run) = Inr () \<and>
    (\<exists>of3. require_verified e of3 pid (sx_now run) = Inr () \<and> money of9 = money of3)"
  using assms money_after_fold by (auto simp: fold_account_def bindV_eq_Inr) blast

lemma settle_accounts_report:
  assumes "foldV (settle_account c e run late manage) (of1, out) xs = Inr (of9, out9)"
  shows "mset (so_completed out9) + mset (map fst (so_errors out9)) = mset (so_completed out) + mset (map fst (so_errors out)) +
    mset (map fst (filter (\<lambda>a. account_status (snd a) \<in> {''active'', ''halted'', ''retiring''}) xs))"
  using assms
proof (induction xs arbitrary: of1 out)
  case (Cons a xs)
  obtain of2 out2 where s: "settle_account c e run late manage (of1, out) a = Inr (of2, out2)"
    and rest: "foldV (settle_account c e run late manage) (of2, out2) xs = Inr (of9, out9)"
    using Cons.prems by (auto simp: bindV_eq_Inr)
  obtain pid st where a: "a = (pid, st)" by (cases a)
  have "mset (so_completed out2) + mset (map fst (so_errors out2)) = mset (so_completed out) + mset (map fst (so_errors out)) +
      (if account_status st \<in> {''active'', ''halted'', ''retiring''} then {#pid#} else {#})"
  proof (cases "account_status st \<in> {''active'', ''halted'', ''retiring''}")
    case True
    show ?thesis
      using s by (simp only: a settle_account_def prod.case True not_True_eq_False if_False if_True)
        (auto simp: add_result_def Let_def bindV_eq_Inr split: sum.split_asm if_split_asm)
  qed (use s in \<open>simp add: a settle_account_def\<close>)
  then show ?case using Cons.IH [OF rest] by (simp add: a del: insert_iff)
qed simp

text \<open>C22: Every account is accounted for. A managed nightly run that returns has completed or reported as failed every active,
  halted or retiring account, each exactly once, and no other.\<close>

theorem settle_session_report:
  assumes "settle_session c e run late manage of1 = Inr (of9, out)" "account_portfolios (office_book of1) False = Inr accounts"
  shows "mset (so_completed out @ map fst (so_errors out)) =
    mset (map fst (filter (\<lambda>a. account_status (snd a) \<in> {''active'', ''halted'', ''retiring''}) accounts))"
proof -
  have f: "foldV (settle_account c e run late manage) (of1, empty_out) (sort_key (\<lambda>a. first_receipt (o_desk of1) (fst a)) accounts) = Inr (of9, out)"
    using assms by (simp add: settle_session_def bindV_eq_Inr raised_def)
  show ?thesis using settle_accounts_report [OF f] by (simp add: empty_out_def mset_filter mset_map del: insert_iff)
qed

section \<open>Splits\<close>

text \<open>A desk on which the capture of a split does nothing: it has no event table, or the split is one of the account's events.\<close>

definition captured :: "string \<Rightarrow> desk \<Rightarrow> string \<times> date \<times> float64 \<Rightarrow> bool" where
  "captured pid dk s = (case account_events dk of None \<Rightarrow> True
     | Some evs \<Rightarrow> \<exists>v\<in>set evs. ae_portfolio v = pid \<and> ae_kind v = ''split'' \<and> ae_payload v = SplitNote (fst s) (fst (snd s)) (snd (snd s)))"

lemma record_split_captured: "captured pid dk s \<Longrightarrow> record_split pid now s dk = dk"
  by (cases s) (auto simp: captured_def record_split_def split: option.splits)

lemma captured_record_split: "captured pid (record_split pid now s dk) s"
  by (cases s) (auto simp: captured_def record_split_def note_event_def add_account_event_def Let_def split: option.split)

lemma captured_kept: "captured pid dk s \<Longrightarrow> captured pid (record_split pid now s' dk) s"
  by (cases s') (auto simp: captured_def record_split_def note_event_def add_account_event_def Let_def split: option.split)

lemma fold_record_split_captured: "captured pid dk s \<or> s \<in> set xs \<Longrightarrow> captured pid (fold (record_split pid now) xs dk) s"
  by (induction xs arbitrary: dk) (auto simp: captured_record_split captured_kept)

lemma fold_captured: "(\<And>s. s \<in> set xs \<Longrightarrow> captured pid dk s) \<Longrightarrow> fold (record_split pid now) xs dk = dk"
  by (induction xs) (simp_all add: record_split_captured)

text \<open>Recording a split changes neither what the capture reads nor the splits recorded before.\<close>

lemma record_split_reads:
  "corporate_actions (d_store (record_split pid now s dk)) = corporate_actions (d_store dk)"
  "account_tickers (record_split pid now s dk) pid = account_tickers dk pid"
  "set (recorded_splits (desk_book dk) pid None) \<subseteq> set (recorded_splits (desk_book (record_split pid now s dk)) pid None)"
  by (cases s, auto simp: record_split_def account_tickers_def recorded_splits_def desk_book_def split: option.split)+

lemma fold_record_split_reads:
  "corporate_actions (d_store (fold (record_split pid now) xs dk)) = corporate_actions (d_store dk) \<and>
   account_tickers (fold (record_split pid now) xs dk) pid = account_tickers dk pid \<and>
   set (recorded_splits (desk_book dk) pid None) \<subseteq> set (recorded_splits (desk_book (fold (record_split pid now) xs dk)) pid None)"
proof (induction xs arbitrary: dk)
  case (Cons s xs)
  show ?case using Cons.IH [of "record_split pid now s dk"] record_split_reads(1,2) [of pid now s dk] record_split_reads(3) [of dk pid now s] by auto
qed simp

lemma set_map_filter: "y \<in> set (List.map_filter f xs) \<longleftrightarrow> (\<exists>x\<in>set xs. f x = Some y)"
  by (induction xs) (auto simp: map_filter_simps split: option.split)

lemma in_captured_splits:
  "s \<in> set (captured_splits dk pid day now) \<longleftrightarrow> (\<exists>actions. corporate_actions (d_store dk) = Some actions \<and> (\<exists>a\<in>set actions. \<exists>v. ca_value a = Some v \<and>
     ca_kind a = ''split'' \<and> ca_ex_date a \<le> day \<and> flt (Fin 0) v \<and> isfinite v \<and> known_by now a \<and> ca_ticker a \<in> set (account_tickers dk pid) \<and>
     s = (ca_ticker a, ca_ex_date a, v)))"
proof (cases "corporate_actions (d_store dk)")
  case (Some actions)
  have o: "(case o1 of Some v \<Rightarrow> if P v then Some (g v) else None | None \<Rightarrow> None) = Some s \<longleftrightarrow> (\<exists>v. o1 = Some v \<and> P v \<and> s = g v)"
    for o1 :: "float64 option" and P and g :: "float64 \<Rightarrow> string \<times> date \<times> float64" by (cases o1) auto
  show ?thesis unfolding captured_splits_def Some option.case set_sort set_map_filter o by simp
qed (simp add: captured_splits_def)

lemma captured_splits_mono:
  assumes "corporate_actions (d_store dk') = corporate_actions (d_store dk)" "account_tickers dk' pid = account_tickers dk pid" "day' \<le> day" "now' \<le> now"
  shows "set (captured_splits dk' pid day' now') \<subseteq> set (captured_splits dk pid day now)"
proof
  have known: "known_by now' a \<Longrightarrow> known_by now a" for a using assms(4) by (auto simp: known_by_def split: option.split_asm)
  fix s
  assume "s \<in> set (captured_splits dk' pid day' now')"
  then show "s \<in> set (captured_splits dk pid day now)"
    unfolding in_captured_splits assms(1,2) using known order_trans [OF _ assms(3)] by blast
qed

text \<open>C25: Splits are captured once. After the splits known for a day have been captured, capturing them again, for that day or an
  earlier one and at that moment or an earlier one, changes nothing: no event, and no split of the ledger, is recorded twice.\<close>

theorem splits_captured_once:
  assumes "day' \<le> day" "now' \<le> now"
  shows "capture_splits pid day' now' (capture_splits pid day now dk) = capture_splits pid day now dk"
proof -
  define xs where "xs = filter (\<lambda>(t, ex, _). (t, ex) \<notin> set (map (\<lambda>s. (sp_ticker s, sp_ex_date s)) (recorded_splits (desk_book dk) pid None)))
    (captured_splits dk pid day now)"
  define dk' where "dk' = fold (record_split pid now) xs dk"
  have dk': "capture_splits pid day now dk = dk'" by (simp add: capture_splits_def Let_def dk'_def xs_def)
  note reads = fold_record_split_reads [of pid now xs dk, folded dk'_def]
  have "captured pid dk' s" if "s \<in> set (captured_splits dk' pid day' now')"
    "(fst s, fst (snd s)) \<notin> set (map (\<lambda>s. (sp_ticker s, sp_ex_date s)) (recorded_splits (desk_book dk') pid None))" for s
  proof -
    have "s \<in> set (captured_splits dk pid day now)" using captured_splits_mono [of dk' dk pid day' day now' now] reads assms that(1) by blast
    moreover have "(fst s, fst (snd s)) \<notin> set (map (\<lambda>s. (sp_ticker s, sp_ex_date s)) (recorded_splits (desk_book dk) pid None))"
      using that(2) reads by auto
    ultimately have "s \<in> set xs" by (auto simp: xs_def split_beta)
    then show ?thesis unfolding dk'_def by (intro fold_record_split_captured) simp
  qed
  then have "fold (record_split pid now') (filter (\<lambda>(t, ex, _). (t, ex) \<notin> set (map (\<lambda>s. (sp_ticker s, sp_ex_date s)) (recorded_splits (desk_book dk') pid None)))
      (captured_splits dk' pid day' now')) dk' = dk'"
    by (intro fold_captured) (auto simp: split_beta)
  then show ?thesis unfolding dk' by (simp only: capture_splits_def Let_def)
qed

section \<open>Witnesses\<close>

text \<open>Account A was opened on the day of the run and has its initial cash; account B is retired.\<close>

definition example_opening :: office where
  "example_opening = on_book (\<lambda>bk. bk\<lparr>portfolios := update_rows (\<lambda>p. pf_id p = ''A'')
       (\<lambda>p. p\<lparr>pf_cash := Fin 1000, pf_initial_cash := Some (Fin 1000), pf_created := ymd 2026 10 8\<rparr>) (portfolios bk),
     sim_positions := [], sim_position_lots := [], sim_day_trades := []\<rparr>)
     (on_desk (\<lambda>dk. dk\<lparr>sim_orders := [], sim_order_details := [], d_store := (d_store dk)\<lparr>sim_equity := []\<rparr>\<rparr>) example_office)"

declare bindE_def [code_unfold] bindV_def [code_unfold]

text \<open>The journal of account A of \<open>example_office\<close> does not explain its state: its fold fails.\<close>

lemma example_failure:
  obtains st v where "office_account example_office ''A'' = Inr st" "account_status st = ''active''"
    "fold_account example_codec example_env example_run ''A'' (sx_day example_run) (close_out_account example_codec example_env example_run ''A'') example_office = Inl v"
proof -
  have "case office_account example_office ''A'' of Inr st \<Rightarrow> account_status st = ''active'' | Inl _ \<Rightarrow> False" by code_simp
  moreover have "case require_verified example_env example_office ''A'' (sx_now example_run) of Inl _ \<Rightarrow> True | Inr _ \<Rightarrow> False" by code_simp
  ultimately show ?thesis using that by (auto simp: fold_account_def bindV_def split: sum.split_asm)
qed

theorem failed_account_halts_witness:
  "\<exists>of2 st out2. settle_account example_codec example_env example_run False True (example_office, empty_out) (''A'', st) = Inr (of2, out2) \<and>
     money of2 = money example_office \<and> explicit_status of2 ''A'' = Some ''halted'' \<and> length (so_errors out2) = 1"
proof -
  obtain st v where f: "office_account example_office ''A'' = Inr st" "account_status st = ''active''"
    "fold_account example_codec example_env example_run ''A'' (sx_day example_run) (close_out_account example_codec example_env example_run ''A'') example_office = Inl v"
    by (rule example_failure)
  have "account_status st \<in> {''active'', ''halted'', ''retiring''}" using f(2) by simp
  from failed_account_halts [OF f(1) this f(3), of False empty_out] obtain of2 x y where
    "settle_account example_codec example_env example_run False True (example_office, empty_out) (''A'', st) =
       Inr (of2, empty_out\<lparr>so_errors := so_errors empty_out @ [(''A'', x, y)]\<rparr>)"
    "money of2 = money example_office" "explicit_status of2 ''A'' = Some ''halted''" by blast
  then show ?thesis by (intro exI [of _ of2] exI [of _ st] exI) (auto simp: empty_out_def)
qed

theorem fold_account_verified_witness:
  "\<exists>of9 r. fold_account example_codec example_env example_run ''A'' (ymd 2026 10 8) Inr example_opening = Inr (of9, r) \<and>
     require_verified example_env example_opening ''A'' (sx_now example_run) = Inr () \<and> sim_equity (d_store (o_desk of9)) \<noteq> []"
proof -
  have "case fold_account example_codec example_env example_run ''A'' (ymd 2026 10 8) Inr example_opening of
      Inr (of9, r) \<Rightarrow> sim_equity (d_store (o_desk of9)) \<noteq> [] | Inl _ \<Rightarrow> False" by code_simp
  then obtain of9 r where f: "fold_account example_codec example_env example_run ''A'' (ymd 2026 10 8) Inr example_opening = Inr (of9, r)"
    "sim_equity (d_store (o_desk of9)) \<noteq> []" by (auto split: sum.split_asm)
  then show ?thesis using fold_account_verified [OF f(1)] by blast
qed

theorem account_isolated_witness:
  "\<exists>st of9 out9. settle_account example_codec example_env example_run False True (example_opening, empty_out) (''A'', st) = Inr (of9, out9) \<and>
     so_completed out9 = [''A''] \<and> view ''A'' of9 = view ''A'' example_opening"
proof -
  have "case portfolio_account (office_book example_opening) ''A'' of Inl _ \<Rightarrow> False | Inr st \<Rightarrow>
      (case settle_account example_codec example_env example_run False True (example_opening, empty_out) (''A'', st) of
         Inr (of9, out9) \<Rightarrow> so_completed out9 = [''A''] | Inl _ \<Rightarrow> False)" by code_simp
  then obtain st of9 out9 where s: "settle_account example_codec example_env example_run False True (example_opening, empty_out) (''A'', st) = Inr (of9, out9)"
    "so_completed out9 = [''A'']" by (auto split: sum.split_asm)
  then show ?thesis using account_isolated [OF s(1)] by blast
qed

theorem settle_session_report_witness:
  "\<exists>of9 out. settle_session example_codec example_env example_run False True example_opening = Inr (of9, out) \<and>
     mset (so_completed out @ map fst (so_errors out)) = {#''A''#}"
proof -
  have "case account_portfolios (office_book example_opening) False of Inl _ \<Rightarrow> False | Inr accounts \<Rightarrow>
      map fst (filter (\<lambda>a. account_status (snd a) \<in> {''active'', ''halted'', ''retiring''}) accounts) = [''A'']" by code_simp
  then obtain accounts where a: "account_portfolios (office_book example_opening) False = Inr accounts"
    "map fst (filter (\<lambda>a. account_status (snd a) \<in> {''active'', ''halted'', ''retiring''}) accounts) = [''A'']" by (auto split: sum.split_asm)
  have "case settle_session example_codec example_env example_run False True example_opening of Inr _ \<Rightarrow> True | Inl _ \<Rightarrow> False" by code_simp
  then obtain of9 out where s: "settle_session example_codec example_env example_run False True example_opening = Inr (of9, out)" by (auto split: sum.split_asm)
  show ?thesis using settle_session_report [OF s a(1)] s unfolding a(2) by auto
qed

text \<open>One split of a held name, captured.\<close>

theorem splits_captured_once_witness:
  "let dk = capture_splits ''A'' (ymd 2026 10 8) 5 (example_desk\<lparr>sim_orders := sim_orders (o_desk example_office), d_store := (d_store example_desk)\<lparr>corporate_actions :=
       Some [\<lparr>ca_ticker = ''SPY'', ca_ex_date = ymd 2026 10 7, ca_kind = ''split'', ca_value = Some (Fin 2), ca_fetched_at = Some 4\<rparr>]\<rparr>\<rparr>)
   in length (sim_splits (desk_book dk)) = 1 \<and> capture_splits ''A'' (ymd 2026 10 8) 4 dk = dk"
proof -
  let ?dk = "example_desk\<lparr>sim_orders := sim_orders (o_desk example_office), d_store := (d_store example_desk)\<lparr>corporate_actions :=
       Some [\<lparr>ca_ticker = ''SPY'', ca_ex_date = ymd 2026 10 7, ca_kind = ''split'', ca_value = Some (Fin 2), ca_fetched_at = Some 4\<rparr>]\<rparr>\<rparr>"
  have "length (sim_splits (desk_book (capture_splits ''A'' (ymd 2026 10 8) 5 ?dk))) = 1" by code_simp
  then show ?thesis using splits_captured_once [of "ymd 2026 10 8" "ymd 2026 10 8" 4 5 "''A''" ?dk] unfolding Let_def by simp
qed

end
