(* ===== verification/Broker.thy ===== *)
theory Broker
  imports Wire Instruments "HOL-Library.List_Lexorder" "HOL-Library.Char_ord"
begin

text \<open>
  The broker boundary: the value types of \<open>src/server/broker_contract.py\<close> with the checks of their constructors, and the
  pre-trade risk decision of \<open>src/server/broker_risk.py\<close> (twenty gates over a policy, an identity, a request and a
  snapshot, and the verification of a stored decision). Fields have HOL types, so what is left of a constructor is its
  checks on values; a numeric field is a float, as the constructors normalise it. The digests are parameters.
\<close>

section \<open>Errors\<close>

datatype broker_error =
    InvalidValue string
  | RiskContractError string
  | BrokerIdempotencyConflict
  | BrokerSubmissionUncertain
  | BrokerCancellationUncertain
  | BrokerStateError string
  | BrokerRiskRejected string
  | AdapterRaised

type_synonym 'a checked = "broker_error + 'a"

definition bindB :: "'a checked \<Rightarrow> ('a \<Rightarrow> 'b checked) \<Rightarrow> 'b checked" where
  "bindB m f = (case m of Inl x \<Rightarrow> Inl x | Inr v \<Rightarrow> f v)"

definition demand :: "bool \<Rightarrow> broker_error \<Rightarrow> unit checked" where
  "demand c x = (if c then Inr () else Inl x)"

primrec mapB :: "('a \<Rightarrow> 'b checked) \<Rightarrow> 'a list \<Rightarrow> 'b list checked" where
  "mapB f [] = Inr []"
| "mapB f (x # xs) = bindB (f x) (\<lambda>y. bindB (mapB f xs) (\<lambda>ys. Inr (y # ys)))"

lemma bindB_eq_Inr: "bindB m f = Inr y \<longleftrightarrow> (\<exists>x. m = Inr x \<and> f x = Inr y)"
  by (simp add: bindB_def split: sum.split)

lemma bindB_Inr [simp]: "bindB (Inr x) f = f x"
  by (simp add: bindB_def)

lemma demand_eq_Inr [simp]: "demand c x = Inr u \<longleftrightarrow> c"
  by (simp add: demand_def)

section \<open>The contract\<close>

definition MAX_FILL_BATCH :: nat where "MAX_FILL_BATCH = 500"
definition MAX_REASON_CHARS :: nat where "MAX_REASON_CHARS = 4096"

definition is_symbol :: "string \<Rightarrow> bool" where
  "is_symbol s = (case s of [] \<Rightarrow> False
     | c # cs \<Rightarrow> c \<in> set (upper_letters @ digits) \<and> length cs \<le> 31 \<and> (\<forall>x\<in>set cs. x \<in> set (upper_letters @ digits @ ''.^=-'')))"

definition require_identifier :: "string \<Rightarrow> string \<Rightarrow> unit checked" where
  "require_identifier v label = demand (is_identifier v) (InvalidValue (label @ '' is invalid''))"

definition require_symbol :: "string \<Rightarrow> unit checked" where
  "require_symbol v = demand (is_symbol v) (InvalidValue ''symbol is invalid'')"

definition require_positive_finite :: "float64 \<Rightarrow> string \<Rightarrow> unit checked" where
  "require_positive_finite x label = demand (isfinite x \<and> \<not> fle x (Fin 0)) (InvalidValue (label @ '' must be a positive finite number''))"

definition require_nonnegative_finite :: "float64 \<Rightarrow> string \<Rightarrow> unit checked" where
  "require_nonnegative_finite x label = demand (isfinite x \<and> \<not> flt x (Fin 0)) (InvalidValue (label @ '' must be a nonnegative finite number''))"

record SubmitOrderRequest =
  bq_key :: string
  bq_account :: string
  bq_symbol :: string
  bq_side :: string
  bq_quantity :: float64
  bq_signal :: date
  bq_order_type :: string
  bq_tif :: string
  bq_extended :: bool

definition check_terms :: "string \<Rightarrow> string \<Rightarrow> bool \<Rightarrow> unit checked" where
  "check_terms order_type tif extended =
     bindB (demand (order_type = ''market'') (InvalidValue ''only market orders are supported'')) (\<lambda>_.
     bindB (demand (tif = ''day'') (InvalidValue ''only day time-in-force is supported'')) (\<lambda>_.
     demand (\<not> extended) (InvalidValue ''extended-hours orders are unsupported'')))"

definition check_request :: "SubmitOrderRequest \<Rightarrow> unit checked" where
  "check_request r =
     bindB (require_identifier (bq_key r) ''idempotency key'') (\<lambda>_.
     bindB (require_identifier (bq_account r) ''account identifier'') (\<lambda>_.
     bindB (require_symbol (bq_symbol r)) (\<lambda>_.
     bindB (demand (bq_side r \<in> {''buy'', ''sell''}) (InvalidValue ''side is invalid'')) (\<lambda>_.
     bindB (require_positive_finite (bq_quantity r) ''quantity'') (\<lambda>_.
     check_terms (bq_order_type r) (bq_tif r) (bq_extended r))))))"

record BrokerAccount =
  ba_account :: string
  ba_venue :: string
  ba_environment :: string
  ba_active :: bool
  ba_currency :: string
  ba_cash :: float64
  ba_buying_power :: float64
  ba_initial_cash :: float64
  ba_margin_enabled :: bool

text \<open>\<open>str.isupper\<close> on ASCII text: some letter, and no lower-case one.\<close>

definition is_upper :: "string \<Rightarrow> bool" where
  "is_upper s \<longleftrightarrow> list_ex (\<lambda>c. c \<in> set upper_letters) s \<and> list_all (\<lambda>c. c \<notin> set lower_letters) s"

definition is_ascii :: "string \<Rightarrow> bool" where
  "is_ascii s = list_all (\<lambda>c. \<not> digit7 c) s"

definition check_account :: "BrokerAccount \<Rightarrow> unit checked" where
  "check_account a =
     bindB (require_identifier (ba_account a) ''account identifier'') (\<lambda>_.
     bindB (require_identifier (ba_venue a) ''venue'') (\<lambda>_.
     bindB (demand (ba_environment a \<in> {''simulator'', ''paper'', ''live-disabled''}) (InvalidValue ''environment is invalid'')) (\<lambda>_.
     bindB (demand (length (ba_currency a) = 3 \<and> is_ascii (ba_currency a) \<and> is_upper (ba_currency a)) (InvalidValue ''currency is invalid'')) (\<lambda>_.
     bindB (require_nonnegative_finite (ba_cash a) ''cash'') (\<lambda>_.
     bindB (require_nonnegative_finite (ba_buying_power a) ''buying power'') (\<lambda>_.
     require_positive_finite (ba_initial_cash a) ''initial cash''))))))"

record BrokerPosition =
  bp_account :: string
  bp_symbol :: string
  bp_quantity :: float64
  bp_average_price :: float64

definition check_position :: "BrokerPosition \<Rightarrow> unit checked" where
  "check_position p =
     bindB (require_identifier (bp_account p) ''account identifier'') (\<lambda>_.
     bindB (require_symbol (bp_symbol p)) (\<lambda>_.
     bindB (require_positive_finite (bp_quantity p) ''position quantity'') (\<lambda>_.
     require_positive_finite (bp_average_price p) ''position average price'')))"

record BrokerOrder =
  bo_id :: string
  bo_key :: string
  bo_account :: string
  bo_symbol :: string
  bo_side :: string
  bo_quantity :: float64
  bo_signal :: date
  bo_status :: string
  bo_rejection :: "string option"
  bo_filled :: float64
  bo_order_type :: string
  bo_tif :: string
  bo_extended :: bool

definition validate_order_state :: "BrokerOrder \<Rightarrow> unit checked" where
  "validate_order_state x =
     (let s = bo_status x; reason = InvalidValue ''terminal order reason is invalid'' in
      bindB (demand (s \<in> {''pending'', ''partially_filled'', ''filled'', ''rejected'', ''cancelled'', ''expired''}) (InvalidValue ''order status is invalid'')) (\<lambda>_.
      bindB (if s \<in> {''rejected'', ''cancelled'', ''expired''}
             then demand (case bo_rejection x of None \<Rightarrow> False | Some t \<Rightarrow> strip t \<noteq> [] \<and> length t \<le> MAX_REASON_CHARS) reason
             else demand (bo_rejection x = None) reason) (\<lambda>_.
      bindB (demand (\<not> (s = ''pending'' \<and> bo_filled x \<noteq> Fin 0)) (InvalidValue ''pending order cannot have filled quantity'')) (\<lambda>_.
      bindB (demand (\<not> (s = ''partially_filled'' \<and> \<not> (flt (Fin 0) (bo_filled x) \<and> flt (bo_filled x) (bo_quantity x))))
               (InvalidValue ''partially filled order quantity is invalid'')) (\<lambda>_.
      demand (\<not> (s = ''filled'' \<and> bo_filled x \<noteq> bo_quantity x)) (InvalidValue ''filled order quantity is invalid''))))))"

definition check_order :: "BrokerOrder \<Rightarrow> unit checked" where
  "check_order x =
     bindB (require_identifier (bo_id x) ''broker order identifier'') (\<lambda>_.
     bindB (require_identifier (bo_key x) ''idempotency key'') (\<lambda>_.
     bindB (require_identifier (bo_account x) ''account identifier'') (\<lambda>_.
     bindB (require_symbol (bo_symbol x)) (\<lambda>_.
     bindB (demand (bo_side x \<in> {''buy'', ''sell''}) (InvalidValue ''side is invalid'')) (\<lambda>_.
     bindB (require_positive_finite (bo_quantity x) ''order quantity'') (\<lambda>_.
     bindB (require_nonnegative_finite (bo_filled x) ''filled quantity'') (\<lambda>_.
     bindB (demand (\<not> flt (bo_quantity x) (bo_filled x)) (InvalidValue ''filled quantity exceeds order quantity'')) (\<lambda>_.
     bindB (validate_order_state x) (\<lambda>_.
     check_terms (bo_order_type x) (bo_tif x) (bo_extended x))))))))))"

record BrokerFill =
  bf_execution :: string
  bf_order :: string
  bf_key :: string
  bf_account :: string
  bf_symbol :: string
  bf_side :: string
  bf_quantity :: float64
  bf_occurred :: date
  bf_reference_price :: float64
  bf_price :: float64
  bf_cost_bps :: float64

definition check_fill :: "BrokerFill \<Rightarrow> unit checked" where
  "check_fill f =
     bindB (require_identifier (bf_execution f) ''execution identifier'') (\<lambda>_.
     bindB (require_identifier (bf_order f) ''broker order identifier'') (\<lambda>_.
     bindB (require_identifier (bf_key f) ''idempotency key'') (\<lambda>_.
     bindB (require_identifier (bf_account f) ''account identifier'') (\<lambda>_.
     bindB (require_symbol (bf_symbol f)) (\<lambda>_.
     bindB (demand (bf_side f \<in> {''buy'', ''sell''}) (InvalidValue ''side is invalid'')) (\<lambda>_.
     bindB (require_positive_finite (bf_quantity f) ''fill quantity'') (\<lambda>_.
     bindB (require_positive_finite (bf_reference_price f) ''fill reference price'') (\<lambda>_.
     bindB (require_positive_finite (bf_price f) ''fill price'') (\<lambda>_.
     require_nonnegative_finite (bf_cost_bps f) ''fill total cost'')))))))))"

record FillBatch =
  fb_fills :: "BrokerFill list"
  fb_next_cursor :: "string option"
  fb_truncated :: bool

definition check_batch :: "FillBatch \<Rightarrow> unit checked" where
  "check_batch b =
     bindB (demand (length (fb_fills b) \<le> MAX_FILL_BATCH) (InvalidValue ''fill batch is invalid'')) (\<lambda>_.
     bindB (case fb_next_cursor b of None \<Rightarrow> Inr () | Some c \<Rightarrow> require_identifier c ''fill cursor'') (\<lambda>_.
     demand (\<not> (fb_truncated b \<and> fb_fills b = [])) (InvalidValue ''truncated fill batch cannot be empty'')))"

section \<open>Risk inputs\<close>

definition RISK_SCHEMA_VERSION :: int where "RISK_SCHEMA_VERSION = 2"

definition GATE_NAMES :: "string list" where
  "GATE_NAMES = [''identity'', ''account'', ''instrument'', ''order_constraints'', ''market_session'', ''dependency_health'', ''reconciliation'',
     ''operational_control'', ''corporate_action'', ''market_data'', ''order_notional'', ''cash'', ''capital_allocation'', ''gross_exposure'',
     ''position_concentration'', ''daily_turnover'', ''daily_order_count'', ''liquidity_participation'', ''daily_loss'', ''drawdown'']"

record RiskPolicy =
  po_id :: string
  po_account :: string
  po_strategy :: string
  po_release_sha :: string
  po_config_sha :: string
  po_profile :: string
  po_profile_sha :: string
  po_allowed :: "string list"
  po_capital_ceiling :: float64
  po_max_gross :: float64
  po_max_position :: float64
  po_max_notional :: float64
  po_max_turnover :: float64
  po_max_orders :: int
  po_max_participation :: float64
  po_max_daily_loss :: float64
  po_max_drawdown :: float64
  po_max_deviation :: float64
  po_quote_age :: int
  po_reconciliation_age :: int
  po_ttl :: int

definition positive :: "float64 \<Rightarrow> string \<Rightarrow> unit checked" where
  "positive x label = demand (isfinite x \<and> \<not> fle x (Fin 0)) (RiskContractError (label @ '' must be a positive finite number''))"

definition nonnegative :: "float64 \<Rightarrow> string \<Rightarrow> unit checked" where
  "nonnegative x label = demand (isfinite x \<and> \<not> flt x (Fin 0)) (RiskContractError (label @ '' must be a nonnegative finite number''))"

definition fraction :: "float64 \<Rightarrow> string \<Rightarrow> unit checked" where
  "fraction x label = bindB (nonnegative x label) (\<lambda>_. demand (\<not> flt (Fin 1) x) (RiskContractError (label @ '' must be from zero through one'')))"

definition sha256 :: "string \<Rightarrow> string \<Rightarrow> unit checked" where
  "sha256 v label = demand (is_sha256 v) (RiskContractError (label @ '' must be a lowercase SHA-256''))"

text \<open>A \<open>ValueError\<close> of the contract is raised again as a \<open>RiskContractError\<close>.\<close>

definition as_contract :: "'a checked \<Rightarrow> 'a checked" where
  "as_contract m = (case m of Inl (InvalidValue t) \<Rightarrow> Inl (RiskContractError t) | _ \<Rightarrow> m)"

definition check_all_of :: "('x \<Rightarrow> unit checked) \<Rightarrow> 'x list \<Rightarrow> unit checked" where
  "check_all_of f xs = bindB (mapB f xs) (\<lambda>_. Inr ())"

definition validate_policy_symbols :: "RiskPolicy \<Rightarrow> unit checked" where
  "validate_policy_symbols p =
     bindB (demand (po_allowed p \<noteq> [] \<and> po_allowed p = sort (remdups (po_allowed p))) (RiskContractError ''allowed symbols must be a sorted unique tuple'')) (\<lambda>_.
     check_all_of (as_contract \<circ> require_symbol) (po_allowed p))"

definition normalize_policy_limits :: "RiskPolicy \<Rightarrow> unit checked" where
  "normalize_policy_limits p =
     bindB (positive (po_capital_ceiling p) ''capital ceiling'') (\<lambda>_.
     bindB (positive (po_max_gross p) ''gross exposure ceiling'') (\<lambda>_.
     bindB (fraction (po_max_position p) ''position fraction ceiling'') (\<lambda>_.
     bindB (positive (po_max_notional p) ''order-notional ceiling'') (\<lambda>_.
     bindB (positive (po_max_turnover p) ''daily turnover ceiling'') (\<lambda>_.
     bindB (fraction (po_max_participation p) ''participation ceiling'') (\<lambda>_.
     bindB (fraction (po_max_daily_loss p) ''daily loss ceiling'') (\<lambda>_.
     bindB (fraction (po_max_drawdown p) ''drawdown ceiling'') (\<lambda>_.
     bindB (fraction (po_max_deviation p) ''reference deviation ceiling'') (\<lambda>_.
     bindB (demand (\<not> flt (po_capital_ceiling p) (po_max_notional p)) (RiskContractError ''order-notional ceiling exceeds capital ceiling'')) (\<lambda>_.
     bindB (demand (\<not> flt (po_capital_ceiling p) (po_max_gross p)) (RiskContractError ''gross exposure ceiling exceeds capital ceiling'')) (\<lambda>_.
     demand (\<not> flt (po_max_turnover p) (po_max_notional p)) (RiskContractError ''daily turnover ceiling is below order-notional ceiling''))))))))))))"

definition validate_policy_counts :: "RiskPolicy \<Rightarrow> unit checked" where
  "validate_policy_counts p =
     bindB (demand (0 < po_max_orders p) (RiskContractError ''daily order-count ceiling must be positive'')) (\<lambda>_.
     check_all_of (\<lambda>(n, label). demand (1 \<le> n \<and> n \<le> 300) (RiskContractError (label @ '' must be from 1 through 300'')))
       [(po_quote_age p, ''max quote age seconds''), (po_reconciliation_age p, ''max reconciliation age seconds''), (po_ttl p, ''decision ttl seconds'')])"

definition check_policy :: "RiskPolicy \<Rightarrow> unit checked" where
  "check_policy p =
     bindB (check_all_of (\<lambda>(v, label). as_contract (require_identifier v label))
       [(po_id p, ''risk policy identifier''), (po_account p, ''risk account identifier''), (po_strategy p, ''risk strategy identifier''),
        (po_profile p, ''risk execution profile identifier'')]) (\<lambda>_.
     bindB (check_all_of (\<lambda>(v, label). sha256 v label)
       [(po_release_sha p, ''release identity''), (po_config_sha p, ''strategy config identity''), (po_profile_sha p, ''execution profile identity'')]) (\<lambda>_.
     bindB (validate_policy_symbols p) (\<lambda>_.
     bindB (normalize_policy_limits p) (\<lambda>_.
     validate_policy_counts p))))"

record RiskIdentity =
  ri_policy :: string
  ri_strategy :: string
  ri_release_sha :: string
  ri_config_sha :: string
  ri_profile :: string
  ri_profile_sha :: string

definition check_identity :: "RiskIdentity \<Rightarrow> unit checked" where
  "check_identity i =
     bindB (check_all_of (\<lambda>(v, label). as_contract (require_identifier v label))
       [(ri_policy i, ''risk policy identifier''), (ri_strategy i, ''risk strategy identifier''), (ri_profile i, ''risk execution profile identifier'')]) (\<lambda>_.
     check_all_of (\<lambda>(v, label). sha256 v label)
       [(ri_release_sha i, ''release identity''), (ri_config_sha i, ''strategy config identity''), (ri_profile_sha i, ''execution profile identity'')])"

record PreTradeSnapshot =
  ps_as_of :: date
  ps_quote_date :: date
  ps_observed_at :: datetime
  ps_quote_at :: datetime
  ps_reconciliation_at :: datetime
  ps_evidence :: "string list"
  ps_quote_price :: float64
  ps_reference_price :: float64
  ps_median_dollar_volume :: "float64 option"
  ps_account_active :: bool
  ps_margin_enabled :: bool
  ps_instrument_type :: string
  ps_instrument_active :: bool
  ps_instrument_liquid :: bool
  ps_instrument_quarantined :: bool
  ps_market_session_open :: bool
  ps_clock_synchronized :: bool
  ps_storage_healthy :: bool
  ps_broker_healthy :: bool
  ps_reconciled :: bool
  ps_operational_halt :: bool
  ps_corporate_action_clear :: bool
  ps_currency :: string
  ps_cash :: float64
  ps_buying_power :: float64
  ps_equity :: float64
  ps_gross_exposure :: float64
  ps_symbol_exposure :: float64
  ps_held_quantity :: float64
  ps_pending_sell_quantity :: float64
  ps_reserved_buy_notional :: float64
  ps_reserved_symbol_buy_notional :: float64
  ps_reserved_turnover_notional :: float64
  ps_reserved_order_count :: int
  ps_daily_turnover :: float64
  ps_daily_order_count :: int
  ps_daily_pnl :: float64
  ps_drawdown_fraction :: float64

text \<open>The five digests of a snapshot are the list \<open>ps_evidence\<close>, in the order of \<open>evidence_names\<close>. The instants are UTC.\<close>

definition evidence_names :: "string list" where
  "evidence_names = [''account snapshot sha256'', ''reconciliation sha256'', ''market state sha256'', ''performance state sha256'', ''operational control sha256'']"

definition validate_snapshot_evidence :: "PreTradeSnapshot \<Rightarrow> unit checked" where
  "validate_snapshot_evidence s =
     bindB (demand (length (ps_evidence s) = length evidence_names) (RiskContractError ''evidence'')) (\<lambda>_.
     bindB (check_all_of (\<lambda>(v, label). sha256 v label) (zip (ps_evidence s) evidence_names)) (\<lambda>_.
     bindB (demand (ps_instrument_type s \<in> {''equity'', ''etf''}) (RiskContractError ''instrument type must be equity or etf'')) (\<lambda>_.
     demand (ps_currency s = ''USD'') (RiskContractError ''risk currency must be USD''))))"

definition normalize_snapshot_values :: "PreTradeSnapshot \<Rightarrow> unit checked" where
  "normalize_snapshot_values s =
     bindB (check_all_of (\<lambda>(x, label). positive x label)
       [(ps_quote_price s, ''quote_price''), (ps_reference_price s, ''reference_price''), (ps_equity s, ''equity'')]) (\<lambda>_.
     bindB (case ps_median_dollar_volume s of None \<Rightarrow> Inr () | Some m \<Rightarrow> positive m ''median dollar volume'') (\<lambda>_.
     bindB (check_all_of (\<lambda>(x, label). nonnegative x label)
       [(ps_cash s, ''cash''), (ps_buying_power s, ''buying_power''), (ps_gross_exposure s, ''gross_exposure''), (ps_symbol_exposure s, ''symbol_exposure''),
        (ps_held_quantity s, ''held_quantity''), (ps_pending_sell_quantity s, ''pending_sell_quantity''), (ps_reserved_buy_notional s, ''reserved_buy_notional''),
        (ps_reserved_symbol_buy_notional s, ''reserved_symbol_buy_notional''), (ps_reserved_turnover_notional s, ''reserved_turnover_notional''),
        (ps_daily_turnover s, ''daily_turnover'')]) (\<lambda>_.
     bindB (check_all_of (\<lambda>(n, label). demand (0 \<le> n) (RiskContractError (label @ '' must be nonnegative'')))
       [(ps_reserved_order_count s, ''reserved order count''), (ps_daily_order_count s, ''daily order count'')]) (\<lambda>_.
     bindB (demand (isfinite (ps_daily_pnl s)) (RiskContractError ''daily P&L must be finite'')) (\<lambda>_.
     fraction (ps_drawdown_fraction s) ''drawdown fraction'')))))"

definition check_snapshot :: "PreTradeSnapshot \<Rightarrow> unit checked" where
  "check_snapshot s = bindB (validate_snapshot_evidence s) (\<lambda>_. normalize_snapshot_values s)"

section \<open>The decision\<close>

text \<open>The formats \<open>:.8f\<close> and \<open>:.3f\<close> (correctly rounded, ties to even), and \<open>str\<close> of an integer.\<close>

fun decimal :: "int \<Rightarrow> string" where
  "decimal n = (if n < 10 then [digit_char n] else decimal (n div 10) @ [digit_char (n mod 10)])"

declare decimal.simps [simp del]

definition int_text :: "int \<Rightarrow> string" where
  "int_text n = (if n < 0 then CHR ''-'' # decimal (- n) else decimal n)"

definition fixed_text :: "nat \<Rightarrow> float64 \<Rightarrow> string" where
  "fixed_text k x = (case x of
     Fin a \<Rightarrow> (let n = rne (\<bar>a\<bar> * 10 ^ k) in
       (if a < 0 then ''-'' else []) @ decimal (n div 10 ^ k) @ ''.'' @ padded k (n mod 10 ^ k))
   | PInf \<Rightarrow> ''inf'' | NInf \<Rightarrow> ''-inf'' | NaN \<Rightarrow> ''nan'')"

record RiskGate =
  rg_name :: string
  rg_status :: string
  rg_detail :: string

definition gate :: "string \<times> bool \<times> string \<Rightarrow> RiskGate checked" where
  "gate g = (case g of (name, passed, detail) \<Rightarrow>
     if name \<notin> set GATE_NAMES \<or> detail = [] \<or> 512 < length detail then Inl (RiskContractError ''risk gate is invalid'')
     else Inr \<lparr>rg_name = name, rg_status = (if passed then ''pass'' else ''fail''), rg_detail = detail\<rparr>)"

record RiskComputed =
  cp_notional :: float64
  cp_resulting_gross :: float64
  cp_resulting_symbol :: float64
  cp_available_to_sell :: float64
  cp_reserved_buy :: float64
  cp_reserved_symbol_buy :: float64
  cp_reserved_turnover :: float64
  cp_reserved_count :: int
  cp_participation :: "float64 option"
  cp_deviation :: float64
  cp_quote_age :: float64
  cp_reconciliation_age :: float64
  cp_daily_loss :: float64

text \<open>\<open>timedelta.total_seconds\<close> of a difference of instants.\<close>

definition seconds :: "int \<Rightarrow> float64" where
  "seconds usec = rnd (of_int usec / 1000000)"

definition compute :: "SubmitOrderRequest \<Rightarrow> PreTradeSnapshot \<Rightarrow> RiskComputed" where
  "compute r s =
     (let notional = fmul (bq_quantity r) (ps_reference_price s);
          signed = (if bq_side r = ''buy'' then notional else fneg notional)
      in \<lparr>cp_notional = notional,
          cp_resulting_gross = fadd (fadd (ps_gross_exposure s) (ps_reserved_buy_notional s)) signed,
          cp_resulting_symbol = fadd (fadd (ps_symbol_exposure s) (ps_reserved_symbol_buy_notional s)) signed,
          cp_available_to_sell = fmax (Fin 0) (fsub (ps_held_quantity s) (ps_pending_sell_quantity s)),
          cp_reserved_buy = ps_reserved_buy_notional s, cp_reserved_symbol_buy = ps_reserved_symbol_buy_notional s,
          cp_reserved_turnover = ps_reserved_turnover_notional s, cp_reserved_count = ps_reserved_order_count s,
          cp_participation = map_option (fquot notional) (ps_median_dollar_volume s),
          cp_deviation = fabs (fsub (fquot (ps_reference_price s) (ps_quote_price s)) (Fin 1)),
          cp_quote_age = seconds (ps_observed_at s - ps_quote_at s),
          cp_reconciliation_age = seconds (ps_observed_at s - ps_reconciliation_at s),
          cp_daily_loss = fmax (Fin 0) (fquot (fneg (ps_daily_pnl s)) (ps_equity s))\<rparr>)"

definition identity_matches :: "RiskPolicy \<Rightarrow> RiskIdentity \<Rightarrow> SubmitOrderRequest \<Rightarrow> bool" where
  "identity_matches p i r \<longleftrightarrow> bq_account r = po_account p \<and> ri_policy i = po_id p \<and> ri_strategy i = po_strategy p \<and>
     ri_release_sha i = po_release_sha p \<and> ri_config_sha i = po_config_sha p \<and> ri_profile i = po_profile p \<and> ri_profile_sha i = po_profile_sha p"

definition order_constraints :: "SubmitOrderRequest \<Rightarrow> PreTradeSnapshot \<Rightarrow> RiskComputed \<Rightarrow> bool" where
  "order_constraints r s c \<longleftrightarrow> bq_order_type r = ''market'' \<and> bq_tif r = ''day'' \<and> \<not> bq_extended r \<and>
     fle (ps_pending_sell_quantity s) (ps_held_quantity s) \<and> (bq_side r = ''buy'' \<or> fle (bq_quantity r) (cp_available_to_sell c))"

definition turnover_after :: "PreTradeSnapshot \<Rightarrow> RiskComputed \<Rightarrow> float64" where
  "turnover_after s c = fadd (fadd (ps_daily_turnover s) (ps_reserved_turnover_notional s)) (cp_notional c)"

definition versus :: "string \<Rightarrow> float64 \<Rightarrow> string \<Rightarrow> float64 \<Rightarrow> string" where
  "versus what x against y = what @ fixed_text 8 x @ against @ fixed_text 8 y"

text \<open>The twenty gates: name, verdict and detail.\<close>

definition gate_list ::
    "RiskPolicy \<Rightarrow> RiskIdentity \<Rightarrow> SubmitOrderRequest \<Rightarrow> PreTradeSnapshot \<Rightarrow> RiskComputed \<Rightarrow> (string \<times> bool \<times> string) list" where
  "gate_list p i r s c =
     [(''identity'', identity_matches p i r, ''all immutable policy identities must match''),
      (''account'', ps_account_active s \<and> \<not> ps_margin_enabled s \<and> ps_currency s = ''USD'' \<and> fle (ps_buying_power s) (ps_cash s),
         ''account must be active, USD cash-only, and have no margin buying power''),
      (''instrument'', bq_symbol r \<in> set (po_allowed p) \<and> ps_instrument_type s \<in> {''equity'', ''etf''} \<and> ps_instrument_active s \<and>
           ps_instrument_liquid s \<and> \<not> ps_instrument_quarantined s,
         ''symbol must be allowlisted, active, liquid, and not quarantined''),
      (''order_constraints'', order_constraints r s c, ''market/day/regular-session and close-only sell constraints''),
      (''market_session'', ps_market_session_open s \<and> ps_as_of s = bq_signal r \<and> date_of (ps_observed_at s) = ps_as_of s,
         ''market session must be open and observed on the signal date''),
      (''dependency_health'', ps_clock_synchronized s \<and> ps_storage_healthy s \<and> ps_broker_healthy s,
         ''clock, storage, and broker health must all pass''),
      (''reconciliation'', ps_reconciled s \<and> fle (Fin 0) (cp_reconciliation_age c) \<and> fle (cp_reconciliation_age c) (Fin (of_int (po_reconciliation_age p))),
         ''cash, positions, and open orders must be reconciled; evidence age '' @ fixed_text 3 (cp_reconciliation_age c) @ ''s''),
      (''operational_control'', \<not> ps_operational_halt s, ''durable account halt must be clear''),
      (''corporate_action'', ps_corporate_action_clear s, ''instrument must have no unresolved corporate action''),
      (''market_data'', ps_quote_date s = ps_as_of s \<and> date_of (ps_quote_at s) = ps_quote_date s \<and> fle (Fin 0) (cp_quote_age c) \<and>
           fle (cp_quote_age c) (Fin (of_int (po_quote_age p))) \<and> fle (cp_deviation c) (po_max_deviation p),
         ''quote date '' @ padded 4 (year_of (ps_quote_date s)) @ ''-'' @ padded 2 (month_of (ps_quote_date s)) @ ''-'' @ padded 2 (day_of (ps_quote_date s)) @
         '', age '' @ fixed_text 3 (cp_quote_age c) @ ''s, and reference deviation '' @ fixed_text 8 (cp_deviation c)),
      (''order_notional'', fle (cp_notional c) (po_max_notional p), versus ''notional '' (cp_notional c) '' vs ceiling '' (po_max_notional p)),
      (''cash'', bq_side r = ''sell'' \<or> fle (fadd (ps_reserved_buy_notional s) (cp_notional c)) (fmin (ps_cash s) (ps_buying_power s)),
         ''reserved and proposed buy notional must not exceed cash or buying power''),
      (''capital_allocation'', fle (cp_resulting_gross c) (po_capital_ceiling p),
         versus ''resulting gross '' (cp_resulting_gross c) '' vs capital ceiling '' (po_capital_ceiling p)),
      (''gross_exposure'', fle (Fin 0) (cp_resulting_gross c) \<and> fle (cp_resulting_gross c) (po_max_gross p),
         versus ''resulting gross '' (cp_resulting_gross c) '' vs exposure ceiling '' (po_max_gross p)),
      (''position_concentration'', fle (Fin 0) (cp_resulting_symbol c) \<and> fle (cp_resulting_symbol c) (fmul (po_max_position p) (ps_equity s)),
         versus ''resulting symbol exposure '' (cp_resulting_symbol c) '' vs ceiling '' (fmul (po_max_position p) (ps_equity s))),
      (''daily_turnover'', fle (turnover_after s c) (po_max_turnover p), versus ''resulting turnover '' (turnover_after s c) '' vs ceiling '' (po_max_turnover p)),
      (''daily_order_count'', ps_daily_order_count s + ps_reserved_order_count s + 1 \<le> po_max_orders p,
         ''resulting order count '' @ int_text (ps_daily_order_count s + ps_reserved_order_count s + 1) @ '' vs ceiling '' @ int_text (po_max_orders p)),
      (''liquidity_participation'', (case cp_participation c of None \<Rightarrow> False | Some x \<Rightarrow> fle x (po_max_participation p)),
         (case cp_participation c of None \<Rightarrow> ''median dollar volume is unavailable''
          | Some x \<Rightarrow> versus ''participation '' x '' vs ceiling '' (po_max_participation p))),
      (''daily_loss'', fle (cp_daily_loss c) (po_max_daily_loss p), versus ''daily loss fraction '' (cp_daily_loss c) '' vs ceiling '' (po_max_daily_loss p)),
      (''drawdown'', fle (ps_drawdown_fraction s) (po_max_drawdown p), versus ''drawdown '' (ps_drawdown_fraction s) '' vs ceiling '' (po_max_drawdown p))]"

record RiskDecision =
  rd_schema :: int
  rd_status :: string
  rd_authority :: string
  rd_policy_sha :: string
  rd_identity_sha :: string
  rd_request_sha :: string
  rd_snapshot_sha :: string
  rd_evaluated_at :: datetime
  rd_expires_at :: datetime
  rd_policy :: RiskPolicy
  rd_identity :: RiskIdentity
  rd_request :: SubmitOrderRequest
  rd_snapshot :: PreTradeSnapshot
  rd_computed :: RiskComputed
  rd_gates :: "RiskGate list"
  rd_failed :: "string list"
  rd_decision_sha :: string

text \<open>\<open>canonical_sha256\<close> of the five payloads; the last one is of a decision without its own digest.\<close>

record digests =
  sha_policy :: "RiskPolicy \<Rightarrow> string"
  sha_identity :: "RiskIdentity \<Rightarrow> string"
  sha_request :: "SubmitOrderRequest \<Rightarrow> string"
  sha_snapshot :: "PreTradeSnapshot \<Rightarrow> string"
  sha_body :: "RiskDecision \<Rightarrow> string"

definition failed_of :: "RiskGate list \<Rightarrow> string list" where
  "failed_of gates = map rg_name (filter (\<lambda>g. rg_status g = ''fail'') gates)"

definition decision_of :: "'d digests_scheme \<Rightarrow> RiskPolicy \<Rightarrow> RiskIdentity \<Rightarrow> SubmitOrderRequest \<Rightarrow> PreTradeSnapshot \<Rightarrow> RiskGate list \<Rightarrow> RiskDecision" where
  "decision_of h p i r s gates =
     (let failed = failed_of gates;
          body = \<lparr>rd_schema = RISK_SCHEMA_VERSION, rd_status = (if failed = [] then ''pass'' else ''fail''), rd_authority = ''none'',
            rd_policy_sha = sha_policy h p, rd_identity_sha = sha_identity h i, rd_request_sha = sha_request h r, rd_snapshot_sha = sha_snapshot h s,
            rd_evaluated_at = ps_observed_at s, rd_expires_at = ps_observed_at s + po_ttl p * 1000000, rd_policy = p, rd_identity = i, rd_request = r,
            rd_snapshot = s, rd_computed = compute r s, rd_gates = gates, rd_failed = failed, rd_decision_sha = []\<rparr>
      in body\<lparr>rd_decision_sha := sha_body h body\<rparr>)"

definition evaluate :: "'d digests_scheme \<Rightarrow> RiskPolicy \<Rightarrow> RiskIdentity \<Rightarrow> SubmitOrderRequest \<Rightarrow> PreTradeSnapshot \<Rightarrow> RiskDecision checked" where
  "evaluate h p i r s =
     bindB (mapB gate (gate_list p i r s (compute r s))) (\<lambda>gates.
     bindB (demand (map rg_name gates = GATE_NAMES) (RiskContractError ''risk gate contract changed'')) (\<lambda>_.
     Inr (decision_of h p i r s gates)))"

section \<open>Verification of a stored decision\<close>

definition validate_decision_shape :: "RiskDecision \<Rightarrow> unit checked" where
  "validate_decision_shape d = demand (rd_schema d = RISK_SCHEMA_VERSION \<and> rd_status d \<in> {''pass'', ''fail''} \<and> rd_authority d = ''none'')
     (RiskContractError ''risk decision shape is invalid'')"

definition validate_decision_hashes_and_interval :: "RiskDecision \<Rightarrow> unit checked" where
  "validate_decision_hashes_and_interval d =
     bindB (check_all_of (\<lambda>(v, label). sha256 v label)
       [(rd_policy_sha d, ''policy sha256''), (rd_identity_sha d, ''identity sha256''), (rd_request_sha d, ''request sha256''),
        (rd_snapshot_sha d, ''snapshot sha256''), (rd_decision_sha d, ''decision sha256'')]) (\<lambda>_.
     demand (rd_evaluated_at d < rd_expires_at d) (RiskContractError ''risk decision validity interval is invalid''))"

definition validate_decision_payloads :: "'d digests_scheme \<Rightarrow> RiskDecision \<Rightarrow> unit checked" where
  "validate_decision_payloads h d =
     bindB (demand (sha_policy h (rd_policy d) = rd_policy_sha d) (RiskContractError ''risk decision policy is invalid'')) (\<lambda>_.
     bindB (demand (sha_identity h (rd_identity d) = rd_identity_sha d) (RiskContractError ''risk decision identity is invalid'')) (\<lambda>_.
     bindB (demand (sha_request h (rd_request d) = rd_request_sha d) (RiskContractError ''risk decision request is invalid'')) (\<lambda>_.
     demand (sha_snapshot h (rd_snapshot d) = rd_snapshot_sha d) (RiskContractError ''risk decision snapshot is invalid''))))"

definition computed_finite :: "RiskComputed \<Rightarrow> bool" where
  "computed_finite c \<longleftrightarrow> list_all isfinite [cp_notional c, cp_resulting_gross c, cp_resulting_symbol c, cp_available_to_sell c, cp_reserved_buy c,
     cp_reserved_symbol_buy c, cp_reserved_turnover c, cp_deviation c, cp_quote_age c, cp_reconciliation_age c, cp_daily_loss c] \<and>
     (case cp_participation c of None \<Rightarrow> True | Some x \<Rightarrow> isfinite x)"

definition validate_decision_computed :: "RiskDecision \<Rightarrow> unit checked" where
  "validate_decision_computed d = demand (computed_finite (rd_computed d)) (RiskContractError ''risk decision computed values are invalid'')"

definition valid_gate :: "RiskGate \<Rightarrow> bool" where
  "valid_gate g \<longleftrightarrow> rg_status g \<in> {''pass'', ''fail''} \<and> rg_detail g \<noteq> [] \<and> length (rg_detail g) \<le> 512"

definition validate_decision_outcome :: "RiskDecision \<Rightarrow> unit checked" where
  "validate_decision_outcome d =
     bindB (demand (length (rd_gates d) = length GATE_NAMES \<and> map rg_name (rd_gates d) = GATE_NAMES \<and> list_all valid_gate (rd_gates d))
              (RiskContractError ''risk decision gates are invalid'')) (\<lambda>_.
     demand (rd_failed d = failed_of (rd_gates d) \<and> rd_status d = (if failed_of (rd_gates d) = [] then ''pass'' else ''fail''))
       (RiskContractError ''risk decision outcome is inconsistent''))"

definition validate_decision_hash :: "'d digests_scheme \<Rightarrow> RiskDecision \<Rightarrow> unit checked" where
  "validate_decision_hash h d = demand (sha_body h (d\<lparr>rd_decision_sha := []\<rparr>) = rd_decision_sha d) (RiskContractError ''risk decision hash does not match'')"

text \<open>The constructors run again on the stored inputs; a \<open>ValueError\<close> of the request becomes a contract error.\<close>

definition decision_inputs :: "RiskDecision \<Rightarrow> unit checked" where
  "decision_inputs d =
     bindB (check_policy (rd_policy d)) (\<lambda>_.
     bindB (check_identity (rd_identity d)) (\<lambda>_.
     bindB (case check_request (rd_request d) of Inl (InvalidValue _) \<Rightarrow> Inl (RiskContractError ''risk decision inputs are invalid'') | m \<Rightarrow> m) (\<lambda>_.
     check_snapshot (rd_snapshot d))))"

definition verify_decision :: "'d digests_scheme \<Rightarrow> RiskDecision \<Rightarrow> RiskDecision checked" where
  "verify_decision h d =
     bindB (validate_decision_shape d) (\<lambda>_.
     bindB (validate_decision_hashes_and_interval d) (\<lambda>_.
     bindB (validate_decision_payloads h d) (\<lambda>_.
     bindB (validate_decision_computed d) (\<lambda>_.
     bindB (validate_decision_outcome d) (\<lambda>_.
     bindB (validate_decision_hash h d) (\<lambda>_.
     bindB (decision_inputs d) (\<lambda>_.
     bindB (evaluate h (rd_policy d) (rd_identity d) (rd_request d) (rd_snapshot d)) (\<lambda>again.
     bindB (demand (again = d) (RiskContractError ''risk decision does not recompute'')) (\<lambda>_. Inr d)))))))))"

section \<open>Laws\<close>

text \<open>A gate, built.\<close>

definition built :: "string \<times> bool \<times> string \<Rightarrow> RiskGate" where
  "built g = \<lparr>rg_name = fst g, rg_status = (if fst (snd g) then ''pass'' else ''fail''), rg_detail = snd (snd g)\<rparr>"

definition presentable :: "string \<times> bool \<times> string \<Rightarrow> bool" where
  "presentable g \<longleftrightarrow> snd (snd g) \<noteq> [] \<and> length (snd (snd g)) \<le> 512"

lemma gate_eq_Inr: "gate g = Inr x \<longleftrightarrow> fst g \<in> set GATE_NAMES \<and> presentable g \<and> x = built g"
  by (cases g) (auto simp: gate_def presentable_def built_def)

lemma mapB_gate: "mapB gate gs = Inr gates \<longleftrightarrow> list_all (\<lambda>g. fst g \<in> set GATE_NAMES \<and> presentable g) gs \<and> gates = map built gs"
  by (induction gs arbitrary: gates) (auto simp: bindB_eq_Inr gate_eq_Inr)

lemma gate_list_names: "map fst (gate_list p i r s c) = GATE_NAMES"
  by (simp add: gate_list_def GATE_NAMES_def)

lemma evaluate_eq_Inr:
  "evaluate h p i r s = Inr d \<longleftrightarrow> list_all presentable (gate_list p i r s (compute r s)) \<and>
     d = decision_of h p i r s (map built (gate_list p i r s (compute r s)))"
proof -
  let ?gs = "gate_list p i r s (compute r s)"
  have n: "fst g \<in> set GATE_NAMES" if "g \<in> set ?gs" for g using gate_list_names [of p i r s "compute r s"] that by (metis image_eqI list.set_map)
  have m: "map rg_name (map built ?gs) = GATE_NAMES" using gate_list_names [of p i r s "compute r s"] by (simp add: built_def comp_def)
  show ?thesis unfolding evaluate_def using n m by (auto simp: bindB_eq_Inr mapB_gate list_all_iff)
qed

lemma failed_built: "failed_of (map built gs) = [] \<longleftrightarrow> list_all (fst \<circ> snd) gs"
  by (induction gs) (auto simp: failed_of_def built_def)

lemma decision_of_simps [simp]:
  "rd_policy (decision_of h p i r s gates) = p" "rd_identity (decision_of h p i r s gates) = i" "rd_request (decision_of h p i r s gates) = r"
  "rd_snapshot (decision_of h p i r s gates) = s" "rd_computed (decision_of h p i r s gates) = compute r s" "rd_gates (decision_of h p i r s gates) = gates"
  "rd_failed (decision_of h p i r s gates) = failed_of gates" "rd_status (decision_of h p i r s gates) = (if failed_of gates = [] then ''pass'' else ''fail'')"
  "rd_schema (decision_of h p i r s gates) = RISK_SCHEMA_VERSION" "rd_authority (decision_of h p i r s gates) = ''none''"
  "rd_policy_sha (decision_of h p i r s gates) = sha_policy h p" "rd_identity_sha (decision_of h p i r s gates) = sha_identity h i"
  "rd_request_sha (decision_of h p i r s gates) = sha_request h r" "rd_snapshot_sha (decision_of h p i r s gates) = sha_snapshot h s"
  "rd_evaluated_at (decision_of h p i r s gates) = ps_observed_at s" "rd_expires_at (decision_of h p i r s gates) = ps_observed_at s + po_ttl p * 1000000"
  "rd_decision_sha (decision_of h p i r s gates) = sha_body h ((decision_of h p i r s gates)\<lparr>rd_decision_sha := []\<rparr>)"
  by (simp_all add: decision_of_def Let_def)

lemma passed_gates:
  assumes "evaluate h p i r s = Inr d" "rd_status d = ''pass''"
  shows "list_all (fst \<circ> snd) (gate_list p i r s (compute r s))"
proof -
  have d: "d = decision_of h p i r s (map built (gate_list p i r s (compute r s)))" using assms(1) by (simp add: evaluate_eq_Inr)
  have "failed_of (map built (gate_list p i r s (compute r s))) = []" using assms(2) unfolding d decision_of_simps by (simp split: if_split_asm)
  then show ?thesis by (simp only: failed_built)
qed

end
