(* ===== verification/BrokerLaws.thy ===== *)
theory BrokerLaws
  imports Broker
begin

text \<open>
  What the pre-trade risk decision of \<open>src/server/broker_risk.py\<close> guarantees: an order that passes is affordable and within the
  limits of its policy, in binary64, and the verification of a stored decision accepts exactly the decisions that the evaluation
  of their own inputs gives.
\<close>

section \<open>Checked inputs\<close>

lemma check_all_of_eq: "check_all_of f xs = Inr u \<longleftrightarrow> (\<forall>x\<in>set xs. f x = Inr ())"
proof -
  have "(\<exists>ys. mapB f xs = Inr ys) \<longleftrightarrow> (\<forall>x\<in>set xs. f x = Inr ())" by (induction xs) (auto simp: bindB_eq_Inr)
  then show ?thesis by (auto simp: check_all_of_def bindB_eq_Inr)
qed

lemma positive_eq: "positive x label = Inr u \<longleftrightarrow> (\<exists>a. x = Fin a \<and> 0 < a)"
  by (cases x) (auto simp: positive_def isfinite_def fle_def)

lemma nonnegative_eq: "nonnegative x label = Inr u \<longleftrightarrow> (\<exists>a. x = Fin a \<and> 0 \<le> a)"
  by (cases x) (auto simp: nonnegative_def isfinite_def flt_def)

lemma checked_policy:
  assumes "check_policy p = Inr ()"
  obtains c n where "po_capital_ceiling p = Fin c" "po_max_notional p = Fin n" "n \<le> c" "1 \<le> po_ttl p" "po_ttl p \<le> 300"
proof -
  have l: "normalize_policy_limits p = Inr ()" "validate_policy_counts p = Inr ()" using assms by (auto simp: check_policy_def bindB_eq_Inr)
  have "1 \<le> po_ttl p \<and> po_ttl p \<le> 300" using l(2) by (auto simp: validate_policy_counts_def bindB_eq_Inr check_all_of_eq)
  moreover have "(\<exists>c. po_capital_ceiling p = Fin c) \<and> (\<exists>n. po_max_notional p = Fin n) \<and> \<not> flt (po_capital_ceiling p) (po_max_notional p)"
    using l(1) by (auto simp: normalize_policy_limits_def bindB_eq_Inr positive_eq)
  ultimately show ?thesis using that by (auto simp: flt_def)
qed

lemma checked_snapshot:
  assumes "check_snapshot s = Inr ()"
  obtains x c b v where "ps_reference_price s = Fin x" "0 < x" "ps_cash s = Fin c" "ps_buying_power s = Fin b" "ps_reserved_buy_notional s = Fin v" "0 \<le> v"
    "\<exists>a k. ps_held_quantity s = Fin a \<and> ps_pending_sell_quantity s = Fin k \<and> 0 \<le> k"
  using assms that by (auto simp: check_snapshot_def normalize_snapshot_values_def bindB_eq_Inr check_all_of_eq positive_eq nonnegative_eq)

lemma checked_request:
  assumes "check_request r = Inr ()"
  obtains q where "bq_quantity r = Fin q" "0 < q" "bq_side r = ''buy'' \<or> bq_side r = ''sell''"
  using assms that by (cases "bq_quantity r") (auto simp: check_request_def bindB_eq_Inr require_positive_finite_def isfinite_def fle_def)

section \<open>Float bounds\<close>

lemma nonneg_product:
  assumes "0 < q" "0 < x"
  shows "fle (Fin 0) (fmul (Fin q) (Fin x))"
proof -
  have "0 \<le> q * x" using assms by simp
  then show ?thesis using fle_rnd_mono [of 0 "q * x"] by simp
qed

lemma summand_below:
  assumes "0 \<le> v" "is64 (Fin n)"
  shows "fle (Fin n) (fadd (Fin v) (Fin n))"
  using fle_rnd_mono [of n "v + n"] assms by (simp add: rnd_is64)

lemma difference_below:
  assumes "0 \<le> k" "is64 (Fin a)"
  shows "fle (fsub (Fin a) (Fin k)) (Fin a)"
  using fle_rnd_mono [of "a - k" a] assms by (simp add: rnd_is64)

section \<open>A passed order\<close>

text \<open>C11: A passed order is affordable and within the limits. When the evaluation of valid inputs passes, the order is for the
  account and an allowed symbol of its policy, no halt is in force, its notional is at most the order and the capital ceiling,
  a purchase costs no more than the cash even before what is already reserved is counted, a sale is of no more than is held,
  the exposure after the order stays within the gross ceiling, and the decision expires within 300 seconds of its snapshot.
  All amounts are binary64 values, rounding included.\<close>

theorem passed_order_within_limits:
  assumes "check_policy p = Inr ()" "check_snapshot s = Inr ()" "check_request r = Inr ()" "is64 (ps_held_quantity s)"
    and "evaluate h p i r s = Inr d" "rd_status d = ''pass''"
  shows "bq_account r = po_account p \<and> bq_symbol r \<in> set (po_allowed p) \<and> \<not> ps_operational_halt s \<and>
    fle (cp_notional (rd_computed d)) (po_max_notional p) \<and> fle (cp_notional (rd_computed d)) (po_capital_ceiling p) \<and>
    (bq_side r = ''buy'' \<longrightarrow> fle (cp_notional (rd_computed d)) (ps_cash s) \<and> fle (fadd (ps_reserved_buy_notional s) (cp_notional (rd_computed d))) (ps_cash s)) \<and>
    (bq_side r = ''sell'' \<longrightarrow> fle (bq_quantity r) (ps_held_quantity s)) \<and>
    fle (cp_resulting_gross (rd_computed d)) (po_max_gross p) \<and>
    rd_evaluated_at d < rd_expires_at d \<and> rd_expires_at d \<le> ps_observed_at s + 300 * 1000000"
proof -
  obtain c n where p: "po_capital_ceiling p = Fin c" "po_max_notional p = Fin n" "n \<le> c" "1 \<le> po_ttl p" "po_ttl p \<le> 300" by (rule checked_policy [OF assms(1)])
  obtain x m b v where s: "ps_reference_price s = Fin x" "0 < x" "ps_cash s = Fin m" "ps_buying_power s = Fin b" "ps_reserved_buy_notional s = Fin v" "0 \<le> v"
    and held: "\<exists>a k. ps_held_quantity s = Fin a \<and> ps_pending_sell_quantity s = Fin k \<and> 0 \<le> k" by (rule checked_snapshot [OF assms(2)])
  obtain a k where a: "ps_held_quantity s = Fin a" "ps_pending_sell_quantity s = Fin k" "0 \<le> k" using held by blast
  obtain q where q: "bq_quantity r = Fin q" "0 < q" "bq_side r = ''buy'' \<or> bq_side r = ''sell''" by (rule checked_request [OF assms(3)])
  have d: "rd_computed d = compute r s" "rd_evaluated_at d = ps_observed_at s" "rd_expires_at d = ps_observed_at s + po_ttl p * 1000000"
    using assms(5) by (simp_all add: evaluate_eq_Inr)
  let ?c = "compute r s"
  have g: "identity_matches p i r" "bq_symbol r \<in> set (po_allowed p)" "order_constraints r s ?c" "\<not> ps_operational_halt s" "fle (cp_notional ?c) (po_max_notional p)"
    "bq_side r = ''sell'' \<or> fle (fadd (ps_reserved_buy_notional s) (cp_notional ?c)) (fmin (ps_cash s) (ps_buying_power s))" "fle (cp_resulting_gross ?c) (po_max_gross p)"
    using passed_gates [OF assms(5,6)] by (simp_all add: gate_list_def)
  have n: "cp_notional ?c = fmul (Fin q) (Fin x)" by (simp add: compute_def Let_def q s)
  have "is64 (cp_notional ?c)" by (simp only: n is64_fmul)
  moreover obtain y where "cp_notional ?c = Fin y"
    using g(5) nonneg_product [OF q(2) s(2)] unfolding n p by (cases "fmul (Fin q) (Fin x)") (simp_all add: fle_def)
  ultimately have y: "cp_notional ?c = Fin y" "is64 (Fin y)" by simp_all
  have cap: "fle (cp_notional ?c) (po_capital_ceiling p)" using g(5) p by (simp add: y)
  have buy: "fle (cp_notional ?c) (ps_cash s) \<and> fle (fadd (ps_reserved_buy_notional s) (cp_notional ?c)) (ps_cash s)" if "bq_side r = ''buy''"
  proof -
    have "fle (fmin (ps_cash s) (ps_buying_power s)) (ps_cash s)" by (simp add: s fmin_def flt_def)
    then have t: "fle (fadd (ps_reserved_buy_notional s) (cp_notional ?c)) (ps_cash s)" using g(6) that fle_trans by auto
    moreover have "fle (cp_notional ?c) (fadd (ps_reserved_buy_notional s) (cp_notional ?c))" using summand_below [OF s(6) y(2)] by (simp add: s y)
    ultimately show ?thesis using fle_trans by blast
  qed
  have sell: "fle (bq_quantity r) (ps_held_quantity s)" if "bq_side r = ''sell''"
  proof -
    have f: "fle (Fin q) (fmax (Fin 0) (fsub (Fin a) (Fin k)))" using g(3) that by (simp add: order_constraints_def compute_def Let_def q a)
    have "fle (Fin q) (fsub (Fin a) (Fin k))" using f q(2) by (auto simp: fmax_def split: if_split_asm)
    moreover have "is64 (Fin a)" using assms(4) a(1) by simp
    ultimately have "fle (Fin q) (Fin a)" using difference_below [OF a(3)] fle_trans by blast
    then show ?thesis by (simp only: a(1) q(1))
  qed
  show ?thesis using g cap buy sell p d by (auto simp: identity_matches_def)
qed

section \<open>Stored decisions\<close>

text \<open>What \<open>canonical_sha256\<close> documents: its result is 64 lower-case hexadecimal digits.\<close>

definition digests_hex :: "'d digests_scheme \<Rightarrow> bool" where
  "digests_hex h \<longleftrightarrow> (\<forall>p. is_sha256 (sha_policy h p)) \<and> (\<forall>i. is_sha256 (sha_identity h i)) \<and> (\<forall>r. is_sha256 (sha_request h r)) \<and>
     (\<forall>s. is_sha256 (sha_snapshot h s)) \<and> (\<forall>d. is_sha256 (sha_body h d))"

lemma evaluated_decision_valid:
  assumes "digests_hex h" "evaluate h p i r s = Inr d" "check_policy p = Inr ()"
  shows "validate_decision_shape d = Inr ()" "validate_decision_hashes_and_interval d = Inr ()" "validate_decision_payloads h d = Inr ()"
    "validate_decision_outcome d = Inr ()" "validate_decision_hash h d = Inr ()"
proof -
  let ?gs = "gate_list p i r s (compute r s)"
  have d: "d = decision_of h p i r s (map built ?gs)" and ok: "list_all presentable ?gs" using assms(2) by (simp_all add: evaluate_eq_Inr)
  have ttl: "1 \<le> po_ttl p" using checked_policy [OF assms(3)] by metis
  show "validate_decision_shape d = Inr ()" by (simp add: validate_decision_shape_def d)
  show "validate_decision_hashes_and_interval d = Inr ()"
    using assms(1) ttl by (simp add: validate_decision_hashes_and_interval_def bindB_eq_Inr check_all_of_eq d sha256_def digests_hex_def)
  show "validate_decision_payloads h d = Inr ()" by (simp add: validate_decision_payloads_def d bindB_eq_Inr)
  have names: "map rg_name (map built ?gs) = GATE_NAMES" using gate_list_names [of p i r s "compute r s"] by (simp add: built_def comp_def)
  then have "length (map built ?gs) = length GATE_NAMES" by (metis length_map)
  moreover have "list_all valid_gate (map built ?gs)" using ok by (auto simp: list_all_iff valid_gate_def built_def presentable_def)
  ultimately show "validate_decision_outcome d = Inr ()" using names by (simp add: validate_decision_outcome_def d bindB_eq_Inr)
  show "validate_decision_hash h d = Inr ()" by (simp add: validate_decision_hash_def d)
qed

text \<open>C15: A stored decision is accepted exactly when it recomputes. The verification returns a decision if and only if its
  inputs are valid, evaluating them gives this very decision, digests included, and no computed amount overflowed; so
  no edit of a stored policy, request, snapshot, gate, outcome or digest goes unnoticed.\<close>

theorem verified_decision_recomputes:
  assumes "digests_hex h"
  shows "verify_decision h d = Inr d' \<longleftrightarrow> d' = d \<and> decision_inputs d = Inr () \<and> computed_finite (rd_computed d) \<and>
    evaluate h (rd_policy d) (rd_identity d) (rd_request d) (rd_snapshot d) = Inr d"
proof
  assume "verify_decision h d = Inr d'"
  then show "d' = d \<and> decision_inputs d = Inr () \<and> computed_finite (rd_computed d) \<and> evaluate h (rd_policy d) (rd_identity d) (rd_request d) (rd_snapshot d) = Inr d"
    by (auto simp: verify_decision_def validate_decision_computed_def bindB_eq_Inr)
next
  assume a: "d' = d \<and> decision_inputs d = Inr () \<and> computed_finite (rd_computed d) \<and> evaluate h (rd_policy d) (rd_identity d) (rd_request d) (rd_snapshot d) = Inr d"
  then have "check_policy (rd_policy d) = Inr ()" by (auto simp: decision_inputs_def bindB_eq_Inr)
  then show "verify_decision h d = Inr d'"
    using a evaluated_decision_valid [OF assms, of "rd_policy d" "rd_identity d" "rd_request d" "rd_snapshot d" d]
    by (simp add: verify_decision_def validate_decision_computed_def bindB_eq_Inr)
qed

section \<open>Witnesses\<close>

definition example_hex :: string where "example_hex = replicate 64 CHR ''a''"

definition example_digests :: digests where
  "example_digests = \<lparr>sha_policy = (\<lambda>_. example_hex), sha_identity = (\<lambda>_. example_hex), sha_request = (\<lambda>_. example_hex),
     sha_snapshot = (\<lambda>_. example_hex), sha_body = (\<lambda>_. example_hex)\<rparr>"

definition example_policy :: RiskPolicy where
  "example_policy = \<lparr>po_id = ''policy'', po_account = ''A'', po_strategy = ''trend'', po_release_sha = example_hex, po_config_sha = example_hex,
     po_profile = ''baseline_v1'', po_profile_sha = example_hex, po_allowed = [''SPY''], po_capital_ceiling = Fin 10000, po_max_gross = Fin 8000,
     po_max_position = Fin (1 / 2), po_max_notional = Fin 2000, po_max_turnover = Fin 5000, po_max_orders = 3, po_max_participation = Fin (1 / 64),
     po_max_daily_loss = Fin (1 / 16), po_max_drawdown = Fin (1 / 4), po_max_deviation = Fin (1 / 64), po_quote_age = 60, po_reconciliation_age = 120, po_ttl = 30\<rparr>"

definition example_identity :: RiskIdentity where
  "example_identity = \<lparr>ri_policy = ''policy'', ri_strategy = ''trend'', ri_release_sha = example_hex, ri_config_sha = example_hex, ri_profile = ''baseline_v1'',
     ri_profile_sha = example_hex\<rparr>"

definition example_order :: SubmitOrderRequest where
  "example_order = \<lparr>bq_key = ''k1'', bq_account = ''A'', bq_symbol = ''SPY'', bq_side = ''buy'', bq_quantity = Fin 3, bq_signal = ymd 2026 10 6,
     bq_order_type = ''market'', bq_tif = ''day'', bq_extended = False\<rparr>"

definition example_snapshot :: PreTradeSnapshot where
  "example_snapshot = (let now = combine (ymd 2026 10 6) (hm 15 0) in
     \<lparr>ps_as_of = ymd 2026 10 6, ps_quote_date = ymd 2026 10 6, ps_observed_at = now, ps_quote_at = now - 1000000, ps_reconciliation_at = now - 2000000,
      ps_evidence = replicate 5 example_hex, ps_quote_price = Fin 500, ps_reference_price = Fin 501, ps_median_dollar_volume = Some (Fin 1000000),
      ps_account_active = True, ps_margin_enabled = False, ps_instrument_type = ''etf'', ps_instrument_active = True, ps_instrument_liquid = True,
      ps_instrument_quarantined = False, ps_market_session_open = True, ps_clock_synchronized = True, ps_storage_healthy = True, ps_broker_healthy = True,
      ps_reconciled = True, ps_operational_halt = False, ps_corporate_action_clear = True, ps_currency = ''USD'', ps_cash = Fin 4000, ps_buying_power = Fin 4000,
      ps_equity = Fin 9000, ps_gross_exposure = Fin 5000, ps_symbol_exposure = Fin 1000, ps_held_quantity = Fin 2, ps_pending_sell_quantity = Fin 0,
      ps_reserved_buy_notional = Fin 100, ps_reserved_symbol_buy_notional = Fin 0, ps_reserved_turnover_notional = Fin 100, ps_reserved_order_count = 1,
      ps_daily_turnover = Fin 0, ps_daily_order_count = 0, ps_daily_pnl = Fin (- 10), ps_drawdown_fraction = Fin 0\<rparr>)"

declare bindB_def [code_unfold]

lemma example_passes:
  obtains d where "evaluate example_digests example_policy example_identity example_order example_snapshot = Inr d" "rd_status d = ''pass''"
    "computed_finite (rd_computed d)"
proof -
  have "case evaluate example_digests example_policy example_identity example_order example_snapshot of
      Inr d \<Rightarrow> rd_status d = ''pass'' \<and> computed_finite (rd_computed d) | Inl _ \<Rightarrow> False" by code_simp
  then show ?thesis using that by (auto split: sum.split_asm)
qed

lemma example_inputs_valid:
  "check_policy example_policy = Inr ()" "check_identity example_identity = Inr ()" "check_request example_order = Inr ()" "check_snapshot example_snapshot = Inr ()"
  by code_simp+

theorem passed_order_within_limits_witness:
  "\<exists>d. evaluate example_digests example_policy example_identity example_order example_snapshot = Inr d \<and>
     fle (cp_notional (rd_computed d)) (Fin 4000) \<and> fle (fadd (Fin 100) (cp_notional (rd_computed d))) (Fin 4000)"
proof -
  obtain d where d: "evaluate example_digests example_policy example_identity example_order example_snapshot = Inr d" "rd_status d = ''pass''" by (rule example_passes)
  have e: "is64 (ps_held_quantity example_snapshot)" using is64_numeral by (simp add: example_snapshot_def Let_def)
  have f: "bq_side example_order = ''buy''" "ps_cash example_snapshot = Fin 4000" "ps_reserved_buy_notional example_snapshot = Fin 100"
    by (simp_all add: example_snapshot_def example_order_def Let_def)
  show ?thesis using passed_order_within_limits [OF example_inputs_valid(1,4,3) e d] d(1) f by auto
qed

theorem verified_decision_recomputes_witness:
  "\<exists>d. evaluate example_digests example_policy example_identity example_order example_snapshot = Inr d \<and> verify_decision example_digests d = Inr d \<and>
     verify_decision example_digests (d\<lparr>rd_snapshot := example_snapshot\<lparr>ps_cash := Fin 1\<rparr>\<rparr>) \<noteq> Inr (d\<lparr>rd_snapshot := example_snapshot\<lparr>ps_cash := Fin 1\<rparr>\<rparr>)"
proof -
  have h: "digests_hex example_digests"
  proof -
    have "is_sha256 example_hex" by code_simp
    then show ?thesis by (simp add: digests_hex_def example_digests_def)
  qed
  obtain d where d: "evaluate example_digests example_policy example_identity example_order example_snapshot = Inr d" "rd_status d = ''pass''" "computed_finite (rd_computed d)"
    by (rule example_passes)
  have i: "rd_policy d = example_policy" "rd_identity d = example_identity" "rd_request d = example_order" "rd_snapshot d = example_snapshot"
    using d(1) by (simp_all add: evaluate_eq_Inr)
  have v: "verify_decision example_digests d = Inr d"
    using d i by (simp add: verified_decision_recomputes [OF h] decision_inputs_def example_inputs_valid)
  let ?d = "d\<lparr>rd_snapshot := example_snapshot\<lparr>ps_cash := Fin 1\<rparr>\<rparr>"
  have "case evaluate example_digests example_policy example_identity example_order (example_snapshot\<lparr>ps_cash := Fin 1\<rparr>) of Inr x \<Rightarrow> rd_status x = ''fail'' | Inl _ \<Rightarrow> True"
    by code_simp
  then have "evaluate example_digests (rd_policy ?d) (rd_identity ?d) (rd_request ?d) (rd_snapshot ?d) \<noteq> Inr ?d" using d(2) i by auto
  then have "verify_decision example_digests ?d \<noteq> Inr ?d" by (simp add: verified_decision_recomputes [OF h])
  then show ?thesis using d(1) v by blast
qed

end
