(* ===== verification/Submission.thy ===== *)
theory Submission
  imports BrokerLaws
begin

text \<open>
  The durable submission protocol: the lifecycle tables of \<open>src/server/broker_ledger.py\<close> (intents, risk decisions, submission and
  cancellation events, order and execution observations) and the coordinator \<open>submit_once\<close> of \<open>src/server/broker_submission.py\<close>. A stored JSON
  payload is the value it encodes; its canonical digest is a parameter, and column values that no code reads back are left out. The
  coordinator runs three transactions around one external call; the relation \<open>broker_step\<close> lets the transactions of any
  number of coordinators interleave, and a coordinator may stop after any of them.
\<close>

section \<open>Tables\<close>

record broker_intent =
  it_key :: string
  it_account :: string
  it_sha :: string
  it_payload :: SubmitOrderRequest

record risk_row =
  rk_key :: string
  rk_account :: string
  rk_sha :: string
  rk_payload :: RiskDecision

record submission_event =
  se_key :: string
  se_sequence :: int
  se_account :: string
  se_intent_sha :: string
  se_type :: string
  se_order_id :: "string option"
  se_order_sha :: "string option"
  se_order :: "BrokerOrder option"

record cancellation_event =
  xe_key :: string
  xe_sequence :: int
  xe_account :: string
  xe_order_id :: string
  xe_type :: string
  xe_order_sha :: "string option"
  xe_order :: "BrokerOrder option"

record order_observation =
  ob_key :: string
  ob_account :: string
  ob_order_id :: string
  ob_sha :: string
  ob_order :: BrokerOrder

record execution_row =
  ex_id :: string
  ex_account :: string
  ex_order_id :: string
  ex_sha :: string
  ex_fill :: BrokerFill

record broker_ledger =
  broker_intents :: "broker_intent list"
  broker_risk_decisions :: "risk_row list"
  broker_submission_events :: "submission_event list"
  broker_cancellation_events :: "cancellation_event list"
  broker_order_observations :: "order_observation list"
  broker_executions :: "execution_row list"

text \<open>The tables as the schema creates them.\<close>

definition empty_ledger :: broker_ledger where
  "empty_ledger = \<lparr>broker_intents = [], broker_risk_decisions = [], broker_submission_events = [], broker_cancellation_events = [], broker_order_observations = [],
     broker_executions = []\<rparr>"

record ledger_digests = digests +
  sha_intent :: "SubmitOrderRequest \<Rightarrow> string"
  sha_order :: "BrokerOrder \<Rightarrow> string"
  sha_fill :: "BrokerFill \<Rightarrow> string"

text \<open>Reading a stored payload back builds the value again, with the checks of its constructor.\<close>

definition request_from_payload :: "SubmitOrderRequest \<Rightarrow> SubmitOrderRequest checked" where
  "request_from_payload r = bindB (demand (check_request r = Inr ()) (BrokerStateError ''stored broker intent payload is invalid'')) (\<lambda>_. Inr r)"

definition order_from_payload :: "BrokerOrder option \<Rightarrow> BrokerOrder checked" where
  "order_from_payload p = (case p of
     None \<Rightarrow> Inl (BrokerStateError ''stored broker order payload is invalid'')
   | Some x \<Rightarrow> bindB (demand (check_order x = Inr ()) (BrokerStateError ''stored broker order payload is invalid'')) (\<lambda>_. Inr x))"

section \<open>Intents and decisions\<close>

definition intent_row :: "broker_ledger \<Rightarrow> string \<Rightarrow> broker_intent option" where
  "intent_row l key = find (\<lambda>r. it_key r = key) (broker_intents l)"

definition decision_row :: "broker_ledger \<Rightarrow> string \<Rightarrow> risk_row option" where
  "decision_row l key = find (\<lambda>r. rk_key r = key) (broker_risk_decisions l)"

definition record_intent :: "ledger_digests \<Rightarrow> broker_ledger \<Rightarrow> SubmitOrderRequest \<Rightarrow> (broker_ledger \<times> string) checked" where
  "record_intent h l r =
     (let digest = sha_intent h r; expected = \<lparr>it_key = bq_key r, it_account = bq_account r, it_sha = digest, it_payload = r\<rparr> in
      case intent_row l (bq_key r) of
        None \<Rightarrow> Inr (l\<lparr>broker_intents := broker_intents l @ [expected]\<rparr>, digest)
      | Some row \<Rightarrow> if row \<noteq> expected then Inl BrokerIdempotencyConflict else Inr (l, digest))"

definition record_risk_decision :: "ledger_digests \<Rightarrow> broker_ledger \<Rightarrow> SubmitOrderRequest \<Rightarrow> RiskDecision \<Rightarrow> broker_ledger checked" where
  "record_risk_decision h l r decision =
     bindB (verify_decision h decision) (\<lambda>verified.
     bindB (demand (rd_request verified = r \<and> rd_request_sha verified = sha_request h r) (BrokerStateError ''risk decision does not match broker intent'')) (\<lambda>_.
     bindB (record_intent h l r) (\<lambda>(l1, _).
     let expected = \<lparr>rk_key = bq_key r, rk_account = bq_account r, rk_sha = rd_decision_sha verified, rk_payload = verified\<rparr> in
     case decision_row l1 (bq_key r) of
       None \<Rightarrow> Inr (l1\<lparr>broker_risk_decisions := broker_risk_decisions l1 @ [expected]\<rparr>)
     | Some row \<Rightarrow> if row \<noteq> expected then Inl (BrokerStateError ''stored risk decision conflicts with idempotency key'') else Inr l1)))"

section \<open>Submissions\<close>

datatype lifecycle = Uncertain | Acknowledged

definition events_of :: "broker_ledger \<Rightarrow> string \<Rightarrow> submission_event list" where
  "events_of l key = sort_key se_sequence (filter (\<lambda>e. se_key e = key) (broker_submission_events l))"

definition started_ok :: "submission_event \<Rightarrow> bool" where
  "started_ok e \<longleftrightarrow> se_sequence e = 1 \<and> se_type e = ''submission_started'' \<and> se_order_id e = None \<and> se_order_sha e = None \<and> se_order e = None"

definition acknowledged_ok :: "submission_event \<Rightarrow> submission_event \<Rightarrow> bool" where
  "acknowledged_ok s a \<longleftrightarrow> se_sequence a = 2 \<and> se_account a = se_account s \<and> se_intent_sha a = se_intent_sha s \<and> se_type a = ''submission_acknowledged'' \<and>
     se_order_id a \<noteq> None \<and> se_order_sha a \<noteq> None \<and> se_order a \<noteq> None"

definition intent_ok :: "ledger_digests \<Rightarrow> string \<Rightarrow> broker_intent \<Rightarrow> submission_event \<Rightarrow> bool" where
  "intent_ok h key it s \<longleftrightarrow> bq_key (it_payload it) = key \<and> bq_account (it_payload it) = it_account it \<and>
     se_account s = it_account it \<and> se_intent_sha s = it_sha it \<and> sha_intent h (it_payload it) = it_sha it"

definition submission_events :: "ledger_digests \<Rightarrow> broker_ledger \<Rightarrow> string \<Rightarrow> (lifecycle \<times> submission_event) option checked" where
  "submission_events h l key = (case events_of l key of
     [] \<Rightarrow> Inr None
   | s # rest \<Rightarrow>
       bindB (demand (length rest \<le> 1 \<and> started_ok s) (BrokerStateError ''stored broker submission event sequence is invalid'')) (\<lambda>_.
       case intent_row l key of
         None \<Rightarrow> Inl (BrokerStateError ''stored broker submission has no intent'')
       | Some it \<Rightarrow>
           bindB (request_from_payload (it_payload it)) (\<lambda>_.
           bindB (demand (intent_ok h key it s) (BrokerStateError ''stored broker submission intent is invalid'')) (\<lambda>_.
           case rest of
             [] \<Rightarrow> Inr (Some (Uncertain, s))
           | a # _ \<Rightarrow> bindB (demand (acknowledged_ok s a) (BrokerStateError ''stored broker submission event sequence is invalid'')) (\<lambda>_.
                       Inr (Some (Acknowledged, a)))))))"

definition submission_state :: "ledger_digests \<Rightarrow> broker_ledger \<Rightarrow> string \<Rightarrow> lifecycle option checked" where
  "submission_state h l key = bindB (require_identifier key ''idempotency key'') (\<lambda>_. bindB (submission_events h l key) (\<lambda>st. Inr (map_option fst st)))"

definition begin_submission :: "ledger_digests \<Rightarrow> broker_ledger \<Rightarrow> SubmitOrderRequest \<Rightarrow> (broker_ledger \<times> lifecycle) checked" where
  "begin_submission h l r =
     bindB (record_intent h l r) (\<lambda>(l1, sha).
     bindB (submission_events h l1 (bq_key r)) (\<lambda>st. case st of
       None \<Rightarrow> Inr (l1\<lparr>broker_submission_events := broker_submission_events l1 @ [\<lparr>se_key = bq_key r, se_sequence = 1, se_account = bq_account r,
                  se_intent_sha = sha, se_type = ''submission_started'', se_order_id = None, se_order_sha = None, se_order = None\<rparr>]\<rparr>, Uncertain)
     | Some (state, e) \<Rightarrow>
         if se_account e \<noteq> bq_account r \<or> se_intent_sha e \<noteq> sha then Inl (BrokerStateError ''stored broker submission conflicts with intent'')
         else if state = Uncertain then Inl BrokerSubmissionUncertain else Inr (l1, Acknowledged)))"

text \<open>The immutable terms of an order against a request.\<close>

definition order_matches :: "SubmitOrderRequest \<Rightarrow> BrokerOrder \<Rightarrow> bool" where
  "order_matches r x \<longleftrightarrow> bo_key x = bq_key r \<and> bo_account x = bq_account r \<and> bo_symbol x = bq_symbol r \<and> bo_side x = bq_side r \<and>
     bo_quantity x = bq_quantity r \<and> bo_signal x = bq_signal r \<and> bo_order_type x = bq_order_type r \<and> bo_tif x = bq_tif r \<and> bo_extended x = bq_extended r"

definition acknowledge_submission :: "ledger_digests \<Rightarrow> broker_ledger \<Rightarrow> SubmitOrderRequest \<Rightarrow> BrokerOrder \<Rightarrow> broker_ledger checked" where
  "acknowledge_submission h l r x =
     bindB (demand (order_matches r x) (BrokerStateError ''adapter order acknowledgement does not match intent'')) (\<lambda>_.
     bindB (record_intent h l r) (\<lambda>(l1, sha).
     bindB (submission_events h l1 (bq_key r)) (\<lambda>st. case st of
       None \<Rightarrow> Inl (BrokerStateError ''broker submission was not durably started'')
     | Some (state, e) \<Rightarrow>
         if se_account e \<noteq> bq_account r \<or> se_intent_sha e \<noteq> sha then Inl (BrokerStateError ''stored broker submission conflicts with intent'')
         else if state = Acknowledged
         then (if (se_order_id e, se_order_sha e, se_order e) \<noteq> (Some (bo_id x), Some (sha_order h x), Some x)
               then Inl (BrokerStateError ''stored broker acknowledgement conflicts with adapter order'') else Inr l1)
         else Inr (l1\<lparr>broker_submission_events := broker_submission_events l1 @ [\<lparr>se_key = bq_key r, se_sequence = 2, se_account = bq_account r,
                 se_intent_sha = sha, se_type = ''submission_acknowledged'', se_order_id = Some (bo_id x), se_order_sha = Some (sha_order h x), se_order = Some x\<rparr>]\<rparr>))))"

definition acknowledged_order :: "ledger_digests \<Rightarrow> broker_ledger \<Rightarrow> string \<Rightarrow> BrokerOrder option checked" where
  "acknowledged_order h l key =
     bindB (require_identifier key ''idempotency key'') (\<lambda>_.
     bindB (submission_events h l key) (\<lambda>st. case st of
       Some (Acknowledged, e) \<Rightarrow>
         bindB (order_from_payload (se_order e)) (\<lambda>x.
         bindB (demand (se_order_id e = Some (bo_id x) \<and> se_order_sha e = Some (sha_order h x)) (BrokerStateError ''stored broker order acknowledgement is invalid'')) (\<lambda>_.
         Inr (Some x)))
     | _ \<Rightarrow> Inr None))"

definition uncertain_submission_request :: "ledger_digests \<Rightarrow> broker_ledger \<Rightarrow> string \<Rightarrow> SubmitOrderRequest checked" where
  "uncertain_submission_request h l key =
     bindB (require_identifier key ''idempotency key'') (\<lambda>_.
     bindB (submission_events h l key) (\<lambda>st. case st of
       Some (Uncertain, e) \<Rightarrow>
         (case intent_row l key of
            None \<Rightarrow> Inl (BrokerStateError ''uncertain broker submission has no intent'')
          | Some it \<Rightarrow>
              bindB (request_from_payload (it_payload it)) (\<lambda>r.
              bindB (demand (intent_ok h key it e) (BrokerStateError ''uncertain broker submission intent is invalid'')) (\<lambda>_.
              Inr r)))
     | _ \<Rightarrow> Inl (BrokerStateError ''broker submission is not uncertain'')))"

section \<open>The coordinator\<close>

text \<open>The second transaction: \<open>Some\<close> order is returned to the caller, \<open>None\<close> lets the adapter be called.\<close>

definition submit_begin ::
    "ledger_digests \<Rightarrow> broker_ledger \<Rightarrow> SubmitOrderRequest \<Rightarrow> RiskDecision \<Rightarrow> datetime \<Rightarrow> (broker_ledger \<times> BrokerOrder option) checked" where
  "submit_begin h l r decision now =
     bindB (submission_state h l (bq_key r)) (\<lambda>state. case state of
       Some Acknowledged \<Rightarrow>
         bindB (acknowledged_order h l (bq_key r)) (\<lambda>found. case found of
           None \<Rightarrow> Inl (BrokerStateError ''acknowledged broker order is unavailable'')
         | Some x \<Rightarrow> if \<not> order_matches r x then Inl (BrokerStateError ''acknowledged broker order conflicts with requested intent'') else Inr (l, Some x))
     | Some Uncertain \<Rightarrow> Inl BrokerSubmissionUncertain
     | None \<Rightarrow>
         if rd_status decision \<noteq> ''pass'' then Inl (BrokerRiskRejected ''independent pre-trade risk rejected the broker intent'')
         else if rd_expires_at decision \<le> now then Inl (BrokerRiskRejected ''independent pre-trade risk decision expired'')
         else bindB (begin_submission h l r) (\<lambda>(l1, _). Inr (l1, None)))"

text \<open>The result: the ledger that is committed, the adapter calls that were made and what the caller gets. An adapter that raises gives \<open>None\<close>;
  a value that fails the checks of its constructor is no \<open>BrokerOrder\<close>.\<close>

definition submit_once ::
    "ledger_digests \<Rightarrow> broker_ledger \<Rightarrow> (SubmitOrderRequest \<Rightarrow> BrokerOrder option) \<Rightarrow> SubmitOrderRequest \<Rightarrow> RiskDecision \<Rightarrow> datetime
     \<Rightarrow> broker_ledger \<times> SubmitOrderRequest list \<times> BrokerOrder checked" where
  "submit_once h l adapter r decision now = (case record_risk_decision h l r decision of
     Inl x \<Rightarrow> (l, [], Inl x)
   | Inr l1 \<Rightarrow> (case submit_begin h l1 r decision now of
       Inl x \<Rightarrow> (l1, [], Inl x)
     | Inr (l2, Some order) \<Rightarrow> (l2, [], Inr order)
     | Inr (l2, None) \<Rightarrow> (case adapter r of
         None \<Rightarrow> (l2, [r], Inl AdapterRaised)
       | Some order \<Rightarrow>
           if check_order order \<noteq> Inr () then (l2, [r], Inl (BrokerStateError ''adapter returned an invalid order acknowledgement''))
           else (case acknowledge_submission h l2 r order of
             Inl x \<Rightarrow> (l2, [r], Inl x)
           | Inr l3 \<Rightarrow> (l3, [r], Inr order)))))"

section \<open>Cancellations and observations\<close>

definition cancellation_events :: "broker_ledger \<Rightarrow> string \<Rightarrow> (lifecycle \<times> cancellation_event) option checked" where
  "cancellation_events l key = (case sort_key xe_sequence (filter (\<lambda>e. xe_key e = key) (broker_cancellation_events l)) of
     [] \<Rightarrow> Inr None
   | s # rest \<Rightarrow>
       bindB (demand (length rest \<le> 1 \<and> xe_sequence s = 1 \<and> xe_type s = ''cancellation_started'' \<and> xe_order_sha s = None \<and> xe_order s = None)
                (BrokerStateError ''stored broker cancellation event sequence is invalid'')) (\<lambda>_.
       case rest of
         [] \<Rightarrow> Inr (Some (Uncertain, s))
       | a # _ \<Rightarrow> bindB (demand (xe_sequence a = 2 \<and> xe_account a = xe_account s \<and> xe_order_id a = xe_order_id s \<and> xe_type a = ''cancellation_acknowledged'' \<and>
                     xe_order_sha a \<noteq> None \<and> xe_order a \<noteq> None) (BrokerStateError ''stored broker cancellation event sequence is invalid'')) (\<lambda>_.
                   Inr (Some (Acknowledged, a)))))"

definition begin_cancellation :: "broker_ledger \<Rightarrow> string \<Rightarrow> string \<Rightarrow> string \<Rightarrow> (broker_ledger \<times> lifecycle) checked" where
  "begin_cancellation l key account order =
     bindB (require_identifier key ''cancellation key'') (\<lambda>_.
     bindB (require_identifier account ''account identifier'') (\<lambda>_.
     bindB (require_identifier order ''broker order identifier'') (\<lambda>_.
     bindB (cancellation_events l key) (\<lambda>st. case st of
       None \<Rightarrow> Inr (l\<lparr>broker_cancellation_events := broker_cancellation_events l @ [\<lparr>xe_key = key, xe_sequence = 1, xe_account = account, xe_order_id = order,
                  xe_type = ''cancellation_started'', xe_order_sha = None, xe_order = None\<rparr>]\<rparr>, Uncertain)
     | Some (state, e) \<Rightarrow>
         if xe_account e \<noteq> account \<or> xe_order_id e \<noteq> order then Inl (BrokerStateError ''stored broker cancellation conflicts with request'')
         else if state = Uncertain then Inl BrokerCancellationUncertain else Inr (l, Acknowledged)))))"

definition acknowledge_cancellation :: "ledger_digests \<Rightarrow> broker_ledger \<Rightarrow> string \<Rightarrow> string \<Rightarrow> string \<Rightarrow> BrokerOrder \<Rightarrow> broker_ledger checked" where
  "acknowledge_cancellation h l key account order x =
     bindB (demand (bo_account x = account \<and> bo_id x = order \<and> bo_status x = ''cancelled'')
              (BrokerStateError ''adapter cancellation acknowledgement does not match request'')) (\<lambda>_.
     bindB (cancellation_events l key) (\<lambda>st. case st of
       None \<Rightarrow> Inl (BrokerStateError ''broker cancellation was not durably started'')
     | Some (state, e) \<Rightarrow>
         if xe_account e \<noteq> account \<or> xe_order_id e \<noteq> order then Inl (BrokerStateError ''stored broker cancellation conflicts with request'')
         else if state = Acknowledged
         then (if (xe_order_sha e, xe_order e) \<noteq> (Some (sha_order h x), Some x)
               then Inl (BrokerStateError ''stored broker cancellation acknowledgement conflicts with adapter order'') else Inr l)
         else Inr (l\<lparr>broker_cancellation_events := broker_cancellation_events l @ [\<lparr>xe_key = key, xe_sequence = 2, xe_account = account, xe_order_id = order,
                 xe_type = ''cancellation_acknowledged'', xe_order_sha = Some (sha_order h x), xe_order = Some x\<rparr>]\<rparr>)))"

definition cancellation_state :: "broker_ledger \<Rightarrow> string \<Rightarrow> lifecycle option checked" where
  "cancellation_state l key = bindB (require_identifier key ''cancellation key'') (\<lambda>_. bindB (cancellation_events l key) (\<lambda>st. Inr (map_option fst st)))"

definition acknowledged_cancellation_order :: "ledger_digests \<Rightarrow> broker_ledger \<Rightarrow> string \<Rightarrow> BrokerOrder option checked" where
  "acknowledged_cancellation_order h l key =
     bindB (require_identifier key ''cancellation key'') (\<lambda>_.
     bindB (cancellation_events l key) (\<lambda>st. case st of
       Some (Acknowledged, e) \<Rightarrow>
         bindB (order_from_payload (xe_order e)) (\<lambda>x.
         bindB (demand (bo_account x = xe_account e \<and> bo_id x = xe_order_id e \<and> bo_status x = ''cancelled'' \<and> xe_order_sha e = Some (sha_order h x))
                  (BrokerStateError ''stored broker cancellation acknowledgement is invalid'')) (\<lambda>_.
         Inr (Some x)))
     | _ \<Rightarrow> Inr None))"

definition record_order_observation :: "ledger_digests \<Rightarrow> broker_ledger \<Rightarrow> string \<Rightarrow> BrokerOrder \<Rightarrow> broker_ledger checked" where
  "record_order_observation h l key x =
     bindB (require_identifier key ''order observation key'') (\<lambda>_.
     let expected = \<lparr>ob_key = key, ob_account = bo_account x, ob_order_id = bo_id x, ob_sha = sha_order h x, ob_order = x\<rparr> in
     case find (\<lambda>o1. ob_key o1 = key) (broker_order_observations l) of
       None \<Rightarrow> Inr (l\<lparr>broker_order_observations := broker_order_observations l @ [expected]\<rparr>)
     | Some row \<Rightarrow> if row \<noteq> expected then Inl (BrokerStateError ''stored broker order observation conflicts with observation key'') else Inr l)"

definition record_execution :: "ledger_digests \<Rightarrow> broker_ledger \<Rightarrow> BrokerFill \<Rightarrow> broker_ledger checked" where
  "record_execution h l f =
     (let expected = \<lparr>ex_id = bf_execution f, ex_account = bf_account f, ex_order_id = bf_order f, ex_sha = sha_fill h f, ex_fill = f\<rparr> in
      case find (\<lambda>e. ex_id e = bf_execution f) (broker_executions l) of
        None \<Rightarrow> Inr (l\<lparr>broker_executions := broker_executions l @ [expected]\<rparr>)
      | Some row \<Rightarrow> if row \<noteq> expected then Inl (BrokerStateError ''stored broker execution conflicts with execution identifier'') else Inr l)"

section \<open>Interleaved coordinators\<close>

text \<open>One committed transaction. The second component is the list of requests the adapter may have been called with: a call follows the
  second transaction of a coordinator whose first transaction stored the decision.\<close>

inductive broker_step :: "ledger_digests \<Rightarrow> broker_ledger \<times> SubmitOrderRequest list \<Rightarrow> broker_ledger \<times> SubmitOrderRequest list \<Rightarrow> bool" for h where
  decide: "record_risk_decision h l r d = Inr l' \<Longrightarrow> broker_step h (l, calls) (l', calls)"
| call: "decision_row l (bq_key r) = Some row \<Longrightarrow> rk_payload row = d \<Longrightarrow> submit_begin h l r d now = Inr (l', None)
    \<Longrightarrow> broker_step h (l, calls) (l', calls @ [r])"
| replay: "submit_begin h l r d now = Inr (l', Some x) \<Longrightarrow> broker_step h (l, calls) (l', calls)"
| acknowledge: "check_order x = Inr () \<Longrightarrow> acknowledge_submission h l r x = Inr l' \<Longrightarrow> broker_step h (l, calls) (l', calls)"
| cancel: "begin_cancellation l key account order = Inr (l', s) \<Longrightarrow> broker_step h (l, calls) (l', calls)"
| cancelled: "acknowledge_cancellation h l key account order x = Inr l' \<Longrightarrow> broker_step h (l, calls) (l', calls)"
| observe: "record_order_observation h l key x = Inr l' \<Longrightarrow> broker_step h (l, calls) (l', calls)"
| executed: "record_execution h l f = Inr l' \<Longrightarrow> broker_step h (l, calls) (l', calls)"

end
