(* ===== verification/SubmissionLaws.thy ===== *)
theory SubmissionLaws
  imports Submission
begin

text \<open>
  The laws of the submission protocol: the ledger only grows and never reopens an acknowledged submission, the adapter is called
  at most once per idempotency key however coordinators interleave and wherever they stop, \<open>submit_once\<close> is a run of the
  protocol, and a retry of an acknowledged submission gets the first order back without a call.
\<close>

section \<open>Growth\<close>

lemma find_snoc: "find P (xs @ [y]) = (case find P xs of None \<Rightarrow> if P y then Some y else None | Some x \<Rightarrow> Some x)"
  by (induction xs) auto

text \<open>The events of a key, and a ledger that keeps every intent, decision and closed submission of an earlier one.\<close>

definition key_events :: "broker_ledger \<Rightarrow> string \<Rightarrow> submission_event list" where
  "key_events l k = filter (\<lambda>e. se_key e = k) (broker_submission_events l)"

definition extends :: "broker_ledger \<Rightarrow> broker_ledger \<Rightarrow> bool" where
  "extends l l' \<longleftrightarrow> (\<forall>k row. intent_row l k = Some row \<longrightarrow> intent_row l' k = Some row) \<and>
     (\<forall>k row. decision_row l k = Some row \<longrightarrow> decision_row l' k = Some row) \<and>
     (\<exists>new. broker_submission_events l' = broker_submission_events l @ new \<and> (\<forall>e\<in>set new. length (key_events l (se_key e)) < 2))"

lemma extends_refl: "extends l l"
  by (simp add: extends_def)

lemma extends_trans:
  assumes "extends a b" "extends b c"
  shows "extends a c"
proof -
  obtain n m where n: "broker_submission_events b = broker_submission_events a @ n" "\<forall>e\<in>set n. length (key_events a (se_key e)) < 2"
    and m: "broker_submission_events c = broker_submission_events b @ m" "\<forall>e\<in>set m. length (key_events b (se_key e)) < 2"
    using assms by (auto simp: extends_def)
  have "length (key_events a k) \<le> length (key_events b k)" for k by (simp add: key_events_def n)
  then have "\<forall>e\<in>set (n @ m). length (key_events a (se_key e)) < 2" using n(2) m(2) by (metis (no_types, lifting) Un_iff order_le_less_trans set_append)
  moreover have "broker_submission_events c = broker_submission_events a @ (n @ m)" using n m by simp
  ultimately show ?thesis using assms unfolding extends_def by blast
qed

lemma extends_closed:
  assumes "extends l l'" "length (key_events l k) = 2"
  shows "key_events l' k = key_events l k"
proof -
  obtain new where n: "broker_submission_events l' = broker_submission_events l @ new" "\<forall>e\<in>set new. length (key_events l (se_key e)) < 2"
    using assms(1) by (auto simp: extends_def)
  have "filter (\<lambda>e. se_key e = k) new = []" using n(2) assms(2) by (auto simp: filter_empty_conv)
  then show ?thesis by (simp add: key_events_def n(1))
qed

lemma extends_keeps_events: "extends l l' \<Longrightarrow> key_events l k \<noteq> [] \<Longrightarrow> key_events l' k \<noteq> []"
  by (auto simp: extends_def key_events_def)

lemma events_of_sort: "events_of l k = sort_key se_sequence (key_events l k)"
  by (simp add: events_of_def key_events_def)

section \<open>The transactions\<close>

definition intent_for :: "ledger_digests \<Rightarrow> SubmitOrderRequest \<Rightarrow> broker_intent" where
  "intent_for h r = \<lparr>it_key = bq_key r, it_account = bq_account r, it_sha = sha_intent h r, it_payload = r\<rparr>"

lemma record_intent_Inr:
  assumes "record_intent h l r = Inr (l', sha)"
  shows "sha = sha_intent h r" "intent_row l' (bq_key r) = Some (intent_for h r)" "extends l l'" "broker_submission_events l' = broker_submission_events l"
    "decision_row l' = decision_row l"
  using assms by (auto simp: record_intent_def Let_def intent_row_def decision_row_def intent_for_def extends_def find_snoc fun_eq_iff split: option.split_asm if_split_asm)

lemma record_intent_stable: "intent_row l (bq_key r) = Some (intent_for h r) \<Longrightarrow> record_intent h l r = Inr (l, sha_intent h r)"
  by (simp add: record_intent_def intent_for_def)

definition decision_for :: "SubmitOrderRequest \<Rightarrow> RiskDecision \<Rightarrow> risk_row" where
  "decision_for r d = \<lparr>rk_key = bq_key r, rk_account = bq_account r, rk_sha = rd_decision_sha d, rk_payload = d\<rparr>"

lemma verified_same: "verify_decision h d = Inr d' \<Longrightarrow> d' = d"
  by (auto simp: verify_decision_def bindB_eq_Inr)

lemma record_decision_Inr:
  assumes "record_risk_decision h l r d = Inr l'"
  shows "verify_decision h d = Inr d" "rd_request d = r" "rd_request_sha d = sha_request h r" "intent_row l' (bq_key r) = Some (intent_for h r)"
    "decision_row l' = (decision_row l)(bq_key r \<mapsto> decision_for r d)" "extends l l'" "broker_submission_events l' = broker_submission_events l"
proof -
  obtain d1 l1 sha where v1: "verify_decision h d = Inr d1" "rd_request d1 = r" "rd_request_sha d1 = sha_request h r" "record_intent h l r = Inr (l1, sha)"
    and c1: "(case decision_row l1 (bq_key r) of
       None \<Rightarrow> Inr (l1\<lparr>broker_risk_decisions := broker_risk_decisions l1 @ [decision_for r d1]\<rparr>)
     | Some row \<Rightarrow> if row \<noteq> decision_for r d1 then Inl (BrokerStateError ''stored risk decision conflicts with idempotency key'') else Inr l1) = Inr l'"
    using assms unfolding record_risk_decision_def Let_def bindB_eq_Inr demand_eq_Inr decision_for_def by auto
  have "d1 = d" by (rule verified_same [OF v1(1)])
  with v1 c1 have v: "verify_decision h d = Inr d" "rd_request d = r" "rd_request_sha d = sha_request h r" "record_intent h l r = Inr (l1, sha)"
    and cases: "case decision_row l1 (bq_key r) of
       None \<Rightarrow> l' = l1\<lparr>broker_risk_decisions := broker_risk_decisions l1 @ [decision_for r d]\<rparr>
     | Some row \<Rightarrow> row = decision_for r d \<and> l' = l1"
    by (simp_all split: option.split_asm if_split_asm)
  note i = record_intent_Inr [OF v(4)]
  have s: "intent_row l' = intent_row l1" "broker_submission_events l' = broker_submission_events l1" "decision_row l' = (decision_row l1)(bq_key r \<mapsto> decision_for r d)" "extends l1 l'"
    using cases by (auto simp: intent_row_def decision_row_def decision_for_def extends_def find_snoc fun_eq_iff split: option.split_asm option.split)
  show "verify_decision h d = Inr d" "rd_request d = r" "rd_request_sha d = sha_request h r" by fact+
  show "intent_row l' (bq_key r) = Some (intent_for h r)" "decision_row l' = (decision_row l)(bq_key r \<mapsto> decision_for r d)" "extends l l'"
    "broker_submission_events l' = broker_submission_events l"
    using i s extends_trans by auto
qed

lemma record_decision_stable:
  assumes "verify_decision h d = Inr d" "rd_request d = r" "rd_request_sha d = sha_request h r" "intent_row l (bq_key r) = Some (intent_for h r)"
    "decision_row l (bq_key r) = Some (decision_for r d)"
  shows "record_risk_decision h l r d = Inr l"
  using assms by (simp add: record_risk_decision_def record_intent_stable Let_def decision_for_def demand_def)

lemma submission_events_None: "submission_events h l k = Inr None \<longleftrightarrow> key_events l k = []"
proof -
  have "events_of l k = [] \<longleftrightarrow> key_events l k = []" by (metis events_of_sort length_0_conv length_sort)
  then show ?thesis by (auto simp: submission_events_def bindB_eq_Inr split: list.split option.split_asm)
qed

lemma submission_events_Some:
  assumes "submission_events h l k = Inr (Some (state, e))"
  obtains s it where "state = Uncertain" "e = s" "events_of l k = [s]" "started_ok s" "intent_row l k = Some it" "request_from_payload (it_payload it) = Inr (it_payload it)" "intent_ok h k it s"
  | s it where "state = Acknowledged" "events_of l k = [s, e]" "started_ok s" "acknowledged_ok s e" "intent_row l k = Some it" "request_from_payload (it_payload it) = Inr (it_payload it)" "intent_ok h k it s"
  using assms by (auto simp: submission_events_def request_from_payload_def bindB_eq_Inr split: list.split_asm option.split_asm)

lemma key_events_length: "length (key_events l k) = length (events_of l k)"
  by (simp add: events_of_sort)

lemma begin_submission_Inr:
  assumes "begin_submission h l r = Inr (l', state1)" "key_events l (bq_key r) = []"
  shows "extends l l'" "key_events l' (bq_key r) \<noteq> []" "decision_row l' = decision_row l" "intent_row l' (bq_key r) = Some (intent_for h r)"
proof -
  obtain l1 sha where i: "record_intent h l r = Inr (l1, sha)" using assms(1) by (auto simp: begin_submission_def bindB_eq_Inr)
  note r = record_intent_Inr [OF i]
  have k: "key_events l1 (bq_key r) = []" using assms(2) r(4) by (simp add: key_events_def)
  then have "submission_events h l1 (bq_key r) = Inr None" by (simp add: submission_events_None)
  then obtain e where l': "l' = l1\<lparr>broker_submission_events := broker_submission_events l1 @ [e]\<rparr>" "se_key e = bq_key r"
    using assms(1) i by (auto simp: begin_submission_def)
  have "extends l1 l'" using k l' by (auto simp: extends_def intent_row_def decision_row_def)
  then show "extends l l'" using r(3) extends_trans by blast
  show "key_events l' (bq_key r) \<noteq> []" using l' by (simp add: key_events_def)
  show "decision_row l' = decision_row l" using r(5) l'(1) by (simp add: decision_row_def fun_eq_iff)
  show "intent_row l' (bq_key r) = Some (intent_for h r)" using r(2) l'(1) by (simp add: intent_row_def)
qed

lemma submission_state_Inr:
  assumes "submission_state h l k = Inr st"
  obtains st1 where "is_identifier k" "submission_events h l k = Inr st1" "st = map_option fst st1"
  using assms by (auto simp: submission_state_def bindB_eq_Inr require_identifier_def)

lemma submit_begin_call:
  assumes "submit_begin h l r d now = Inr (l', None)"
  obtains state1 where "is_identifier (bq_key r)" "key_events l (bq_key r) = []" "rd_status d = ''pass''" "now < rd_expires_at d" "begin_submission h l r = Inr (l', state1)"
proof -
  obtain st where st: "submission_state h l (bq_key r) = Inr st" using assms unfolding submit_begin_def bindB_eq_Inr by blast
  have None: "st = None"
  proof (cases st)
    case (Some state1)
    then show ?thesis using assms st by (cases state1) (auto simp: submit_begin_def bindB_eq_Inr split: option.split_asm if_split_asm)
  qed
  have k: "is_identifier (bq_key r)" "key_events l (bq_key r) = []" using submission_state_Inr [OF st] None by (auto simp: submission_events_None)
  then show ?thesis using assms st None that by (auto simp: submit_begin_def bindB_eq_Inr split: if_split_asm)
qed

lemma submit_begin_replay:
  assumes "submit_begin h l r d now = Inr (l', Some x)"
  shows "l' = l" "order_matches r x" "acknowledged_order h l (bq_key r) = Inr (Some x)"
proof -
  obtain st where st: "submission_state h l (bq_key r) = Inr st" using assms unfolding submit_begin_def bindB_eq_Inr by blast
  have "st = Some Acknowledged"
  proof (cases st)
    case None
    then show ?thesis using assms st by (auto simp: submit_begin_def bindB_eq_Inr split: if_split_asm)
  next
    case (Some state1)
    then show ?thesis using assms st by (cases state1) (simp_all add: submit_begin_def)
  qed
  then have "bindB (acknowledged_order h l (bq_key r)) (\<lambda>found. case found of
           None \<Rightarrow> Inl (BrokerStateError ''acknowledged broker order is unavailable'')
         | Some x \<Rightarrow> if \<not> order_matches r x then Inl (BrokerStateError ''acknowledged broker order conflicts with requested intent'') else Inr (l, Some x)) = Inr (l', Some x)"
    using assms st by (simp add: submit_begin_def)
  then obtain found where "acknowledged_order h l (bq_key r) = Inr found" "(case found of
           None \<Rightarrow> Inl (BrokerStateError ''acknowledged broker order is unavailable'')
         | Some x \<Rightarrow> if \<not> order_matches r x then Inl (BrokerStateError ''acknowledged broker order conflicts with requested intent'') else Inr (l, Some x)) = Inr (l', Some x)"
    unfolding bindB_eq_Inr by blast
  then show "l' = l" "order_matches r x" "acknowledged_order h l (bq_key r) = Inr (Some x)" by (cases found; simp split: if_split_asm)+
qed

lemma acknowledged_order_Inr:
  assumes "acknowledged_order h l k = Inr (Some x)"
  obtains s a it where "is_identifier k" "events_of l k = [s, a]" "intent_row l k = Some it" "submission_events h l k = Inr (Some (Acknowledged, a))"
    "se_order a = Some x" "check_order x = Inr ()"
proof -
  obtain st where st: "is_identifier k" "submission_events h l k = Inr st" using assms by (auto simp: acknowledged_order_def bindB_eq_Inr require_identifier_def)
  obtain a where a: "st = Some (Acknowledged, a)"
    using assms st by (cases st) (auto simp: acknowledged_order_def require_identifier_def demand_def split: lifecycle.split_asm)
  have "order_from_payload (se_order a) = Inr x" using assms st a by (auto simp: acknowledged_order_def require_identifier_def bindB_eq_Inr)
  then have y: "se_order a = Some x" "check_order x = Inr ()" by (auto simp: order_from_payload_def bindB_eq_Inr split: option.split_asm)
  then show ?thesis using submission_events_Some [OF st(2) [unfolded a]] st a y that by (metis lifecycle.distinct(1))
qed

lemma acknowledged_order_kept:
  assumes "acknowledged_order h l k = Inr (Some x)" "extends l l'"
  shows "acknowledged_order h l' k = Inr (Some x)"
proof -
  obtain s a it where s: "events_of l k = [s, a]" "intent_row l k = Some it" by (rule acknowledged_order_Inr [OF assms(1)])
  have "length (key_events l k) = 2" by (simp add: key_events_length s)
  then have e: "events_of l' k = events_of l k" using extends_closed [OF assms(2)] by (simp add: events_of_sort)
  have i: "intent_row l' k = intent_row l k" using assms(2) s(2) by (simp add: extends_def)
  have "submission_events h l' k = submission_events h l k" unfolding submission_events_def e i by (rule refl)
  then show ?thesis using assms(1) unfolding acknowledged_order_def by simp
qed

text \<open>An acknowledgement is either the stored one or closes the submission.\<close>

lemma acknowledge_cases:
  assumes "acknowledge_submission h l r x = Inr l'"
  obtains l1 e where "record_intent h l r = Inr (l1, sha_intent h r)" "submission_events h l1 (bq_key r) = Inr (Some (Acknowledged, e))" "l' = l1"
    "se_order_id e = Some (bo_id x)" "se_order_sha e = Some (sha_order h x)" "se_order e = Some x"
  | l1 s where "record_intent h l r = Inr (l1, sha_intent h r)" "submission_events h l1 (bq_key r) = Inr (Some (Uncertain, s))"
    "se_account s = bq_account r" "se_intent_sha s = sha_intent h r"
    "l' = l1\<lparr>broker_submission_events := broker_submission_events l1 @ [\<lparr>se_key = bq_key r, se_sequence = 2, se_account = bq_account r,
       se_intent_sha = sha_intent h r, se_type = ''submission_acknowledged'', se_order_id = Some (bo_id x), se_order_sha = Some (sha_order h x), se_order = Some x\<rparr>]\<rparr>"
proof -
  have m: "order_matches r x" using assms by (auto simp: acknowledge_submission_def bindB_eq_Inr)
  obtain l1 sha where i: "record_intent h l r = Inr (l1, sha)" using assms by (auto simp: acknowledge_submission_def bindB_eq_Inr)
  have sha: "sha = sha_intent h r" by (rule record_intent_Inr(1) [OF i])
  obtain st where st: "submission_events h l1 (bq_key r) = Inr st"
    using assms i by (cases "submission_events h l1 (bq_key r)") (simp_all add: acknowledge_submission_def m demand_def bindB_def)
  note a = assms [unfolded acknowledge_submission_def, simplified m i st demand_def bindB_Inr if_True prod.case]
  show ?thesis
  proof (cases st)
    case None
    then show ?thesis using a by simp
  next
    case (Some p)
    obtain state1 e where p: "p = (state1, e)" by (cases p)
    show ?thesis
    proof (cases state1)
      case Uncertain
      then show ?thesis using a i st sha Some p that(2) by (simp split: if_split_asm)
    next
      case Acknowledged
      then show ?thesis using a i st sha Some p that(1) by (simp split: if_split_asm)
    qed
  qed
qed

lemma acknowledge_Inr:
  assumes "acknowledge_submission h l r x = Inr l'"
  shows "order_matches r x" "extends l l'" "decision_row l' = decision_row l"
    and "check_order x = Inr () \<Longrightarrow> is_identifier (bq_key r) \<Longrightarrow> acknowledged_order h l' (bq_key r) = Inr (Some x)"
proof -
  show "order_matches r x" using assms by (auto simp: acknowledge_submission_def bindB_eq_Inr)
  have all: "extends l l' \<and> decision_row l' = decision_row l \<and> (check_order x = Inr () \<longrightarrow> is_identifier (bq_key r) \<longrightarrow> acknowledged_order h l' (bq_key r) = Inr (Some x))"
    using assms
  proof (rule acknowledge_cases)
    fix l1 e
    assume i: "record_intent h l r = Inr (l1, sha_intent h r)" and e: "submission_events h l1 (bq_key r) = Inr (Some (Acknowledged, e))" "l' = l1"
      "se_order_id e = Some (bo_id x)" "se_order_sha e = Some (sha_order h x)" "se_order e = Some x"
    show ?thesis using record_intent_Inr [OF i] e by (simp add: acknowledged_order_def order_from_payload_def require_identifier_def demand_def)
  next
    fix l1 s
    let ?a = "\<lparr>se_key = bq_key r, se_sequence = 2, se_account = bq_account r, se_intent_sha = sha_intent h r, se_type = ''submission_acknowledged'',
      se_order_id = Some (bo_id x), se_order_sha = Some (sha_order h x), se_order = Some x\<rparr>"
    assume i: "record_intent h l r = Inr (l1, sha_intent h r)" and e: "submission_events h l1 (bq_key r) = Inr (Some (Uncertain, s))"
      "se_account s = bq_account r" "se_intent_sha s = sha_intent h r" and l': "l' = l1\<lparr>broker_submission_events := broker_submission_events l1 @ [?a]\<rparr>"
    note r = record_intent_Inr [OF i]
    obtain it where s: "events_of l1 (bq_key r) = [s]" "started_ok s" "intent_row l1 (bq_key r) = Some it" "intent_ok h (bq_key r) it s"
      "request_from_payload (it_payload it) = Inr (it_payload it)"
      using submission_events_Some [OF e(1)] by (metis lifecycle.distinct(1))
    have "length (key_events l1 (bq_key r)) = 1" by (simp add: key_events_length s)
    then have k: "key_events l1 (bq_key r) = [s]" using s(1) by (auto simp: events_of_sort length_Suc_conv)
    have x: "extends l1 l'" using k l' by (auto simp: extends_def intent_row_def decision_row_def)
    have ev: "events_of l' (bq_key r) = [s, ?a]" using k s(2) by (simp add: events_of_sort l' key_events_def started_ok_def)
    have "intent_row l' (bq_key r) = Some it" using s(3) by (simp add: l' intent_row_def)
    then have "submission_events h l' (bq_key r) = Inr (Some (Acknowledged, ?a))"
      using s e by (simp add: submission_events_def ev demand_def acknowledged_ok_def)
    then show ?thesis using r(3,5) x extends_trans [OF r(3) x] by (simp add: acknowledged_order_def order_from_payload_def require_identifier_def demand_def) (simp add: l' decision_row_def fun_eq_iff)
  qed
  then show "extends l l'" "decision_row l' = decision_row l"
    and "check_order x = Inr () \<Longrightarrow> is_identifier (bq_key r) \<Longrightarrow> acknowledged_order h l' (bq_key r) = Inr (Some x)" by simp_all
qed

lemma same_tables_extends:
  assumes "broker_intents l' = broker_intents l" "broker_risk_decisions l' = broker_risk_decisions l" "broker_submission_events l' = broker_submission_events l"
  shows "extends l l' \<and> decision_row l' = decision_row l"
  using assms by (simp add: extends_def intent_row_def decision_row_def fun_eq_iff)

lemma begin_cancellation_extends:
  assumes "begin_cancellation l key account order = Inr (l', s)"
  shows "extends l l' \<and> decision_row l' = decision_row l"
proof -
  obtain st where st: "cancellation_events l key = Inr st" using assms by (auto simp: begin_cancellation_def bindB_eq_Inr)
  have ids: "require_identifier key ''cancellation key'' = Inr ()" "require_identifier account ''account identifier'' = Inr ()"
    "require_identifier order ''broker order identifier'' = Inr ()" using assms by (auto simp: begin_cancellation_def bindB_eq_Inr)
  show ?thesis
  proof (cases st)
    case None
    then show ?thesis using assms st ids by (intro same_tables_extends) (auto simp: begin_cancellation_def)
  next
    case (Some p)
    then show ?thesis using assms st ids by (cases p) (auto simp: begin_cancellation_def extends_refl split: if_split_asm)
  qed
qed

lemma acknowledge_cancellation_extends:
  assumes "acknowledge_cancellation h l key account order x = Inr l'"
  shows "extends l l' \<and> decision_row l' = decision_row l"
proof -
  have m: "bo_account x = account \<and> bo_id x = order \<and> bo_status x = ''cancelled''" using assms by (auto simp: acknowledge_cancellation_def bindB_eq_Inr)
  obtain st where st: "cancellation_events l key = Inr st" using assms by (auto simp: acknowledge_cancellation_def bindB_eq_Inr)
  note a = assms [unfolded acknowledge_cancellation_def, simplified m st demand_def bindB_Inr if_True simp_thms]
  show ?thesis
  proof (cases st)
    case None
    then show ?thesis using a by simp
  next
    case (Some p)
    then show ?thesis using a by (cases p) (intro same_tables_extends; auto split: if_split_asm)
  qed
qed

lemma record_observation_extends: "record_order_observation h l key x = Inr l' \<Longrightarrow> extends l l' \<and> decision_row l' = decision_row l"
  by (auto simp: record_order_observation_def Let_def bindB_eq_Inr extends_def intent_row_def decision_row_def fun_eq_iff split: option.split_asm if_split_asm)

lemma submit_begin_call_extends:
  assumes "submit_begin h l r d now = Inr (l', None)"
  shows "extends l l'" "decision_row l' = decision_row l" "intent_row l' (bq_key r) = Some (intent_for h r)" "key_events l (bq_key r) = []" "key_events l' (bq_key r) \<noteq> []"
proof -
  obtain state1 where k: "key_events l (bq_key r) = []" and b: "begin_submission h l r = Inr (l', state1)" by (rule submit_begin_call [OF assms])
  show "extends l l'" "decision_row l' = decision_row l" "intent_row l' (bq_key r) = Some (intent_for h r)" "key_events l (bq_key r) = []" "key_events l' (bq_key r) \<noteq> []"
    using begin_submission_Inr [OF b k] k by simp_all
qed

lemma record_execution_extends: "record_execution h l f = Inr l' \<Longrightarrow> extends l l' \<and> decision_row l' = decision_row l"
  by (auto simp: record_execution_def Let_def extends_def intent_row_def decision_row_def fun_eq_iff split: option.split_asm if_split_asm)

section \<open>Runs\<close>

text \<open>A relation that every step respects is respected by runs.\<close>

locale growing =
  fixes step :: "'s \<Rightarrow> 's \<Rightarrow> bool" and grows :: "'s \<Rightarrow> 's \<Rightarrow> bool"
  assumes grows_refl: "grows s s"
    and grows_trans: "grows s t \<Longrightarrow> grows t u \<Longrightarrow> grows s u"
    and step_grows: "step s t \<Longrightarrow> grows s t"
begin

lemma run_grows: "step\<^sup>*\<^sup>* s t \<Longrightarrow> grows s t"
  by (induction rule: rtranclp_induct) (auto intro: grows_refl grows_trans step_grows)

end

lemma broker_step_extends: "broker_step h s t \<Longrightarrow> extends (fst s) (fst t)"
proof (induction rule: broker_step.induct)
  case (replay l r d now l' x calls)
  then show ?case using submit_begin_replay(1) extends_refl by fastforce
qed (auto dest: record_decision_Inr(6) submit_begin_call_extends(1) acknowledge_Inr(2) begin_cancellation_extends acknowledge_cancellation_extends record_observation_extends record_execution_extends)

interpretation broker_run: growing "broker_step h" "\<lambda>s t. extends (fst s) (fst t)" for h
  by unfold_locales (auto intro: extends_refl extends_trans broker_step_extends)

section \<open>At most one call\<close>

text \<open>Every stored decision verifies and is about the stored intent of its key.\<close>

definition decided :: "ledger_digests \<Rightarrow> broker_ledger \<Rightarrow> bool" where
  "decided h l \<longleftrightarrow> (\<forall>k row. decision_row l k = Some row \<longrightarrow> verify_decision h (rk_payload row) = Inr (rk_payload row) \<and>
     intent_row l k = Some (intent_for h (rd_request (rk_payload row))))"

lemma decided_extends: "decided h l \<Longrightarrow> extends l l' \<Longrightarrow> decision_row l' = decision_row l \<Longrightarrow> decided h l'"
  by (auto simp: decided_def extends_def)

lemma decided_decide:
  assumes "decided h l" "record_risk_decision h l r d = Inr l'"
  shows "decided h l'"
  using assms(1) record_decision_Inr [OF assms(2)] by (auto simp: decided_def extends_def decision_for_def)

lemma broker_step_decided: "broker_step h s t \<Longrightarrow> decided h (fst s) \<Longrightarrow> decided h (fst t)"
proof (induction rule: broker_step.induct)
  case (replay l r d now l' x calls)
  then show ?case using submit_begin_replay(1) by fastforce
qed (auto intro: decided_decide decided_extends dest: submit_begin_call_extends(1,2) acknowledge_Inr(2,3) begin_cancellation_extends
  acknowledge_cancellation_extends record_observation_extends record_execution_extends)

text \<open>What the ledger holds about a request the adapter was called with.\<close>

definition sent :: "ledger_digests \<Rightarrow> broker_ledger \<Rightarrow> SubmitOrderRequest \<Rightarrow> bool" where
  "sent h l r \<longleftrightarrow> key_events l (bq_key r) \<noteq> [] \<and> (\<exists>row. decision_row l (bq_key r) = Some row \<and> rd_request (rk_payload row) = r \<and>
     verify_decision h (rk_payload row) = Inr (rk_payload row) \<and> rd_status (rk_payload row) = ''pass'')"

lemma sent_extends: "sent h l r \<Longrightarrow> extends l l' \<Longrightarrow> sent h l' r"
  unfolding sent_def using extends_keeps_events by (auto simp: extends_def)

lemma sent_call:
  assumes "decided h l" "decision_row l (bq_key r) = Some row" "submit_begin h l r (rk_payload row) now = Inr (l', None)"
  shows "sent h l' r"
proof -
  note b = submit_begin_call_extends [OF assms(3)]
  have v: "verify_decision h (rk_payload row) = Inr (rk_payload row)" "intent_row l (bq_key r) = Some (intent_for h (rd_request (rk_payload row)))"
    using assms(1,2) by (auto simp: decided_def)
  then have "intent_row l' (bq_key r) = Some (intent_for h (rd_request (rk_payload row)))" using b(1) by (auto simp: extends_def)
  then have "rd_request (rk_payload row) = r" using b(3) by (simp add: intent_for_def)
  moreover have "rd_status (rk_payload row) = ''pass''" by (rule submit_begin_call [OF assms(3)])
  ultimately show ?thesis using v b assms(2) by (simp add: sent_def)
qed

definition once :: "ledger_digests \<Rightarrow> broker_ledger \<times> SubmitOrderRequest list \<Rightarrow> bool" where
  "once h s \<longleftrightarrow> decided h (fst s) \<and> distinct (map bq_key (snd s)) \<and> (\<forall>r\<in>set (snd s). sent h (fst s) r)"

lemma broker_step_once:
  assumes "broker_step h s t" "once h s"
  shows "once h t"
proof -
  have e: "extends (fst s) (fst t)" by (rule broker_step_extends [OF assms(1)])
  have old: "\<forall>r\<in>set (snd s). sent h (fst t) r" using assms(2) e sent_extends by (auto simp: once_def)
  have d: "decided h (fst t)" using broker_step_decided [OF assms(1)] assms(2) by (simp add: once_def)
  from assms(1) show ?thesis
  proof cases
    case (call l r row d now l' calls)
    have k: "key_events l (bq_key r) = []" using submit_begin_call_extends(4) call by blast
    then have "bq_key r \<notin> bq_key ` set calls" using assms(2) call by (auto simp: once_def sent_def)
    moreover have "sent h l' r" using sent_call assms(2) call by (auto simp: once_def)
    ultimately show ?thesis using old d assms(2) call by (simp add: once_def)
  qed (use old d assms(2) in \<open>auto simp: once_def\<close>)
qed

lemma run_once: "(broker_step h)\<^sup>*\<^sup>* s t \<Longrightarrow> once h s \<Longrightarrow> once h t"
  by (induction rule: rtranclp_induct) (auto intro: broker_step_once)

text \<open>C2: No order is submitted twice. However the transactions of any number of coordinators interleave from an empty ledger, and
  wherever coordinators stop, the adapter has been called at most once per idempotency key, and every request it was called
  with has a stored decision that is about exactly this request, verifies and passed every gate.\<close>

theorem submitted_at_most_once:
  assumes "(broker_step h)\<^sup>*\<^sup>* (empty_ledger, []) (l, calls)"
  shows "distinct (map bq_key calls) \<and> (\<forall>r\<in>set calls. \<exists>row. decision_row l (bq_key r) = Some row \<and> rd_request (rk_payload row) = r \<and>
    verify_decision h (rk_payload row) = Inr (rk_payload row) \<and> rd_status (rk_payload row) = ''pass'')"
proof -
  have "once h (empty_ledger, [])" by (simp add: once_def decided_def empty_ledger_def decision_row_def)
  then show ?thesis using run_once [OF assms] by (auto simp: once_def sent_def)
qed

section \<open>The coordinator is a run\<close>

lemma submit_once_run:
  assumes "submit_once h l adapter r d now = (l', called, result)"
  shows "(broker_step h)\<^sup>*\<^sup>* (l, calls) (l', calls @ called)"
proof (cases "record_risk_decision h l r d")
  case (Inl x)
  then show ?thesis using assms by (simp add: submit_once_def)
next
  case (Inr l1)
  have s1: "broker_step h (l, calls) (l1, calls)" by (rule decide [OF Inr])
  have row: "decision_row l1 (bq_key r) = Some (decision_for r d)" using record_decision_Inr(5) [OF Inr] by simp
  show ?thesis
  proof (cases "submit_begin h l1 r d now")
    case (Inl x)
    then show ?thesis using assms Inr s1 by (simp add: submit_once_def)
  next
    case b: (Inr p)
    obtain l2 found where p: "p = (l2, found)" by (cases p)
    show ?thesis
    proof (cases found)
      case (Some x)
      have "broker_step h (l1, calls) (l2, calls)" by (rule replay) (use b p Some in simp)
      then show ?thesis using assms Inr b p Some s1 by (simp add: submit_once_def)
    next
      case None
      have s2: "broker_step h (l1, calls) (l2, calls @ [r])" by (rule call [OF row]) (use b p None in \<open>simp_all add: decision_for_def\<close>)
      then have run: "(broker_step h)\<^sup>*\<^sup>* (l, calls) (l2, calls @ [r])" using s1 by simp
      show ?thesis
      proof (cases "l' = l2 \<and> called = [r]")
        case False
        then obtain order where "check_order order = Inr ()" "acknowledge_submission h l2 r order = Inr l'" "called = [r]"
          using assms Inr b p None by (auto simp: submit_once_def split: option.split_asm if_split_asm sum.split_asm)
        then show ?thesis using run by (auto intro: rtranclp.rtrancl_into_rtrancl acknowledge)
      qed (use run in simp)
    qed
  qed
qed

section \<open>Replay\<close>

text \<open>A request whose decision is stored and whose submission is closed by an order that matches it.\<close>

definition settled :: "ledger_digests \<Rightarrow> broker_ledger \<Rightarrow> SubmitOrderRequest \<Rightarrow> RiskDecision \<Rightarrow> BrokerOrder \<Rightarrow> bool" where
  "settled h l r d x \<longleftrightarrow> verify_decision h d = Inr d \<and> rd_request d = r \<and> rd_request_sha d = sha_request h r \<and> intent_row l (bq_key r) = Some (intent_for h r) \<and>
     decision_row l (bq_key r) = Some (decision_for r d) \<and> acknowledged_order h l (bq_key r) = Inr (Some x) \<and> order_matches r x"

lemma settled_extends: "settled h l r d x \<Longrightarrow> extends l l' \<Longrightarrow> settled h l' r d x"
  unfolding settled_def extends_def [of l l'] using acknowledged_order_kept [of h l "bq_key r" x l', unfolded extends_def] by blast

lemma settled_replays:
  assumes "settled h l r d x"
  shows "submit_once h l adapter r d now = (l, [], Inr x)"
proof -
  note s = assms [unfolded settled_def]
  have ack: "acknowledged_order h l (bq_key r) = Inr (Some x)" using s by simp
  obtain a where "is_identifier (bq_key r)" "submission_events h l (bq_key r) = Inr (Some (Acknowledged, a))" using ack by (rule acknowledged_order_Inr)
  then have "submission_state h l (bq_key r) = Inr (Some Acknowledged)" by (simp add: submission_state_def require_identifier_def demand_def)
  then have "submit_begin h l r d now = Inr (l, Some x)" using s by (simp add: submit_begin_def)
  moreover have "record_risk_decision h l r d = Inr l" using s record_decision_stable by blast
  ultimately show ?thesis by (simp add: submit_once_def)
qed

lemma decided_settled:
  assumes "record_risk_decision h l r d = Inr l1" "extends l1 l2" "acknowledged_order h l2 (bq_key r) = Inr (Some x)" "order_matches r x"
  shows "settled h l2 r d x"
  using record_decision_Inr [OF assms(1)] assms(2-) by (auto simp: settled_def extends_def)

lemma submit_once_settles:
  assumes "submit_once h l adapter r d now = (l', called, Inr x)"
  shows "settled h l' r d x"
proof -
  obtain l1 where d: "record_risk_decision h l r d = Inr l1" using assms by (cases "record_risk_decision h l r d") (simp_all add: submit_once_def)
  obtain l2 found where b: "submit_begin h l1 r d now = Inr (l2, found)" using assms d by (cases "submit_begin h l1 r d now") (auto simp: submit_once_def)
  show ?thesis
  proof (cases found)
    case (Some y)
    then have y: "y = x" "l' = l2" using assms d b by (simp_all add: submit_once_def)
    have b': "submit_begin h l1 r d now = Inr (l2, Some x)" using b Some y by simp
    show ?thesis using decided_settled [OF d extends_refl] submit_begin_replay [OF b'] y by simp
  next
    case None
    then have c: "check_order x = Inr ()" "acknowledge_submission h l2 r x = Inr l'"
      using assms d b by (auto simp: submit_once_def split: option.split_asm if_split_asm sum.split_asm)
    have b': "submit_begin h l1 r d now = Inr (l2, None)" using b None by simp
    have k: "is_identifier (bq_key r)" by (rule submit_begin_call [OF b'])
    have "extends l1 l'" using submit_begin_call_extends(1) [OF b'] acknowledge_Inr(2) [OF c(2)] extends_trans by blast
    then show ?thesis using decided_settled [OF d] acknowledge_Inr [OF c(2)] c(1) k by blast
  qed
qed

text \<open>C12: A retry gets the first order back. Once \<open>submit_once\<close> has returned an order, it returns the same order for the same request and
  decision after any further transactions of any coordinators, whatever the adapter would answer now and even after the
  decision has expired, without calling the adapter and without changing the ledger.\<close>

theorem acknowledged_replay:
  assumes "submit_once h l adapter r d now = (l1, called, Inr x)" "(broker_step h)\<^sup>*\<^sup>* (l1, cs) (l2, cs')"
  shows "submit_once h l2 adapter' r d now' = (l2, [], Inr x)"
  using settled_replays settled_extends [OF submit_once_settles [OF assms(1)]] broker_run.run_grows [OF assms(2)] by simp

section \<open>Witnesses\<close>

definition example_ledger_digests :: ledger_digests where
  "example_ledger_digests = \<lparr>sha_policy = (\<lambda>_. example_hex), sha_identity = (\<lambda>_. example_hex), sha_request = (\<lambda>_. example_hex),
     sha_snapshot = (\<lambda>_. example_hex), sha_body = (\<lambda>_. example_hex), sha_intent = (\<lambda>_. example_hex), sha_order = (\<lambda>_. example_hex),
     sha_fill = (\<lambda>_. example_hex)\<rparr>"

definition example_acknowledged :: BrokerOrder where
  "example_acknowledged = \<lparr>bo_id = ''b1'', bo_key = ''k1'', bo_account = ''A'', bo_symbol = ''SPY'', bo_side = ''buy'', bo_quantity = Fin 3, bo_signal = ymd 2026 10 6,
     bo_status = ''pending'', bo_rejection = None, bo_filled = Fin 0, bo_order_type = ''market'', bo_tif = ''day'', bo_extended = False\<rparr>"

definition example_decision :: "RiskDecision checked" where
  "example_decision = evaluate example_ledger_digests example_policy example_identity example_order example_snapshot"

definition example_submit :: "RiskDecision \<Rightarrow> broker_ledger \<times> SubmitOrderRequest list \<times> BrokerOrder checked" where
  "example_submit d = submit_once example_ledger_digests empty_ledger (\<lambda>_. Some example_acknowledged) example_order d (ps_observed_at example_snapshot)"

lemma example_submitted:
  obtains d l where "example_decision = Inr d" "example_submit d = (l, [example_order], Inr example_acknowledged)"
proof -
  have "case example_decision of Inl _ \<Rightarrow> False | Inr d \<Rightarrow> snd (example_submit d) = ([example_order], Inr example_acknowledged)" by code_simp
  then obtain d where d: "example_decision = Inr d" "snd (example_submit d) = ([example_order], Inr example_acknowledged)" by (auto split: sum.split_asm)
  show ?thesis by (rule that [OF d(1), of "fst (example_submit d)"]) (simp add: d(2) prod_eq_iff)
qed

theorem submitted_at_most_once_witness:
  "\<exists>d l row. example_submit d = (l, [example_order], Inr example_acknowledged) \<and> decision_row l ''k1'' = Some row \<and>
     rd_request (rk_payload row) = example_order \<and> rd_status (rk_payload row) = ''pass''"
proof -
  obtain d l where d: "example_submit d = (l, [example_order], Inr example_acknowledged)" using example_submitted by metis
  have "(broker_step example_ledger_digests)\<^sup>*\<^sup>* (empty_ledger, []) (l, [] @ [example_order])" using d unfolding example_submit_def by (rule submit_once_run)
  then have "\<exists>row. decision_row l ''k1'' = Some row \<and> rd_request (rk_payload row) = example_order \<and> rd_status (rk_payload row) = ''pass''"
    using submitted_at_most_once [of example_ledger_digests l "[example_order]"] by (auto simp: example_order_def)
  then show ?thesis using d by blast
qed

theorem acknowledged_replay_witness:
  "\<exists>d l. example_submit d = (l, [example_order], Inr example_acknowledged) \<and>
     submit_once example_ledger_digests l (\<lambda>_. None) example_order d (ps_observed_at example_snapshot + 86400 * 1000000) = (l, [], Inr example_acknowledged)"
proof -
  obtain d l where d: "example_submit d = (l, [example_order], Inr example_acknowledged)" using example_submitted by metis
  show ?thesis using d acknowledged_replay [OF d [unfolded example_submit_def] rtranclp.rtrancl_refl] by blast
qed

end
