(* ===== verification/Spec2Isabelle.thy ===== *)
theory Spec2Isabelle
  imports IntakeLaws NightlyLaws SubmissionLaws
begin

text \<open>
  The money path of the trading engine: what turns an order and stored market data into fills, cash, positions,
  marks, margin and the state of an account.

  \<^bold>\<open>How the program is put together.\<close> A nightly run reads bars from a DuckDB store (\<open>src/sim/bar_sources.py\<close>),
  fills the pending orders of every account (\<open>src/sim/fills.py\<close>, priced with \<open>src/sim/execution.py\<close> and
  \<open>src/sim/costs\<close>), posts the fills, dividends, splits, settlements and accruals to a journal
  (\<open>src/sim/ledger.py\<close>, \<open>src/sim/portfolio.py\<close>, \<open>src/sim/settle.py\<close>), marks what is held
  (\<open>src/sim/valuation.py\<close>), applies margin, day-trading and borrow rules (\<open>src/sim/margin.py\<close>,
  \<open>src/sim/shorts.py\<close>), and checks each account against its loss limits (\<open>src/engine/money\<close>). The account
  service (\<open>src/engine/accounts/service.py\<close>) verifies, halts, resumes and retires accounts; accounts are opened and
  intents become orders in \<open>src/engine/paper_accounts.py\<close>, and \<open>src/engine/accounts/settle.py\<close> folds the day of every
  account. Cash, positions and lots are a cache of the journal: the rebuild replays it. Beside the paper accounts stands a
  broker boundary: a pre-trade risk decision (\<open>src/server/broker_risk.py\<close>) over typed values (\<open>broker_contract.py\<close>) and a
  coordinator that calls an adapter once (\<open>broker_submission.py\<close>), with its evidence in \<open>broker_ledger.py\<close>.

  \<^bold>\<open>The theories\<close>, in import order.
  \<^item> \<open>Prelude\<close>: exceptions as values (\<open>outcome\<close>, \<open>bindE\<close>, \<open>foldE\<close>, \<open>mapE\<close>), simplification collections, list facts.
  \<^item> \<open>Float64\<close>: binary64 as exact rationals with one rounding function, and its monotonicity and error bounds. The
    locale \<open>nearest_rounding\<close> states the rounding contract and is interpreted by \<open>rr\<close>.
  \<^item> \<open>Dates\<close>, \<open>Nyse\<close>: the proleptic Gregorian calendar as day numbers, \<open>nyse.py\<close> and \<open>calendar.py\<close>. The locale
    \<open>cadence\<close> (a last session of a period) is interpreted for weeks and months.
  \<^item> \<open>OrderTypes\<close>: \<open>order_types.py\<close>; the New York zone conversion is the parameter record \<open>tz\<close>.
  \<^item> \<open>MoneyInputs\<close>, \<open>Costs\<close>: \<open>money_inputs.py\<close>, \<open>execution.py\<close> and the cost profiles, with \<open>repr\<close>-based cent
    rounding; \<open>math.pow\<close> and SQL aggregates are fields of the parameter record \<open>env\<close>.
  \<^item> \<open>Bars\<close>, \<open>Fills\<close>: \<open>data_quality.py\<close> admission, the point-in-time readers, \<open>fills.py\<close>.
  \<^item> \<open>Book\<close>, \<open>Ledger\<close>, \<open>LedgerLaws\<close>, \<open>Replay\<close>, \<open>Projection\<close>: the tables of \<open>schema.py\<close> as one record \<open>book\<close>,
    \<open>ledger.py\<close> with the settlement step of \<open>settle.py\<close>, their laws, the replay of the journal and the projections.
    The locale \<open>account_operation\<close> of \<open>Replay\<close> states what an operation on selected accounts leaves alone and is
    interpreted by \<open>apply_event\<close>.
  \<^item> \<open>Valuation\<close>: \<open>valuation.py\<close> and \<open>portfolio.py\<close> (marks, mark to market, dividends).
  \<^item> \<open>Margin\<close>, \<open>Shorts\<close>: \<open>margin.py\<close>, \<open>shorts.py\<close>, the order-id sequence, forced orders.
  \<^item> \<open>Verify\<close>, \<open>Accounts\<close>, \<open>Lifecycle\<close>: \<open>states_match\<close> and \<open>equity_checkpoint\<close>, the limits and halts, the account
    service, and the service as a state machine (\<open>account_step\<close>). The locale \<open>machine\<close> carries a relation from steps
    to runs and is interpreted by \<open>account_step\<close> and \<open>keeps\<close>.
  \<^item> \<open>Wire\<close>, \<open>Instruments\<close>, \<open>Intake\<close>, \<open>Contract\<close>, \<open>IntakeLaws\<close>: JSON values with Python's equality and the
    boundary parameters (record \<open>wire\<close>), \<open>instruments.py\<close> with the OCC symbol, \<open>paper_accounts.py\<close> (specifications,
    account opening, intents, capacity, submission), what each operation of the service keeps, and the laws of the intake.
  \<^item> \<open>Session\<close>, \<open>SessionLaws\<close>: the order half of \<open>accounts/settle.py\<close> (pending rows, fill attempts, the liquidity sweep,
    the gates, the booking, the mark) with \<open>prepare_order\<close> of \<open>accounts/actions.py\<close>, and its laws.
  \<^item> \<open>Delisting\<close>, \<open>AccountDay\<close>, \<open>Nightly\<close>: term validation, planning and delisting detection of \<open>sim/settle.py\<close>; splits and
    dividends of \<open>accounts/actions.py\<close>, \<open>require_sources\<close>, the fold of a session and of an account, \<open>alerts.py\<close>; the
    booking of settlements, the repair of stale orders and \<open>settle_session\<close>. A transaction that fails returns a \<open>verdict\<close>.
  \<^item> \<open>Isolation\<close>, \<open>NightlyLaws\<close>: the locale \<open>isolated\<close> (a step leaves the rows of the other accounts alone), interpreted by the
    recorded events, entitlements, interest, borrow, the items of a session, the marks and the days; the laws of the run.
  \<^item> \<open>Broker\<close>, \<open>BrokerLaws\<close>: the value types with the checks of their constructors, the twenty risk gates and the verification
    of a stored decision; what a passed decision guarantees. The canonical digests are the parameter record \<open>digests\<close>.
  \<^item> \<open>Submission\<close>, \<open>SubmissionLaws\<close>: the submission, cancellation and observation tables, \<open>submit_once\<close>, and the transactions of
    interleaved coordinators as the relation \<open>broker_step\<close>. The locale \<open>growing\<close> carries a relation from steps to runs and
    is interpreted by \<open>broker_step\<close> and \<open>extends\<close>.

  \<^bold>\<open>State and effects.\<close> A table is a list of records, a SELECT a filter with the source's ordering, an UPDATE
  \<open>update_rows\<close>, an INSERT an append that fails on a primary key the source relies on. A database handle is threaded
  as a record (\<open>book\<close> inside \<open>store\<close> inside \<open>desk\<close> inside \<open>office\<close>). A function that raises returns \<open>Inl\<close>; a raise
  inside a transaction discards the state. Dates are day numbers, instants microseconds. Every float operation
  rounds; SQL \<open>SUM\<close> and \<open>MEDIAN\<close> are parameters because the engine does not fix their order.

  \<^bold>\<open>What the theorems show.\<close> Calendar: sessions are found within 15 days, Easter and Good Friday, cadence. Orders:
  lifecycle, receipt windows tile time. Costs: cent rounding, charges bounded and total. Bars and fills: the two
  admission rules agree, no fill uses a bar stored after the decision or before the order, limit fills at the
  limit, market fills worse than the open. Ledger: a close never crosses zero, a cash buy never overdraws, FIFO
  matching, frames, accruals once, the rebuild is a function of the journal and leaves other accounts alone, batched projections
  agree with single ones. Valuation: no mark from the future, dividends exactly once. Margin and shorts: the
  day-trade preview is exact, a pattern-day-trader restriction sticks, locates use only published data, buy-ins
  queue once. Accounts: halted accounts hold only forced orders and retirement is final, a 20 % drawdown halts, a
  failed verification halts. Intake: an intent becomes one order however often it is sent, the terms of an account stay
  those it was opened with, option symbols survive parsing and formatting. Nightly run: an order settles completely or
  not at all and only through every gate, liquidity is served in receipt order, an account never moves the money of
  another, a failing account is halted and reported while the run goes on, a fold is verified before and after, every
  account is reported once, splits are captured once, a name is closed out only on evidence of its delisting. Broker: a
  passed order is affordable and within its limits, a stored decision is accepted exactly when it recomputes, the adapter
  is called at most once per key and only on a passed decision, a retry gets the first order back.

  \<^bold>\<open>Bounds.\<close> Session searches end because every stretch of 15 days holds a session (\<open>session_within\<close>). The
  no-overdraft theorem needs a cash of at most \<open>2^300\<close>, a price between \<open>2^-100\<close> and \<open>2^100\<close> and a multiplier between 1 and
  \<open>2^100\<close> (\<open>working_range\<close>), where binary64 has neither underflow nor overflow. No definition uses fuel. Integer columns,
  sequences and dates are unbounded integers (the code raises beyond the INTEGER type and the year 9999, and a database sequence is
  not rolled back with its transaction), and there is one float zero.

  \<^bold>\<open>Not modelled.\<close> The league, research books and statistical reviews orchestrate the operations above or only read their
  results; the broker adapters, account snapshots, reconciliation, emergency stops and the
  resolution of uncertain submissions; the settlement command line and its rendering, the discretionary
  tickets and the audit log; attaching the source databases; the offline prefix checkpoints of the projection; serialisation
  (JSON text, SHA-256, ISO dates and the reading of a number from text are parameters); the queue runner, deployment
  tools, model providers and web server, which do processes, files and network.
\<close>

end
